(* ===== verification/Prelude.thy ===== *)
theory Prelude
  imports Complex_Main "HOL-Library.AList" "HOL-Library.Sublist" "HOL-Library.Signed_Division"
begin

text \<open>
  Shared material of the development: Go's clocks, durations and 64-bit arithmetic, Go maps as
  association lists behind a finite-map interface, the string operations of package
  \<^verbatim>\<open>strings\<close> that the proxy calls, and generic transition systems with their invariant and
  simulation rules. Everything here models the Go language and its standard library; no definition
  stands for a line of the proxy itself.
\<close>

named_theorems op_invs "the operations of a component keep its invariant"

section \<open>Clock readings, durations, 64-bit integers\<close>

text \<open>
  A \<^verbatim>\<open>time.Time\<close> is its distance in nanoseconds from a fixed instant and a
  \<^verbatim>\<open>time.Duration\<close> a signed number of nanoseconds. Go's \<^verbatim>\<open>Time.Sub\<close>
  (hence \<^verbatim>\<open>time.Since\<close>) saturates at the ends of the 64-bit range.
\<close>

type_synonym time = int
type_synonym duration = int
type_synonym bytes = string

definition second :: duration where
  "second = 1000000000"

definition minute :: duration where
  "minute = 60 * second"

definition hour :: duration where
  "hour = 60 * minute"

definition max_int64 :: int where
  "max_int64 = 9223372036854775807"

definition min_int64 :: int where
  "min_int64 = -9223372036854775808"

definition time_sub :: "time \<Rightarrow> time \<Rightarrow> duration" where
  "time_sub t u = max min_int64 (min max_int64 (t - u))"

text \<open>Two's complement wrap-around of a 64-bit result.\<close>

definition wrap64 :: "int \<Rightarrow> int" where
  "wrap64 x = (x + 9223372036854775808) mod 18446744073709551616 - 9223372036854775808"

lemmas int64_defs = max_int64_def min_int64_def

lemma wrap64_id: "min_int64 \<le> x \<Longrightarrow> x \<le> max_int64 \<Longrightarrow> wrap64 x = x"
  by (simp add: wrap64_def int64_defs)

lemma wrap64_range: "min_int64 \<le> wrap64 x \<and> wrap64 x \<le> max_int64"
  using pos_mod_bound [of 18446744073709551616 "x + 9223372036854775808"]
    pos_mod_sign [of 18446744073709551616 "x + 9223372036854775808"]
  by (auto simp: wrap64_def int64_defs)

lemma sdiv_int_pos: "0 \<le> (a::int) \<Longrightarrow> 0 \<le> b \<Longrightarrow> a sdiv b = a div b"
  by (cases "a = 0"; cases "b = 0") (auto simp: signed_divide_int_def sgn_if)

section \<open>Results and slices\<close>

text \<open>
  A Go call returns a value, returns an error (identified by its message) or panics. A slice that
  can be nil or empty, where JSON tells the two apart, is an optional list.
\<close>

datatype 'a outcome = Ok 'a | Err string | Panic string

fun bind_outcome :: "'a outcome \<Rightarrow> ('a \<Rightarrow> 'b outcome) \<Rightarrow> 'b outcome" where
  "bind_outcome (Ok x) f = f x"
| "bind_outcome (Err e) f = Err e"
| "bind_outcome (Panic p) f = Panic p"

text \<open>\<^verbatim>\<open>fmt.Errorf("...: %w", err)\<close>: the wrapped error's message follows the prefix.\<close>

fun wrap_err :: "string \<Rightarrow> 'a outcome \<Rightarrow> 'a outcome" where
  "wrap_err msg (Err e) = Err (msg @ '': '' @ e)"
| "wrap_err msg r = r"

lemma bind_outcome_Ok: "bind_outcome r f = Ok y \<longleftrightarrow> (\<exists>x. r = Ok x \<and> f x = Ok y)"
  by (cases r) auto

lemma wrap_err_Ok [simp]: "wrap_err msg r = Ok x \<longleftrightarrow> r = Ok x"
  by (cases r) auto

text \<open>
  Code that calls back into the outside world is a state transformer: it returns or panics and leaves
  the world changed.
\<close>

datatype 'a call = Return 'a | Panicked string

type_synonym ('a, 'w) act = "'w \<Rightarrow> 'a call \<times> 'w"

definition ret_act :: "'a \<Rightarrow> ('a, 'w) act" where
  "ret_act x = (\<lambda>w. (Return x, w))"

definition panic_act :: "string \<Rightarrow> ('a, 'w) act" where
  "panic_act p = (\<lambda>w. (Panicked p, w))"

definition bind_act :: "('a, 'w) act \<Rightarrow> ('a \<Rightarrow> ('b, 'w) act) \<Rightarrow> ('b, 'w) act" where
  "bind_act m f = (\<lambda>w. case m w of (Return x, w') \<Rightarrow> f x w' | (Panicked p, w') \<Rightarrow> (Panicked p, w'))"

lemma bind_act_ret [simp]: "bind_act (ret_act x) f = f x"
  by (simp add: bind_act_def ret_act_def)

lemma bind_act_panic [simp]: "bind_act (panic_act p) f = panic_act p"
  by (simp add: bind_act_def panic_act_def)

lemma bind_act_Return: "m w = (Return x, w') \<Longrightarrow> bind_act m f w = f x w'"
  by (simp add: bind_act_def)

type_synonym 'a slice = "'a list option"

definition elems :: "'a slice \<Rightarrow> 'a list" where
  "elems s = (case s of None \<Rightarrow> [] | Some xs \<Rightarrow> xs)"

lemma elems_simps [simp]: "elems None = []" "elems (Some xs) = xs"
  by (simp_all add: elems_def)

section \<open>Go maps\<close>

text \<open>
  A Go map is an association list with distinct keys. The interface below is what every component
  that keeps a map relies on: the laws of lookup after an update or a deletion, and how the number
  of entries changes.
\<close>

type_synonym ('k, 'v) gomap = "('k \<times> 'v) list"

abbreviation gm_wf :: "('k, 'v) gomap \<Rightarrow> bool" where
  "gm_wf m \<equiv> distinct (map fst m)"

locale finite_map =
  fixes lookup :: "'m \<Rightarrow> 'k \<Rightarrow> 'v option"
    and put :: "'k \<Rightarrow> 'v \<Rightarrow> 'm \<Rightarrow> 'm"
    and del :: "'k \<Rightarrow> 'm \<Rightarrow> 'm"
    and entries :: "'m \<Rightarrow> nat"
    and invar :: "'m \<Rightarrow> bool"
  assumes lookup_put: "lookup (put k v m) = (lookup m)(k \<mapsto> v)"
    and lookup_del: "invar m \<Longrightarrow> lookup (del k m) = (lookup m)(k := None)"
    and finite_lookup: "finite (dom (lookup m))"
    and entries_card: "invar m \<Longrightarrow> entries m = card (dom (lookup m))"
    and invar_put: "invar m \<Longrightarrow> invar (put k v m)"
    and invar_del: "invar m \<Longrightarrow> invar (del k m)"
begin

lemma entries_put_new: "invar m \<Longrightarrow> lookup m k = None \<Longrightarrow> entries (put k v m) = Suc (entries m)"
  by (simp add: entries_card invar_put lookup_put finite_lookup card_insert_if domIff)

lemma entries_put_old: "invar m \<Longrightarrow> lookup m k = Some w \<Longrightarrow> entries (put k v m) = entries m"
  by (simp add: entries_card invar_put lookup_put insert_absorb domI)

lemma entries_put_le: "invar m \<Longrightarrow> entries (put k v m) \<le> Suc (entries m)"
  by (cases "lookup m k") (simp_all add: entries_put_new entries_put_old)

lemma entries_del_absent: "invar m \<Longrightarrow> lookup m k = None \<Longrightarrow> entries (del k m) = entries m"
  by (simp add: entries_card invar_del lookup_del fun_upd_idem)

lemma entries_del_present: "invar m \<Longrightarrow> lookup m k = Some w \<Longrightarrow> Suc (entries (del k m)) = entries m"
proof -
  assume wf: "invar m" and k: "lookup m k = Some w"
  have "k \<in> dom (lookup m)" using k by (rule domI)
  then have "Suc (card (dom (lookup m) - {k})) = card (dom (lookup m))"
    by (rule card_Suc_Diff1 [OF finite_lookup])
  then show ?thesis by (simp add: entries_card wf invar_del lookup_del)
qed

end

interpretation gm: finite_map map_of AList.update AList.delete length gm_wf
proof unfold_locales
  show "map_of (AList.update k v m) = (map_of m)(k \<mapsto> v)" for k :: 'a and v :: 'b and m
    by (rule update_conv')
  show "map_of (AList.delete k m) = (map_of m)(k := None)" for k :: 'a and m :: "('a \<times> 'b) list"
    by (rule delete_conv')
  show "finite (dom (map_of m))" for m :: "('a \<times> 'b) list"
    by (rule finite_dom_map_of)
  show "gm_wf m \<Longrightarrow> length m = card (dom (map_of m))" for m :: "('a \<times> 'b) list"
    by (metis distinct_card dom_map_of_conv_image_fst length_map list.set_map)
  show "gm_wf m \<Longrightarrow> gm_wf (AList.update k v m)" for k :: 'a and v :: 'b and m
    by (rule distinct_update)
  show "gm_wf m \<Longrightarrow> gm_wf (AList.delete k m)" for k :: 'a and m :: "('a \<times> 'b) list"
    by (rule distinct_delete)
qed

declare map_of_eq_Some_iff [simp del] Some_eq_map_of_iff [simp del]

lemma gm_wf_filter: "gm_wf m \<Longrightarrow> gm_wf (filter P m)"
  by (induction m) auto

lemma map_of_filter_wf:
  "gm_wf m \<Longrightarrow> map_of (filter (\<lambda>(k, v). P k v) m) k =
     (case map_of m k of None \<Rightarrow> None | Some v \<Rightarrow> if P k v then Some v else None)"
proof (induction m)
  case Nil
  then show ?case by simp
next
  case (Cons x m)
  then show ?case
    by (cases x) (auto simp: map_of_eq_None_iff split: option.splits)
qed

lemma map_of_Some_in_set: "gm_wf m \<Longrightarrow> map_of m k = Some v \<longleftrightarrow> (k, v) \<in> set m"
  by (metis map_of_SomeD map_of_is_SomeI)

lemma set_gm_put: "set (AList.update k v m) \<subseteq> insert (k, v) (set m)"
  by (induction m) auto

lemma set_gm_del: "set (AList.delete k m) \<subseteq> set m"
  by (auto simp: AList.delete_eq)

lemma sum_list_ones: "\<forall>x \<in> set xs. f x = 1 \<Longrightarrow> sum_list (map f xs) = length xs"
  by (induction xs) auto

section \<open>Strings\<close>

text \<open>
  A Go string is a sequence of bytes, a \<^typ>\<open>string\<close> here. \<^verbatim>\<open>strings.HasPrefix\<close> and
  \<^verbatim>\<open>strings.HasSuffix\<close> are the library's \<^const>\<open>prefix\<close> and \<^const>\<open>suffix\<close>
  with the arguments exchanged.
\<close>

definition HasPrefix :: "string \<Rightarrow> string \<Rightarrow> bool" where
  "HasPrefix s p = prefix p s"

definition HasSuffix :: "string \<Rightarrow> string \<Rightarrow> bool" where
  "HasSuffix s p = suffix p s"

definition TrimPrefix :: "string \<Rightarrow> string \<Rightarrow> string" where
  "TrimPrefix s p = (if prefix p s then drop (length p) s else s)"

definition TrimSuffix :: "string \<Rightarrow> string \<Rightarrow> string" where
  "TrimSuffix s p = (if suffix p s then take (length s - length p) s else s)"

fun Join :: "string list \<Rightarrow> string \<Rightarrow> string" where
  "Join [] sep = []"
| "Join [x] sep = x"
| "Join (x # xs) sep = x @ sep @ Join xs sep"

text \<open>\<^verbatim>\<open>strings.ReplaceAll\<close> with a non-empty pattern: leftmost, non-overlapping matches.\<close>

function ReplaceAll :: "string \<Rightarrow> string \<Rightarrow> string \<Rightarrow> string" where
  "ReplaceAll s old new =
     (if s = [] \<or> old = [] then s
      else if prefix old s then new @ ReplaceAll (drop (length old) s) old new
      else hd s # ReplaceAll (tl s) old new)"
  by pat_completeness auto
termination
  by (relation "measure (\<lambda>(s, _, _). length s)") auto

declare ReplaceAll.simps [simp del]

definition is_lower :: "char \<Rightarrow> bool" where
  "is_lower c \<longleftrightarrow> 97 \<le> (of_char c :: nat) \<and> (of_char c :: nat) \<le> 122"

definition is_upper :: "char \<Rightarrow> bool" where
  "is_upper c \<longleftrightarrow> 65 \<le> (of_char c :: nat) \<and> (of_char c :: nat) \<le> 90"

definition is_digit :: "char \<Rightarrow> bool" where
  "is_digit c \<longleftrightarrow> 48 \<le> (of_char c :: nat) \<and> (of_char c :: nat) \<le> 57"

definition is_alpha :: "char \<Rightarrow> bool" where
  "is_alpha c \<longleftrightarrow> is_lower c \<or> is_upper c"

lemmas char_class_defs = is_lower_def is_upper_def is_digit_def is_alpha_def

text \<open>A word in single quotes, as in many error messages.\<close>

definition quoted :: "string \<Rightarrow> string" where
  "quoted s = [CHR 0x27] @ s @ [CHR 0x27]"

text \<open>Decimal numerals, Go's \<^verbatim>\<open>%d\<close> and \<^verbatim>\<open>strconv.Itoa\<close>.\<close>

fun nat_digits :: "nat \<Rightarrow> string" where
  "nat_digits n = (if n < 10 then [char_of (48 + n)] else nat_digits (n div 10) @ [char_of (48 + n mod 10)])"

declare nat_digits.simps [simp del]

definition itoa :: "int \<Rightarrow> string" where
  "itoa i = (if i < 0 then CHR ''-'' # nat_digits (nat (- i)) else nat_digits (nat i))"

lemma nat_digits_digits: "c \<in> set (nat_digits n) \<Longrightarrow> is_digit c"
proof (induction n rule: nat_digits.induct)
  case (1 n)
  then show ?case
    by (subst (asm) nat_digits.simps) (auto simp: is_digit_def split: if_splits)
qed

lemma itoa_chars: "c \<in> set (itoa i) \<Longrightarrow> is_digit c \<or> c = CHR ''-''"
  by (auto simp: itoa_def dest: nat_digits_digits split: if_splits)

section \<open>Transition systems\<close>

text \<open>
  Reachable states of a system given by its initial states and its step relation, the rule that an
  inductive invariant holds in all of them, and functional simulation: every reachable concrete
  state is mapped to a reachable abstract one.
\<close>

inductive reach :: "('s \<Rightarrow> bool) \<Rightarrow> ('s \<Rightarrow> 's \<Rightarrow> bool) \<Rightarrow> 's \<Rightarrow> bool"
  for init :: "'s \<Rightarrow> bool" and step :: "'s \<Rightarrow> 's \<Rightarrow> bool" where
  reach_init: "init s \<Longrightarrow> reach init step s"
| reach_step: "reach init step s \<Longrightarrow> step s t \<Longrightarrow> reach init step t"

lemma reach_mono: "reach init step s \<Longrightarrow> (\<And>s. init s \<Longrightarrow> init' s) \<Longrightarrow> reach init' step s"
  by (induction rule: reach.induct) (auto intro: reach.intros)

locale safe_system =
  fixes init :: "'s \<Rightarrow> bool" and step :: "'s \<Rightarrow> 's \<Rightarrow> bool" and inv :: "'s \<Rightarrow> bool"
  assumes inv_init: "init s \<Longrightarrow> inv s"
    and inv_step: "inv s \<Longrightarrow> step s t \<Longrightarrow> inv t"
begin

lemma reach_inv: "reach init step s \<Longrightarrow> inv s"
  by (induction rule: reach.induct) (auto intro: inv_init inv_step)

end

locale simulation = safe_system cinit cstep inv
  for cinit :: "'c \<Rightarrow> bool" and cstep :: "'c \<Rightarrow> 'c \<Rightarrow> bool" and inv :: "'c \<Rightarrow> bool" +
  fixes ainit :: "'a \<Rightarrow> bool" and astep :: "'a \<Rightarrow> 'a \<Rightarrow> bool" and abs :: "'c \<Rightarrow> 'a"
  assumes sim_init: "cinit s \<Longrightarrow> ainit (abs s)"
    and sim_step: "inv s \<Longrightarrow> cstep s t \<Longrightarrow> abs t = abs s \<or> astep (abs s) (abs t)"
begin

lemma reach_abs: "reach cinit cstep s \<Longrightarrow> reach ainit astep (abs s)"
proof (induction rule: reach.induct)
  case (reach_init s)
  then show ?case by (intro reach.reach_init sim_init)
next
  case (reach_step s t)
  then have "abs t = abs s \<or> astep (abs s) (abs t)"
    by (intro sim_step reach_inv)
  then show ?case using reach_step.IH by (auto intro: reach.reach_step)
qed

end

end
