(* ===== verification/Go_Value.thy ===== *)
theory Go_Value
  imports Prelude
begin

text \<open>
  Dynamically typed Go values (\<^verbatim>\<open>interface{}\<close>) as they arise from decoding JSON, with the type
  assertions the proxy performs on them. A \<^verbatim>\<open>float64\<close> decoded from JSON is finite and is
  represented by its exact rational value; \<^verbatim>\<open>int\<close>, \<^verbatim>\<open>int64\<close> and
  \<^verbatim>\<open>[]string\<close> only arise when a value is built by Go code instead of the decoder.
\<close>

datatype gval =
    GNil
  | GBool bool
  | GNum rat
  | GInt int
  | GInt64 int
  | GStr string
  | GArr "gval list"
  | GStrs "string list"
  | GObj "(string \<times> gval) list"

type_synonym gobj = "(string, gval) gomap"

fun as_bool :: "gval \<Rightarrow> bool option" where
  "as_bool (GBool b) = Some b"
| "as_bool _ = None"

fun as_string :: "gval \<Rightarrow> string option" where
  "as_string (GStr s) = Some s"
| "as_string _ = None"

fun as_array :: "gval \<Rightarrow> gval list option" where
  "as_array (GArr xs) = Some xs"
| "as_array _ = None"

fun as_object :: "gval \<Rightarrow> gobj option" where
  "as_object (GObj m) = Some m"
| "as_object _ = None"

text \<open>Indexing a map yields the nil interface for a missing key.\<close>

definition gindex :: "gobj \<Rightarrow> string \<Rightarrow> gval" where
  "gindex m k = (case map_of m k of None \<Rightarrow> GNil | Some v \<Rightarrow> v)"

lemma as_bool_iff: "as_bool v = Some b \<longleftrightarrow> v = GBool b"
  by (cases v) auto

lemma as_string_iff: "as_string v = Some s \<longleftrightarrow> v = GStr s"
  by (cases v) auto

lemma as_array_iff: "as_array v = Some xs \<longleftrightarrow> v = GArr xs"
  by (cases v) auto

lemma as_object_iff: "as_object v = Some m \<longleftrightarrow> v = GObj m"
  by (cases v) auto

lemmas as_iffs = as_bool_iff as_string_iff as_array_iff as_object_iff

end
