(* ===== verification/Policy_Types.thy ===== *)
theory Policy_Types
  imports Go_Value
begin

text \<open>
  The data of policy evaluation, \<^verbatim>\<open>src/internal/policy/types.go\<close>: the input document sent to
  OPA, the decision it returns, the evaluation result, and the builder that the application uses to
  assemble an input. The violations and obligations of a decision are never an empty non-nil slice,
  so the empty list stands for nil there.
\<close>

text \<open>The zero \<^verbatim>\<open>time.Time\<close> (1 January of year 1) relative to the Unix epoch.\<close>

definition zero_time :: time where
  "zero_time = -62135596800 * second"

record AgentContext =
  acID :: string
  acName :: string
  acCapabilities :: "string slice"
  acModel :: string
  acPublisher :: string
  acTags :: "string slice"

text \<open>A nil argument map is \<^const>\<open>None\<close>.\<close>

record PolicyRequest =
  rqMethod :: string
  rqTool :: string
  rqArguments :: "gobj option"
  rqIntent :: string

record SessionContext =
  scID :: string
  scRequestCount :: int
  scStartedAt :: time
  scCumulativeReads :: int
  scCumulativeWrites :: int

record IdentityContext =
  icVerified :: bool
  icDID :: string
  icSignatureAlg :: string
  icIssuedAt :: time
  icHasLogProof :: bool

record EnvironmentContext =
  ecTimestamp :: time
  ecSourceIP :: string
  ecEnvironment :: string
  ecProxyRegion :: string

record PolicyInput =
  piAgent :: AgentContext
  piRequest :: PolicyRequest
  piSession :: SessionContext
  piIdentity :: IdentityContext
  piContext :: EnvironmentContext

record PolicyObligation =
  obAction :: string
  obParams :: "(string, string) gomap"

record PolicyDecision =
  pdAllow :: bool
  pdViolations :: "string list"
  pdMatchedRule :: string
  pdObligations :: "PolicyObligation list"

record EvaluationResult =
  erDecision :: PolicyDecision
  erInput :: PolicyInput
  erEvalTime :: duration
  erCacheHit :: bool
  erCacheTier :: string
  erPolicyMode :: string

section \<open>The input builder\<close>

definition zero_agent :: AgentContext where
  "zero_agent = \<lparr>acID = [], acName = [], acCapabilities = None, acModel = [], acPublisher = [], acTags = None\<rparr>"

definition zero_request :: PolicyRequest where
  "zero_request = \<lparr>rqMethod = [], rqTool = [], rqArguments = None, rqIntent = []\<rparr>"

definition zero_session :: SessionContext where
  "zero_session = \<lparr>scID = [], scRequestCount = 0, scStartedAt = zero_time, scCumulativeReads = 0,
     scCumulativeWrites = 0\<rparr>"

definition zero_identity :: IdentityContext where
  "zero_identity = \<lparr>icVerified = False, icDID = [], icSignatureAlg = [], icIssuedAt = zero_time,
     icHasLogProof = False\<rparr>"

definition NewInputBuilder :: "time \<Rightarrow> PolicyInput" where
  "NewInputBuilder now =
     \<lparr>piAgent = zero_agent, piRequest = zero_request, piSession = zero_session,
      piIdentity = zero_identity,
      piContext = \<lparr>ecTimestamp = now, ecSourceIP = [], ecEnvironment = [], ecProxyRegion = []\<rparr>\<rparr>"

definition WithAgent :: "string \<Rightarrow> string \<Rightarrow> string slice \<Rightarrow> PolicyInput \<Rightarrow> PolicyInput" where
  "WithAgent agentID name capabilities b =
     b\<lparr>piAgent := zero_agent\<lparr>acID := agentID, acName := name, acCapabilities := capabilities\<rparr>\<rparr>"

definition WithAgentDetails :: "string \<Rightarrow> string \<Rightarrow> string slice \<Rightarrow> PolicyInput \<Rightarrow> PolicyInput" where
  "WithAgentDetails model publisher tags b =
     b\<lparr>piAgent := (piAgent b)\<lparr>acModel := model, acPublisher := publisher, acTags := tags\<rparr>\<rparr>"

definition WithRequest :: "string \<Rightarrow> string \<Rightarrow> gobj option \<Rightarrow> PolicyInput \<Rightarrow> PolicyInput" where
  "WithRequest meth tool arguments b =
     b\<lparr>piRequest := zero_request\<lparr>rqMethod := meth, rqTool := tool, rqArguments := arguments\<rparr>\<rparr>"

definition WithSession :: "string \<Rightarrow> int \<Rightarrow> time \<Rightarrow> PolicyInput \<Rightarrow> PolicyInput" where
  "WithSession sessID requestCount startedAt b =
     b\<lparr>piSession := zero_session\<lparr>scID := sessID, scRequestCount := requestCount, scStartedAt := startedAt\<rparr>\<rparr>"

definition WithIdentity :: "bool \<Rightarrow> string \<Rightarrow> PolicyInput \<Rightarrow> PolicyInput" where
  "WithIdentity verified did b = b\<lparr>piIdentity := zero_identity\<lparr>icVerified := verified, icDID := did\<rparr>\<rparr>"

definition WithEnvironment :: "string \<Rightarrow> string \<Rightarrow> string \<Rightarrow> PolicyInput \<Rightarrow> PolicyInput" where
  "WithEnvironment sourceIP environment region b =
     b\<lparr>piContext := (piContext b)\<lparr>ecSourceIP := sourceIP, ecEnvironment := environment,
        ecProxyRegion := region\<rparr>\<rparr>"

definition Build :: "PolicyInput \<Rightarrow> PolicyInput" where
  "Build b = b"

lemmas builder_defs = NewInputBuilder_def WithAgent_def WithAgentDetails_def WithRequest_def
  WithSession_def WithIdentity_def WithEnvironment_def Build_def
  zero_agent_def zero_request_def zero_session_def zero_identity_def

end
