(* ===== verification/Sha256.thy ===== *)
theory Sha256
  imports Prelude "HOL-Library.Word"
begin

unbundle bit_operations_syntax

text \<open>
  The hash behind the decision cache's keys: \<^verbatim>\<open>crypto/sha256.Sum256\<close> and
  \<^verbatim>\<open>encoding/hex.EncodeToString\<close> of Go's standard library, as specified by FIPS 180-4, and
  \<^verbatim>\<open>hashString\<close> of \<^verbatim>\<open>src/internal/policy/cache.go\<close>.
\<close>

type_synonym u8 = "8 word"
type_synonym u32 = "32 word"
type_synonym sha_state = "u32 \<times> u32 \<times> u32 \<times> u32 \<times> u32 \<times> u32 \<times> u32 \<times> u32"

text \<open>
  The round constants: the first 32 bits of the fractional parts of the cube roots of the first 64
  primes, and the initial state from the square roots of the first eight, in decimal.
\<close>

definition sha_K :: "u32 list" where
  "sha_K = [
     1116352408, 1899447441, 3049323471, 3921009573, 961987163, 1508970993,
     2453635748, 2870763221, 3624381080, 310598401, 607225278, 1426881987,
     1925078388, 2162078206, 2614888103, 3248222580, 3835390401, 4022224774,
     264347078, 604807628, 770255983, 1249150122, 1555081692, 1996064986,
     2554220882, 2821834349, 2952996808, 3210313671, 3336571891, 3584528711,
     113926993, 338241895, 666307205, 773529912, 1294757372, 1396182291,
     1695183700, 1986661051, 2177026350, 2456956037, 2730485921, 2820302411,
     3259730800, 3345764771, 3516065817, 3600352804, 4094571909, 275423344,
     430227734, 506948616, 659060556, 883997877, 958139571, 1322822218,
     1537002063, 1747873779, 1955562222, 2024104815, 2227730452, 2361852424,
     2428436474, 2756734187, 3204031479, 3329325298]"

definition sha_H0 :: sha_state where
  "sha_H0 = (1779033703, 3144134277, 1013904242, 2773480762,
             1359893119, 2600822924, 528734635, 1541459225)"

definition small_sigma0 :: "u32 \<Rightarrow> u32" where
  "small_sigma0 x = word_rotr 7 x XOR word_rotr 18 x XOR drop_bit 3 x"

definition small_sigma1 :: "u32 \<Rightarrow> u32" where
  "small_sigma1 x = word_rotr 17 x XOR word_rotr 19 x XOR drop_bit 10 x"

definition big_sigma0 :: "u32 \<Rightarrow> u32" where
  "big_sigma0 x = word_rotr 2 x XOR word_rotr 13 x XOR word_rotr 22 x"

definition big_sigma1 :: "u32 \<Rightarrow> u32" where
  "big_sigma1 x = word_rotr 6 x XOR word_rotr 11 x XOR word_rotr 25 x"

text \<open>The message schedule, newest word first.\<close>

fun sha_extend :: "nat \<Rightarrow> u32 list \<Rightarrow> u32 list" where
  "sha_extend 0 ws = ws"
| "sha_extend (Suc n) ws =
     sha_extend n ((small_sigma1 (ws ! 1) + ws ! 6 + small_sigma0 (ws ! 14) + ws ! 15) # ws)"

fun sha_round :: "u32 \<times> u32 \<Rightarrow> sha_state \<Rightarrow> sha_state" where
  "sha_round (k, w) (a, b, c, d, e, f, g, h) =
     (let ch = (e AND f) XOR (NOT e AND g);
          t1 = h + big_sigma1 e + ch + k + w;
          maj = (a AND b) XOR (a AND c) XOR (b AND c);
          t2 = big_sigma0 a + maj
      in (t1 + t2, a, b, c, d + t1, e, f, g))"

fun sha_add :: "sha_state \<Rightarrow> sha_state \<Rightarrow> sha_state" where
  "sha_add (a, b, c, d, e, f, g, h) (a', b', c', d', e', f', g', h') =
     (a + a', b + b', c + c', d + d', e + e', f + f', g + g', h + h')"

fun be32 :: "u8 list \<Rightarrow> u32 list" where
  "be32 (a # b # c # d # bs) =
     (push_bit 24 (ucast a) OR push_bit 16 (ucast b) OR push_bit 8 (ucast c) OR ucast d) # be32 bs"
| "be32 _ = []"

definition sha_block :: "sha_state \<Rightarrow> u8 list \<Rightarrow> sha_state" where
  "sha_block st block =
     (let ws = rev (sha_extend 48 (rev (be32 block)))
      in sha_add st (fold sha_round (zip sha_K ws) st))"

definition sha_pad :: "u8 list \<Rightarrow> u8 list" where
  "sha_pad msg =
     (let n = length msg; bits = (word_of_nat (8 * n) :: 64 word)
      in msg @ [0x80] @ replicate ((119 - n mod 64) mod 64) 0 @
         map (\<lambda>i. ucast (drop_bit (8 * (7 - i)) bits)) [0..<8])"

function sha_blocks :: "sha_state \<Rightarrow> u8 list \<Rightarrow> sha_state" where
  "sha_blocks st bs = (if bs = [] then st else sha_blocks (sha_block st (take 64 bs)) (drop 64 bs))"
  by pat_completeness auto
termination
  by (relation "measure (\<lambda>(_, bs). length bs)") auto

definition word_bytes :: "u32 \<Rightarrow> u8 list" where
  "word_bytes w = [ucast (drop_bit 24 w), ucast (drop_bit 16 w), ucast (drop_bit 8 w), ucast w]"

fun sha_digest :: "sha_state \<Rightarrow> u8 list" where
  "sha_digest (a, b, c, d, e, f, g, h) =
     word_bytes a @ word_bytes b @ word_bytes c @ word_bytes d @
     word_bytes e @ word_bytes f @ word_bytes g @ word_bytes h"

definition Sum256 :: "u8 list \<Rightarrow> u8 list" where
  "Sum256 msg = sha_digest (sha_blocks sha_H0 (sha_pad msg))"

definition hex_digit :: "nat \<Rightarrow> char" where
  "hex_digit n = ''0123456789abcdef'' ! n"

definition EncodeToString :: "u8 list \<Rightarrow> string" where
  "EncodeToString bs =
     concat (map (\<lambda>b. [hex_digit (unat (drop_bit 4 b)), hex_digit (unat (b AND 15))]) bs)"

definition bytes_of_string :: "string \<Rightarrow> u8 list" where
  "bytes_of_string s = map (\<lambda>c. word_of_nat (of_char c)) s"

definition hashString :: "string \<Rightarrow> string" where
  "hashString s = EncodeToString (Sum256 (bytes_of_string s))"

declare sha_blocks.simps [simp del]

lemma length_sha_digest: "length (sha_digest st) = 32"
  by (cases st rule: sha_digest.cases) (simp add: word_bytes_def)

lemma length_Sum256: "length (Sum256 msg) = 32"
  by (simp add: Sum256_def length_sha_digest)

lemma length_EncodeToString: "length (EncodeToString bs) = 2 * length bs"
  by (induction bs) (simp_all add: EncodeToString_def)

lemma length_hashString [simp]: "length (hashString s) = 64"
  by (simp add: hashString_def length_EncodeToString length_Sum256)

end
