(* ===== verification/Decision_Cache.thy ===== *)
theory Decision_Cache
  imports Policy_Types Sha256 "HOL-Library.List_Lexorder" "HOL-Library.Char_ord"
    "HOL-Library.Multiset"
begin

text \<open>
  The policy decision cache, \<^verbatim>\<open>src/internal/policy/cache.go\<close>. The cache is a Go map from keys
  to entries with an expiry time. The runtime iterates over a map in an arbitrary order; operations
  that depend on it take the order as an argument \<open>ord\<close>, a rearrangement of the list of keys.
\<close>

declare map_of_eq_Some_iff [simp del] Some_eq_map_of_iff [simp del]

section \<open>Model\<close>

record cacheEntry =
  ceDecision :: PolicyDecision
  ceExpiresAt :: time

record CacheConfig =
  ccEnabled :: bool
  ccTTL :: duration
  ccMaxEntries :: int

record DecisionCache =
  l2Cache :: "(string, cacheEntry) gomap"
  l2TTL :: duration
  maxEntries :: int
  dcEnabled :: bool
  l1Hits :: int
  l2Hits :: int
  misses :: int
  evicted :: int

record CacheStats =
  csL1Hits :: int
  csL2Hits :: int
  csMisses :: int
  csEntries :: int
  csHitRate :: rat \<comment> \<open>the exact quotient; the code rounds it to a \<^verbatim>\<open>float64\<close>\<close>
  csEvicted :: int

definition NewDecisionCache :: "CacheConfig \<Rightarrow> DecisionCache" where
  "NewDecisionCache cfg =
     (let cfg1 = (if ccTTL cfg = 0 then cfg\<lparr>ccTTL := 5 * minute\<rparr> else cfg);
          cfg2 = (if ccMaxEntries cfg1 = 0 then cfg1\<lparr>ccMaxEntries := 10000\<rparr> else cfg1)
      in \<lparr>l2Cache = [], l2TTL = ccTTL cfg2, maxEntries = ccMaxEntries cfg2,
          dcEnabled = ccEnabled cfg2, l1Hits = 0, l2Hits = 0, misses = 0, evicted = 0\<rparr>)"

definition Cache_Get ::
    "string \<Rightarrow> time \<Rightarrow> DecisionCache \<Rightarrow> (PolicyDecision option \<times> bool \<times> string) \<times> DecisionCache" where
  "Cache_Get key now c =
     (if \<not> dcEnabled c then ((None, False, []), c)
      else case map_of (l2Cache c) key of
        Some entry \<Rightarrow>
          if now < ceExpiresAt entry
          then ((Some (ceDecision entry), True, ''L2''), c\<lparr>l2Hits := wrap64 (l2Hits c + 1)\<rparr>)
          else ((None, False, []), c\<lparr>misses := wrap64 (misses c + 1)\<rparr>)
      | None \<Rightarrow> ((None, False, []), c\<lparr>misses := wrap64 (misses c + 1)\<rparr>))"

text \<open>Deleting the expired entries, a loop whose result does not depend on the iteration order.\<close>

definition drop_expired :: "time \<Rightarrow> DecisionCache \<Rightarrow> DecisionCache" where
  "drop_expired now c =
     (let keep = filter (\<lambda>(k, e). \<not> ceExpiresAt e < now) (l2Cache c)
      in c\<lparr>l2Cache := keep,
           evicted := wrap64 (evicted c + int (length (l2Cache c) - length keep))\<rparr>)"

fun evict_loop :: "int \<Rightarrow> int \<Rightarrow> string list \<Rightarrow> DecisionCache \<Rightarrow> DecisionCache" where
  "evict_loop toRemove removed [] c = c"
| "evict_loop toRemove removed (key # keys) c =
     (let c' = c\<lparr>l2Cache := AList.delete key (l2Cache c), evicted := wrap64 (evicted c + 1)\<rparr>;
          removed' = removed + 1
      in if removed' \<ge> toRemove then c' else evict_loop toRemove removed' keys c')"

definition evictOldest ::
    "(string list \<Rightarrow> string list) \<Rightarrow> time \<Rightarrow> DecisionCache \<Rightarrow> DecisionCache" where
  "evictOldest ord now c =
     (let c1 = drop_expired now c
      in if int (length (l2Cache c1)) \<ge> maxEntries c1
         then evict_loop (maxEntries c1 sdiv 10) 0 (ord (map fst (l2Cache c1))) c1
         else c1)"

text \<open>\<^verbatim>\<open>Set\<close> reads the clock for the eviction (\<open>t1\<close>) and for the new expiry (\<open>t2\<close>).\<close>

definition Cache_Set ::
    "(string list \<Rightarrow> string list) \<Rightarrow> time \<Rightarrow> time \<Rightarrow> string \<Rightarrow> PolicyDecision \<Rightarrow> DecisionCache \<Rightarrow>
     DecisionCache" where
  "Cache_Set ord t1 t2 key decision c =
     (if \<not> dcEnabled c then c
      else let c1 = (if int (length (l2Cache c)) \<ge> maxEntries c then evictOldest ord t1 c else c)
           in c1\<lparr>l2Cache := AList.update key
                 \<lparr>ceDecision = decision, ceExpiresAt = t2 + l2TTL c1\<rparr> (l2Cache c1)\<rparr>)"

definition Invalidate :: "DecisionCache \<Rightarrow> DecisionCache" where
  "Invalidate c = (if \<not> dcEnabled c then c else c\<lparr>l2Cache := []\<rparr>)"

definition Cache_cleanup :: "time \<Rightarrow> DecisionCache \<Rightarrow> DecisionCache" where
  "Cache_cleanup now c = drop_expired now c"

definition Cache_Stats :: "DecisionCache \<Rightarrow> CacheStats" where
  "Cache_Stats c =
     (let total = wrap64 (wrap64 (l1Hits c + l2Hits c) + misses c);
          hitRate = (if total > 0 then of_int (wrap64 (l1Hits c + l2Hits c)) / of_int total else 0)
      in \<lparr>csL1Hits = l1Hits c, csL2Hits = l2Hits c, csMisses = misses c,
          csEntries = int (length (l2Cache c)), csHitRate = hitRate, csEvicted = evicted c\<rparr>)"

definition ComputeKey :: "PolicyInput \<Rightarrow> string" where
  "ComputeKey input =
     (let caps = sort (elems (acCapabilities (piAgent input)));
          capsHash = hashString (Join caps '','')
      in acID (piAgent input) @ '':'' @ rqTool (piRequest input) @ '':'' @ take 8 capsHash)"

section \<open>The cache as a sequence of operations\<close>

datatype cache_op =
    CGet string time
  | CSet "string list \<Rightarrow> string list" time time string PolicyDecision
  | CInvalidate
  | CCleanup time

fun apply_cache_op :: "cache_op \<Rightarrow> DecisionCache \<Rightarrow> DecisionCache" where
  "apply_cache_op (CGet k now) c = snd (Cache_Get k now c)"
| "apply_cache_op (CSet ord t1 t2 k d) c = Cache_Set ord t1 t2 k d c"
| "apply_cache_op CInvalidate c = Invalidate c"
| "apply_cache_op (CCleanup now) c = Cache_cleanup now c"

definition cache_run :: "cache_op list \<Rightarrow> DecisionCache \<Rightarrow> DecisionCache" where
  "cache_run ops c = fold apply_cache_op ops c"

text \<open>The iteration order of a map is some rearrangement of its keys.\<close>

definition range_order :: "(string list \<Rightarrow> string list) \<Rightarrow> bool" where
  "range_order ord \<longleftrightarrow> (\<forall>ks. mset (ord ks) = mset ks)"

fun op_order_ok :: "cache_op \<Rightarrow> bool" where
  "op_order_ok (CSet ord t1 t2 k d) = range_order ord"
| "op_order_ok _ = True"

text \<open>
  The contract: an unbounded map from keys to the last decision stored for them and the time it was
  stored, emptied by an invalidation. It never forgets an entry by itself.
\<close>

type_synonym cache_spec = "string \<Rightarrow> (PolicyDecision \<times> time) option"

fun spec_cache_op :: "cache_op \<Rightarrow> cache_spec \<Rightarrow> cache_spec" where
  "spec_cache_op (CSet ord t1 t2 k d) m = m(k \<mapsto> (d, t2))"
| "spec_cache_op CInvalidate m = Map.empty"
| "spec_cache_op _ m = m"

definition spec_cache_run :: "cache_op list \<Rightarrow> cache_spec" where
  "spec_cache_run ops = fold spec_cache_op ops Map.empty"

section \<open>What a client of a lossy cache may rely on\<close>

text \<open>
  The interface through which the policy engine uses the cache: a lookup finds nothing but what was
  stored under that key since the last clearing, and maintenance only forgets.
\<close>

locale lossy_cache =
  fixes find :: "'c \<Rightarrow> 'k \<Rightarrow> time \<Rightarrow> 'd option"
    and store :: "'s \<Rightarrow> 'k \<Rightarrow> 'd \<Rightarrow> 'c \<Rightarrow> 'c"
    and clear :: "'c \<Rightarrow> 'c"
    and tidy :: "'m \<Rightarrow> 'c \<Rightarrow> 'c"
    and invar :: "'c \<Rightarrow> bool"
  assumes find_clear: "find (clear c) k t = None"
    and find_store_same: "invar c \<Longrightarrow> find (store s k d c) k t = Some e \<Longrightarrow> e = d"
    and find_store_other: "invar c \<Longrightarrow> k' \<noteq> k \<Longrightarrow> find (store s k d c) k' t = Some e \<Longrightarrow>
      find c k' t = Some e"
    and find_tidy: "invar c \<Longrightarrow> find (tidy m c) k t = Some e \<Longrightarrow> find c k t = Some e"
    and invar_clear: "invar c \<Longrightarrow> invar (clear c)"
    and invar_store: "invar c \<Longrightarrow> invar (store s k d c)"
    and invar_tidy: "invar c \<Longrightarrow> invar (tidy m c)"
begin

definition holds_only :: "('k \<Rightarrow> 'd \<Rightarrow> bool) \<Rightarrow> 'c \<Rightarrow> bool" where
  "holds_only P c \<longleftrightarrow> invar c \<and> (\<forall>k t d. find c k t = Some d \<longrightarrow> P k d)"

lemma holds_only_clear: "invar c \<Longrightarrow> holds_only P (clear c)"
  by (simp add: holds_only_def find_clear invar_clear)

lemma holds_only_store: "holds_only P c \<Longrightarrow> P k d \<Longrightarrow> holds_only P (store s k d c)"
  unfolding holds_only_def
  by (metis find_store_other find_store_same invar_store)

lemma holds_only_tidy: "holds_only P c \<Longrightarrow> holds_only P (tidy m c)"
  unfolding holds_only_def by (meson find_tidy invar_tidy)

end

section \<open>Invariant: distinct keys and bounded size\<close>

lemma gm_wf_drop_expired: "gm_wf (l2Cache c) \<Longrightarrow> gm_wf (l2Cache (drop_expired now c))"
  by (simp add: drop_expired_def gm_wf_filter Let_def)

lemma drop_expired_fields [simp]:
  "maxEntries (drop_expired now c) = maxEntries c" "l2TTL (drop_expired now c) = l2TTL c"
  "dcEnabled (drop_expired now c) = dcEnabled c"
  by (simp_all add: drop_expired_def Let_def)

lemma length_drop_expired: "length (l2Cache (drop_expired now c)) \<le> length (l2Cache c)"
  by (simp add: drop_expired_def Let_def)

lemma evict_loop_fields [simp]:
  "maxEntries (evict_loop n i ks c) = maxEntries c" "l2TTL (evict_loop n i ks c) = l2TTL c"
  "dcEnabled (evict_loop n i ks c) = dcEnabled c"
  by (induction n i ks c rule: evict_loop.induct) (simp_all add: Let_def)

lemma gm_wf_evict_loop: "gm_wf (l2Cache c) \<Longrightarrow> gm_wf (l2Cache (evict_loop n i ks c))"
  by (induction n i ks c rule: evict_loop.induct) (simp_all add: Let_def distinct_delete)

lemma length_evict_loop: "length (l2Cache (evict_loop n i ks c)) \<le> length (l2Cache c)"
proof (induction ks arbitrary: i c)
  case (Cons k ks)
  have "length (l2Cache (evict_loop n (i + 1) ks c')) \<le> length (l2Cache c')" for c'
    by (rule Cons.IH)
  from this [of "c\<lparr>l2Cache := AList.delete k (l2Cache c), evicted := wrap64 (evicted c + 1)\<rparr>"]
  show ?case using length_delete_le [of k "l2Cache c"] by (simp add: Let_def)
qed simp

lemma evict_loop_removes:
  assumes "gm_wf (l2Cache c)" and "k \<in> fst ` set (l2Cache c)"
  shows "length (l2Cache (evict_loop n i (k # ks) c)) < length (l2Cache c)"
proof -
  obtain e where "map_of (l2Cache c) k = Some e"
    using assms(2) by (metis domD dom_map_of_conv_image_fst)
  then have "length (AList.delete k (l2Cache c)) < length (l2Cache c)"
    using gm.entries_del_present [OF assms(1)] by fastforce
  then show ?thesis using length_evict_loop [of n "i + 1" ks "c\<lparr>l2Cache := AList.delete k (l2Cache c),
      evicted := wrap64 (evicted c + 1)\<rparr>"] by (auto simp: Let_def)
qed

lemma evictOldest_fields [simp]:
  "maxEntries (evictOldest ord now c) = maxEntries c" "l2TTL (evictOldest ord now c) = l2TTL c"
  "dcEnabled (evictOldest ord now c) = dcEnabled c"
  by (simp_all add: evictOldest_def Let_def)

lemma gm_wf_evictOldest: "gm_wf (l2Cache c) \<Longrightarrow> gm_wf (l2Cache (evictOldest ord now c))"
  by (simp add: evictOldest_def Let_def gm_wf_drop_expired gm_wf_evict_loop)

lemma range_order_nonempty:
  assumes "range_order ord" and "ks \<noteq> []"
  obtains k ks' where "ord ks = k # ks'" and "k \<in> set ks"
proof -
  have "mset (ord ks) = mset ks" using assms(1) by (simp add: range_order_def)
  moreover from this assms(2) obtain k ks' where "ord ks = k # ks'" by (cases "ord ks") auto
  ultimately show thesis using that by (metis list.set_intros(1) mset_eq_setD)
qed

definition cache_inv :: "DecisionCache \<Rightarrow> bool" where
  "cache_inv c \<longleftrightarrow> gm_wf (l2Cache c) \<and> int (length (l2Cache c)) \<le> max 1 (maxEntries c)"

lemma evictOldest_makes_room:
  assumes "cache_inv c" and "range_order ord"
  shows "int (length (l2Cache (evictOldest ord now c))) + 1 \<le> max 1 (maxEntries c)"
proof -
  let ?c1 = "drop_expired now c"
  have wf: "gm_wf (l2Cache ?c1)" using assms(1) by (simp add: cache_inv_def gm_wf_drop_expired)
  have le: "int (length (l2Cache ?c1)) \<le> max 1 (maxEntries c)"
    using assms(1) length_drop_expired [of now c] by (auto simp: cache_inv_def)
  show ?thesis
  proof (cases "int (length (l2Cache ?c1)) \<ge> maxEntries c \<and> l2Cache ?c1 \<noteq> []")
    case True
    then obtain k ks where ks: "ord (map fst (l2Cache ?c1)) = k # ks" "k \<in> set (map fst (l2Cache ?c1))"
      using range_order_nonempty [OF assms(2), of "map fst (l2Cache ?c1)"] by auto
    have "length (l2Cache (evictOldest ord now c)) < length (l2Cache ?c1)"
      using evict_loop_removes [OF wf, of k "maxEntries c sdiv 10" 0 ks] ks True
      by (simp add: evictOldest_def Let_def del: evict_loop.simps)
    with le show ?thesis by linarith
  next
    case False
    have "length (l2Cache (evictOldest ord now c)) \<le> length (l2Cache ?c1)"
      using length_evict_loop by (simp add: evictOldest_def Let_def)
    with False show ?thesis by auto
  qed
qed

lemma Cache_Set_fields [simp]:
  "maxEntries (Cache_Set ord t1 t2 k d c) = maxEntries c" "l2TTL (Cache_Set ord t1 t2 k d c) = l2TTL c"
  "dcEnabled (Cache_Set ord t1 t2 k d c) = dcEnabled c"
  by (simp_all add: Cache_Set_def Let_def)

lemma Cache_Set_inv:
  assumes "cache_inv c" and "range_order ord"
  shows "cache_inv (Cache_Set ord t1 t2 k d c)"
proof -
  define c1 where "c1 = (if int (length (l2Cache c)) \<ge> maxEntries c then evictOldest ord t1 c else c)"
  have "gm_wf (l2Cache c1)" using assms(1) by (simp add: c1_def cache_inv_def gm_wf_evictOldest)
  moreover have "int (length (l2Cache c1)) + 1 \<le> max 1 (maxEntries c)"
    using evictOldest_makes_room [OF assms] by (auto simp: c1_def)
  ultimately have "cache_inv (c1\<lparr>l2Cache := AList.update k e (l2Cache c1)\<rparr>)" for e
    using gm.entries_put_le [of "l2Cache c1" k e]
    by (auto simp: cache_inv_def distinct_update c1_def)
  then show ?thesis using assms(1) by (simp add: Cache_Set_def Let_def c1_def)
qed

lemma apply_cache_op_inv: "cache_inv c \<Longrightarrow> op_order_ok op \<Longrightarrow> cache_inv (apply_cache_op op c)"
proof (cases op)
  case (CGet k now)
  then show "cache_inv c \<Longrightarrow> op_order_ok op \<Longrightarrow> ?thesis"
    by (auto simp: Cache_Get_def cache_inv_def split: option.split)
next
  case (CSet ord t1 t2 k d)
  then show "cache_inv c \<Longrightarrow> op_order_ok op \<Longrightarrow> ?thesis" by (simp add: Cache_Set_inv)
next
  case CInvalidate
  then show "cache_inv c \<Longrightarrow> op_order_ok op \<Longrightarrow> ?thesis" by (simp add: Invalidate_def cache_inv_def)
next
  case (CCleanup now)
  then show "cache_inv c \<Longrightarrow> op_order_ok op \<Longrightarrow> ?thesis"
    using length_drop_expired [of now c]
    by (auto simp: Cache_cleanup_def cache_inv_def gm_wf_drop_expired)
qed

lemma cache_run_inv: "cache_inv c \<Longrightarrow> list_all op_order_ok ops \<Longrightarrow> cache_inv (cache_run ops c)"
  unfolding cache_run_def by (induction ops arbitrary: c) (simp_all add: apply_cache_op_inv)

lemma apply_cache_op_fields [simp]:
  "maxEntries (apply_cache_op op c) = maxEntries c" "l2TTL (apply_cache_op op c) = l2TTL c"
  "dcEnabled (apply_cache_op op c) = dcEnabled c"
  by (cases op; simp add: Cache_Get_def Invalidate_def Cache_cleanup_def split: option.split)+

lemma cache_run_fields [simp]:
  "maxEntries (cache_run ops c) = maxEntries c" "l2TTL (cache_run ops c) = l2TTL c"
  "dcEnabled (cache_run ops c) = dcEnabled c"
  unfolding cache_run_def by (induction ops arbitrary: c) simp_all

section \<open>Refinement of the contract\<close>

lemma drop_expired_sub:
  "gm_wf (l2Cache c) \<Longrightarrow> map_of (l2Cache (drop_expired now c)) k = Some e \<Longrightarrow> map_of (l2Cache c) k = Some e"
  by (auto simp: drop_expired_def Let_def map_of_filter_wf split: option.splits if_splits)

lemma evict_loop_sub: "map_of (l2Cache (evict_loop n i ks c)) k = Some e \<Longrightarrow> map_of (l2Cache c) k = Some e"
proof (induction ks arbitrary: i c)
  case (Cons x ks)
  have "map_of (AList.delete x (l2Cache c)) k = Some e"
    using Cons.prems Cons.IH [of "i + 1" "c\<lparr>l2Cache := AList.delete x (l2Cache c), evicted := wrap64 (evicted c + 1)\<rparr>"]
    by (auto simp: Let_def split: if_splits)
  then show ?case by (auto simp: delete_conv' split: if_splits)
qed simp

lemma evictOldest_sub:
  "gm_wf (l2Cache c) \<Longrightarrow> map_of (l2Cache (evictOldest ord now c)) k = Some e \<Longrightarrow> map_of (l2Cache c) k = Some e"
  by (auto simp: evictOldest_def Let_def split: if_splits dest: evict_loop_sub drop_expired_sub)

lemma Cache_Set_lookup_same:
  "dcEnabled c \<Longrightarrow> map_of (l2Cache (Cache_Set ord t1 t2 k d c)) k =
     Some \<lparr>ceDecision = d, ceExpiresAt = t2 + l2TTL c\<rparr>"
  by (simp add: Cache_Set_def Let_def update_conv')

lemma Cache_Set_lookup_other:
  assumes "gm_wf (l2Cache c)" and "k' \<noteq> k"
    and "map_of (l2Cache (Cache_Set ord t1 t2 k d c)) k' = Some e"
  shows "map_of (l2Cache c) k' = Some e"
  using assms evictOldest_sub [OF assms(1), of ord t1 k' e]
  by (auto simp: Cache_Set_def Let_def update_conv' split: if_splits)

lemma gm_wf_Cache_Set: "gm_wf (l2Cache c) \<Longrightarrow> gm_wf (l2Cache (Cache_Set ord t1 t2 k d c))"
  by (simp add: Cache_Set_def Let_def distinct_update gm_wf_evictOldest)

definition cache_find :: "DecisionCache \<Rightarrow> string \<Rightarrow> time \<Rightarrow> PolicyDecision option" where
  "cache_find c k t = fst (fst (Cache_Get k t c))"

lemma cache_find_Some: "cache_find c k t = Some d \<longleftrightarrow>
    dcEnabled c \<and> (\<exists>e. map_of (l2Cache c) k = Some e \<and> t < ceExpiresAt e \<and> ceDecision e = d)"
  by (auto simp: cache_find_def Cache_Get_def split: option.splits)

lemma Cache_Get_result: "fst (Cache_Get k t c) =
    (cache_find c k t, cache_find c k t \<noteq> None, if cache_find c k t = None then [] else ''L2'')"
  by (simp add: cache_find_def Cache_Get_def split: option.split)

lemma Cache_Get_map [simp]: "l2Cache (snd (Cache_Get k t c)) = l2Cache c"
  by (simp add: Cache_Get_def split: option.split)

lemma cache_find_Get [simp]: "cache_find (snd (Cache_Get k t c)) k' t' = cache_find c k' t'"
  by (simp add: cache_find_def Cache_Get_def split: option.split)

interpretation dc: lossy_cache cache_find "\<lambda>(ord, t1, t2) k d c. Cache_Set ord t1 t2 k d c"
    Invalidate Cache_cleanup "\<lambda>c. gm_wf (l2Cache c)"
proof unfold_locales
  fix c k t
  show "cache_find (Invalidate c) k t = None"
    by (cases "cache_find (Invalidate c) k t") (auto simp: cache_find_Some Invalidate_def)
next
  fix c k d e and s :: "(string list \<Rightarrow> string list) \<times> time \<times> time" and t :: time
  assume "cache_find ((\<lambda>(ord, t1, t2) k d c. Cache_Set ord t1 t2 k d c) s k d c) k t = Some e"
  then show "e = d" by (auto simp: cache_find_Some Cache_Set_lookup_same split: prod.splits)
next
  fix c k k' d e and s :: "(string list \<Rightarrow> string list) \<times> time \<times> time" and t :: time
  assume "gm_wf (l2Cache c)" "k' \<noteq> k"
    "cache_find ((\<lambda>(ord, t1, t2) k d c. Cache_Set ord t1 t2 k d c) s k d c) k' t = Some e"
  then show "cache_find c k' t = Some e"
    by (auto simp: cache_find_Some split: prod.splits dest: Cache_Set_lookup_other)
next
  fix c m k t e
  assume "gm_wf (l2Cache c)" "cache_find (Cache_cleanup m c) k t = Some e"
  then show "cache_find c k t = Some e"
    by (auto simp: cache_find_Some Cache_cleanup_def dest: drop_expired_sub)
qed (auto simp: Invalidate_def Cache_cleanup_def gm_wf_Cache_Set gm_wf_drop_expired)

definition cache_refines :: "DecisionCache \<Rightarrow> cache_spec \<Rightarrow> bool" where
  "cache_refines c m \<longleftrightarrow> gm_wf (l2Cache c) \<and> (dcEnabled c \<or> l2Cache c = []) \<and>
     (\<forall>k e. map_of (l2Cache c) k = Some e \<longrightarrow>
        (\<exists>t. m k = Some (ceDecision e, t) \<and> ceExpiresAt e = t + l2TTL c))"

lemma cache_refines_op:
  assumes "cache_refines c m"
  shows "cache_refines (apply_cache_op op c) (spec_cache_op op m)"
proof (cases op)
  case (CGet k now)
  with assms show ?thesis by (auto simp: cache_refines_def Cache_Get_def split: option.split)
next
  case (CSet ord t1 t2 k d)
  have wf: "gm_wf (l2Cache c)" using assms by (simp add: cache_refines_def)
  show ?thesis
  proof (cases "dcEnabled c")
    case True
    have "\<exists>t. (m(k \<mapsto> (d, t2))) k' = Some (ceDecision e, t) \<and> ceExpiresAt e = t + l2TTL c"
      if e: "map_of (l2Cache (Cache_Set ord t1 t2 k d c)) k' = Some e" for k' e
    proof (cases "k' = k")
      case True
      with e \<open>dcEnabled c\<close> show ?thesis by (auto simp: Cache_Set_lookup_same)
    next
      case False
      from Cache_Set_lookup_other [OF wf False e] obtain t
        where "m k' = Some (ceDecision e, t)" "ceExpiresAt e = t + l2TTL c"
        using assms unfolding cache_refines_def by blast
      with False show ?thesis by simp
    qed
    then show ?thesis using CSet wf True by (simp add: cache_refines_def gm_wf_Cache_Set)
  next
    case False
    with CSet assms show ?thesis by (simp add: cache_refines_def Cache_Set_def)
  qed
next
  case CInvalidate
  with assms show ?thesis by (auto simp: cache_refines_def Invalidate_def)
next
  case (CCleanup now)
  with assms show ?thesis
    by (auto simp: cache_refines_def Cache_cleanup_def gm_wf_drop_expired dest: drop_expired_sub)
       (simp add: drop_expired_def)
qed

lemma cache_refines_run:
  "cache_refines c m \<Longrightarrow> cache_refines (cache_run ops c) (fold spec_cache_op ops m)"
  unfolding cache_run_def by (induction ops arbitrary: c m) (simp_all add: cache_refines_op)

lemma cache_refines_new: "cache_refines (NewDecisionCache cfg) Map.empty"
  by (simp add: cache_refines_def NewDecisionCache_def Let_def)

section \<open>Properties\<close>

text \<open>
  C13. Refinement: after any sequence of operations, a hit for a key returns the decision that was
  stored last under that key since the last invalidation, and only before that decision's time to
  live has run out. Evictions and sweeps can lose decisions but never resurrect, mix up or prolong
  one.
\<close>

theorem cache_hit_refines_spec:
  assumes "fst (Cache_Get k now (cache_run ops (NewDecisionCache cfg))) = (Some d, True, tier)"
  shows "\<exists>t. spec_cache_run ops k = Some (d, t) \<and> now < t + l2TTL (NewDecisionCache cfg)"
proof -
  let ?c = "cache_run ops (NewDecisionCache cfg)"
  have "cache_refines ?c (spec_cache_run ops)"
    unfolding spec_cache_run_def by (intro cache_refines_run cache_refines_new)
  moreover have "cache_find ?c k now = Some d" using assms by (simp add: Cache_Get_result)
  ultimately show ?thesis by (fastforce simp: cache_find_Some cache_refines_def)
qed

definition demo_decision :: PolicyDecision where
  "demo_decision = \<lparr>pdAllow = True, pdViolations = [], pdMatchedRule = ''allowed'', pdObligations = []\<rparr>"

definition demo_cache_cfg :: CacheConfig where
  "demo_cache_cfg = \<lparr>ccEnabled = True, ccTTL = 300, ccMaxEntries = 2\<rparr>"

definition demo_ops :: "cache_op list" where
  "demo_ops = [CSet id 0 1 ''k'' demo_decision]"

theorem cache_hit_refines_spec_witness:
  "fst (Cache_Get ''k'' 300 (cache_run demo_ops (NewDecisionCache demo_cache_cfg))) =
     (Some demo_decision, True, ''L2'') \<and>
   (\<exists>t. spec_cache_run demo_ops ''k'' = Some (demo_decision, t) \<and>
      300 < t + l2TTL (NewDecisionCache demo_cache_cfg))"
proof -
  have "fst (Cache_Get ''k'' 300 (cache_run demo_ops (NewDecisionCache demo_cache_cfg))) =
     (Some demo_decision, True, ''L2'')"
    by (simp add: demo_ops_def cache_run_def Cache_Get_def Cache_Set_def NewDecisionCache_def
        demo_cache_cfg_def Let_def)
  from this cache_hit_refines_spec [OF this] show ?thesis by blast
qed

text \<open>
  C27. The cache is bounded: after any sequence of operations, under any map iteration order, it
  holds at most \<^verbatim>\<open>MaxEntries\<close> entries (one when the configured bound is not positive).
\<close>

theorem cache_capacity:
  assumes "list_all op_order_ok ops"
  shows "int (length (l2Cache (cache_run ops (NewDecisionCache cfg)))) \<le>
    max 1 (maxEntries (NewDecisionCache cfg))"
proof -
  have "cache_inv (NewDecisionCache cfg)"
    by (simp add: cache_inv_def NewDecisionCache_def Let_def)
  from cache_run_inv [OF this assms] show ?thesis by (simp add: cache_inv_def)
qed

definition demo_fill :: "cache_op list" where
  "demo_fill = [CSet rev 0 1 ''a'' demo_decision, CSet rev 0 1 ''b'' demo_decision,
     CSet rev 0 1 ''c'' demo_decision]"

theorem cache_capacity_witness:
  "list_all op_order_ok demo_fill \<and>
   int (length (l2Cache (cache_run demo_fill (NewDecisionCache demo_cache_cfg)))) \<le>
     max 1 (maxEntries (NewDecisionCache demo_cache_cfg))"
proof -
  have "list_all op_order_ok demo_fill" by (simp add: demo_fill_def range_order_def)
  from this cache_capacity [OF this] show ?thesis by blast
qed

text \<open>
  A decision stored in an enabled cache is returned by every \<^verbatim>\<open>Get\<close> of its key until its
  time to live has run out, and by none from then on; \<^verbatim>\<open>Invalidate\<close> forgets every key at once.
\<close>

lemma cache_get_after_set:
  assumes "dcEnabled c"
  shows "fst (Cache_Get k now (Cache_Set ord t1 t2 k d c)) =
      (if now < t2 + l2TTL c then (Some d, True, ''L2'') else (None, False, [])) \<and>
    fst (Cache_Get k now (Invalidate c)) = (None, False, [])"
  using assms by (simp add: Cache_Get_def Cache_Set_lookup_same Invalidate_def)

text \<open>
  The cache key depends on the set-up of the agent only through its ID, the tool and the
  multiset of its capabilities: listing the capabilities in another order gives the same key.
\<close>

lemma ComputeKey_permutation:
  assumes "acID (piAgent i) = acID (piAgent j)" and "rqTool (piRequest i) = rqTool (piRequest j)"
    and "mset (elems (acCapabilities (piAgent i))) = mset (elems (acCapabilities (piAgent j)))"
  shows "ComputeKey i = ComputeKey j"
proof -
  have "sort (elems (acCapabilities (piAgent i))) = sort (elems (acCapabilities (piAgent j)))"
    using assms(3) by (metis mset_sort properties_for_sort sorted_sort)
  then show ?thesis using assms(1,2) by (simp add: ComputeKey_def)
qed

definition demo_input :: "string \<Rightarrow> string \<Rightarrow> string list \<Rightarrow> int \<Rightarrow> PolicyInput" where
  "demo_input agent tool caps n =
     WithSession ''s'' n 0 (WithRequest ''tools/call'' tool None
       (WithAgent agent agent (Some caps) (NewInputBuilder 0)))"

text \<open>
  C28. The key is not injective: the separator may occur inside an agent ID or a tool name, so
  requests of two different agents for two different tools share one cache entry.
\<close>

theorem ComputeKey_collision:
  "ComputeKey (demo_input a (b @ '':'' @ c) caps n) = ComputeKey (demo_input (a @ '':'' @ b) c caps m)"
  by (simp add: ComputeKey_def demo_input_def builder_defs)

end
