(* ===== verification/Utf8.thy ===== *)
theory Utf8
  imports Prelude
begin

text \<open>
  UTF-8 as in Go's package \<^verbatim>\<open>unicode/utf8\<close>: decoding the first rune of a string, encoding a
  rune, and the replacement of invalid bytes by U+FFFD that \<^verbatim>\<open>encoding/json\<close> performs on
  every string it writes.
\<close>

abbreviation byte_of :: "char \<Rightarrow> nat" where
  "byte_of c \<equiv> of_char c"

definition RuneError :: nat where
  "RuneError = 65533"

definition is_cont :: "nat \<Rightarrow> nat \<Rightarrow> char \<Rightarrow> bool" where
  "is_cont lo hi c \<longleftrightarrow> lo \<le> byte_of c \<and> byte_of c \<le> hi"

text \<open>
  The range of the second byte, by the first one; \<^const>\<open>None\<close> when no multi-byte sequence
  starts with it.
\<close>

definition second_range :: "nat \<Rightarrow> (nat \<times> nat) option" where
  "second_range b =
     (if 194 \<le> b \<and> b \<le> 223 then Some (128, 191)
      else if b = 224 then Some (160, 191)
      else if b = 237 then Some (128, 159)
      else if 225 \<le> b \<and> b \<le> 239 then Some (128, 191)
      else if b = 240 then Some (144, 191)
      else if 241 \<le> b \<and> b \<le> 243 then Some (128, 191)
      else if b = 244 then Some (128, 143)
      else None)"

text \<open>
  \<^verbatim>\<open>utf8.DecodeRuneInString\<close>: the rune and its width; an invalid encoding is
  \<^const>\<open>RuneError\<close> with width 1.
\<close>

fun DecodeRune :: "string \<Rightarrow> nat \<times> nat" where
  "DecodeRune [] = (RuneError, 0)"
| "DecodeRune (c0 # s) =
     (let b0 = byte_of c0 in
      if b0 < 128 then (b0, 1)
      else case second_range b0 of
        None \<Rightarrow> (RuneError, 1)
      | Some (lo, hi) \<Rightarrow>
          (case s of
             c1 # s1 \<Rightarrow>
               if \<not> is_cont lo hi c1 then (RuneError, 1)
               else if b0 < 224 then ((b0 - 192) * 64 + (byte_of c1 - 128), 2)
               else (case s1 of
                  c2 # s2 \<Rightarrow>
                    if \<not> is_cont 128 191 c2 then (RuneError, 1)
                    else if b0 < 240
                    then ((b0 - 224) * 4096 + (byte_of c1 - 128) * 64 + (byte_of c2 - 128), 3)
                    else (case s2 of
                       c3 # s3 \<Rightarrow>
                         if \<not> is_cont 128 191 c3 then (RuneError, 1)
                         else ((b0 - 240) * 262144 + (byte_of c1 - 128) * 4096
                               + (byte_of c2 - 128) * 64 + (byte_of c3 - 128), 4)
                     | [] \<Rightarrow> (RuneError, 1))
                | [] \<Rightarrow> (RuneError, 1))
           | [] \<Rightarrow> (RuneError, 1)))"

definition chr :: "nat \<Rightarrow> char" where
  "chr n = char_of n"

text \<open>\<^verbatim>\<open>utf8.AppendRune\<close>: surrogates and values above U+10FFFF are written as U+FFFD.\<close>

definition EncodeRune :: "nat \<Rightarrow> string" where
  "EncodeRune r0 =
     (let r = (if 1114111 < r0 \<or> (55296 \<le> r0 \<and> r0 \<le> 57343) then RuneError else r0) in
      if r < 128 then [chr r]
      else if r < 2048 then [chr (192 + r div 64), chr (128 + r mod 64)]
      else if r < 65536
      then [chr (224 + r div 4096), chr (128 + (r div 64) mod 64), chr (128 + r mod 64)]
      else [chr (240 + r div 262144), chr (128 + (r div 4096) mod 64),
            chr (128 + (r div 64) mod 64), chr (128 + r mod 64)])"

lemma DecodeRune_width: "s \<noteq> [] \<Longrightarrow> 1 \<le> snd (DecodeRune s) \<and> snd (DecodeRune s) \<le> length s"
  by (cases s) (auto simp: Let_def split: option.split list.split)

lemma DecodeRune_pos [simp]: "s \<noteq> [] \<Longrightarrow> 0 < snd (DecodeRune s)"
  using DecodeRune_width [of s] by linarith

lemma DecodeRune_drop: "(r, n) = DecodeRune s \<Longrightarrow> s \<noteq> [] \<Longrightarrow> length s - n < length s"
  using DecodeRune_width [of s] by (metis diff_less length_greater_0_conv less_le_trans less_one
      not_le snd_conv)

text \<open>What is left of a string after \<^verbatim>\<open>encoding/json\<close> has written and read it back.\<close>

function utf8_coerce :: "string \<Rightarrow> string" where
  "utf8_coerce s =
     (if s = [] then []
      else let (r, n) = DecodeRune s
           in (if r = RuneError \<and> n = 1 then EncodeRune RuneError else take n s) @ utf8_coerce (drop n s))"
  by pat_completeness auto
termination
  by (relation "measure length") (auto simp: DecodeRune_drop)

declare utf8_coerce.simps [simp del]

definition ascii :: "string \<Rightarrow> bool" where
  "ascii s \<longleftrightarrow> list_all (\<lambda>c. byte_of c < 128) s"

lemma utf8_coerce_Nil [simp]: "utf8_coerce [] = []"
  by (simp add: utf8_coerce.simps)

lemma utf8_coerce_ascii: "ascii s \<Longrightarrow> utf8_coerce s = s"
proof (induction s)
  case (Cons c s)
  then show ?case by (subst utf8_coerce.simps) (simp add: ascii_def RuneError_def)
qed simp

lemma second_range_bounds: "second_range b = Some (lo, hi) \<Longrightarrow> 194 \<le> b \<and> b \<le> 244 \<and> 128 \<le> lo \<and>
    (b = 224 \<longrightarrow> lo = 160) \<and> (b = 240 \<longrightarrow> lo = 144)"
  by (auto simp: second_range_def split: if_splits)

lemma DecodeRune_multi:
  assumes "DecodeRune s = (r, n)" and "s \<noteq> []"
  shows "(r < 128 \<and> n = 1 \<and> byte_of (hd s) = r) \<or> (128 \<le> r \<and> (\<forall>c \<in> set (take n s). 128 \<le> byte_of c))"
proof (cases s)
  case (Cons c0 t)
  show ?thesis
  proof (cases "byte_of c0 < 128")
    case True
    with assms Cons show ?thesis by auto
  next
    case False
    then show ?thesis
      using assms Cons
      by (auto simp: Let_def RuneError_def is_cont_def dest!: second_range_bounds
          split: option.splits list.splits if_splits)
  qed
qed (use assms in simp)

section \<open>Space\<close>

definition IsSpace :: "nat \<Rightarrow> bool" where
  "IsSpace r \<longleftrightarrow> (9 \<le> r \<and> r \<le> 13) \<or> r \<in> {32, 133, 160, 5760, 8232, 8233, 8239, 8287, 12288} \<or>
     (8192 \<le> r \<and> r \<le> 8202)"

text \<open>The runes of a string, each with the bytes it was decoded from.\<close>

function rune_parts :: "string \<Rightarrow> (nat \<times> string) list" where
  "rune_parts s =
     (if s = [] then []
      else let (r, n) = DecodeRune s in (r, take n s) # rune_parts (drop n s))"
  by pat_completeness auto
termination
  by (relation "measure length") (auto simp: DecodeRune_drop)

declare rune_parts.simps [simp del]

text \<open>\<^verbatim>\<open>strings.TrimSpace\<close>.\<close>

definition TrimSpace :: "string \<Rightarrow> string" where
  "TrimSpace s =
     (let space = (\<lambda>(r, p). IsSpace r)
      in concat (map snd (rev (dropWhile space (rev (dropWhile space (rune_parts s)))))))"

lemma rune_parts_Nil [simp]: "rune_parts [] = []"
  by (simp add: rune_parts.simps)

lemma rune_parts_ascii: "byte_of c < 128 \<Longrightarrow> rune_parts (c # s) = (byte_of c, [c]) # rune_parts s"
  by (subst rune_parts.simps) simp

lemma concat_rune_parts: "concat (map snd (rune_parts s)) = s"
proof (induction s rule: rune_parts.induct)
  case (1 s)
  show ?case
  proof (cases "s = []")
    case False
    obtain r n where "DecodeRune s = (r, n)" by fastforce
    with 1 False show ?thesis by (subst rune_parts.simps) simp
  qed simp
qed

lemma TrimSpace_Nil [simp]: "TrimSpace [] = []"
  by (simp add: TrimSpace_def)

lemma TrimSpace_lead: "byte_of c < 128 \<Longrightarrow> IsSpace (byte_of c) \<Longrightarrow> TrimSpace (c # s) = TrimSpace s"
  by (simp add: TrimSpace_def rune_parts_ascii Let_def)

text \<open>A string that neither starts nor ends with a space rune is not changed.\<close>

definition trimmed :: "string \<Rightarrow> bool" where
  "trimmed s \<longleftrightarrow> s = [] \<or> \<not> IsSpace (fst (hd (rune_parts s))) \<and> \<not> IsSpace (fst (last (rune_parts s)))"

lemma rune_parts_empty_iff [simp]: "rune_parts s = [] \<longleftrightarrow> s = []"
  by (subst rune_parts.simps) (simp add: case_prod_beta)

lemma dropWhile_keep: "xs \<noteq> [] \<Longrightarrow> \<not> P (hd xs) \<Longrightarrow> dropWhile P xs = xs"
  by (cases xs) auto

lemma TrimSpace_trimmed: "trimmed s \<Longrightarrow> TrimSpace s = s"
  by (cases "s = []")
    (simp_all add: TrimSpace_def trimmed_def Let_def case_prod_beta dropWhile_keep hd_rev concat_rune_parts)

lemma DecodeRune_append:
  assumes "s \<noteq> []" and "byte_of c < 128"
  shows "DecodeRune (s @ [c]) = DecodeRune s"
proof -
  obtain c0 t where s: "s = c0 # t" using assms(1) by (cases s) auto
  have no: "\<not> is_cont lo hi c" if "128 \<le> lo" for lo hi using that assms(2) by (simp add: is_cont_def)
  show ?thesis
  proof (cases "second_range (byte_of c0)")
    case (Some p)
    then have "128 \<le> fst p" using second_range_bounds [of "byte_of c0" "fst p" "snd p"] by simp
    then show ?thesis using Some no by (auto simp: s Let_def split: list.split prod.split)
  qed (simp add: s Let_def)
qed

lemma rune_parts_snoc: "byte_of c < 128 \<Longrightarrow> rune_parts (s @ [c]) = rune_parts s @ [(byte_of c, [c])]"
proof (induction s rule: rune_parts.induct)
  case (1 s)
  show ?case
  proof (cases "s = []")
    case False
    obtain r n where d: "DecodeRune s = (r, n)" by fastforce
    then have "n \<le> length s" using DecodeRune_width [OF False] by simp
    then have "rune_parts (s @ [c]) = (r, take n s) # rune_parts (drop n s @ [c])"
      using False by (subst rune_parts.simps) (simp add: DecodeRune_append "1.prems" d)
    also have "\<dots> = (r, take n s) # rune_parts (drop n s) @ [(byte_of c, [c])]"
      using "1.IH" [OF False] d "1.prems" by simp
    finally show ?thesis using False d by (subst (2) rune_parts.simps) simp
  qed (simp add: rune_parts_ascii "1.prems")
qed

lemma TrimSpace_trail: "byte_of c < 128 \<Longrightarrow> IsSpace (byte_of c) \<Longrightarrow> trimmed s \<Longrightarrow> TrimSpace (s @ [c]) = s"
  by (cases "s = []")
    (simp_all add: TrimSpace_def trimmed_def rune_parts_snoc rune_parts_ascii Let_def case_prod_beta
      dropWhile_keep hd_rev concat_rune_parts)

lemma rune_parts_all_ascii: "ascii a \<Longrightarrow> rune_parts (a @ s) = map (\<lambda>c. (byte_of c, [c])) a @ rune_parts s"
  by (induction a) (simp_all add: ascii_def rune_parts_ascii)

lemma trimmed_ascii:
  "ascii s \<Longrightarrow> \<not> IsSpace (byte_of (hd s)) \<Longrightarrow> \<not> IsSpace (byte_of (last s)) \<Longrightarrow> trimmed s"
  using rune_parts_all_ascii [of s "[]"] by (cases "s = []") (simp_all add: trimmed_def hd_map last_map)

lemma trimmed_prepend:
  assumes "ascii a" and "a \<noteq> []" and "\<not> IsSpace (byte_of (hd a))" and "trimmed s" and "s \<noteq> []"
  shows "trimmed (a @ s)"
proof -
  show ?thesis using assms(2-5) by (simp add: trimmed_def rune_parts_all_ascii [OF assms(1)] hd_map)
qed

end
