(* ===== verification/Json.thy ===== *)
theory Json
  imports Go_Value Utf8 "HOL-Library.List_Lexorder" "HOL-Library.Char_ord"
begin

text \<open>
  What \<^verbatim>\<open>encoding/json\<close> makes of a value that is marshalled and read back into an
  \<^verbatim>\<open>interface{}\<close>: integers become the nearest \<^verbatim>\<open>float64\<close>, strings become valid
  UTF-8, typed slices become arrays, and a document nested deeper than 10000 is refused.
\<close>

declare map_of_eq_Some_iff [simp del] Some_eq_map_of_iff [simp del]

fun bit_len :: "nat \<Rightarrow> nat" where
  "bit_len n = (if n = 0 then 0 else Suc (bit_len (n div 2)))"

declare bit_len.simps [simp del]

text \<open>Rounding an integer to the nearest value with a 53-bit significand, ties to even.\<close>

definition float64_of_int :: "int \<Rightarrow> int" where
  "float64_of_int x =
     (let n = nat \<bar>x\<bar> in
      if n < 2 ^ 53 then x
      else let e = bit_len n - 53;
               q = n div 2 ^ e;
               r = n mod 2 ^ e;
               h = 2 ^ (e - 1);
               q' = (if h < r \<or> (r = h \<and> odd q) then q + 1 else q)
           in sgn x * int (q' * 2 ^ e))"

text \<open>
  An object is written with its keys in sorted order; when it is read back, a later occurrence of
  a key replaces an earlier one.
\<close>

definition json_object :: "(string \<times> gval) list \<Rightarrow> gobj" where
  "json_object m = fold (\<lambda>(k, v) r. AList.update (utf8_coerce k) v r) (sort_key fst m) []"

fun json_value :: "gval \<Rightarrow> gval" where
  "json_value GNil = GNil"
| "json_value (GBool b) = GBool b"
| "json_value (GNum r) = GNum r"
| "json_value (GInt n) = GNum (of_int (float64_of_int n))"
| "json_value (GInt64 n) = GNum (of_int (float64_of_int n))"
| "json_value (GStr s) = GStr (utf8_coerce s)"
| "json_value (GArr xs) = GArr (map json_value xs)"
| "json_value (GStrs ss) = GArr (map (\<lambda>s. GStr (utf8_coerce s)) ss)"
| "json_value (GObj m) = GObj (json_object (map (\<lambda>(k, v). (k, json_value v)) m))"

fun json_depth :: "gval \<Rightarrow> nat" where
  "json_depth (GArr xs) = Suc (Max (set (0 # map json_depth xs)))"
| "json_depth (GObj m) = Suc (Max (set (0 # map (\<lambda>(k, v). json_depth v) m)))"
| "json_depth (GStrs ss) = 1"
| "json_depth _ = 0"

definition max_json_depth :: nat where
  "max_json_depth = 10000"

lemma float64_of_int_small: "\<bar>x\<bar> < 2 ^ 53 \<Longrightarrow> float64_of_int x = x"
  by (simp add: float64_of_int_def Let_def nat_less_iff)

lemma json_object_wf: "gm_wf (json_object m)"
proof -
  have "gm_wf r \<Longrightarrow> gm_wf (fold (\<lambda>(k, v) r. AList.update (utf8_coerce k) v r) xs r)" for xs :: gobj and r
    by (induction xs arbitrary: r) (auto simp: distinct_update)
  then show ?thesis by (simp add: json_object_def)
qed

section \<open>JSON text\<close>

text \<open>
  The text that \<^verbatim>\<open>json.Marshal\<close> writes, with its escapes for control characters, for the
  characters that matter in HTML and for the two Unicode line separators. The decimal form of a
  \<^verbatim>\<open>float64\<close> is the parameter \<open>num\<close>.
\<close>

definition json_hex4 :: "nat \<Rightarrow> string" where
  "json_hex4 n = map (\<lambda>k. ''0123456789abcdef'' ! ((n div 16 ^ k) mod 16)) [3, 2, 1, 0]"

definition json_escape :: "nat \<Rightarrow> string \<Rightarrow> string" where
  "json_escape r b =
     (if r = 34 \<or> r = 92 then CHR 0x5C # b
      else if r = 8 then [CHR 0x5C, CHR ''b''] else if r = 12 then [CHR 0x5C, CHR ''f'']
      else if r = 10 then [CHR 0x5C, CHR ''n''] else if r = 13 then [CHR 0x5C, CHR ''r'']
      else if r = 9 then [CHR 0x5C, CHR ''t'']
      else if r < 32 \<or> r \<in> {60, 62, 38, 8232, 8233} then [CHR 0x5C, CHR ''u''] @ json_hex4 r
      else b)"

function json_chars :: "string \<Rightarrow> string" where
  "json_chars s =
     (if s = [] then []
      else let (r, n) = DecodeRune s
           in (if r = RuneError \<and> n = 1 then [CHR 0x5C] @ ''ufffd'' else json_escape r (take n s))
              @ json_chars (drop n s))"
  by pat_completeness auto
termination
  by (relation "measure length") (auto simp: DecodeRune_drop)

declare json_chars.simps [simp del]

definition json_string :: "string \<Rightarrow> string" where
  "json_string s = CHR 0x22 # json_chars s @ [CHR 0x22]"

fun json_text :: "(rat \<Rightarrow> string) \<Rightarrow> gval \<Rightarrow> string" where
  "json_text num GNil = ''null''"
| "json_text num (GBool b) = (if b then ''true'' else ''false'')"
| "json_text num (GNum r) = num r"
| "json_text num (GInt i) = itoa i"
| "json_text num (GInt64 i) = itoa i"
| "json_text num (GStr s) = json_string s"
| "json_text num (GArr xs) = ''['' @ Join (map (json_text num) xs) '','' @ '']''"
| "json_text num (GStrs ss) = ''['' @ Join (map json_string ss) '','' @ '']''"
| "json_text num (GObj m) = ''{'' @
     Join (map (\<lambda>(k, t). json_string k @ '':'' @ t) (sort_key fst (map (\<lambda>(k, v). (k, json_text num v)) m))) '','' @ ''}''"

end
