(* ===== verification/Engine.thy ===== *)
theory Engine
  imports Decision_Cache Json
begin

text \<open>
  The policy engine, \<^verbatim>\<open>src/internal/policy/engine.go\<close>: compiling policies, the cached
  evaluation of a request, and the interpretation of what OPA returns. OPA itself is a parameter
  (\<open>opa\<close>): preparing a query from modules and data, and evaluating a prepared query. Its results
  are lists of expression values; a number in them is a \<^verbatim>\<open>json.Number\<close>.
\<close>

declare map_of_eq_Some_iff [simp del] Some_eq_map_of_iff [simp del]

section \<open>Model\<close>

record 'q opa =
  opaZero :: 'q
  opaPrepare :: "string \<Rightarrow> (string, string) gomap \<Rightarrow> gobj option \<Rightarrow> 'q outcome"
  opaEval :: "'q \<Rightarrow> gobj \<Rightarrow> gval list list outcome"

record 'q Engine =
  enQuery :: 'q
  enModules :: "(string, string) gomap"
  enPolicyData :: gobj
  enCache :: DecisionCache
  enMode :: string
  enEnabled :: bool
  enEvaluations :: int
  enEvalErrors :: int
  enAvgEvalTimeNs :: int

record EngineConfig =
  egMode :: string
  egEnabled :: bool
  egCacheConfig :: CacheConfig

record EngineStats =
  esEvaluations :: int
  esEvalErrors :: int
  esAvgEvalTimeMs :: rat \<comment> \<open>the exact quotient; the code rounds it to a \<^verbatim>\<open>float64\<close>\<close>
  esCacheStats :: CacheStats

definition NewEngine :: "'q opa \<Rightarrow> EngineConfig \<Rightarrow> 'q Engine" where
  "NewEngine opa cfg =
     (let cfg1 = (if egMode cfg = [] then cfg\<lparr>egMode := ''enforce''\<rparr> else cfg)
      in \<lparr>enQuery = opaZero opa, enModules = [], enPolicyData = [],
          enCache = NewDecisionCache (egCacheConfig cfg1), enMode = egMode cfg1,
          enEnabled = egEnabled cfg1, enEvaluations = 0, enEvalErrors = 0, enAvgEvalTimeNs = 0\<rparr>)"

text \<open>An operation that can fail returns its result and the engine after it.\<close>

definition compileWithData :: "'q opa \<Rightarrow> 'q Engine \<Rightarrow> unit outcome \<times> 'q Engine" where
  "compileWithData opa e =
     (let store = (if length (enPolicyData e) > 0 then Some (enPolicyData e) else None)
      in case opaPrepare opa ''data.mcp.policy.decision'' (enModules e) store of
           Ok query \<Rightarrow> (Ok (), e\<lparr>enQuery := query\<rparr>)
         | Err err \<Rightarrow> (Err (''failed to compile policies: '' @ err), e)
         | Panic p \<Rightarrow> (Panic p, e))"

definition LoadPolicies ::
    "'q opa \<Rightarrow> (string, string) gomap \<Rightarrow> 'q Engine \<Rightarrow> unit outcome \<times> 'q Engine" where
  "LoadPolicies opa modules e = compileWithData opa (e\<lparr>enModules := modules\<rparr>)"

definition SetPolicyData :: "'q opa \<Rightarrow> gobj \<Rightarrow> 'q Engine \<Rightarrow> unit outcome \<times> 'q Engine" where
  "SetPolicyData opa data e =
     (let e1 = e\<lparr>enPolicyData := data\<rparr>;
          e2 = e1\<lparr>enCache := Invalidate (enCache e1)\<rparr>
      in if length (enModules e2) > 0 then compileWithData opa e2 else (Ok (), e2))"

text \<open>
  \<^verbatim>\<open>structToMap\<close> on a policy input: the JSON document of the input, under the field tags of
  \<^verbatim>\<open>types.go\<close>. Writing a time uses the host's time zone and fails outside the years 0 to
  9999; \<open>fmt\<close> stands for it.
\<close>

definition json_slice :: "string slice \<Rightarrow> gval" where
  "json_slice s = (case s of None \<Rightarrow> GNil | Some xs \<Rightarrow> json_value (GStrs xs))"

definition json_args :: "gobj option \<Rightarrow> gval" where
  "json_args a = (case a of None \<Rightarrow> GNil | Some m \<Rightarrow> json_value (GObj m))"

definition agent_doc :: "AgentContext \<Rightarrow> gval" where
  "agent_doc a = GObj [
     (''id'', json_value (GStr (acID a))), (''name'', json_value (GStr (acName a))),
     (''capabilities'', json_slice (acCapabilities a)), (''model'', json_value (GStr (acModel a))),
     (''publisher'', json_value (GStr (acPublisher a))), (''tags'', json_slice (acTags a))]"

definition request_doc :: "PolicyRequest \<Rightarrow> gval" where
  "request_doc r = GObj [
     (''method'', json_value (GStr (rqMethod r))), (''tool'', json_value (GStr (rqTool r))),
     (''arguments'', json_args (rqArguments r)), (''intent'', json_value (GStr (rqIntent r)))]"

definition session_doc :: "string \<Rightarrow> SessionContext \<Rightarrow> gval" where
  "session_doc startedAt s = GObj [
     (''id'', json_value (GStr (scID s))), (''request_count'', json_value (GInt (scRequestCount s))),
     (''started_at'', GStr startedAt), (''cumulative_reads'', json_value (GInt (scCumulativeReads s))),
     (''cumulative_writes'', json_value (GInt (scCumulativeWrites s)))]"

definition identity_doc :: "string \<Rightarrow> IdentityContext \<Rightarrow> gval" where
  "identity_doc issuedAt i = GObj [
     (''verified'', GBool (icVerified i)), (''did'', json_value (GStr (icDID i))),
     (''signature_alg'', json_value (GStr (icSignatureAlg i))), (''issued_at'', GStr issuedAt),
     (''has_log_proof'', GBool (icHasLogProof i))]"

definition context_doc :: "string \<Rightarrow> EnvironmentContext \<Rightarrow> gval" where
  "context_doc timestamp c = GObj [
     (''timestamp'', GStr timestamp), (''source_ip'', json_value (GStr (ecSourceIP c))),
     (''environment'', json_value (GStr (ecEnvironment c))),
     (''proxy_region'', json_value (GStr (ecProxyRegion c)))]"

definition structToMap :: "(time \<Rightarrow> string outcome) \<Rightarrow> PolicyInput \<Rightarrow> gobj outcome" where
  "structToMap fmt v =
     bind_outcome (fmt (scStartedAt (piSession v))) (\<lambda>started.
     bind_outcome (fmt (icIssuedAt (piIdentity v))) (\<lambda>issued.
     bind_outcome (fmt (ecTimestamp (piContext v))) (\<lambda>stamp.
       let doc = [(''agent'', agent_doc (piAgent v)), (''request'', request_doc (piRequest v)),
                  (''session'', session_doc started (piSession v)),
                  (''identity'', identity_doc issued (piIdentity v)),
                  (''context'', context_doc stamp (piContext v))]
       in if json_depth (GObj doc) > max_json_depth then Err ''exceeded max depth'' else Ok doc)))"

fun type_name :: "gval \<Rightarrow> string" where
  "type_name GNil = ''<nil>''"
| "type_name (GBool b) = ''bool''"
| "type_name (GNum r) = ''json.Number''"
| "type_name (GInt n) = ''int''"
| "type_name (GInt64 n) = ''int64''"
| "type_name (GStr s) = ''string''"
| "type_name (GArr xs) = ''[]interface {}''"
| "type_name (GStrs ss) = ''[]string''"
| "type_name (GObj m) = ''map[string]interface {}''"

definition parse_obligation :: "gobj \<Rightarrow> PolicyObligation" where
  "parse_obligation oblMap =
     (let obl = \<lparr>obAction = [], obParams = []\<rparr>;
          obl1 = (case as_string (gindex oblMap ''action'') of
                    Some action \<Rightarrow> obl\<lparr>obAction := action\<rparr> | None \<Rightarrow> obl)
      in case as_object (gindex oblMap ''params'') of
           Some params \<Rightarrow> obl1\<lparr>obParams :=
             List.map_filter (\<lambda>(k, v). map_option (Pair k) (as_string v)) params\<rparr>
         | None \<Rightarrow> obl1)"

definition parseDecision :: "gval \<Rightarrow> PolicyDecision outcome" where
  "parseDecision value =
     (case as_object value of
        None \<Rightarrow> Err (''unexpected decision type: '' @ type_name value)
      | Some decisionMap \<Rightarrow>
          let d0 = \<lparr>pdAllow = False, pdViolations = [], pdMatchedRule = [], pdObligations = []\<rparr>;
              d1 = (case as_bool (gindex decisionMap ''allow'') of
                      Some allow \<Rightarrow> d0\<lparr>pdAllow := allow\<rparr> | None \<Rightarrow> d0);
              d2 = (case as_array (gindex decisionMap ''violations'') of
                      Some violations \<Rightarrow> d1\<lparr>pdViolations := List.map_filter as_string violations\<rparr>
                    | None \<Rightarrow> d1);
              d3 = (case as_string (gindex decisionMap ''matched_rule'') of
                      Some rule \<Rightarrow> d2\<lparr>pdMatchedRule := rule\<rparr> | None \<Rightarrow> d2);
              d4 = (case as_array (gindex decisionMap ''obligations'') of
                      Some obligations \<Rightarrow> d3\<lparr>pdObligations :=
                        map parse_obligation (List.map_filter as_object obligations)\<rparr>
                    | None \<Rightarrow> d3)
          in Ok d4)"

definition no_result_decision :: PolicyDecision where
  "no_result_decision = \<lparr>pdAllow = False, pdViolations = [''No policy decision returned''],
     pdMatchedRule = ''no_result'', pdObligations = []\<rparr>"

definition decide :: "gval list list \<Rightarrow> PolicyDecision outcome" where
  "decide results =
     (case results of
        [] \<Rightarrow> Ok no_result_decision
      | expressions # _ \<Rightarrow>
          (case expressions of
             [] \<Rightarrow> Panic ''index out of range''
           | value # _ \<Rightarrow> wrap_err ''failed to parse decision'' (parseDecision value)))"

definition evaluatePolicy ::
    "'q opa \<Rightarrow> (time \<Rightarrow> string outcome) \<Rightarrow> PolicyInput \<Rightarrow> 'q Engine \<Rightarrow> PolicyDecision outcome" where
  "evaluatePolicy opa fmt input e =
     bind_outcome (wrap_err ''failed to convert input'' (structToMap fmt input)) (\<lambda>inputMap.
     bind_outcome (wrap_err ''evaluation error'' (opaEval opa (enQuery e) inputMap)) decide)"

text \<open>\<^verbatim>\<open>alpha\<close> is 10; every product, sum and quotient is a 64-bit integer.\<close>

definition updateAvgEvalTime :: "duration \<Rightarrow> 'q Engine \<Rightarrow> 'q Engine" where
  "updateAvgEvalTime d e =
     (let alpha = 10 in
      if enAvgEvalTimeNs e = 0 then e\<lparr>enAvgEvalTimeNs := d\<rparr>
      else e\<lparr>enAvgEvalTimeNs :=
        wrap64 (wrap64 (enAvgEvalTimeNs e * (100 - alpha)) + wrap64 (d * alpha)) sdiv 100\<rparr>)"

text \<open>
  The clock readings of one evaluation, in order: at the start, in the cache lookup, at the end, and
  the two of the cache update, with the map order its eviction meets.
\<close>

record eval_env =
  evStart :: time
  evGet :: time
  evEnd :: time
  evEvict :: time
  evExpire :: time
  evOrder :: "string list \<Rightarrow> string list"

definition disabled_decision :: PolicyDecision where
  "disabled_decision = \<lparr>pdAllow = True, pdViolations = [], pdMatchedRule = ''policy_disabled'',
     pdObligations = []\<rparr>"

definition Evaluate ::
    "'q opa \<Rightarrow> (time \<Rightarrow> string outcome) \<Rightarrow> eval_env \<Rightarrow> PolicyInput \<Rightarrow> 'q Engine \<Rightarrow>
     EvaluationResult outcome \<times> 'q Engine" where
  "Evaluate opa fmt env input e =
     (let result = \<lambda>d hit tier.
        \<lparr>erDecision = d, erInput = input, erEvalTime = time_sub (evEnd env) (evStart env),
         erCacheHit = hit, erCacheTier = tier, erPolicyMode = enMode e\<rparr>
      in if \<not> enEnabled e then (Ok (result disabled_decision False []), e)
         else
           let cacheKey = ComputeKey input;
               ((cached, hit, tier), cache1) = Cache_Get cacheKey (evGet env) (enCache e);
               e1 = e\<lparr>enCache := cache1\<rparr>
           in if hit then (Ok (result (the cached) True tier), e1)
              else
                  (case evaluatePolicy opa fmt input e1 of
                     Err err \<Rightarrow> (Err (''policy evaluation failed: '' @ err),
                                 e1\<lparr>enEvalErrors := wrap64 (enEvalErrors e1 + 1)\<rparr>)
                   | Panic p \<Rightarrow> (Panic p, e1)
                   | Ok decision \<Rightarrow>
                       let r = result decision False [];
                           e2 = e1\<lparr>enEvaluations := wrap64 (enEvaluations e1 + 1)\<rparr>;
                           e3 = updateAvgEvalTime (erEvalTime r) e2
                       in (Ok r, e3\<lparr>enCache := Cache_Set (evOrder env) (evEvict env) (evExpire env)
                                      cacheKey decision (enCache e3)\<rparr>)))"

definition Mode :: "'q Engine \<Rightarrow> string" where
  "Mode e = enMode e"

definition Engine_Stats :: "'q Engine \<Rightarrow> EngineStats" where
  "Engine_Stats e =
     \<lparr>esEvaluations = enEvaluations e, esEvalErrors = enEvalErrors e,
      esAvgEvalTimeMs = of_int (enAvgEvalTimeNs e) / 1000000, esCacheStats = Cache_Stats (enCache e)\<rparr>"

definition IsAllowed ::
    "'q opa \<Rightarrow> (time \<Rightarrow> string outcome) \<Rightarrow> eval_env \<Rightarrow> PolicyInput \<Rightarrow> 'q Engine \<Rightarrow>
     (bool \<times> EvaluationResult) outcome \<times> 'q Engine" where
  "IsAllowed opa fmt env input e =
     (case Evaluate opa fmt env input e of
        (Ok result, e') \<Rightarrow>
          if enMode e = ''audit'' then (Ok (True, result), e')
          else (Ok (pdAllow (erDecision result), result), e')
      | (Err err, e') \<Rightarrow> (Err err, e')
      | (Panic p, e') \<Rightarrow> (Panic p, e'))"

definition Engine_IsReady :: "'q Engine \<Rightarrow> bool" where
  "Engine_IsReady e = (if \<not> enEnabled e then True else length (enModules e) > 0)"

section \<open>The engine as a sequence of operations\<close>

text \<open>Calls on the engine and the periodic sweep of its cache.\<close>

datatype engine_op =
    ELoad "(string, string) gomap"
  | EData gobj
  | EEval eval_env PolicyInput
  | ESweep time

fun apply_engine_op ::
    "'q opa \<Rightarrow> (time \<Rightarrow> string outcome) \<Rightarrow> engine_op \<Rightarrow> 'q Engine \<Rightarrow> 'q Engine" where
  "apply_engine_op opa fmt (ELoad modules) e = snd (LoadPolicies opa modules e)"
| "apply_engine_op opa fmt (EData data) e = snd (SetPolicyData opa data e)"
| "apply_engine_op opa fmt (EEval env input) e = snd (Evaluate opa fmt env input e)"
| "apply_engine_op opa fmt (ESweep now) e = e\<lparr>enCache := Cache_cleanup now (enCache e)\<rparr>"

definition engine_run ::
    "'q opa \<Rightarrow> (time \<Rightarrow> string outcome) \<Rightarrow> engine_op list \<Rightarrow> 'q Engine \<Rightarrow> 'q Engine" where
  "engine_run opa fmt ops e = fold (apply_engine_op opa fmt) ops e"

fun is_load :: "engine_op \<Rightarrow> bool" where
  "is_load (ELoad modules) = True"
| "is_load _ = False"

section \<open>Lemmas\<close>

lemma parseDecision_allow:
  "(\<exists>d. parseDecision v = Ok d \<and> pdAllow d) \<longleftrightarrow>
     (\<exists>m. v = GObj m \<and> map_of m ''allow'' = Some (GBool True))"
proof (cases v)
  case (GObj m)
  then show ?thesis
    by (cases "map_of m ''allow''")
      (auto simp: parseDecision_def gindex_def Let_def as_iffs split: option.split)
qed (auto simp: parseDecision_def)

lemma decide_allow:
  "(\<exists>d. decide rs = Ok d \<and> pdAllow d) \<longleftrightarrow>
     (\<exists>m vs rs'. rs = (GObj m # vs) # rs' \<and> map_of m ''allow'' = Some (GBool True))"
  using parseDecision_allow
  by (auto simp: decide_def no_result_decision_def split: list.split)

lemma updateAvgEvalTime_fields [simp]:
  "enQuery (updateAvgEvalTime d e) = enQuery e" "enModules (updateAvgEvalTime d e) = enModules e"
  "enPolicyData (updateAvgEvalTime d e) = enPolicyData e" "enCache (updateAvgEvalTime d e) = enCache e"
  "enMode (updateAvgEvalTime d e) = enMode e" "enEnabled (updateAvgEvalTime d e) = enEnabled e"
  by (simp_all add: updateAvgEvalTime_def Let_def)

lemma evaluatePolicy_query: "enQuery e = enQuery e' \<Longrightarrow> evaluatePolicy opa fmt i e = evaluatePolicy opa fmt i e'"
  by (simp add: evaluatePolicy_def)

text \<open>\<^verbatim>\<open>Evaluate\<close> branch by branch.\<close>

definition eval_result ::
    "eval_env \<Rightarrow> PolicyInput \<Rightarrow> 'q Engine \<Rightarrow> PolicyDecision \<Rightarrow> bool \<Rightarrow> string \<Rightarrow> EvaluationResult" where
  "eval_result env i e d hit tier =
     \<lparr>erDecision = d, erInput = i, erEvalTime = time_sub (evEnd env) (evStart env),
      erCacheHit = hit, erCacheTier = tier, erPolicyMode = enMode e\<rparr>"

definition looked_up :: "eval_env \<Rightarrow> PolicyInput \<Rightarrow> 'q Engine \<Rightarrow> 'q Engine" where
  "looked_up env i e = e\<lparr>enCache := snd (Cache_Get (ComputeKey i) (evGet env) (enCache e))\<rparr>"

definition evaluated :: "eval_env \<Rightarrow> PolicyInput \<Rightarrow> PolicyDecision \<Rightarrow> 'q Engine \<Rightarrow> 'q Engine" where
  "evaluated env i d e =
     (let e1 = looked_up env i e;
          e2 = updateAvgEvalTime (time_sub (evEnd env) (evStart env))
                 (e1\<lparr>enEvaluations := wrap64 (enEvaluations e1 + 1)\<rparr>)
      in e2\<lparr>enCache := Cache_Set (evOrder env) (evEvict env) (evExpire env) (ComputeKey i) d (enCache e1)\<rparr>)"

lemma Cache_Get_hit: "cache_find c k t = Some d \<Longrightarrow> \<exists>c'. Cache_Get k t c = ((Some d, True, ''L2''), c')"
  by (auto simp: cache_find_def Cache_Get_def split: option.splits if_splits)

lemma Cache_Get_miss: "cache_find c k t = None \<Longrightarrow> \<exists>c'. Cache_Get k t c = ((None, False, []), c')"
  by (auto simp: cache_find_def Cache_Get_def split: option.splits if_splits)

lemma Evaluate_disabled:
  "\<not> enEnabled e \<Longrightarrow> Evaluate opa fmt env i e = (Ok (eval_result env i e disabled_decision False []), e)"
  by (simp add: Evaluate_def eval_result_def)

lemma Evaluate_hit:
  assumes "enEnabled e" and "cache_find (enCache e) (ComputeKey i) (evGet env) = Some d"
  shows "Evaluate opa fmt env i e = (Ok (eval_result env i e d True ''L2''), looked_up env i e)"
proof -
  obtain c' where "Cache_Get (ComputeKey i) (evGet env) (enCache e) = ((Some d, True, ''L2''), c')"
    using Cache_Get_hit [OF assms(2)] by blast
  then show ?thesis using assms(1) by (simp add: Evaluate_def eval_result_def looked_up_def)
qed

lemma Evaluate_miss:
  assumes "enEnabled e" and "cache_find (enCache e) (ComputeKey i) (evGet env) = None"
  shows "Evaluate opa fmt env i e =
    (case evaluatePolicy opa fmt i e of
       Err err \<Rightarrow> (Err (''policy evaluation failed: '' @ err),
                   (looked_up env i e)\<lparr>enEvalErrors := wrap64 (enEvalErrors e + 1)\<rparr>)
     | Panic p \<Rightarrow> (Panic p, looked_up env i e)
     | Ok d \<Rightarrow> (Ok (eval_result env i e d False []), evaluated env i d e))"
proof -
  have "evaluatePolicy opa fmt i (looked_up env i e) = evaluatePolicy opa fmt i e"
    by (rule evaluatePolicy_query) (simp add: looked_up_def)
  moreover obtain c' where get: "Cache_Get (ComputeKey i) (evGet env) (enCache e) = ((None, False, []), c')"
    using Cache_Get_miss [OF assms(2)] by blast
  ultimately have "evaluatePolicy opa fmt i (e\<lparr>enCache := c'\<rparr>) = evaluatePolicy opa fmt i e"
    by (simp add: looked_up_def)
  with get show ?thesis using assms(1)
    by (simp add: Evaluate_def Let_def eval_result_def looked_up_def evaluated_def split: outcome.split)
qed

lemma eval_result_sel [simp]: "erDecision (eval_result env i e d hit tier) = d"
  "erCacheHit (eval_result env i e d hit tier) = hit"
  by (simp_all add: eval_result_def)

lemma Evaluate_mode: "Evaluate opa fmt env i e = (Ok r, e') \<Longrightarrow> erPolicyMode r = enMode e"
proof (cases "enEnabled e")
  case True
  then show "Evaluate opa fmt env i e = (Ok r, e') \<Longrightarrow> ?thesis"
    by (cases "cache_find (enCache e) (ComputeKey i) (evGet env)")
      (auto simp: Evaluate_hit Evaluate_miss eval_result_def split: outcome.splits)
qed (auto simp: Evaluate_disabled eval_result_def)

lemma looked_up_fields [simp]:
  "enQuery (looked_up env i e) = enQuery e" "enEnabled (looked_up env i e) = enEnabled e"
  "enCache (looked_up env i e) = snd (Cache_Get (ComputeKey i) (evGet env) (enCache e))"
  by (simp_all add: looked_up_def)

lemma evaluated_fields [simp]:
  "enQuery (evaluated env i d e) = enQuery e" "enEnabled (evaluated env i d e) = enEnabled e"
  "enCache (evaluated env i d e) =
     Cache_Set (evOrder env) (evEvict env) (evExpire env) (ComputeKey i) d
       (snd (Cache_Get (ComputeKey i) (evGet env) (enCache e)))"
  by (simp_all add: evaluated_def Let_def)

text \<open>
  The engine's invariant: whatever the cache holds for a key is what the current query decides for
  some input with that key.
\<close>

definition provenance :: "'q opa \<Rightarrow> (time \<Rightarrow> string outcome) \<Rightarrow> 'q Engine \<Rightarrow> string \<Rightarrow> PolicyDecision \<Rightarrow> bool" where
  "provenance opa fmt e k d \<longleftrightarrow> (\<exists>i. ComputeKey i = k \<and> evaluatePolicy opa fmt i e = Ok d)"

definition engine_inv :: "'q opa \<Rightarrow> (time \<Rightarrow> string outcome) \<Rightarrow> 'q Engine \<Rightarrow> bool" where
  "engine_inv opa fmt e \<longleftrightarrow> dc.holds_only (provenance opa fmt e) (enCache e)"

lemma provenance_query: "enQuery e = enQuery e' \<Longrightarrow> provenance opa fmt e = provenance opa fmt e'"
  using evaluatePolicy_query [of e e' opa fmt] by (auto simp: provenance_def fun_eq_iff)

lemma holds_only_Get: "dc.holds_only P c \<Longrightarrow> dc.holds_only P (snd (Cache_Get k t c))"
  by (simp add: dc.holds_only_def)

lemma holds_only_Set: "dc.holds_only P c \<Longrightarrow> P k d \<Longrightarrow> dc.holds_only P (Cache_Set ord t1 t2 k d c)"
  using dc.holds_only_store [of P c k d "(ord, t1, t2)"] by simp

lemma engine_inv_Evaluate [op_invs]:
  assumes "engine_inv opa fmt e"
  shows "engine_inv opa fmt (snd (Evaluate opa fmt env i e))"
proof (cases "enEnabled e")
  case False
  with assms show ?thesis by (simp add: Evaluate_disabled)
next
  case True
  have only: "dc.holds_only (provenance opa fmt e) (enCache e)" using assms by (simp add: engine_inv_def)
  show ?thesis
  proof (cases "cache_find (enCache e) (ComputeKey i) (evGet env)")
    case (Some d)
    then show ?thesis
      using True only provenance_query [of "looked_up env i e" e opa fmt]
      by (simp add: Evaluate_hit engine_inv_def holds_only_Get)
  next
    case None
    have "provenance opa fmt e (ComputeKey i) d" if "evaluatePolicy opa fmt i e = Ok d" for d
      using that by (auto simp: provenance_def)
    then show ?thesis
      using True None only
      by (auto simp: Evaluate_miss engine_inv_def holds_only_Get holds_only_Set split: outcome.split
          cong: provenance_query)
  qed
qed

lemma compileWithData_cache [simp]: "enCache (snd (compileWithData opa e)) = enCache e"
  by (simp add: compileWithData_def Let_def split: outcome.split)

lemma engine_inv_SetPolicyData [op_invs]:
  "gm_wf (l2Cache (enCache e)) \<Longrightarrow> engine_inv opa fmt (snd (SetPolicyData opa data e))"
  using dc.holds_only_clear [of "enCache e"] by (simp add: SetPolicyData_def Let_def engine_inv_def)

lemma engine_inv_wf: "engine_inv opa fmt e \<Longrightarrow> gm_wf (l2Cache (enCache e))"
  by (simp add: engine_inv_def dc.holds_only_def)

lemma engine_inv_op:
  assumes "engine_inv opa fmt e" and "\<not> is_load op"
  shows "engine_inv opa fmt (apply_engine_op opa fmt op e)"
proof (cases op)
  case (ESweep now)
  have "provenance opa fmt (e\<lparr>enCache := c\<rparr>) = provenance opa fmt e" for c
    by (rule provenance_query) simp
  with ESweep assms(1) show ?thesis by (simp add: engine_inv_def dc.holds_only_tidy)
qed (use assms in \<open>auto intro: op_invs engine_inv_wf\<close>)

lemma engine_inv_run:
  "engine_inv opa fmt e \<Longrightarrow> list_all (\<lambda>op. \<not> is_load op) ops \<Longrightarrow> engine_inv opa fmt (engine_run opa fmt ops e)"
  unfolding engine_run_def by (induction ops arbitrary: e) (simp_all add: engine_inv_op)

lemma engine_inv_start: "engine_inv opa fmt (snd (LoadPolicies opa modules (NewEngine opa cfg)))"
proof -
  have "cache_find (NewDecisionCache c) k t = None" for c k t
    by (simp add: cache_find_def Cache_Get_def NewDecisionCache_def Let_def)
  then show ?thesis
    by (simp add: engine_inv_def dc.holds_only_def LoadPolicies_def NewEngine_def Let_def)
       (simp add: NewDecisionCache_def Let_def)
qed

text \<open>Go's truncating division of a weighted mean with weights 90 and 10.\<close>

lemma weighted_mean_bounds:
  fixes a d :: int
  assumes "0 \<le> a" and "0 \<le> d"
  shows "min a d \<le> (a * 90 + d * 10) sdiv 100" and "(a * 90 + d * 10) sdiv 100 \<le> max a d"
  using assms by (auto simp: sdiv_int_pos min_def max_def)

section \<open>Properties\<close>

text \<open>
  C3. Fail-closed decisions: with an enabled engine, an evaluation lets a request through exactly
  when a live cached decision lets it through, or, without one, when OPA's evaluation of the request
  succeeds and its first expression is an object whose \<^verbatim>\<open>allow\<close> is the boolean true. No result,
  a result of another shape, a missing or non-boolean \<^verbatim>\<open>allow\<close>, and every error deny.
\<close>

theorem evaluate_fail_closed:
  assumes "enEnabled e"
  shows "(\<exists>r e'. Evaluate opa fmt env i e = (Ok r, e') \<and> pdAllow (erDecision r)) \<longleftrightarrow>
    (case cache_find (enCache e) (ComputeKey i) (evGet env) of
       Some d \<Rightarrow> pdAllow d
     | None \<Rightarrow> \<exists>doc m vs rs. structToMap fmt i = Ok doc \<and>
         opaEval opa (enQuery e) doc = Ok ((GObj m # vs) # rs) \<and>
         map_of m ''allow'' = Some (GBool True))"
proof (cases "cache_find (enCache e) (ComputeKey i) (evGet env)")
  case (Some d)
  then show ?thesis using assms by (simp add: Evaluate_hit)
next
  case None
  have "(\<exists>r e'. Evaluate opa fmt env i e = (Ok r, e') \<and> pdAllow (erDecision r)) \<longleftrightarrow>
      (\<exists>d. evaluatePolicy opa fmt i e = Ok d \<and> pdAllow d)"
    using assms None by (auto simp: Evaluate_miss split: outcome.splits)
  also have "\<dots> \<longleftrightarrow> (\<exists>doc rs. structToMap fmt i = Ok doc \<and> opaEval opa (enQuery e) doc = Ok rs \<and>
      (\<exists>d. decide rs = Ok d \<and> pdAllow d))"
    by (auto simp: evaluatePolicy_def bind_outcome_Ok)
  finally show ?thesis using None by (auto simp: decide_allow)
qed

text \<open>
  A small concrete OPA: the query is the policy data, and evaluation allows the tool named in it.
\<close>

definition demo_opa :: "string opa" where
  "demo_opa = \<lparr>opaZero = [],
     opaPrepare = (\<lambda>q modules store. case modules of [] \<Rightarrow> Err ''no modules'' | (n, m) # _ \<Rightarrow> Ok m),
     opaEval = (\<lambda>q doc. case as_object (gindex doc ''request'') of
        Some r \<Rightarrow> Ok [[GObj [(''allow'', GBool (gindex r ''tool'' = GStr q))]]]
      | None \<Rightarrow> Ok [])\<rparr>"

definition demo_fmt :: "time \<Rightarrow> string outcome" where
  "demo_fmt t = Ok ''2024-01-01T00:00:00Z''"

definition demo_env :: "time \<Rightarrow> eval_env" where
  "demo_env t = \<lparr>evStart = t, evGet = t, evEnd = t + 100, evEvict = t + 100, evExpire = t + 100, evOrder = id\<rparr>"

definition demo_engine_cfg :: EngineConfig where
  "demo_engine_cfg = \<lparr>egMode = [], egEnabled = True, egCacheConfig = demo_cache_cfg\<rparr>"

definition demo_engine :: "string Engine" where
  "demo_engine = snd (LoadPolicies demo_opa [(''main.rego'', ''read'')] (NewEngine demo_opa demo_engine_cfg))"

lemma demo_engine_empty: "enEnabled demo_engine" "l2Cache (enCache demo_engine) = []"
  "enQuery demo_engine = ''read''" "dcEnabled (enCache demo_engine)" "l2TTL (enCache demo_engine) = 300"
  "maxEntries (enCache demo_engine) = 2"
  by code_simp+

lemma demo_engine_find: "cache_find (enCache demo_engine) k t = None"
  by (cases "cache_find (enCache demo_engine) k t") (auto simp: cache_find_Some demo_engine_empty)

lemma json_slice_depth: "json_depth (json_slice s) \<le> 1"
  by (cases s) (simp_all add: json_slice_def image_constant_conv)

lemma demo_opa_eval:
  assumes "rqArguments (piRequest i) = None"
  shows "\<exists>doc. structToMap demo_fmt i = Ok doc \<and>
     opaEval demo_opa q doc = Ok [[GObj [(''allow'', GBool (utf8_coerce (rqTool (piRequest i)) = q))]]]"
  using assms json_slice_depth [of "acCapabilities (piAgent i)"] json_slice_depth [of "acTags (piAgent i)"]
  by (auto simp: structToMap_def demo_fmt_def agent_doc_def request_doc_def session_doc_def identity_doc_def
      context_doc_def json_args_def Let_def max_json_depth_def demo_opa_def gindex_def)

lemma demo_input_request: "rqArguments (piRequest (demo_input a t cs n)) = None"
  "rqTool (piRequest (demo_input a t cs n)) = t"
  by (simp_all add: demo_input_def WithSession_def WithRequest_def zero_request_def)

theorem evaluate_fail_closed_witness:
  "enEnabled demo_engine \<and>
   (\<exists>r e'. Evaluate demo_opa demo_fmt (demo_env 0) (demo_input ''a'' ''read'' [] 1) demo_engine = (Ok r, e') \<and>
      pdAllow (erDecision r))"
proof -
  have "utf8_coerce ''read'' = ''read''" by (rule utf8_coerce_ascii) (simp add: ascii_def)
  then obtain doc where "structToMap demo_fmt (demo_input ''a'' ''read'' [] 1) = Ok doc"
    "opaEval demo_opa (enQuery demo_engine) doc = Ok [[GObj [(''allow'', GBool True)]]]"
    using demo_opa_eval [OF demo_input_request(1), of "''a''" "''read''" "[]" 1 "enQuery demo_engine"]
    by (auto simp: demo_engine_empty demo_input_request)
  then show ?thesis
    using evaluate_fail_closed [OF demo_engine_empty(1), of demo_opa demo_fmt "demo_env 0"
        "demo_input ''a'' ''read'' [] 1"]
    by (simp add: demo_engine_find demo_engine_empty)
qed

text \<open>
  C9. Provenance: in every state the engine reaches after its policies were loaded, by evaluations,
  policy data updates and cache sweeps in any order, a decision it returns, cached or not, is one
  that the current query gives for some input with the same cache key. In particular a data update
  is effective at once for every later request.
\<close>

theorem decision_provenance:
  assumes "list_all (\<lambda>op. \<not> is_load op) ops"
    and "e = engine_run opa fmt ops (snd (LoadPolicies opa modules (NewEngine opa cfg)))"
    and "enEnabled e" and "Evaluate opa fmt env i e = (Ok r, e')"
  shows "\<exists>j. ComputeKey j = ComputeKey i \<and> evaluatePolicy opa fmt j e = Ok (erDecision r)"
proof -
  have inv: "engine_inv opa fmt e"
    unfolding assms(2) by (rule engine_inv_run [OF engine_inv_start assms(1)])
  show ?thesis
  proof (cases "cache_find (enCache e) (ComputeKey i) (evGet env)")
    case (Some d)
    with inv have "provenance opa fmt e (ComputeKey i) d" by (auto simp: engine_inv_def dc.holds_only_def)
    with Some assms(3,4) show ?thesis by (auto simp: Evaluate_hit provenance_def)
  next
    case None
    with assms(3,4) show ?thesis by (auto simp: Evaluate_miss split: outcome.splits)
  qed
qed

lemma demo_evaluate_any:
  assumes "rqArguments (piRequest i) = None" and "enEnabled e"
    and "cache_find (enCache e) (ComputeKey i) (evGet env) = None"
  shows "\<exists>r. Evaluate demo_opa demo_fmt env i e = (Ok r, evaluated env i (erDecision r) e) \<and>
     pdAllow (erDecision r) = (utf8_coerce (rqTool (piRequest i)) = enQuery e)"
proof -
  let ?b = "utf8_coerce (rqTool (piRequest i)) = enQuery e"
  obtain doc where doc: "structToMap demo_fmt i = Ok doc"
    "opaEval demo_opa (enQuery e) doc = Ok [[GObj [(''allow'', GBool ?b)]]]"
    using demo_opa_eval [OF assms(1), of "enQuery e"] by blast
  obtain d where "decide [[GObj [(''allow'', GBool ?b)]]] = Ok d" "pdAllow d = ?b"
    by (simp add: decide_def parseDecision_def gindex_def Let_def)
  with doc show ?thesis by (simp add: Evaluate_miss [OF assms(2,3)] evaluatePolicy_def)
qed

lemma demo_evaluate:
  "\<exists>r. Evaluate demo_opa demo_fmt env (demo_input ''a'' tool [] n) demo_engine =
     (Ok r, evaluated env (demo_input ''a'' tool [] n) (erDecision r) demo_engine) \<and>
     pdAllow (erDecision r) = (utf8_coerce tool = ''read'')"
  using demo_evaluate_any [OF demo_input_request(1) demo_engine_empty(1) demo_engine_find]
  by (simp add: demo_input_request demo_engine_empty)

theorem decision_provenance_witness:
  "\<exists>j. ComputeKey j = ComputeKey (demo_input ''a'' ''read'' [] 1) \<and>
     (\<exists>d. evaluatePolicy demo_opa demo_fmt j demo_engine = Ok d)"
proof -
  obtain r where r: "Evaluate demo_opa demo_fmt (demo_env 0) (demo_input ''a'' ''read'' [] 1) demo_engine =
      (Ok r, evaluated (demo_env 0) (demo_input ''a'' ''read'' [] 1) (erDecision r) demo_engine)"
    using demo_evaluate by blast
  have "demo_engine = engine_run demo_opa demo_fmt []
      (snd (LoadPolicies demo_opa [(''main.rego'', ''read'')] (NewEngine demo_opa demo_engine_cfg)))"
    by (simp add: engine_run_def demo_engine_def)
  from decision_provenance [OF _ this demo_engine_empty(1) r] show ?thesis by auto
qed

text \<open>
  The cache decides without looking at the session: once a request has been decided by OPA, any
  request with the same agent ID, tool and capabilities gets that same decision until the entry
  expires, whatever its method, arguments, session and request count are. A policy that limits the
  number of requests of a session is therefore not consulted while the entry lives.
\<close>

lemma cached_decision_ignores_session:
  assumes "enEnabled e" and "dcEnabled (enCache e)"
    and "Evaluate opa fmt env i e = (Ok r, e')" and "\<not> erCacheHit r"
    and "acID (piAgent j) = acID (piAgent i)" and "rqTool (piRequest j) = rqTool (piRequest i)"
    and "acCapabilities (piAgent j) = acCapabilities (piAgent i)"
    and "evGet env' < evExpire env + l2TTL (enCache e)"
  shows "\<exists>r'. fst (Evaluate opa fmt env' j e') = Ok r' \<and> erDecision r' = erDecision r \<and> erCacheHit r'"
proof -
  have key: "ComputeKey j = ComputeKey i" using assms(5-7) by (simp add: ComputeKey_def)
  have "cache_find (enCache e) (ComputeKey i) (evGet env) = None"
    using assms(1,3,4) by (cases "cache_find (enCache e) (ComputeKey i) (evGet env)") (auto simp: Evaluate_hit)
  with assms(1,3) have e': "e' = evaluated env i (erDecision r) e"
    by (auto simp: Evaluate_miss split: outcome.splits)
  let ?c = "snd (Cache_Get (ComputeKey i) (evGet env) (enCache e))"
  have "dcEnabled ?c" "l2TTL ?c = l2TTL (enCache e)"
    using assms(2) by (auto simp: Cache_Get_def split: option.split)
  then have "cache_find (enCache e') (ComputeKey j) (evGet env') = Some (erDecision r)"
    using assms(8) by (simp add: cache_find_Some e' key Cache_Set_lookup_same)
  then show ?thesis using assms(1) by (simp add: Evaluate_hit e')
qed

text \<open>
  Reloading policies leaves cached decisions in force: after \<^verbatim>\<open>LoadPolicies\<close> with any new
  modules, a request with a live cache entry still gets the old decision and the new policy is not
  evaluated, whereas after \<^verbatim>\<open>SetPolicyData\<close> no key has a cached decision.
\<close>

lemma reload_serves_stale_decisions:
  assumes "enEnabled e" and "cache_find (enCache e) (ComputeKey i) (evGet env) = Some d"
  shows "(\<exists>r e'. Evaluate opa fmt env i (snd (LoadPolicies opa modules e)) = (Ok r, e') \<and>
      erDecision r = d \<and> erCacheHit r) \<and>
    cache_find (enCache (snd (SetPolicyData opa data e))) k t = None"
proof -
  let ?e = "snd (LoadPolicies opa modules e)"
  have "enEnabled ?e" "enCache ?e = enCache e"
    using assms(1) by (simp_all add: LoadPolicies_def compileWithData_def Let_def split: outcome.split)
  moreover have "enCache (snd (SetPolicyData opa data e)) = Invalidate (enCache e)"
    by (simp add: SetPolicyData_def Let_def)
  ultimately show ?thesis using assms(2) by (simp add: Evaluate_hit dc.find_clear)
qed

text \<open>
  The moving average of evaluation times lies between the previous average and the new
  measurement; the 64-bit products do not overflow as long as both are below a hundredth of the
  64-bit range.
\<close>

lemma updateAvgEvalTime_bounds:
  assumes "0 \<le> enAvgEvalTimeNs e" and "0 \<le> d"
    and "enAvgEvalTimeNs e \<le> max_int64 div 100" and "d \<le> max_int64 div 100"
  shows "min (enAvgEvalTimeNs e) d \<le> enAvgEvalTimeNs (updateAvgEvalTime d e) \<and>
    enAvgEvalTimeNs (updateAvgEvalTime d e) \<le> max (enAvgEvalTimeNs e) d"
proof -
  let ?a = "enAvgEvalTimeNs e"
  have le: "?a \<le> 92233720368547758" "d \<le> 92233720368547758"
    using assms(3,4) by (simp_all add: max_int64_def)
  then have "wrap64 (?a * 90) = ?a * 90" "wrap64 (d * 10) = d * 10"
    "wrap64 (?a * 90 + d * 10) = ?a * 90 + d * 10"
    using assms(1,2) by (auto intro!: wrap64_id simp: int64_defs)
  then show ?thesis
    using assms(1,2) weighted_mean_bounds [OF assms(1,2)] by (simp add: updateAvgEvalTime_def Let_def)
qed

end
