(* ===== verification/Session.thy ===== *)
theory Session
  imports Prelude
begin

text \<open>
  Client sessions: \<^verbatim>\<open>src/internal/session/types.go\<close> (the session object and its
  operations) and \<^verbatim>\<open>src/internal/session/manager.go\<close> (creation, lookup, deletion,
  expiry). Sessions are shared by pointer between the manager's map, the transports and the router,
  so the model has an explicit heap: the manager maps a session ID to the index of a session object,
  and an operation on a session writes the object in the heap.
\<close>

section \<open>The session object\<close>

record Session =
  sID :: string
  sCreatedAt :: time
  sLastActivityAt :: time
  sRequestCount :: int
  sAgentID :: string
  sAgentName :: string
  sCapabilities :: "string slice"
  sIdentityVerified :: bool
  sDID :: string
  sSourceIP :: string
  sUserAgent :: string
  sMessageChan :: "bytes list" \<comment> \<open>contents of the buffered channel, oldest first\<close>
  sDone :: bool \<comment> \<open>the channel \<^verbatim>\<open>Done\<close> has been closed\<close>

definition MessageChan_cap :: nat where
  "MessageChan_cap = 100"

text \<open>\<^verbatim>\<open>NewSession\<close> reads the clock twice, once per timestamp.\<close>

definition NewSession :: "string \<Rightarrow> time \<Rightarrow> time \<Rightarrow> Session" where
  "NewSession sessID t1 t2 =
     \<lparr>sID = sessID, sCreatedAt = t1, sLastActivityAt = t2, sRequestCount = 0, sAgentID = [],
      sAgentName = [], sCapabilities = None, sIdentityVerified = False, sDID = [], sSourceIP = [],
      sUserAgent = [], sMessageChan = [], sDone = False\<rparr>"

definition Session_IncrementRequestCount :: "time \<Rightarrow> Session \<Rightarrow> int \<times> Session" where
  "Session_IncrementRequestCount now s =
     (let s' = s\<lparr>sRequestCount := wrap64 (sRequestCount s + 1), sLastActivityAt := now\<rparr>
      in (sRequestCount s', s'))"

definition GetRequestCount :: "Session \<Rightarrow> int" where
  "GetRequestCount s = sRequestCount s"

definition SetAgent :: "string \<Rightarrow> string \<Rightarrow> string slice \<Rightarrow> Session \<Rightarrow> Session" where
  "SetAgent agentID agentName capabilities s =
     s\<lparr>sAgentID := agentID, sAgentName := agentName, sCapabilities := capabilities\<rparr>"

definition SetIdentity :: "bool \<Rightarrow> string \<Rightarrow> Session \<Rightarrow> Session" where
  "SetIdentity verified did s = s\<lparr>sIdentityVerified := verified, sDID := did\<rparr>"

definition SetClientInfo :: "string \<Rightarrow> string \<Rightarrow> Session \<Rightarrow> Session" where
  "SetClientInfo sourceIP userAgent s = s\<lparr>sSourceIP := sourceIP, sUserAgent := userAgent\<rparr>"

definition Session_Close :: "Session \<Rightarrow> Session" where
  "Session_Close s = (if sDone s then s else s\<lparr>sDone := True\<rparr>)"

definition IsClosed :: "Session \<Rightarrow> bool" where
  "IsClosed s = sDone s"

text \<open>
  \<^verbatim>\<open>SendMessage\<close> selects among the ready cases. When the session is closed and the channel has
  room, both communications are ready and the Go runtime picks one: the argument \<open>pick\<close> is
  that choice (true: the send).
\<close>

definition SendMessage :: "bool \<Rightarrow> bytes \<Rightarrow> Session \<Rightarrow> bool \<times> Session" where
  "SendMessage pick msg s =
     (let room = length (sMessageChan s) < MessageChan_cap;
          sent = (True, s\<lparr>sMessageChan := sMessageChan s @ [msg]\<rparr>)
      in if sDone s \<and> room then (if pick then sent else (False, s))
         else if sDone s then (False, s)
         else if room then sent
         else (False, s))"

text \<open>The receive of the event loop of a transport: the oldest queued message.\<close>

definition RecvMessage :: "Session \<Rightarrow> bytes option \<times> Session" where
  "RecvMessage s = (case sMessageChan s of
      [] \<Rightarrow> (None, s)
    | m # ms \<Rightarrow> (Some m, s\<lparr>sMessageChan := ms\<rparr>))"

definition Age :: "time \<Rightarrow> Session \<Rightarrow> duration" where
  "Age now s = time_sub now (sCreatedAt s)"

definition IdleTime :: "time \<Rightarrow> Session \<Rightarrow> duration" where
  "IdleTime now s = time_sub now (sLastActivityAt s)"

section \<open>The session manager\<close>

datatype SessionError = ErrMaxSessionsReached | ErrSessionNotFound

definition SessionError_Error :: "SessionError \<Rightarrow> string" where
  "SessionError_Error e = (case e of
      ErrMaxSessionsReached \<Rightarrow> ''maximum sessions limit reached''
    | ErrSessionNotFound \<Rightarrow> ''session not found'')"

record ManagerConfig =
  cfgSessionTTL :: duration
  cfgCleanupInterval :: duration
  cfgMaxSessions :: int

definition DefaultManagerConfig :: ManagerConfig where
  "DefaultManagerConfig =
     \<lparr>cfgSessionTTL = 2 * hour, cfgCleanupInterval = 1 * minute, cfgMaxSessions = 10000\<rparr>"

text \<open>
  The manager with the heap of session objects it shares with its clients. \<open>mTicker\<close> is
  the interval of the cleanup ticker once \<^verbatim>\<open>Start\<close> has created it, \<open>mDone\<close> that
  the channel \<^verbatim>\<open>done\<close> is closed.
\<close>

record Manager =
  mSessions :: "(string, nat) gomap"
  mHeap :: "Session list"
  mTTL :: duration
  mTicker :: "duration option"
  mMax :: int
  mActive :: int
  mCreated :: int
  mDone :: bool

definition NewManager :: "ManagerConfig \<Rightarrow> Manager" where
  "NewManager cfg =
     (let cfg1 = (if cfgSessionTTL cfg = 0 then cfg\<lparr>cfgSessionTTL := 2 * hour\<rparr> else cfg);
          cfg2 = (if cfgCleanupInterval cfg1 = 0 then cfg1\<lparr>cfgCleanupInterval := 1 * minute\<rparr>
                  else cfg1);
          cfg3 = (if cfgMaxSessions cfg2 = 0 then cfg2\<lparr>cfgMaxSessions := 10000\<rparr> else cfg2)
      in \<lparr>mSessions = [], mHeap = [], mTTL = cfgSessionTTL cfg3, mTicker = None,
          mMax = cfgMaxSessions cfg3, mActive = 0, mCreated = 0, mDone = False\<rparr>)"

definition Manager_Start :: "Manager \<Rightarrow> Manager" where
  "Manager_Start m = m\<lparr>mTicker := Some (1 * minute)\<rparr>"

text \<open>Writing a session object.\<close>

definition upd_session :: "nat \<Rightarrow> (Session \<Rightarrow> Session) \<Rightarrow> Manager \<Rightarrow> Manager" where
  "upd_session r f m = m\<lparr>mHeap := (mHeap m)[r := f (mHeap m ! r)]\<rparr>"

text \<open>
  \<^verbatim>\<open>Create\<close>: \<open>uuid\<close> is the text of the random UUID drawn by the UUID package, a
  parameter; the result is the error or the heap index of the new session.
\<close>

definition Manager_Create ::
    "string \<Rightarrow> time \<Rightarrow> time \<Rightarrow> Manager \<Rightarrow> (SessionError + nat) \<times> Manager" where
  "Manager_Create uuid t1 t2 m =
     (if mActive m \<ge> mMax m then (Inl ErrMaxSessionsReached, m)
      else let sessionID = ''sess_'' @ uuid;
               sess = NewSession sessionID t1 t2;
               r = length (mHeap m)
           in (Inr r, m\<lparr>mHeap := mHeap m @ [sess],
                        mSessions := AList.update sessionID r (mSessions m),
                        mActive := wrap64 (mActive m + 1),
                        mCreated := wrap64 (mCreated m + 1)\<rparr>))"

definition Manager_Delete :: "string \<Rightarrow> Manager \<Rightarrow> Manager" where
  "Manager_Delete sessionID m = (case map_of (mSessions m) sessionID of
      None \<Rightarrow> m
    | Some r \<Rightarrow>
        let m1 = m\<lparr>mSessions := AList.delete sessionID (mSessions m)\<rparr>;
            m2 = upd_session r Session_Close m1
        in m2\<lparr>mActive := wrap64 (mActive m2 - 1)\<rparr>)"

definition Manager_Get :: "string \<Rightarrow> Manager \<Rightarrow> nat option \<times> Manager" where
  "Manager_Get sessionID m = (case map_of (mSessions m) sessionID of
      None \<Rightarrow> (None, m)
    | Some r \<Rightarrow>
        if IsClosed (mHeap m ! r) then (None, Manager_Delete sessionID m)
        else (Some r, m))"

definition Manager_IncrementRequestCount :: "string \<Rightarrow> time \<Rightarrow> Manager \<Rightarrow> int \<times> Manager" where
  "Manager_IncrementRequestCount sessionID now m = (case Manager_Get sessionID m of
      (None, m') \<Rightarrow> (0, m')
    | (Some r, m') \<Rightarrow>
        (fst (Session_IncrementRequestCount now (mHeap m' ! r)),
         upd_session r (\<lambda>s. snd (Session_IncrementRequestCount now s)) m'))"

definition ActiveCount :: "Manager \<Rightarrow> int" where
  "ActiveCount m = mActive m"

definition TotalCreated :: "Manager \<Rightarrow> int" where
  "TotalCreated m = mCreated m"

text \<open>
  One visit of \<^verbatim>\<open>cleanup\<close>'s \<^verbatim>\<open>Range\<close> callback. \<open>clk k\<close> holds the two clock
  readings made while visiting key \<open>k\<close>, one by \<^verbatim>\<open>Age\<close> and one by
  \<^verbatim>\<open>IdleTime\<close>. \<^verbatim>\<open>cleanup\<close> visits the keys in the order \<open>ks\<close> that
  \<^verbatim>\<open>Range\<close> yields them; a key no longer stored is not visited.
\<close>

definition cleanup_remove :: "string \<Rightarrow> Manager \<Rightarrow> Manager" where
  "cleanup_remove k m = m\<lparr>mSessions := AList.delete k (mSessions m), mActive := wrap64 (mActive m - 1)\<rparr>"

definition cleanup_visit :: "(string \<Rightarrow> time \<times> time) \<Rightarrow> string \<Rightarrow> Manager \<Rightarrow> Manager" where
  "cleanup_visit clk k m = (case map_of (mSessions m) k of
      None \<Rightarrow> m
    | Some r \<Rightarrow>
        if IsClosed (mHeap m ! r) then cleanup_remove k m
        else if Age (fst (clk k)) (mHeap m ! r) > mTTL m then
          cleanup_remove k (upd_session r Session_Close m)
        else if IdleTime (snd (clk k)) (mHeap m ! r) > mTTL m sdiv 2 then
          cleanup_remove k (upd_session r Session_Close m)
        else m)"

definition Manager_cleanup :: "string list \<Rightarrow> (string \<Rightarrow> time \<times> time) \<Rightarrow> Manager \<Rightarrow> Manager" where
  "Manager_cleanup ks clk m = fold (cleanup_visit clk) ks m"

definition Manager_List :: "Manager \<Rightarrow> nat list" where
  "Manager_List m = filter (\<lambda>r. \<not> IsClosed (mHeap m ! r)) (map snd (mSessions m))"

text \<open>
  \<^verbatim>\<open>Stop\<close> closes the channel \<^verbatim>\<open>done\<close>, which panics (\<^const>\<open>None\<close>) when it is
  closed already, then closes and removes every session.
\<close>

definition Manager_Stop :: "Manager \<Rightarrow> Manager option" where
  "Manager_Stop m =
     (if mDone m then None
      else Some (fold (\<lambda>(k, r) m'. (upd_session r Session_Close m')
                          \<lparr>mSessions := AList.delete k (mSessions m')\<rparr>)
                   (mSessions m) (m\<lparr>mDone := True\<rparr>)))"

section \<open>The manager as a transition system\<close>

text \<open>
  The operations that clients holding a pointer to a session perform on it.
\<close>

datatype session_op =
    OpIncrement time
  | OpSetAgent string string "string slice"
  | OpSetIdentity bool string
  | OpSetClientInfo string string
  | OpClose
  | OpSend bool bytes
  | OpRecv

fun apply_session_op :: "session_op \<Rightarrow> Session \<Rightarrow> Session" where
  "apply_session_op (OpIncrement now) s = snd (Session_IncrementRequestCount now s)"
| "apply_session_op (OpSetAgent i n c) s = SetAgent i n c s"
| "apply_session_op (OpSetIdentity v d) s = SetIdentity v d s"
| "apply_session_op (OpSetClientInfo ip ua) s = SetClientInfo ip ua s"
| "apply_session_op OpClose s = Session_Close s"
| "apply_session_op (OpSend pick msg) s = snd (SendMessage pick msg s)"
| "apply_session_op OpRecv s = snd (RecvMessage s)"

text \<open>
  The initial managers: any configuration whose limit is a Go \<^verbatim>\<open>int\<close>. A step is one
  operation run to completion; \<^verbatim>\<open>Create\<close> assumes what the UUID package documents, that a
  drawn UUID has not been drawn before.
\<close>

definition mgr_init :: "Manager \<Rightarrow> bool" where
  "mgr_init m \<longleftrightarrow> (\<exists>cfg. cfgMaxSessions cfg \<le> max_int64 \<and> m = NewManager cfg)"

inductive mgr_step :: "Manager \<Rightarrow> Manager \<Rightarrow> bool" where
  step_start: "mgr_step m (Manager_Start m)"
| step_create: "map_of (mSessions m) (''sess_'' @ uuid) = None \<Longrightarrow>
    mgr_step m (snd (Manager_Create uuid t1 t2 m))"
| step_get: "mgr_step m (snd (Manager_Get k m))"
| step_delete: "mgr_step m (Manager_Delete k m)"
| step_increment: "mgr_step m (snd (Manager_IncrementRequestCount k now m))"
| step_cleanup: "mgr_step m (Manager_cleanup ks clk m)"
| step_stop: "Manager_Stop m = Some m' \<Longrightarrow> mgr_step m m'"
| step_session: "mgr_step m (upd_session r (apply_session_op op) m)"

text \<open>
  The invariant: keys are distinct, every stored index is a heap object whose ID is its key, the
  active counter is the number of stored sessions as long as the manager has not been stopped, and
  it never exceeds the limit.
\<close>

definition mgr_shape :: "Manager \<Rightarrow> bool" where
  "mgr_shape m \<longleftrightarrow> gm_wf (mSessions m) \<and>
     (\<forall>(k, r) \<in> set (mSessions m). r < length (mHeap m) \<and> sID (mHeap m ! r) = k)"

definition mgr_count :: "Manager \<Rightarrow> bool" where
  "mgr_count m \<longleftrightarrow> int (length (mSessions m)) \<le> mActive m \<and> mActive m \<le> max 0 (mMax m) \<and>
     mMax m \<le> max_int64 \<and> (mDone m \<or> mActive m = int (length (mSessions m)))"

definition mgr_inv :: "Manager \<Rightarrow> bool" where
  "mgr_inv m \<longleftrightarrow> mgr_shape m \<and> mgr_count m"

section \<open>Lemmas on the session object\<close>

lemmas session_defs = Session_IncrementRequestCount_def SetAgent_def SetIdentity_def
  SetClientInfo_def Session_Close_def SendMessage_def RecvMessage_def IsClosed_def Let_def

lemma sID_session_op [simp]: "sID (apply_session_op op s) = sID s"
  by (cases op) (auto simp: session_defs split: list.splits)

lemma sID_Session_Close [simp]: "sID (Session_Close s) = sID s"
  by (simp add: session_defs)

lemma IsClosed_Session_Close [simp]: "IsClosed (Session_Close s)"
  by (simp add: session_defs)

lemma sDone_session_op: "sDone s \<Longrightarrow> sDone (apply_session_op op s)"
  by (cases op) (auto simp: session_defs split: list.splits)

lemma session_op_chan_bound:
  "length (sMessageChan s) \<le> MessageChan_cap \<Longrightarrow>
   length (sMessageChan (apply_session_op op s)) \<le> MessageChan_cap"
  by (cases op) (auto simp: session_defs split: list.splits)

section \<open>Every operation keeps the manager's invariant\<close>

lemma upd_session_simps [simp]:
  "mSessions (upd_session r f m) = mSessions m" "mActive (upd_session r f m) = mActive m"
  "mMax (upd_session r f m) = mMax m" "mDone (upd_session r f m) = mDone m"
  "mTTL (upd_session r f m) = mTTL m" "mCreated (upd_session r f m) = mCreated m"
  "mTicker (upd_session r f m) = mTicker m"
  "mHeap (upd_session r f m) = (mHeap m)[r := f (mHeap m ! r)]"
  by (simp_all add: upd_session_def)

lemma sID_heap_write: "(\<And>s. sID (f s) = sID s) \<Longrightarrow> sID (h[r := f (h ! r)] ! i) = sID (h ! i)"
  by (cases "r < length h"; cases "i = r") (simp_all add: list_update_beyond)

lemma upd_session_shape:
  "(\<And>s. sID (f s) = sID s) \<Longrightarrow> mgr_shape m \<Longrightarrow> mgr_shape (upd_session r f m)"
  by (simp add: mgr_shape_def sID_heap_write)

lemma upd_session_count: "mgr_count (upd_session r f m) = mgr_count m"
  by (simp add: mgr_count_def)

lemma upd_session_inv [op_invs]: "(\<And>s. sID (f s) = sID s) \<Longrightarrow> mgr_inv m \<Longrightarrow> mgr_inv (upd_session r f m)"
  by (simp add: mgr_inv_def upd_session_shape upd_session_count)

lemma shape_active [simp]: "mgr_shape (m\<lparr>mActive := a\<rparr>) = mgr_shape m"
  by (simp add: mgr_shape_def)

lemma shape_delete_key:
  "mgr_shape m \<Longrightarrow> mgr_shape (m\<lparr>mSessions := AList.delete k (mSessions m)\<rparr>)"
  using set_gm_del [of k "mSessions m"]
  by (fastforce simp: mgr_shape_def distinct_delete)

lemma count_delete_key:
  assumes "gm_wf (mSessions m)" and "mgr_count m" and "map_of (mSessions m) k = Some r"
  shows "mgr_count (m\<lparr>mSessions := AList.delete k (mSessions m), mActive := wrap64 (mActive m - 1)\<rparr>)"
proof -
  from assms(1,3) have "Suc (length (AList.delete k (mSessions m))) = length (mSessions m)"
    by (rule gm.entries_del_present)
  moreover from this assms(2) have "wrap64 (mActive m - 1) = mActive m - 1"
    by (intro wrap64_id) (auto simp: mgr_count_def int64_defs)
  ultimately show ?thesis using assms(2) by (auto simp: mgr_count_def)
qed

lemma cleanup_remove_inv:
  "mgr_inv m \<Longrightarrow> map_of (mSessions m) k = Some r \<Longrightarrow> mgr_inv (cleanup_remove k m)"
  by (auto simp: mgr_inv_def cleanup_remove_def intro!: shape_delete_key count_delete_key)
     (simp add: mgr_shape_def)

lemma cleanup_visit_inv: "mgr_inv m \<Longrightarrow> mgr_inv (cleanup_visit clk k m)"
  by (auto simp: cleanup_visit_def upd_session_inv split: option.splits
      intro!: cleanup_remove_inv)

lemma Manager_cleanup_inv [op_invs]: "mgr_inv m \<Longrightarrow> mgr_inv (Manager_cleanup ks clk m)"
  unfolding Manager_cleanup_def
  by (induction ks arbitrary: m) (simp_all add: cleanup_visit_inv)

lemma Manager_Delete_eq:
  "Manager_Delete k m = (case map_of (mSessions m) k of
      None \<Rightarrow> m
    | Some r \<Rightarrow> cleanup_remove k (upd_session r Session_Close m))"
  by (simp add: Manager_Delete_def cleanup_remove_def upd_session_def Let_def split: option.split)

lemma Manager_Delete_inv [op_invs]: "mgr_inv m \<Longrightarrow> mgr_inv (Manager_Delete k m)"
  by (auto simp: Manager_Delete_eq upd_session_inv split: option.splits intro!: cleanup_remove_inv)

lemma Manager_Get_state:
  "snd (Manager_Get k m) = m \<or> snd (Manager_Get k m) = Manager_Delete k m"
  by (simp add: Manager_Get_def split: option.split)

lemma Manager_Get_inv [op_invs]: "mgr_inv m \<Longrightarrow> mgr_inv (snd (Manager_Get k m))"
  using Manager_Get_state [of k m] by (auto simp: Manager_Delete_inv)

lemma Manager_IncrementRequestCount_inv [op_invs]:
  "mgr_inv m \<Longrightarrow> mgr_inv (snd (Manager_IncrementRequestCount k now m))"
  using Manager_Get_inv [of m k]
  by (auto simp: Manager_IncrementRequestCount_def Session_IncrementRequestCount_def Let_def
      split: prod.splits option.splits intro!: upd_session_inv)

lemma Manager_Create_inv [op_invs]:
  assumes inv: "mgr_inv m" and fresh: "map_of (mSessions m) (''sess_'' @ uuid) = None"
  shows "mgr_inv (snd (Manager_Create uuid t1 t2 m))"
proof (cases "mActive m \<ge> mMax m")
  case True
  with inv show ?thesis by (simp add: Manager_Create_def)
next
  case False
  have wf: "gm_wf (mSessions m)" using inv by (simp add: mgr_inv_def mgr_shape_def)
  have len: "length (AList.update (''sess_'' @ uuid) r (mSessions m)) = Suc (length (mSessions m))" for r
    using wf fresh by (rule gm.entries_put_new)
  have "wrap64 (mActive m + 1) = mActive m + 1"
    using inv False by (intro wrap64_id) (auto simp: mgr_inv_def mgr_count_def int64_defs)
  then have "mgr_count (snd (Manager_Create uuid t1 t2 m))"
    using inv False len by (auto simp: Manager_Create_def mgr_inv_def mgr_count_def Let_def)
  moreover have "mgr_shape (snd (Manager_Create uuid t1 t2 m))"
    using inv False wf
    by (auto simp: Manager_Create_def mgr_inv_def mgr_shape_def Let_def NewSession_def
        distinct_update nth_append dest!: subsetD [OF set_gm_put])
  ultimately show ?thesis by (simp add: mgr_inv_def)
qed

lemma stop_fold:
  assumes "mgr_inv m" and "mDone m"
  shows "mgr_inv (fold (\<lambda>(k, r) m'. (upd_session r Session_Close m')
      \<lparr>mSessions := AList.delete k (mSessions m')\<rparr>) es m)"
  using assms
proof (induction es arbitrary: m)
  case Nil
  then show ?case by simp
next
  case (Cons e es)
  obtain k r where e: "e = (k, r)" by (cases e)
  let ?m = "(upd_session r Session_Close m)\<lparr>mSessions := AList.delete k (mSessions m)\<rparr>"
  have "length (AList.delete k (mSessions m)) \<le> length (mSessions m)"
    by (rule length_delete_le)
  then have "mgr_count ?m" using Cons.prems by (auto simp: mgr_inv_def mgr_count_def)
  moreover have "mgr_shape ?m"
    using Cons.prems shape_delete_key [of "upd_session r Session_Close m" k]
    by (simp add: mgr_inv_def upd_session_shape)
  ultimately have "mgr_inv ?m" and "mDone ?m"
    using Cons.prems by (simp_all add: mgr_inv_def)
  then show ?case using Cons.IH [of ?m] by (simp add: e)
qed

lemma Manager_Stop_inv [op_invs]: "mgr_inv m \<Longrightarrow> Manager_Stop m = Some m' \<Longrightarrow> mgr_inv m'"
  using stop_fold [of "m\<lparr>mDone := True\<rparr>" "mSessions m"]
  by (auto simp: Manager_Stop_def mgr_inv_def mgr_shape_def mgr_count_def split: if_splits)

lemma mgr_init_inv: "mgr_init m \<Longrightarrow> mgr_inv m"
  by (auto simp: mgr_init_def mgr_inv_def mgr_shape_def mgr_count_def NewManager_def Let_def
      int64_defs)

lemma Manager_Start_inv [op_invs]: "mgr_inv m \<Longrightarrow> mgr_inv (Manager_Start m)"
  by (simp add: Manager_Start_def mgr_inv_def mgr_shape_def mgr_count_def)

lemma mgr_step_inv: "mgr_inv m \<Longrightarrow> mgr_step m m' \<Longrightarrow> mgr_inv m'"
  by (erule mgr_step.cases) (auto intro: op_invs)

interpretation mgr: safe_system mgr_init mgr_step mgr_inv
  by unfold_locales (rule mgr_init_inv, assumption, rule mgr_step_inv)

section \<open>What cleanup and deletion do to each session\<close>

definition removable :: "(string \<Rightarrow> time \<times> time) \<Rightarrow> duration \<Rightarrow> Session \<Rightarrow> bool" where
  "removable clk ttl s \<longleftrightarrow> IsClosed s \<or> ttl < Age (fst (clk (sID s))) s \<or>
     ttl sdiv 2 < IdleTime (snd (clk (sID s))) s"

lemma shape_lookup:
  "mgr_shape m \<Longrightarrow> map_of (mSessions m) k = Some r \<Longrightarrow> r < length (mHeap m) \<and> sID (mHeap m ! r) = k"
  by (auto simp: mgr_shape_def dest!: map_of_SomeD)

lemma cleanup_remove_shape: "mgr_shape m \<Longrightarrow> mgr_shape (cleanup_remove k m)"
  by (simp add: cleanup_remove_def shape_delete_key)

lemma cleanup_visit_shape: "mgr_shape m \<Longrightarrow> mgr_shape (cleanup_visit clk k m)"
  by (simp add: cleanup_visit_def cleanup_remove_shape upd_session_shape split: option.split)

lemma cleanup_visit_ttl [simp]: "mTTL (cleanup_visit clk k m) = mTTL m"
  by (simp add: cleanup_visit_def cleanup_remove_def split: option.split)

lemma cleanup_visit_length [simp]: "length (mHeap (cleanup_visit clk k m)) = length (mHeap m)"
  by (simp add: cleanup_visit_def cleanup_remove_def split: option.split)

lemma cleanup_visit_lookup:
  assumes "mgr_shape m"
  shows "map_of (mSessions (cleanup_visit clk k m)) k' = (case map_of (mSessions m) k' of
      None \<Rightarrow> None
    | Some r \<Rightarrow> if k' = k \<and> removable clk (mTTL m) (mHeap m ! r) then None else Some r)"
  using shape_lookup [OF assms, of k]
  by (auto simp: cleanup_visit_def cleanup_remove_def removable_def delete_conv'
      split: option.splits)

lemma cleanup_visit_heap:
  assumes "mgr_shape m" and "r < length (mHeap m)"
  shows "mHeap (cleanup_visit clk k m) ! r =
    (if map_of (mSessions m) k = Some r \<and> removable clk (mTTL m) (mHeap m ! r)
     then Session_Close (mHeap m ! r) else mHeap m ! r)"
  using shape_lookup [OF assms(1), of k] assms(2)
  by (auto simp: cleanup_visit_def cleanup_remove_def removable_def nth_list_update
      Session_Close_def IsClosed_def split: option.splits)

lemma cleanup_lookup:
  assumes "mgr_shape m" and "distinct ks"
  shows "map_of (mSessions (Manager_cleanup ks clk m)) k = (case map_of (mSessions m) k of
      None \<Rightarrow> None
    | Some r \<Rightarrow> if k \<in> set ks \<and> removable clk (mTTL m) (mHeap m ! r) then None else Some r)"
  using assms
proof (induction ks arbitrary: m)
  case Nil
  then show ?case by (simp add: Manager_cleanup_def split: option.split)
next
  case (Cons x ks)
  have shape: "mgr_shape (cleanup_visit clk x m)" using Cons.prems by (simp add: cleanup_visit_shape)
  have "mHeap (cleanup_visit clk x m) ! r = mHeap m ! r"
    if "map_of (mSessions m) k = Some r" "k \<noteq> x" for r
    using that Cons.prems(1) by (metis cleanup_visit_heap shape_lookup)
  then show ?case
    using Cons.IH [OF shape] Cons.prems
    by (auto simp: Manager_cleanup_def cleanup_visit_lookup split: option.splits)
qed

lemma cleanup_heap:
  assumes "mgr_shape m" and "map_of (mSessions m) k = Some r" and "k \<in> set ks" and "distinct ks"
  shows "mHeap (Manager_cleanup ks clk m) ! r =
    (if removable clk (mTTL m) (mHeap m ! r) then Session_Close (mHeap m ! r) else mHeap m ! r)"
proof -
  have frame: "mHeap (Manager_cleanup qs clk n) ! r = mHeap n ! r"
    if "mgr_shape n" "r < length (mHeap n)" "sID (mHeap n ! r) \<notin> set qs" for qs n
    using that
  proof (induction qs arbitrary: n)
    case Nil
    then show ?case by (simp add: Manager_cleanup_def)
  next
    case (Cons x qs)
    have "mHeap (cleanup_visit clk x n) ! r = mHeap n ! r"
      using Cons.prems by (auto simp: cleanup_visit_heap dest: shape_lookup)
    with Cons show ?case by (simp add: Manager_cleanup_def cleanup_visit_shape)
  qed
  obtain as bs where ks: "ks = as @ k # bs" using assms(3) by (meson split_list)
  let ?m1 = "Manager_cleanup as clk m"
  have keep: "mgr_shape (Manager_cleanup qs clk n) \<and> mTTL (Manager_cleanup qs clk n) = mTTL n \<and>
      length (mHeap (Manager_cleanup qs clk n)) = length (mHeap n)" if "mgr_shape n" for qs n
    using that by (induction qs arbitrary: n) (simp_all add: Manager_cleanup_def cleanup_visit_shape)
  have r: "r < length (mHeap m)" "sID (mHeap m ! r) = k" using shape_lookup [OF assms(1,2)] by auto
  have h1: "mHeap ?m1 ! r = mHeap m ! r" using frame [OF assms(1) r(1)] r(2) assms(4) ks by auto
  have "map_of (mSessions ?m1) k = Some r"
    using assms(2,4) ks by (simp add: cleanup_lookup [OF assms(1)])
  with h1 r keep [OF assms(1), of as] have h2: "mHeap (cleanup_visit clk k ?m1) ! r =
      (if removable clk (mTTL m) (mHeap m ! r) then Session_Close (mHeap m ! r) else mHeap m ! r)"
    by (simp add: cleanup_visit_heap)
  have "mHeap (Manager_cleanup bs clk (cleanup_visit clk k ?m1)) ! r = mHeap (cleanup_visit clk k ?m1) ! r"
    using keep [OF assms(1), of as] r h2 assms(4) ks
    by (intro frame) (auto simp: cleanup_visit_shape)
  moreover have "Manager_cleanup ks clk m = Manager_cleanup bs clk (cleanup_visit clk k ?m1)"
    by (simp add: ks Manager_cleanup_def)
  ultimately show ?thesis by (simp add: h2)
qed

section \<open>Interleaved deletions\<close>

text \<open>
  \<^verbatim>\<open>Create\<close> holds the lock throughout, but \<^verbatim>\<open>Delete\<close> and the callback of
  \<^verbatim>\<open>cleanup\<close> are several atomic actions: removing the key (\<^verbatim>\<open>LoadAndDelete\<close>,
  \<^verbatim>\<open>Delete\<close>) and, later, the locked decrement. \<open>cDeleters\<close> counts the calls of
  \<^verbatim>\<open>Delete\<close> that have removed their session and still have to decrement;
  \<open>cCleanup\<close> is the position of the single cleanup goroutine in its callback. The flag of
  the step relation says whether the cleanup goroutine runs.
\<close>

datatype cleanup_pc = CIdle | CDelete string | CDec

record cmgr =
  cMgr :: Manager
  cDeleters :: nat
  cCleanup :: cleanup_pc

inductive cmgr_step :: "bool \<Rightarrow> cmgr \<Rightarrow> cmgr \<Rightarrow> bool" for ticking :: bool where
  c_create: "map_of (mSessions (cMgr c)) (''sess_'' @ uuid) = None \<Longrightarrow>
    cmgr_step ticking c (c\<lparr>cMgr := snd (Manager_Create uuid t1 t2 (cMgr c))\<rparr>)"
| c_delete_load: "map_of (mSessions (cMgr c)) k = Some r \<Longrightarrow>
    cmgr_step ticking c (c\<lparr>cMgr := upd_session r Session_Close
        ((cMgr c)\<lparr>mSessions := AList.delete k (mSessions (cMgr c))\<rparr>),
      cDeleters := Suc (cDeleters c)\<rparr>)"
| c_delete_dec: "cDeleters c = Suc n \<Longrightarrow>
    cmgr_step ticking c (c\<lparr>cMgr := (cMgr c)\<lparr>mActive := wrap64 (mActive (cMgr c) - 1)\<rparr>,
      cDeleters := n\<rparr>)"
| c_cleanup_visit: "ticking \<Longrightarrow> cCleanup c = CIdle \<Longrightarrow> map_of (mSessions (cMgr c)) k = Some r \<Longrightarrow>
    removable clk (mTTL (cMgr c)) (mHeap (cMgr c) ! r) \<Longrightarrow>
    cmgr_step ticking c (c\<lparr>cMgr := upd_session r Session_Close (cMgr c), cCleanup := CDelete k\<rparr>)"
| c_cleanup_delete: "cCleanup c = CDelete k \<Longrightarrow>
    cmgr_step ticking c (c\<lparr>cMgr := (cMgr c)\<lparr>mSessions := AList.delete k (mSessions (cMgr c))\<rparr>,
      cCleanup := CDec\<rparr>)"
| c_cleanup_dec: "cCleanup c = CDec \<Longrightarrow>
    cmgr_step ticking c (c\<lparr>cMgr := (cMgr c)\<lparr>mActive := wrap64 (mActive (cMgr c) - 1)\<rparr>,
      cCleanup := CIdle\<rparr>)"
| c_session: "cmgr_step ticking c (c\<lparr>cMgr := upd_session r (apply_session_op op) (cMgr c)\<rparr>)"

definition cmgr_init :: "cmgr \<Rightarrow> bool" where
  "cmgr_init c \<longleftrightarrow> mgr_init (cMgr c) \<and> cDeleters c = 0 \<and> cCleanup c = CIdle"

text \<open>Without the cleanup goroutine the count is exact up to the deletions in progress.\<close>

definition cmgr_inv :: "cmgr \<Rightarrow> bool" where
  "cmgr_inv c \<longleftrightarrow> gm_wf (mSessions (cMgr c)) \<and> cCleanup c = CIdle \<and>
     mActive (cMgr c) = int (length (mSessions (cMgr c))) + int (cDeleters c) \<and>
     mActive (cMgr c) \<le> max 0 (mMax (cMgr c)) \<and> mMax (cMgr c) \<le> max_int64"

lemma cmgr_create_inv:
  assumes inv: "cmgr_inv c" and fresh: "map_of (mSessions (cMgr c)) (''sess_'' @ uuid) = None"
  shows "cmgr_inv (c\<lparr>cMgr := snd (Manager_Create uuid t1 t2 (cMgr c))\<rparr>)"
proof (cases "mActive (cMgr c) \<ge> mMax (cMgr c)")
  case True
  with inv show ?thesis by (simp add: Manager_Create_def)
next
  case False
  have wf: "gm_wf (mSessions (cMgr c))" using inv by (simp add: cmgr_inv_def)
  have "length (AList.update (''sess_'' @ uuid) r (mSessions (cMgr c))) =
      Suc (length (mSessions (cMgr c)))" for r
    using wf fresh by (rule gm.entries_put_new)
  moreover have "wrap64 (mActive (cMgr c) + 1) = mActive (cMgr c) + 1"
    using inv False by (intro wrap64_id) (auto simp: cmgr_inv_def int64_defs)
  ultimately show ?thesis
    using inv False by (auto simp: Manager_Create_def cmgr_inv_def Let_def distinct_update)
qed

lemma cmgr_delete_load_inv:
  assumes "cmgr_inv c" and k: "map_of (mSessions (cMgr c)) k = Some r"
  shows "cmgr_inv (c\<lparr>cMgr := upd_session r Session_Close
      ((cMgr c)\<lparr>mSessions := AList.delete k (mSessions (cMgr c))\<rparr>), cDeleters := Suc (cDeleters c)\<rparr>)"
proof -
  have "gm_wf (mSessions (cMgr c))" using assms by (simp add: cmgr_inv_def)
  then have "Suc (length (AList.delete k (mSessions (cMgr c)))) = length (mSessions (cMgr c))"
    using k by (rule gm.entries_del_present)
  then show ?thesis using assms by (auto simp: cmgr_inv_def distinct_delete)
qed

lemma cmgr_delete_dec_inv:
  assumes "cmgr_inv c" and "cDeleters c = Suc n"
  shows "cmgr_inv (c\<lparr>cMgr := (cMgr c)\<lparr>mActive := wrap64 (mActive (cMgr c) - 1)\<rparr>, cDeleters := n\<rparr>)"
proof -
  have "wrap64 (mActive (cMgr c) - 1) = mActive (cMgr c) - 1"
    using assms by (intro wrap64_id) (auto simp: cmgr_inv_def int64_defs)
  then show ?thesis using assms by (auto simp: cmgr_inv_def)
qed

lemma cmgr_session_inv: "cmgr_inv (c\<lparr>cMgr := upd_session r f (cMgr c)\<rparr>) = cmgr_inv c"
  by (simp add: cmgr_inv_def)

lemma cmgr_inv_idle: "cmgr_inv c \<Longrightarrow> cCleanup c = CIdle"
  by (simp add: cmgr_inv_def)

lemma cmgr_step_inv: "cmgr_inv c \<Longrightarrow> cmgr_step False c d \<Longrightarrow> cmgr_inv d"
  by (erule cmgr_step.cases)
     (auto intro: cmgr_create_inv cmgr_delete_load_inv cmgr_delete_dec_inv
       simp: cmgr_session_inv dest: cmgr_inv_idle)

lemma cmgr_init_inv: "cmgr_init c \<Longrightarrow> cmgr_inv c"
  using mgr_init_inv [of "cMgr c"]
  by (auto simp: cmgr_init_def cmgr_inv_def mgr_inv_def mgr_shape_def mgr_count_def mgr_init_def
      NewManager_def Let_def)

interpretation cmgr: safe_system cmgr_init "cmgr_step False" cmgr_inv
  by unfold_locales (rule cmgr_init_inv, assumption, rule cmgr_step_inv)

section \<open>Properties\<close>

text \<open>
  C10. In every state the session manager reaches by complete operations, the stored sessions never
  exceed the configured limit, and until \<^verbatim>\<open>Stop\<close> the active counter is exactly their number.
\<close>

theorem session_limit:
  assumes "reach mgr_init mgr_step m"
  shows "int (length (mSessions m)) \<le> max 0 (mMax m) \<and>
    (\<not> mDone m \<longrightarrow> ActiveCount m = int (length (mSessions m)))"
  using mgr.reach_inv [OF assms] by (auto simp: mgr_inv_def mgr_count_def ActiveCount_def)

definition demo_cfg :: ManagerConfig where
  "demo_cfg = \<lparr>cfgSessionTTL = 2 * hour, cfgCleanupInterval = 0, cfgMaxSessions = 1\<rparr>"

definition demo_mgr :: Manager where
  "demo_mgr = snd (Manager_Create ''a'' 0 1 (NewManager demo_cfg))"

lemma reach_demo_mgr: "reach mgr_init mgr_step demo_mgr"
proof -
  have "mgr_init (NewManager demo_cfg)"
    unfolding mgr_init_def by (rule exI [of _ demo_cfg]) (simp add: demo_cfg_def int64_defs)
  then have "reach mgr_init mgr_step (NewManager demo_cfg)" by (rule reach_init)
  then show ?thesis
    unfolding demo_mgr_def
    by (rule reach_step) (rule step_create, simp add: NewManager_def Let_def)
qed

theorem session_limit_witness:
  "reach mgr_init mgr_step demo_mgr \<and> mSessions demo_mgr = [(''sess_a'', 0)] \<and> mMax demo_mgr = 1 \<and>
   ActiveCount demo_mgr = int (length (mSessions demo_mgr))"
proof -
  have "mSessions demo_mgr = [(''sess_a'', 0)] \<and> mMax demo_mgr = 1 \<and> \<not> mDone demo_mgr"
    by code_simp
  then show ?thesis using session_limit [OF reach_demo_mgr] reach_demo_mgr by simp
qed

text \<open>
  C24. One \<^verbatim>\<open>cleanup\<close> sweep that visits every stored key removes exactly the sessions that are
  closed, older than the TTL or idle for more than half of it, closes each of them, and leaves
  every other session stored and untouched.
\<close>

theorem cleanup_exact:
  assumes "mgr_inv m" and "map_of (mSessions m) k = Some r" and "k \<in> set ks" and "distinct ks"
  shows "if removable clk (mTTL m) (mHeap m ! r)
    then map_of (mSessions (Manager_cleanup ks clk m)) k = None \<and>
         IsClosed (mHeap (Manager_cleanup ks clk m) ! r)
    else map_of (mSessions (Manager_cleanup ks clk m)) k = Some r \<and>
         mHeap (Manager_cleanup ks clk m) ! r = mHeap m ! r"
proof -
  have "mgr_shape m" using assms(1) by (simp add: mgr_inv_def)
  then show ?thesis
    using assms cleanup_lookup [of m ks clk k] cleanup_heap [of m k r ks clk] by simp
qed

theorem cleanup_exact_witness:
  "mgr_inv demo_mgr \<and>
   map_of (mSessions (Manager_cleanup [''sess_a''] (\<lambda>_. (3 * hour, 3 * hour)) demo_mgr)) ''sess_a'' = None \<and>
   IsClosed (mHeap (Manager_cleanup [''sess_a''] (\<lambda>_. (3 * hour, 3 * hour)) demo_mgr) ! 0)"
proof -
  have "mgr_inv demo_mgr" by (rule mgr.reach_inv [OF reach_demo_mgr])
  moreover have "map_of (mSessions demo_mgr) ''sess_a'' = Some 0" by code_simp
  moreover have "removable (\<lambda>_. (3 * hour, 3 * hour)) (mTTL demo_mgr) (mHeap demo_mgr ! 0)" by code_simp
  ultimately show ?thesis
    using cleanup_exact [of demo_mgr "''sess_a''" 0 "[''sess_a'']" "\<lambda>_. (3 * hour, 3 * hour)"] by simp
qed

text \<open>
  \<^verbatim>\<open>Delete\<close> removes the session from the manager and closes the shared object, so that the
  transport that still holds a pointer to it sees it closed; every other session keeps its entry and
  its object, and a later \<^verbatim>\<open>Get\<close> of the deleted ID finds nothing.
\<close>

lemma delete_closes:
  assumes "mgr_inv m" and "map_of (mSessions m) k = Some r"
  shows "fst (Manager_Get k (Manager_Delete k m)) = None \<and> IsClosed (mHeap (Manager_Delete k m) ! r) \<and>
    (\<forall>k'. k' \<noteq> k \<longrightarrow> map_of (mSessions (Manager_Delete k m)) k' = map_of (mSessions m) k') \<and>
    (\<forall>i. i \<noteq> r \<longrightarrow> mHeap (Manager_Delete k m) ! i = mHeap m ! i)"
  using assms shape_lookup [of m k r]
  by (auto simp: Manager_Delete_eq Manager_Get_def cleanup_remove_def delete_conv' mgr_inv_def)

text \<open>
  A session object that is closed stays closed in every further step of the manager and its
  clients, and \<^verbatim>\<open>Get\<close> never hands out a closed session.
\<close>

lemma heap_done_write:
  "(\<And>s. sDone s \<Longrightarrow> sDone (f s)) \<Longrightarrow> i < length h \<Longrightarrow> sDone (h ! i) \<Longrightarrow> sDone (h[r := f (h ! r)] ! i)"
  by (cases "i = r") simp_all

definition keeps_closed :: "nat \<Rightarrow> Manager \<Rightarrow> Manager \<Rightarrow> bool" where
  "keeps_closed i m m' \<longleftrightarrow> (i < length (mHeap m) \<and> sDone (mHeap m ! i) \<longrightarrow>
     i < length (mHeap m') \<and> sDone (mHeap m' ! i))"

lemma keeps_closed_upd: "(\<And>s. sDone s \<Longrightarrow> sDone (f s)) \<Longrightarrow> keeps_closed i m (upd_session r f m)"
  by (simp add: keeps_closed_def heap_done_write)

lemma keeps_closed_Close: "keeps_closed i m (upd_session r Session_Close m)"
  by (rule keeps_closed_upd) (simp add: Session_Close_def)

lemma keeps_closed_trans: "keeps_closed i m n \<Longrightarrow> keeps_closed i n q \<Longrightarrow> keeps_closed i m q"
  by (simp add: keeps_closed_def)

lemma keeps_closed_same_heap: "mHeap m' = mHeap m \<Longrightarrow> keeps_closed i m m'"
  by (simp add: keeps_closed_def)

lemma keeps_closed_remove: "keeps_closed i m n \<Longrightarrow> keeps_closed i m (cleanup_remove k n)"
  by (simp add: keeps_closed_def cleanup_remove_def)

lemma keeps_closed_visit: "keeps_closed i m (cleanup_visit clk k m)"
  by (auto simp: cleanup_visit_def keeps_closed_same_heap keeps_closed_Close split: option.splits
      intro!: keeps_closed_remove)

lemma keeps_closed_cleanup: "keeps_closed i m (Manager_cleanup ks clk m)"
  unfolding Manager_cleanup_def
proof (induction ks arbitrary: m)
  case Nil
  then show ?case by (simp add: keeps_closed_same_heap)
next
  case (Cons k ks)
  show ?case using keeps_closed_trans [OF keeps_closed_visit Cons.IH] by simp
qed

lemma keeps_closed_Delete: "keeps_closed i m (Manager_Delete k m)"
  by (auto simp: Manager_Delete_eq keeps_closed_same_heap keeps_closed_Close split: option.splits
      intro!: keeps_closed_remove)

lemma keeps_closed_Get: "keeps_closed i m (snd (Manager_Get k m))"
  using Manager_Get_state [of k m] by (auto simp: keeps_closed_same_heap keeps_closed_Delete)

lemma keeps_closed_Increment: "keeps_closed i m (snd (Manager_IncrementRequestCount k now m))"
  using keeps_closed_Get [of i m k]
  by (auto simp: Manager_IncrementRequestCount_def Session_IncrementRequestCount_def Let_def
      split: prod.splits option.splits
      intro!: keeps_closed_trans [of i m _ "upd_session _ _ _"] keeps_closed_upd)

lemma keeps_closed_Create: "keeps_closed i m (snd (Manager_Create uuid t1 t2 m))"
  by (auto simp: keeps_closed_def Manager_Create_def Let_def nth_append)

lemma keeps_closed_stop_fold:
  "keeps_closed i m (fold (\<lambda>(k, r) m'. (upd_session r Session_Close m')
      \<lparr>mSessions := AList.delete k (mSessions m')\<rparr>) es m)"
proof (induction es arbitrary: m)
  case Nil
  then show ?case by (simp add: keeps_closed_same_heap)
next
  case (Cons e es)
  obtain k r where "e = (k, r)" by (cases e)
  moreover have "keeps_closed i m ((upd_session r Session_Close m)\<lparr>mSessions := xs\<rparr>)" for r xs
    using keeps_closed_Close [of i m r] by (simp add: keeps_closed_def)
  ultimately show ?case using keeps_closed_trans [OF _ Cons.IH] by simp
qed

lemma keeps_closed_Stop: "Manager_Stop m = Some m' \<Longrightarrow> keeps_closed i m m'"
  using keeps_closed_stop_fold [of i "m\<lparr>mDone := True\<rparr>" "mSessions m"]
  by (auto simp: Manager_Stop_def keeps_closed_def split: if_splits)

lemmas keeps_closed_ops = keeps_closed_Create keeps_closed_Get keeps_closed_Delete
  keeps_closed_Increment keeps_closed_cleanup keeps_closed_Stop

lemma keeps_closed_step: "mgr_step m m' \<Longrightarrow> keeps_closed i m m'"
  by (erule mgr_step.cases)
     (auto intro: keeps_closed_ops keeps_closed_upd sDone_session_op
       simp: Manager_Start_def keeps_closed_same_heap)

lemma keeps_closed_steps: "mgr_step\<^sup>*\<^sup>* m m' \<Longrightarrow> keeps_closed i m m'"
proof (induction rule: rtranclp_induct)
  case base
  then show ?case by (simp add: keeps_closed_same_heap)
next
  case (step n q)
  show ?case using step.IH keeps_closed_step [OF step.hyps(2)] by (rule keeps_closed_trans)
qed

lemma closed_forever:
  assumes "mgr_step\<^sup>*\<^sup>* m m'" and "r < length (mHeap m)" and "IsClosed (mHeap m ! r)"
  shows "IsClosed (mHeap m' ! r) \<and> (\<forall>k. fst (Manager_Get k m') \<noteq> Some r)"
proof -
  have "sDone (mHeap m' ! r)"
    using keeps_closed_steps [OF assms(1), of r] assms(2,3) by (simp add: keeps_closed_def IsClosed_def)
  then show ?thesis by (auto simp: Manager_Get_def IsClosed_def split: option.split)
qed

text \<open>
  The response channel of a session is a bounded FIFO: whatever operations its clients perform,
  it never holds more than 100 messages, an accepted message is queued last, a rejected one changes
  nothing, and the event loop receives the oldest.
\<close>

lemma message_queue:
  assumes "length (sMessageChan s) \<le> MessageChan_cap"
  shows "length (sMessageChan (apply_session_op op s)) \<le> MessageChan_cap \<and>
    (case SendMessage pick msg s of
       (True, s') \<Rightarrow> sMessageChan s' = sMessageChan s @ [msg]
     | (False, s') \<Rightarrow> s' = s \<and> (IsClosed s \<or> length (sMessageChan s) = MessageChan_cap)) \<and>
    (case RecvMessage s of
       (None, s') \<Rightarrow> s' = s \<and> sMessageChan s = []
     | (Some x, s') \<Rightarrow> sMessageChan s = x # sMessageChan s')"
  using assms session_op_chan_bound [OF assms]
  by (auto simp: SendMessage_def RecvMessage_def IsClosed_def Let_def split: list.split)

text \<open>
  \<^verbatim>\<open>SendMessage\<close> on a closed session with room in the channel may report success: both cases
  of its \<^verbatim>\<open>select\<close> are ready, and when the runtime picks the send the message is queued on the
  closed session and true is returned.
\<close>

lemma send_on_closed_session:
  assumes "IsClosed s" and "length (sMessageChan s) < MessageChan_cap"
  shows "fst (SendMessage True msg s) \<and> \<not> fst (SendMessage False msg s) \<and>
    sMessageChan (snd (SendMessage True msg s)) = sMessageChan s @ [msg]"
  using assms by (simp add: SendMessage_def IsClosed_def)

text \<open>
  C25. Interleaving \<^verbatim>\<open>Create\<close> and \<^verbatim>\<open>Delete\<close> calls at the granularity of their atomic
  actions keeps the count exact up to the deletions in progress, so the limit holds, as long as the
  cleanup goroutine does not run.
\<close>

theorem concurrent_limit:
  assumes "reach cmgr_init (cmgr_step False) c"
  shows "mActive (cMgr c) = int (length (mSessions (cMgr c))) + int (cDeleters c) \<and>
    int (length (mSessions (cMgr c))) \<le> max 0 (mMax (cMgr c))"
  using cmgr.reach_inv [OF assms] by (auto simp: cmgr_inv_def)

definition demo_c0 :: cmgr where
  "demo_c0 = \<lparr>cMgr = NewManager demo_cfg, cDeleters = 0, cCleanup = CIdle\<rparr>"

definition demo_c1 :: cmgr where
  "demo_c1 = demo_c0\<lparr>cMgr := demo_mgr\<rparr>"

lemma cmgr_init_demo: "cmgr_init demo_c0"
  unfolding cmgr_init_def mgr_init_def demo_c0_def
  by (auto intro!: exI [of _ demo_cfg]) (simp add: demo_cfg_def int64_defs)

lemma reach_demo_c1: "reach cmgr_init (cmgr_step b) demo_c1"
proof -
  have "demo_c1 = demo_c0\<lparr>cMgr := snd (Manager_Create ''a'' 0 1 (cMgr demo_c0))\<rparr>"
    by (simp add: demo_c1_def demo_mgr_def demo_c0_def)
  moreover have "cmgr_step b demo_c0 (demo_c0\<lparr>cMgr := snd (Manager_Create ''a'' 0 1 (cMgr demo_c0))\<rparr>)"
    by (rule c_create) (simp add: demo_c0_def NewManager_def Let_def)
  ultimately show ?thesis
    using reach_step [of cmgr_init "cmgr_step b" demo_c0] reach_init [of cmgr_init demo_c0 "cmgr_step b"]
      cmgr_init_demo by simp
qed

theorem concurrent_limit_witness:
  "reach cmgr_init (cmgr_step False) demo_c1 \<and> mActive (cMgr demo_c1) = 1 \<and>
   int (length (mSessions (cMgr demo_c1))) \<le> max 0 (mMax (cMgr demo_c1))"
proof -
  have "mActive (cMgr demo_c1) = 1" by code_simp
  then show ?thesis using concurrent_limit [OF reach_demo_c1] reach_demo_c1 by blast
qed

definition race_state :: "(string, nat) gomap \<Rightarrow> Session list \<Rightarrow> int \<Rightarrow> int \<Rightarrow> nat \<Rightarrow> cleanup_pc \<Rightarrow> cmgr" where
  "race_state ss h active created ds pc =
     \<lparr>cMgr = \<lparr>mSessions = ss, mHeap = h, mTTL = 2 * hour, mTicker = None, mMax = 1,
        mActive = active, mCreated = created, mDone = False\<rparr>, cDeleters = ds, cCleanup = pc\<rparr>"

text \<open>
  C26. The cleanup goroutine races with \<^verbatim>\<open>Delete\<close>: both remove the same session and both
  decrement, so the counter ends below the number of stored sessions and \<^verbatim>\<open>Create\<close> admits
  more sessions than the limit. Here two sessions are stored under a limit of one, with no
  operation in progress.
\<close>

theorem cleanup_race_exceeds_limit:
  "\<exists>c. reach cmgr_init (cmgr_step True) c \<and> cDeleters c = 0 \<and> cCleanup c = CIdle \<and>
     mMax (cMgr c) = 1 \<and> length (mSessions (cMgr c)) = 2"
proof -
  let ?a = "NewSession ''sess_a'' 0 1"
  let ?x = "Session_Close ?a"
  let ?b = "NewSession ''sess_b'' 0 0"
  let ?c = "NewSession ''sess_c'' 0 0"
  let ?k = "''sess_a''"
  note eval = race_state_def upd_session_def Manager_Create_def Let_def wrap64_def removable_def
    Age_def IdleTime_def time_sub_def int64_defs NewSession_def Session_Close_def IsClosed_def
    hour_def minute_def second_def
  note go = reach_step [of cmgr_init "cmgr_step True"]
  have c1: "demo_c1 = race_state [(?k, 0)] [?a] 1 1 0 CIdle" by code_simp
  have s2: "cmgr_step True demo_c1 (race_state [(?k, 0)] [?x] 1 1 0 (CDelete ?k))"
    using c_cleanup_visit [of True demo_c1 ?k 0 "\<lambda>_. (3 * hour, 3 * hour)"]
    by (simp add: eval c1)
  have s3: "cmgr_step True (race_state [(?k, 0)] [?x] 1 1 0 (CDelete ?k))
      (race_state [] [?x] 1 1 1 (CDelete ?k))"
    using c_delete_load [of "race_state [(?k, 0)] [?x] 1 1 0 (CDelete ?k)" ?k 0 True]
    by (simp add: eval)
  have s4: "cmgr_step True (race_state [] [?x] 1 1 1 (CDelete ?k)) (race_state [] [?x] 1 1 1 CDec)"
    using c_cleanup_delete [of "race_state [] [?x] 1 1 1 (CDelete ?k)" ?k True] by (simp add: eval)
  have s5: "cmgr_step True (race_state [] [?x] 1 1 1 CDec) (race_state [] [?x] 0 1 1 CIdle)"
    using c_cleanup_dec [of "race_state [] [?x] 1 1 1 CDec" True] by (simp add: eval)
  have s6: "cmgr_step True (race_state [] [?x] 0 1 1 CIdle) (race_state [] [?x] (-1) 1 0 CIdle)"
    using c_delete_dec [of "race_state [] [?x] 0 1 1 CIdle" 0 True] by (simp add: eval)
  have s7: "cmgr_step True (race_state [] [?x] (-1) 1 0 CIdle)
      (race_state [(''sess_b'', 1)] [?x, ?b] 0 2 0 CIdle)"
    using c_create [of "race_state [] [?x] (-1) 1 0 CIdle" "''b''" True 0 0] by (simp add: eval)
  have s8: "cmgr_step True (race_state [(''sess_b'', 1)] [?x, ?b] 0 2 0 CIdle)
      (race_state [(''sess_b'', 1), (''sess_c'', 2)] [?x, ?b, ?c] 1 3 0 CIdle)"
    using c_create [of "race_state [(''sess_b'', 1)] [?x, ?b] 0 2 0 CIdle" "''c''" True 0 0]
    by (simp add: eval numeral_2_eq_2)
  have "reach cmgr_init (cmgr_step True)
      (race_state [(''sess_b'', 1), (''sess_c'', 2)] [?x, ?b, ?c] 1 3 0 CIdle)"
    by (rule go [OF go [OF go [OF go [OF go [OF go [OF go [OF reach_demo_c1 s2] s3] s4] s5] s6] s7] s8])
  then show ?thesis by (intro exI conjI) (assumption, simp_all add: race_state_def)
qed

end
