(* ===== verification/Router.thy ===== *)
theory Router
  imports Session Policy_Types Sha256
begin

text \<open>
  The message router, \<^verbatim>\<open>src/internal/router\<close>: JSON-RPC types, the parser, the response
  builder and the routing of a message through policy evaluation, the upstream and the audit log.
  The JSON codec (\<^verbatim>\<open>goccy/go-json\<close>, not part of the repository) is the parameter \<open>gj\<close>;
  the three callbacks the application installs are actions on an arbitrary world. The object pools
  hand out stale objects, which appear as arguments.
\<close>

declare map_of_eq_Some_iff [simp del] Some_eq_map_of_iff [simp del]

section \<open>Types\<close>

definition CodeParseError :: int where "CodeParseError = -32700"
definition CodeInvalidRequest :: int where "CodeInvalidRequest = -32600"
definition CodeMethodNotFound :: int where "CodeMethodNotFound = -32601"
definition CodeInvalidParams :: int where "CodeInvalidParams = -32602"
definition CodeInternalError :: int where "CodeInternalError = -32603"
definition CodePolicyViolation :: int where "CodePolicyViolation = -32001"
definition CodeIdentityError :: int where "CodeIdentityError = -32002"
definition CodeRateLimited :: int where "CodeRateLimited = -32003"
definition CodeUpstreamError :: int where "CodeUpstreamError = -32004"

text \<open>A nil ID is \<^const>\<open>GNil\<close>, nil parameters are \<^const>\<open>None\<close>.\<close>

record Request =
  reqJSONRPC :: string
  reqID :: gval
  reqMethod :: string
  reqParams :: "bytes option"

record PolicyViolationData =
  pvRequestID :: string
  pvAgentID :: string
  pvTool :: string
  pvRequiredCapability :: string
  pvAgentCapabilities :: "string slice"
  pvViolations :: "string list"
  pvPolicyMode :: string
  pvTimestamp :: string

datatype error_data =
    NoData
  | ViolationData PolicyViolationData
  | StringMap "(string, string) gomap"
  | ValueMap gobj

record RpcError =
  errCode :: int
  errMessage :: string
  errData :: error_data

record Response =
  respJSONRPC :: string
  respID :: gval
  respResult :: gval
  respError :: "RpcError option"

record MetaParams =
  mpAgentFacts :: string

record ToolCallParams =
  tcName :: string
  tcArguments :: "gobj option"
  tcMeta :: "MetaParams option"

record ResourceReadParams =
  rrURI :: string
  rrMeta :: "MetaParams option"

datatype HandlerType = HandlerPassthrough | HandlerFullEnforce | HandlerFilter

datatype LogLevel = LogNone | LogMetadata | LogFull

record MethodConfig =
  mcHandler :: HandlerType
  mcLogLevel :: LogLevel
  mcDescription :: string

record RequestContext =
  xRequest :: "Request option"
  xRequestID :: string
  xMethod :: string
  xTool :: string
  xResourceURI :: string
  xArguments :: "gobj option"
  xConfig :: MethodConfig
  xReceivedAt :: time
  xAgentFactsToken :: string

record ParseError =
  peCode :: int
  peMessage :: string

text \<open>
  The JSON codec. Decoding a request writes into an existing object, also when it fails; encoding
  with an \<^verbatim>\<open>Encoder\<close> ends the text with a newline.
\<close>

record gojson =
  gjRequest :: "bytes \<Rightarrow> Request \<Rightarrow> string option \<times> Request"
  gjToolCall :: "bytes \<Rightarrow> string + ToolCallParams"
  gjResourceRead :: "bytes \<Rightarrow> string + ResourceReadParams"
  gjRawObject :: "bytes \<Rightarrow> string + (string, bytes) gomap"
  gjMeta :: "bytes \<Rightarrow> string + MetaParams"
  gjEncode :: "Response \<Rightarrow> string + bytes"
  gjMarshal :: "Response \<Rightarrow> string + bytes"

section \<open>Object pools and request contexts\<close>

definition GetRequest :: "Request \<Rightarrow> Request" where
  "GetRequest pooled = pooled\<lparr>reqJSONRPC := [], reqID := GNil, reqMethod := [], reqParams := None\<rparr>"

definition PutRequest :: "Request \<Rightarrow> Request" where
  "PutRequest req = req\<lparr>reqID := GNil, reqParams := None\<rparr>"

definition MethodRegistry :: "(string, MethodConfig) gomap" where
  "MethodRegistry = [
     (''tools/call'', \<lparr>mcHandler = HandlerFullEnforce, mcLogLevel = LogFull,
        mcDescription = ''Invoke a tool''\<rparr>),
     (''tools/list'', \<lparr>mcHandler = HandlerFilter, mcLogLevel = LogMetadata,
        mcDescription = ''List available tools''\<rparr>),
     (''resources/read'', \<lparr>mcHandler = HandlerFullEnforce, mcLogLevel = LogFull,
        mcDescription = ''Read a resource''\<rparr>),
     (''resources/list'', \<lparr>mcHandler = HandlerFilter, mcLogLevel = LogMetadata,
        mcDescription = ''List available resources''\<rparr>),
     (''resources/subscribe'', \<lparr>mcHandler = HandlerFullEnforce, mcLogLevel = LogFull,
        mcDescription = ''Subscribe to resource updates''\<rparr>),
     (''prompts/get'', \<lparr>mcHandler = HandlerPassthrough, mcLogLevel = LogMetadata,
        mcDescription = ''Get a prompt template''\<rparr>),
     (''prompts/list'', \<lparr>mcHandler = HandlerPassthrough, mcLogLevel = LogMetadata,
        mcDescription = ''List available prompts''\<rparr>),
     (''initialize'', \<lparr>mcHandler = HandlerPassthrough, mcLogLevel = LogMetadata,
        mcDescription = ''Initialize MCP session''\<rparr>),
     (''ping'', \<lparr>mcHandler = HandlerPassthrough, mcLogLevel = LogNone,
        mcDescription = ''Health check ping''\<rparr>),
     (''notifications/initialized'', \<lparr>mcHandler = HandlerPassthrough, mcLogLevel = LogNone,
        mcDescription = ''Client initialization complete''\<rparr>),
     (''notifications/cancelled'', \<lparr>mcHandler = HandlerPassthrough, mcLogLevel = LogMetadata,
        mcDescription = ''Request cancelled''\<rparr>)]"

definition method_config :: "string \<Rightarrow> MethodConfig" where
  "method_config meth =
     (case map_of MethodRegistry meth of
        Some cfg \<Rightarrow> cfg
      | None \<Rightarrow> \<lparr>mcHandler = HandlerPassthrough, mcLogLevel = LogMetadata,
                  mcDescription = ''Unknown method''\<rparr>)"

text \<open>
  \<^verbatim>\<open>randomHex\<close> reads \<open>(n + 1) div 2\<close> random bytes; \<open>rnd\<close> is what the operating
  system's generator returns for a given length. A failing generator panics. Both branches of the
  code, with and without a pooled buffer, compute the same value.
\<close>

definition randomHex :: "(nat \<Rightarrow> u8 list outcome) \<Rightarrow> nat \<Rightarrow> string call" where
  "randomHex rnd n =
     (case rnd ((n + 1) div 2) of
        Ok b \<Rightarrow> Return (take n (EncodeToString b))
      | Err err \<Rightarrow> Panicked (''crypto/rand failed: '' @ err)
      | Panic p \<Rightarrow> Panicked p)"

definition generateRequestID :: "(nat \<Rightarrow> u8 list outcome) \<Rightarrow> string call" where
  "generateRequestID rnd =
     (case randomHex rnd 8 of Return h \<Rightarrow> Return (''req_'' @ h) | Panicked p \<Rightarrow> Panicked p)"

definition NewRequestContextAt ::
    "RequestContext \<Rightarrow> (nat \<Rightarrow> u8 list outcome) \<Rightarrow> Request \<Rightarrow> time \<Rightarrow> RequestContext call" where
  "NewRequestContextAt pooled rnd req receivedAt =
     (case generateRequestID rnd of
        Panicked p \<Rightarrow> Panicked p
      | Return i \<Rightarrow> Return
          (pooled\<lparr>xRequest := Some req, xRequestID := i, xMethod := reqMethod req,
             xReceivedAt := receivedAt, xTool := [], xResourceURI := [], xArguments := None,
             xAgentFactsToken := [], xConfig := method_config (reqMethod req)\<rparr>))"

definition NewRequestContext ::
    "RequestContext \<Rightarrow> (nat \<Rightarrow> u8 list outcome) \<Rightarrow> time \<Rightarrow> Request \<Rightarrow> RequestContext call" where
  "NewRequestContext pooled rnd now req = NewRequestContextAt pooled rnd req now"

text \<open>What \<^verbatim>\<open>Release\<close> puts back into the two pools.\<close>

definition Release :: "RequestContext \<Rightarrow> Request option \<times> RequestContext" where
  "Release ctx = (map_option PutRequest (xRequest ctx), ctx\<lparr>xRequest := None, xArguments := None\<rparr>)"

section \<open>The parser\<close>

definition maxMethodLength :: nat where
  "maxMethodLength = 256"

definition methodPattern :: "string \<Rightarrow> bool" where
  "methodPattern s =
     (case s of
        [] \<Rightarrow> False
      | c # cs \<Rightarrow> is_alpha c \<and>
          list_all (\<lambda>x. is_alpha x \<or> is_digit x \<or> x = CHR ''_'' \<or> x = CHR ''/'') cs)"

text \<open>
  \<^verbatim>\<open>Parse\<close> returns the error or the request, and the object given back to the pool, if any.
\<close>

definition Parse ::
    "gojson \<Rightarrow> Request \<Rightarrow> bytes \<Rightarrow> (ParseError + Request) \<times> Request option" where
  "Parse gj pooled data =
     (if length data = 0 then (Inl \<lparr>peCode = CodeParseError, peMessage = ''Empty message''\<rparr>, None)
      else let (err, req) = gjRequest gj data (GetRequest pooled);
               fail = (\<lambda>code msg. (Inl \<lparr>peCode = code, peMessage = msg\<rparr>, Some (PutRequest req)))
      in case err of
           Some e \<Rightarrow> fail CodeParseError (''Invalid JSON: '' @ e)
         | None \<Rightarrow>
             if reqJSONRPC req \<noteq> ''2.0''
             then fail CodeInvalidRequest
               (''Invalid JSON-RPC version: expected '' @ quoted ''2.0'' @
                '', got '' @ quoted (reqJSONRPC req))
             else if reqMethod req = []
             then fail CodeInvalidRequest (''Missing '' @ quoted ''method'' @ '' field'')
             else if length (reqMethod req) > maxMethodLength
             then fail CodeInvalidRequest ''Method name too long''
             else if \<not> methodPattern (reqMethod req)
             then fail CodeInvalidRequest ''Invalid method name format''
             else if HasPrefix (reqMethod req) ''rpc.''
             then fail CodeInvalidRequest
               (''Method names starting with '' @ quoted ''rpc.'' @ '' are reserved'')
             else (Inr req, None))"

definition ParseToolCall :: "gojson \<Rightarrow> Request \<Rightarrow> ParseError + ToolCallParams" where
  "ParseToolCall gj req =
     (case reqParams req of
        None \<Rightarrow> Inl \<lparr>peCode = CodeInvalidParams,
          peMessage = ''Missing '' @ quoted ''params'' @ '' for tools/call''\<rparr>
      | Some raw \<Rightarrow>
          (case gjToolCall gj raw of
             Inr params \<Rightarrow>
               if tcName params = []
               then Inl \<lparr>peCode = CodeInvalidParams,
                 peMessage = ''Missing '' @ quoted ''name'' @ '' in tools/call params''\<rparr>
               else Inr params
           | Inl e \<Rightarrow> Inl \<lparr>peCode = CodeInvalidParams, peMessage = ''Invalid tools/call params: '' @ e\<rparr>))"

definition ParseResourceRead :: "gojson \<Rightarrow> Request \<Rightarrow> ParseError + ResourceReadParams" where
  "ParseResourceRead gj req =
     (case reqParams req of
        None \<Rightarrow> Inl \<lparr>peCode = CodeInvalidParams,
          peMessage = ''Missing '' @ quoted ''params'' @ '' for resources/read''\<rparr>
      | Some raw \<Rightarrow>
          (case gjResourceRead gj raw of
             Inr params \<Rightarrow>
               if rrURI params = []
               then Inl \<lparr>peCode = CodeInvalidParams,
                 peMessage = ''Missing '' @ quoted ''uri'' @ '' in resources/read params''\<rparr>
               else Inr params
           | Inl e \<Rightarrow> Inl \<lparr>peCode = CodeInvalidParams, peMessage = ''Invalid resources/read params: '' @ e\<rparr>))"

text \<open>
  \<^verbatim>\<open>ExtractMeta\<close>: no parameters, parameters that are no object and a missing
  \<^verbatim>\<open>_meta\<close> give nil without an error.
\<close>

definition ExtractMeta :: "gojson \<Rightarrow> bytes option \<Rightarrow> string + MetaParams option" where
  "ExtractMeta gj params =
     (case params of
        None \<Rightarrow> Inr None
      | Some p \<Rightarrow>
          (case gjRawObject gj p of
             Inl e \<Rightarrow> Inr None
           | Inr raw \<Rightarrow>
               (case map_of raw ''_meta'' of
                  None \<Rightarrow> Inr None
                | Some metaRaw \<Rightarrow>
                    (case gjMeta gj metaRaw of
                       Inl e \<Rightarrow> Inl (''invalid _meta field: '' @ e)
                     | Inr meta \<Rightarrow> Inr (Some meta)))))"

definition IsNotification :: "Request \<Rightarrow> bool" where
  "IsNotification req \<longleftrightarrow> reqID req = GNil"

definition IsRequest :: "Request \<Rightarrow> bool" where
  "IsRequest req \<longleftrightarrow> reqID req \<noteq> GNil"

section \<open>Responses\<close>

definition Success :: "gval \<Rightarrow> gval \<Rightarrow> Response" where
  "Success i result = \<lparr>respJSONRPC = ''2.0'', respID = i, respResult = result, respError = None\<rparr>"

definition ErrorWithData :: "gval \<Rightarrow> int \<Rightarrow> string \<Rightarrow> error_data \<Rightarrow> Response" where
  "ErrorWithData i code message data =
     \<lparr>respJSONRPC = ''2.0'', respID = i, respResult = GNil,
      respError = Some \<lparr>errCode = code, errMessage = message, errData = data\<rparr>\<rparr>"

definition ErrorResponse :: "gval \<Rightarrow> int \<Rightarrow> string \<Rightarrow> Response" where
  "ErrorResponse i code message =
     \<lparr>respJSONRPC = ''2.0'', respID = i, respResult = GNil,
      respError = Some \<lparr>errCode = code, errMessage = message, errData = NoData\<rparr>\<rparr>"

definition ToResponse :: "ParseError \<Rightarrow> gval \<Rightarrow> Response" where
  "ToResponse e i =
     \<lparr>respJSONRPC = ''2.0'', respID = i, respResult = GNil,
      respError = Some \<lparr>errCode = peCode e, errMessage = peMessage e, errData = NoData\<rparr>\<rparr>"

definition ParseErrorResponse :: "string \<Rightarrow> Response" where
  "ParseErrorResponse message = ErrorResponse GNil CodeParseError message"

definition InvalidRequest :: "gval \<Rightarrow> string \<Rightarrow> Response" where
  "InvalidRequest i message = ErrorResponse i CodeInvalidRequest message"

definition MethodNotFound :: "gval \<Rightarrow> string \<Rightarrow> Response" where
  "MethodNotFound i meth = ErrorResponse i CodeMethodNotFound (''Method not found: '' @ meth)"

definition InvalidParams :: "gval \<Rightarrow> string \<Rightarrow> Response" where
  "InvalidParams i message = ErrorResponse i CodeInvalidParams message"

definition InternalError :: "gval \<Rightarrow> string \<Rightarrow> Response" where
  "InternalError i message = ErrorResponse i CodeInternalError message"

text \<open>\<open>now\<close> is the current time in UTC, already formatted.\<close>

definition PolicyViolation ::
    "string \<Rightarrow> gval \<Rightarrow> RequestContext \<Rightarrow> string \<Rightarrow> string slice \<Rightarrow> string list \<Rightarrow> string \<Rightarrow> Response" where
  "PolicyViolation now i reqCtx agentID capabilities violations policyMode =
     (let data = \<lparr>pvRequestID = xRequestID reqCtx, pvAgentID = agentID, pvTool = xTool reqCtx,
            pvRequiredCapability = [], pvAgentCapabilities = capabilities, pvViolations = violations,
            pvPolicyMode = policyMode, pvTimestamp = now\<rparr>;
          message = (case violations of [] \<Rightarrow> ''Policy violation'' | v # _ \<Rightarrow> v)
      in ErrorWithData i CodePolicyViolation message (ViolationData data))"

definition IdentityError :: "gval \<Rightarrow> string \<Rightarrow> string \<Rightarrow> Response" where
  "IdentityError i errorCode message =
     ErrorWithData i CodeIdentityError message (StringMap [(''error_code'', errorCode)])"

definition RateLimited :: "gval \<Rightarrow> string \<Rightarrow> int \<Rightarrow> int \<Rightarrow> Response" where
  "RateLimited i agentID limit current =
     ErrorWithData i CodeRateLimited ''Rate limit exceeded''
       (ValueMap [(''agent_id'', GStr agentID), (''limit'', GInt limit), (''current'', GInt current)])"

definition UpstreamError :: "gval \<Rightarrow> string \<Rightarrow> Response" where
  "UpstreamError i message = ErrorResponse i CodeUpstreamError message"

definition FromParseError :: "ParseError \<Rightarrow> gval \<Rightarrow> Response" where
  "FromParseError err i = ErrorResponse i (peCode err) (peMessage err)"

definition Marshal :: "gojson \<Rightarrow> Response \<Rightarrow> string + bytes" where
  "Marshal gj resp =
     (case gjEncode gj resp of
        Inl e \<Rightarrow> Inl e
      | Inr data \<Rightarrow>
          Inr (if length data > 0 \<and> last data = CHR 0x0A then butlast data else data))"

text \<open>
  Encoding with the pool of buffers: \<open>pick\<close> is the buffer the pool hands out, if it has one, and
  \<open>grow\<close> the capacity of a buffer after so many bytes were written. The result is a copy of the buffer,
  which goes back into the pool unless it has grown beyond 4096 bytes.
\<close>

record buffer =
  bfData :: bytes
  bfCap :: nat

definition getBuffer :: "buffer option \<Rightarrow> buffer" where
  "getBuffer pick = (case pick of None \<Rightarrow> \<lparr>bfData = [], bfCap = 512\<rparr> | Some buf \<Rightarrow> buf)\<lparr>bfData := []\<rparr>"

definition putBuffer :: "buffer \<Rightarrow> buffer list \<Rightarrow> buffer list" where
  "putBuffer buf pool = (if bfCap buf \<le> 4096 then buf # pool else pool)"

definition Marshal_pooled ::
    "gojson \<Rightarrow> (nat \<Rightarrow> nat \<Rightarrow> nat) \<Rightarrow> Response \<Rightarrow> buffer option \<Rightarrow> buffer list \<Rightarrow> (string + bytes) \<times> buffer list" where
  "Marshal_pooled gj grow resp pick pool =
     (let buf = getBuffer pick
      in case gjEncode gj resp of
           Inl e \<Rightarrow> (Inl e, putBuffer buf pool)
         | Inr written \<Rightarrow>
             let buf1 = buf\<lparr>bfData := bfData buf @ written, bfCap := grow (bfCap buf) (length written)\<rparr>;
                 data = bfData buf1;
                 result = (if length data > 0 \<and> last data = CHR 0x0A then butlast data else data)
             in (Inr result, putBuffer buf1 pool))"

definition MustMarshal :: "gojson \<Rightarrow> Response \<Rightarrow> bytes call" where
  "MustMarshal gj resp = (case gjMarshal gj resp of Inl e \<Rightarrow> Panicked e | Inr data \<Rightarrow> Return data)"

section \<open>The router\<close>

record RouterDecision =
  rdAllow :: bool
  rdViolations :: "string list"
  rdMatchedRule :: string
  rdPolicyMode :: string

text \<open>
  The callbacks. An evaluator returns a decision pointer and an error; a sender returns a byte slice
  and an error.
\<close>

type_synonym 'w policy_evaluator =
  "Session \<Rightarrow> RequestContext \<Rightarrow> (RouterDecision option \<times> string option, 'w) act"
type_synonym 'w upstream_sender = "bytes \<Rightarrow> (bytes option \<times> string option, 'w) act"
type_synonym 'w audit_logger =
  "Session \<Rightarrow> RequestContext \<Rightarrow> RouterDecision option \<Rightarrow> bytes option \<Rightarrow> duration \<Rightarrow> (unit, 'w) act"

record 'w Router =
  roPolicyEvaluator :: "'w policy_evaluator option"
  roUpstreamSender :: "'w upstream_sender option"
  roAuditLogger :: "'w audit_logger option"

definition NewRouter :: "'w Router" where
  "NewRouter = \<lparr>roPolicyEvaluator = None, roUpstreamSender = None, roAuditLogger = None\<rparr>"

definition SetPolicyEvaluator :: "'w policy_evaluator \<Rightarrow> 'w Router \<Rightarrow> 'w Router" where
  "SetPolicyEvaluator fn r = r\<lparr>roPolicyEvaluator := Some fn\<rparr>"

definition SetUpstreamSender :: "'w upstream_sender \<Rightarrow> 'w Router \<Rightarrow> 'w Router" where
  "SetUpstreamSender fn r = r\<lparr>roUpstreamSender := Some fn\<rparr>"

definition SetAuditLogger :: "'w audit_logger \<Rightarrow> 'w Router \<Rightarrow> 'w Router" where
  "SetAuditLogger fn r = r\<lparr>roAuditLogger := Some fn\<rparr>"

text \<open>Readings of one routed message: clocks, random bytes and the pooled objects.\<close>

record route_env =
  reStart :: time
  reEnd :: time
  reStamp :: string
  reRandom :: "nat \<Rightarrow> u8 list outcome"
  reRequest :: Request
  reContext :: RequestContext

definition extractRequestDetails ::
    "gojson \<Rightarrow> Request \<Rightarrow> RequestContext \<Rightarrow> ParseError option \<times> RequestContext" where
  "extractRequestDetails gj req reqCtx =
     (if reqMethod req = ''tools/call'' then
        (case ParseToolCall gj req of
           Inl e \<Rightarrow> (Some e, reqCtx)
         | Inr params \<Rightarrow>
             let c = reqCtx\<lparr>xTool := tcName params, xArguments := tcArguments params\<rparr>
             in (None, case tcMeta params of None \<Rightarrow> c | Some m \<Rightarrow> c\<lparr>xAgentFactsToken := mpAgentFacts m\<rparr>))
      else if reqMethod req = ''resources/read'' then
        (case ParseResourceRead gj req of
           Inl e \<Rightarrow> (Some e, reqCtx)
         | Inr params \<Rightarrow>
             let c = reqCtx\<lparr>xResourceURI := rrURI params\<rparr>
             in (None, case rrMeta params of None \<Rightarrow> c | Some m \<Rightarrow> c\<lparr>xAgentFactsToken := mpAgentFacts m\<rparr>))
      else (None, reqCtx))"

text \<open>\<^verbatim>\<open>data, _ := Marshal(resp)\<close>: a failed encoding gives nil.\<close>

definition marshal_or_nil :: "gojson \<Rightarrow> Response \<Rightarrow> bytes option" where
  "marshal_or_nil gj resp = (case Marshal gj resp of Inl e \<Rightarrow> None | Inr data \<Rightarrow> Some data)"

definition marshal_result :: "gojson \<Rightarrow> Response \<Rightarrow> bytes option \<times> string option" where
  "marshal_result gj resp = (case Marshal gj resp of Inl e \<Rightarrow> (None, Some e) | Inr data \<Rightarrow> (Some data, None))"

text \<open>The ID of the request in a context; a nil request would be a nil dereference.\<close>

definition ctx_id :: "RequestContext \<Rightarrow> gval" where
  "ctx_id reqCtx = (case xRequest reqCtx of Some req \<Rightarrow> reqID req | None \<Rightarrow> GNil)"

definition handlePassthrough :: "'w Router \<Rightarrow> bytes \<Rightarrow> (bytes option \<times> string option, 'w) act" where
  "handlePassthrough r message =
     (case roUpstreamSender r of
        Some send \<Rightarrow> send message
      | None \<Rightarrow> ret_act (Some message, None))"

text \<open>Forwarding of an admitted request.\<close>

definition forward ::
    "gojson \<Rightarrow> 'w Router \<Rightarrow> RequestContext \<Rightarrow> bytes \<Rightarrow> RouterDecision \<Rightarrow>
     (bytes option \<times> RouterDecision option \<times> string option, 'w) act" where
  "forward gj r reqCtx message decision =
     (case roUpstreamSender r of
        None \<Rightarrow> ret_act (Some message, Some decision, None)
      | Some send \<Rightarrow> bind_act (send message) (\<lambda>(response, err).
          case err of
            Some e \<Rightarrow> ret_act (marshal_or_nil gj (UpstreamError (ctx_id reqCtx) e), Some decision, None)
          | None \<Rightarrow> ret_act (response, Some decision, None)))"

definition no_policy_decision :: RouterDecision where
  "no_policy_decision = \<lparr>rdAllow = True, rdViolations = [], rdMatchedRule = ''no_policy'',
     rdPolicyMode = ''disabled''\<rparr>"

definition handleEnforce ::
    "gojson \<Rightarrow> string \<Rightarrow> 'w Router \<Rightarrow> Session \<Rightarrow> RequestContext \<Rightarrow> bytes \<Rightarrow>
     (bytes option \<times> RouterDecision option \<times> string option, 'w) act" where
  "handleEnforce gj now r sess reqCtx message =
     (case roPolicyEvaluator r of
        None \<Rightarrow> forward gj r reqCtx message no_policy_decision
      | Some evaluate \<Rightarrow> bind_act (evaluate sess reqCtx) (\<lambda>(decision, err).
          case err of
            Some e \<Rightarrow> ret_act (marshal_or_nil gj (InternalError (ctx_id reqCtx) ''Policy evaluation failed''),
                               decision, None)
          | None \<Rightarrow>
              (case decision of
                 None \<Rightarrow> panic_act ''nil pointer dereference''
               | Some d \<Rightarrow>
                   if \<not> rdAllow d \<and> rdPolicyMode d = ''enforce''
                   then ret_act (marshal_or_nil gj
                          (PolicyViolation now (ctx_id reqCtx) reqCtx (sAgentID sess) (sCapabilities sess)
                            (rdViolations d) (rdPolicyMode d)), Some d, None)
                   else forward gj r reqCtx message d)))"

definition filter_decision :: RouterDecision where
  "filter_decision = \<lparr>rdAllow = True, rdViolations = [], rdMatchedRule = ''passthrough'',
     rdPolicyMode = ''filter''\<rparr>"

definition handleFilter ::
    "'w Router \<Rightarrow> bytes \<Rightarrow> (bytes option \<times> RouterDecision option \<times> string option, 'w) act" where
  "handleFilter r message =
     (case roUpstreamSender r of
        Some send \<Rightarrow> bind_act (send message) (\<lambda>(response, err).
          ret_act (response, Some filter_decision, err))
      | None \<Rightarrow> ret_act (Some message, Some filter_decision, None))"

fun handlerTypeName :: "HandlerType \<Rightarrow> string" where
  "handlerTypeName HandlerPassthrough = ''passthrough''"
| "handlerTypeName HandlerFullEnforce = ''enforce''"
| "handlerTypeName HandlerFilter = ''filter''"

definition dispatch ::
    "gojson \<Rightarrow> string \<Rightarrow> 'w Router \<Rightarrow> Session \<Rightarrow> RequestContext \<Rightarrow> bytes \<Rightarrow>
     (bytes option \<times> RouterDecision option \<times> string option, 'w) act" where
  "dispatch gj now r sess reqCtx message =
     (case mcHandler (xConfig reqCtx) of
        HandlerPassthrough \<Rightarrow> bind_act (handlePassthrough r message) (\<lambda>(response, err).
          ret_act (response, None, err))
      | HandlerFullEnforce \<Rightarrow> handleEnforce gj now r sess reqCtx message
      | HandlerFilter \<Rightarrow> handleFilter r message)"

definition Route ::
    "gojson \<Rightarrow> route_env \<Rightarrow> 'w Router \<Rightarrow> Session \<Rightarrow> bytes \<Rightarrow> (bytes option \<times> string option, 'w) act" where
  "Route gj env r sess message =
     (case fst (Parse gj (reRequest env) message) of
        Inl parseErr \<Rightarrow> ret_act (marshal_result gj (FromParseError parseErr GNil))
      | Inr req \<Rightarrow>
          (case NewRequestContextAt (reContext env) (reRandom env) req (reStart env) of
             Panicked p \<Rightarrow> panic_act p
           | Return ctx0 \<Rightarrow>
               (case extractRequestDetails gj req ctx0 of
                  (Some parseErr, ctx1) \<Rightarrow> ret_act (marshal_result gj (FromParseError parseErr (reqID req)))
                | (None, ctx1) \<Rightarrow>
                    let reqCtx = (case ExtractMeta gj (reqParams req) of
                          Inr (Some meta) \<Rightarrow> ctx1\<lparr>xAgentFactsToken := mpAgentFacts meta\<rparr>
                        | _ \<Rightarrow> ctx1)
                    in bind_act (dispatch gj (reStamp env) r sess reqCtx message)
                         (\<lambda>(response, decision, err).
                            bind_act
                              (case roAuditLogger r of
                                 Some logger \<Rightarrow>
                                   if mcLogLevel (xConfig reqCtx) \<noteq> LogNone
                                   then logger sess reqCtx decision response
                                          (time_sub (reEnd env) (reStart env))
                                   else ret_act ()
                               | None \<Rightarrow> ret_act ())
                              (\<lambda>_. ret_act (response, err))))))"

definition ParseAndValidate ::
    "gojson \<Rightarrow> Request \<Rightarrow> RequestContext \<Rightarrow> (nat \<Rightarrow> u8 list outcome) \<Rightarrow> time \<Rightarrow> bytes \<Rightarrow>
     (Request option \<times> RequestContext option \<times> ParseError option) call" where
  "ParseAndValidate gj pooledReq pooledCtx rnd now message =
     (case fst (Parse gj pooledReq message) of
        Inl err \<Rightarrow> Return (None, None, Some err)
      | Inr req \<Rightarrow>
          (case NewRequestContext pooledCtx rnd now req of
             Panicked p \<Rightarrow> Panicked p
           | Return ctx0 \<Rightarrow>
               (case extractRequestDetails gj req ctx0 of
                  (err, ctx1) \<Rightarrow> Return (Some req, Some ctx1, err))))"

definition BuildErrorResponse :: "gojson \<Rightarrow> gval \<Rightarrow> int \<Rightarrow> string \<Rightarrow> string + bytes" where
  "BuildErrorResponse gj i code message = gjMarshal gj (ErrorResponse i code message)"

section \<open>Lemmas\<close>

lemma GetRequest_const: "GetRequest p = \<lparr>reqJSONRPC = [], reqID = GNil, reqMethod = [], reqParams = None\<rparr>"
  by (simp add: GetRequest_def)

lemma NewRequestContextAt_const:
  "NewRequestContextAt p rnd req t = NewRequestContextAt q rnd req t"
  by (cases p; cases q) (simp add: NewRequestContextAt_def split: call.split)

lemma methodPattern_iff:
  "methodPattern s \<longleftrightarrow> s \<noteq> [] \<and> is_alpha (hd s) \<and>
     (\<forall>x \<in> set (tl s). is_alpha x \<or> is_digit x \<or> x = CHR ''_'' \<or> x = CHR ''/'')"
  by (auto simp: methodPattern_def list_all_iff split: list.split)

text \<open>The method pattern already excludes a dot, so the reserved-prefix test never succeeds.\<close>

lemma methodPattern_no_rpc: "methodPattern s \<Longrightarrow> \<not> HasPrefix s ''rpc.''"
proof
  assume s: "methodPattern s" and "HasPrefix s ''rpc.''"
  then obtain t where "s = ''rpc.'' @ t" by (auto simp: HasPrefix_def prefix_def)
  then have "CHR ''.'' \<in> set (tl s)" by simp
  with s show False by (auto simp: methodPattern_iff char_class_defs)
qed

lemma Parse_Inr:
  "fst (Parse gj p data) = Inr req \<longleftrightarrow>
     data \<noteq> [] \<and> gjRequest gj data (GetRequest p) = (None, req) \<and> reqJSONRPC req = ''2.0'' \<and>
     length (reqMethod req) \<le> 256 \<and> methodPattern (reqMethod req)"
  using methodPattern_no_rpc [of "reqMethod req"]
  by (auto simp: Parse_def Let_def maxMethodLength_def methodPattern_def
      split: prod.splits option.splits if_splits)

lemma method_config_enforce:
  "mcHandler (method_config m) = HandlerFullEnforce \<longleftrightarrow>
     m \<in> {''tools/call'', ''resources/read'', ''resources/subscribe''}"
  by (auto simp: method_config_def MethodRegistry_def split: option.splits if_splits)

text \<open>
  The stages of \<^verbatim>\<open>Route\<close>: the context handed to the handlers, when the message gets that far,
  and the audit step after them.
\<close>

definition admitted :: "gojson \<Rightarrow> route_env \<Rightarrow> bytes \<Rightarrow> (Request \<times> RequestContext) option" where
  "admitted gj env message =
     (case fst (Parse gj (reRequest env) message) of
        Inl e \<Rightarrow> None
      | Inr req \<Rightarrow>
          (case NewRequestContextAt (reContext env) (reRandom env) req (reStart env) of
             Panicked p \<Rightarrow> None
           | Return ctx0 \<Rightarrow>
               (case extractRequestDetails gj req ctx0 of
                  (Some e, ctx1) \<Rightarrow> None
                | (None, ctx1) \<Rightarrow> Some (req,
                    case ExtractMeta gj (reqParams req) of
                      Inr (Some meta) \<Rightarrow> ctx1\<lparr>xAgentFactsToken := mpAgentFacts meta\<rparr>
                    | _ \<Rightarrow> ctx1))))"

definition audit_step ::
    "route_env \<Rightarrow> 'w Router \<Rightarrow> Session \<Rightarrow> RequestContext \<Rightarrow> RouterDecision option \<Rightarrow> bytes option \<Rightarrow> (unit, 'w) act" where
  "audit_step env r sess ctx decision response =
     (case roAuditLogger r of
        Some logger \<Rightarrow>
          if mcLogLevel (xConfig ctx) \<noteq> LogNone
          then logger sess ctx decision response (time_sub (reEnd env) (reStart env))
          else ret_act ()
      | None \<Rightarrow> ret_act ())"

lemma Route_admitted:
  "admitted gj env message = Some (req, ctx) \<Longrightarrow>
   Route gj env r sess message =
     bind_act (dispatch gj (reStamp env) r sess ctx message) (\<lambda>(response, decision, err).
       bind_act (audit_step env r sess ctx decision response) (\<lambda>_. ret_act (response, err)))"
  by (auto simp: admitted_def Route_def audit_step_def Let_def
      split: sum.splits call.splits prod.splits option.splits)

lemma Route_rejected:
  "admitted gj env message = None \<Longrightarrow> \<exists>x. \<forall>r sess w. Route gj env r sess message w = (x, w)"
  by (auto simp: admitted_def Route_def ret_act_def panic_act_def Let_def
      split: sum.splits call.splits prod.splits option.splits)

lemma extract_keeps: "extractRequestDetails gj req ctx = (err, ctx') \<Longrightarrow>
    xRequest ctx' = xRequest ctx \<and> xConfig ctx' = xConfig ctx \<and> xMethod ctx' = xMethod ctx"
  by (auto simp: extractRequestDetails_def Let_def split: if_splits sum.splits option.splits)

lemma admitted_ctx:
  assumes "admitted gj env message = Some (req, ctx)"
  shows "ctx_id ctx = reqID req" and "xConfig ctx = method_config (reqMethod req)"
    and "xMethod ctx = reqMethod req" and "fst (Parse gj (reRequest env) message) = Inr req"
  using assms
  by (auto simp: admitted_def NewRequestContextAt_def ctx_id_def
      split: sum.splits call.splits prod.splits option.splits dest!: extract_keeps)

text \<open>The handler of an enforced request, by the outcome of the evaluation.\<close>

lemma dispatch_enforced:
  assumes "admitted gj env message = Some (req, ctx)"
    and "reqMethod req \<in> {''tools/call'', ''resources/read'', ''resources/subscribe''}"
  shows "dispatch gj now r sess ctx message = handleEnforce gj now r sess ctx message"
    and "ctx_id ctx = reqID req"
proof -
  have "mcHandler (xConfig ctx) = HandlerFullEnforce"
    using admitted_ctx(2) [OF assms(1)] assms(2) method_config_enforce by simp
  then show "dispatch gj now r sess ctx message = handleEnforce gj now r sess ctx message"
    by (simp add: dispatch_def)
  show "ctx_id ctx = reqID req" by (rule admitted_ctx(1) [OF assms(1)])
qed

lemma handleEnforce_denied:
  assumes "roPolicyEvaluator r = Some evaluate" and "evaluate sess ctx w = (Return (Some d, None), w1)"
    and "\<not> rdAllow d" and "rdPolicyMode d = ''enforce''"
  shows "handleEnforce gj now r sess ctx message w =
    (Return (marshal_or_nil gj (PolicyViolation now (ctx_id ctx) ctx (sAgentID sess) (sCapabilities sess)
       (rdViolations d) (rdPolicyMode d)), Some d, None), w1)"
  using assms by (simp add: handleEnforce_def bind_act_Return ret_act_def)

lemma handleEnforce_admitted:
  assumes "roPolicyEvaluator r = Some evaluate" and "evaluate sess ctx w = (Return (Some d, None), w1)"
    and "rdAllow d \<or> rdPolicyMode d \<noteq> ''enforce''"
    and "roUpstreamSender r = Some send" and "send message w1 = (Return (reply, err), w2)"
  shows "handleEnforce gj now r sess ctx message w =
    (Return (case err of None \<Rightarrow> reply
       | Some e \<Rightarrow> marshal_or_nil gj (ErrorResponse (ctx_id ctx) CodeUpstreamError e), Some d, None), w2)"
  using assms
  by (auto simp: handleEnforce_def forward_def UpstreamError_def bind_act_Return ret_act_def split: option.split)

lemma PolicyViolation_shape:
  "\<exists>e. respError (PolicyViolation now i ctx a c vs m) = Some e \<and> errCode e = CodePolicyViolation"
  "respID (PolicyViolation now i ctx a c vs m) = i"
  by (simp_all add: PolicyViolation_def ErrorWithData_def Let_def)

text \<open>
  Concrete instances: a codec whose messages are method names, and callbacks that record their calls
  in the world, a list of strings.
\<close>

definition demo_gj :: gojson where
  "demo_gj = \<lparr>
     gjRequest = (\<lambda>data req. (None, req\<lparr>reqJSONRPC := ''2.0'', reqID := GStr ''7'', reqMethod := data, reqParams := Some ''{}''\<rparr>)),
     gjToolCall = (\<lambda>raw. Inr \<lparr>tcName = ''read'', tcArguments = None, tcMeta = None\<rparr>),
     gjResourceRead = (\<lambda>raw. Inl ''no uri''),
     gjRawObject = (\<lambda>raw. Inr []),
     gjMeta = (\<lambda>raw. Inl ''no meta''),
     gjEncode = (\<lambda>resp. Inr (case respError resp of Some e \<Rightarrow> errMessage e @ [CHR 0x0A] | None \<Rightarrow> [])),
     gjMarshal = (\<lambda>resp. Inl ''unused'')\<rparr>"

definition demo_ctx :: RequestContext where
  "demo_ctx = \<lparr>xRequest = None, xRequestID = [], xMethod = ''stale'', xTool = ''stale'', xResourceURI = [],
     xArguments = None, xConfig = method_config [], xReceivedAt = 0, xAgentFactsToken = ''stale''\<rparr>"

definition demo_route_env :: route_env where
  "demo_route_env = \<lparr>reStart = 0, reEnd = 10, reStamp = ''now'', reRandom = (\<lambda>n. Ok (replicate n 0)),
     reRequest = \<lparr>reqJSONRPC = [], reqID = GNil, reqMethod = [], reqParams = None\<rparr>, reContext = demo_ctx\<rparr>"

definition demo_router :: "RouterDecision option \<times> string option \<Rightarrow> string list Router" where
  "demo_router d = \<lparr>
     roPolicyEvaluator = Some (\<lambda>sess ctx w. (Return d, w @ [''evaluate''])),
     roUpstreamSender = Some (\<lambda>msg w. (Return (Some ''reply'', None), w @ [''upstream''])),
     roAuditLogger = Some (\<lambda>sess ctx d resp lat w. (Return (), w @ [''audit'']))\<rparr>"

definition demo_deny :: RouterDecision where
  "demo_deny = \<lparr>rdAllow = False, rdViolations = [''blocked''], rdMatchedRule = [], rdPolicyMode = ''enforce''\<rparr>"

definition demo_sess :: Session where
  "demo_sess = NewSession ''s1'' 0 0"

definition demo_req :: "string \<Rightarrow> Request" where
  "demo_req meth = \<lparr>reqJSONRPC = ''2.0'', reqID = GStr ''7'', reqMethod = meth, reqParams = Some ''{}''\<rparr>"

definition demo_call_ctx :: RequestContext where
  "demo_call_ctx = \<lparr>xRequest = Some (demo_req ''tools/call''), xRequestID = ''req_00000000'', xMethod = ''tools/call'',
     xTool = ''read'', xResourceURI = [], xArguments = None, xConfig = method_config ''tools/call'',
     xReceivedAt = 0, xAgentFactsToken = []\<rparr>"

lemma demo_admitted: "admitted demo_gj demo_route_env ''tools/call'' = Some (demo_req ''tools/call'', demo_call_ctx)"
proof -
  have "fst (Parse demo_gj (reRequest demo_route_env) ''tools/call'') = Inr (demo_req ''tools/call'')"
    by (simp add: Parse_Inr demo_gj_def GetRequest_const demo_req_def methodPattern_def char_class_defs)
  moreover have "EncodeToString (replicate 4 0) = ''00000000''" by code_simp
  ultimately show ?thesis
    by (simp add: admitted_def NewRequestContextAt_def generateRequestID_def randomHex_def demo_route_env_def
        extractRequestDetails_def ParseToolCall_def ExtractMeta_def demo_req_def demo_gj_def demo_ctx_def
        demo_call_ctx_def)
qed

section \<open>Properties\<close>

text \<open>
  Enforcement: when the policy denies an enforced request in enforce mode, the outcome of
  \<^verbatim>\<open>Route\<close> is the evaluation followed by the audit step and nothing else. The upstream sender does
  not occur in it: the message is not forwarded. The client gets a response that carries the
  request's own ID and the policy violation code -32001.
\<close>

lemma denied_not_forwarded:
  assumes "admitted gj env message = Some (req, ctx)"
    and "reqMethod req \<in> {''tools/call'', ''resources/read'', ''resources/subscribe''}"
    and "roPolicyEvaluator r = Some evaluate"
    and "evaluate sess ctx w = (Return (Some d, None), w1)"
    and "\<not> rdAllow d" and "rdPolicyMode d = ''enforce''"
  shows "\<exists>resp e. respError resp = Some e \<and> errCode e = CodePolicyViolation \<and> respID resp = reqID req \<and>
    Route gj env r sess message w =
      bind_act (audit_step env r sess ctx (Some d) (marshal_or_nil gj resp))
        (\<lambda>_. ret_act (marshal_or_nil gj resp, None)) w1"
proof -
  let ?resp = "PolicyViolation (reStamp env) (reqID req) ctx (sAgentID sess) (sCapabilities sess)
    (rdViolations d) (rdPolicyMode d)"
  have "dispatch gj (reStamp env) r sess ctx message w = (Return (marshal_or_nil gj ?resp, Some d, None), w1)"
    using handleEnforce_denied [OF assms(3-6)] by (simp add: dispatch_enforced [OF assms(1,2)])
  then have "Route gj env r sess message w =
      bind_act (audit_step env r sess ctx (Some d) (marshal_or_nil gj ?resp))
        (\<lambda>_. ret_act (marshal_or_nil gj ?resp, None)) w1"
    by (simp add: Route_admitted [OF assms(1)] bind_act_Return)
  then show ?thesis using PolicyViolation_shape by blast
qed

text \<open>
  Errors of the policy engine fail closed: when the evaluation of an enforced request returns an
  error, the message is not forwarded and the client gets the internal error code -32603 under the
  request's ID.
\<close>

lemma policy_error_not_forwarded:
  assumes "admitted gj env message = Some (req, ctx)"
    and "reqMethod req \<in> {''tools/call'', ''resources/read'', ''resources/subscribe''}"
    and "roPolicyEvaluator r = Some evaluate"
    and "evaluate sess ctx w = (Return (dec, Some err), w1)"
  shows "Route gj env r sess message w =
      bind_act (audit_step env r sess ctx dec
          (marshal_or_nil gj (InternalError (reqID req) ''Policy evaluation failed'')))
        (\<lambda>_. ret_act (marshal_or_nil gj (InternalError (reqID req) ''Policy evaluation failed''), None)) w1"
proof -
  have "dispatch gj (reStamp env) r sess ctx message w =
      (Return (marshal_or_nil gj (InternalError (reqID req) ''Policy evaluation failed''), dec, None), w1)"
    using assms(3,4)
    by (simp add: dispatch_enforced [OF assms(1,2)] handleEnforce_def bind_act_Return ret_act_def)
  then show ?thesis by (simp add: Route_admitted [OF assms(1)] bind_act_Return)
qed

text \<open>
  Admission: an enforced request that the policy allows, or that is denied in a mode other than
  enforce (audit mode), is forwarded to the upstream byte for byte, after the evaluation, and its
  answer is returned unchanged; an upstream error becomes a response with code -32004 under the
  request's ID.
\<close>

lemma admitted_forwarded:
  assumes "admitted gj env message = Some (req, ctx)"
    and "reqMethod req \<in> {''tools/call'', ''resources/read'', ''resources/subscribe''}"
    and "roPolicyEvaluator r = Some evaluate" and "roUpstreamSender r = Some send"
    and "evaluate sess ctx w = (Return (Some d, None), w1)"
    and "rdAllow d \<or> rdPolicyMode d \<noteq> ''enforce''"
    and "send message w1 = (Return (reply, err), w2)"
  shows "Route gj env r sess message w =
    (let response = (case err of None \<Rightarrow> reply
                     | Some e \<Rightarrow> marshal_or_nil gj (ErrorResponse (reqID req) CodeUpstreamError e))
     in bind_act (audit_step env r sess ctx (Some d) response) (\<lambda>_. ret_act (response, None)) w2)"
  using handleEnforce_admitted [OF assms(3,5,6,4,7), unfolded dispatch_enforced(2) [OF assms(1,2)]]
  by (simp add: Route_admitted [OF assms(1)] dispatch_enforced(1) [OF assms(1,2)] bind_act_Return Let_def)

text \<open>
  C29. The parser accepts exactly the non-empty messages that decode to a request of version 2.0
  whose method is at most 256 bytes long, starts with a letter and otherwise consists of letters,
  digits, underscores and slashes. Every rejection has the parse error code when the message is
  empty or no JSON, and the invalid request code otherwise.
\<close>

theorem parse_validates:
  "(case fst (Parse gj pooled data) of
      Inr req \<Rightarrow> data \<noteq> [] \<and> gjRequest gj data (GetRequest pooled) = (None, req) \<and>
        reqJSONRPC req = ''2.0'' \<and> length (reqMethod req) \<le> 256 \<and> methodPattern (reqMethod req)
    | Inl e \<Rightarrow> (data = [] \<or> (\<exists>m req. gjRequest gj data (GetRequest pooled) = (Some m, req))) \<and>
          peCode e = CodeParseError \<or>
        (\<exists>req. gjRequest gj data (GetRequest pooled) = (None, req) \<and>
          \<not> (reqJSONRPC req = ''2.0'' \<and> length (reqMethod req) \<le> 256 \<and> methodPattern (reqMethod req))) \<and>
          peCode e = CodeInvalidRequest)"
proof (cases "fst (Parse gj pooled data)")
  case (Inr req)
  then show ?thesis using Parse_Inr [THEN iffD1, OF Inr] by simp
next
  case (Inl e)
  obtain err req where dec: "gjRequest gj data (GetRequest pooled) = (err, req)" by fastforce
  with Inl show ?thesis
    using methodPattern_no_rpc [of "reqMethod req"]
    by (cases err) (auto simp: Parse_def Let_def maxMethodLength_def methodPattern_def split: if_splits)
qed

text \<open>
  C30. The object pools do not leak: whatever the recycled request and context objects held before,
  routing a message gives the same result and the same effects.
\<close>

theorem pools_do_not_leak:
  "Route gj env r sess message = Route gj (env\<lparr>reRequest := staleReq, reContext := staleCtx\<rparr>) r sess message"
proof -
  have "GetRequest (reRequest env) = GetRequest staleReq" by (simp add: GetRequest_const)
  then have "Parse gj (reRequest env) message = Parse gj staleReq message" by (simp add: Parse_def)
  then show ?thesis
    by (cases "fst (Parse gj staleReq message)")
      (simp_all add: Route_def NewRequestContextAt_const [of "reContext env" _ _ _ staleCtx]
        cong: if_cong call.case_cong prod.case_cong option.case_cong)
qed

text \<open>
  Reach of the policy: only \<^verbatim>\<open>tools/call\<close>, \<^verbatim>\<open>resources/read\<close> and
  \<^verbatim>\<open>resources/subscribe\<close> are subject to it. For every other method, the unknown ones
  included, the policy evaluator has no influence: the message goes to the upstream as it is.
\<close>

lemma policy_reach:
  assumes "admitted gj env message = Some (req, ctx)"
    and "reqMethod req \<notin> {''tools/call'', ''resources/read'', ''resources/subscribe''}"
    and "roUpstreamSender r = Some send" and "send message w = (Return (reply, err), w1)"
  shows "\<exists>dec. Route gj env r sess message w =
      bind_act (audit_step env r sess ctx dec reply) (\<lambda>_. ret_act (reply, err)) w1 \<and>
    (\<forall>v. Route gj env (r\<lparr>roPolicyEvaluator := v\<rparr>) sess message w = Route gj env r sess message w)"
proof -
  have "mcHandler (xConfig ctx) \<noteq> HandlerFullEnforce"
    using admitted_ctx(2) [OF assms(1)] assms(2) method_config_enforce by simp
  then obtain dec where dec: "dispatch gj (reStamp env) (r\<lparr>roPolicyEvaluator := v\<rparr>) sess ctx message w =
      (Return (reply, dec, err), w1)" for v
    using assms(3,4) by (cases "mcHandler (xConfig ctx)")
      (auto simp: dispatch_def handlePassthrough_def handleFilter_def bind_act_Return ret_act_def)
  have same: "audit_step env (r\<lparr>roPolicyEvaluator := v\<rparr>) = audit_step env r" for v
    by (simp add: audit_step_def fun_eq_iff)
  have "Route gj env (r\<lparr>roPolicyEvaluator := v\<rparr>) sess message w =
      bind_act (audit_step env r sess ctx dec reply) (\<lambda>_. ret_act (reply, err)) w1" for v
    using dec [of v] same by (simp add: Route_admitted [OF assms(1)] bind_act_Return)
  from this this [of "roPolicyEvaluator r"] show ?thesis by auto
qed

text \<open>
  Pooling is invisible: whatever an earlier response left in the buffer, the bytes are those of
  \<^const>\<open>Marshal\<close>, and the pool keeps no buffer above the limit.
\<close>

lemma Marshal_pooled_result: "fst (Marshal_pooled gj grow resp pick pool) = Marshal gj resp"
  by (simp add: Marshal_pooled_def Marshal_def getBuffer_def Let_def split: sum.split)

lemma Marshal_pooled_bounded:
  "\<forall>buf \<in> set pool. bfCap buf \<le> 4096 \<Longrightarrow> \<forall>buf \<in> set (snd (Marshal_pooled gj grow resp pick pool)). bfCap buf \<le> 4096"
  by (auto simp: Marshal_pooled_def putBuffer_def Let_def split: sum.splits if_splits)

end
