(* ===== verification/Audit_Writer.thy ===== *)
theory Audit_Writer
  imports Prelude
begin

text \<open>
  Audit records and the asynchronous writer: \<^verbatim>\<open>src/internal/audit/types.go\<close> and
  \<^verbatim>\<open>src/internal/audit/writer.go\<close>. The writer's operations are functions on its state; the
  background loop, the request handlers and direct callers of \<^verbatim>\<open>Flush\<close> interleave at the points
  where the code releases the buffer lock, as a transition system. It refines a small abstract log
  that may lose records but never reorders, duplicates or invents one. A second, finer system
  follows the two mutexes.
\<close>

declare map_of_eq_Some_iff [simp del] Some_eq_map_of_iff [simp del]

section \<open>Records\<close>

text \<open>The latency is the exact quotient; the code rounds it to a \<^verbatim>\<open>float64\<close>.\<close>

record AuditRecord =
  arID :: int
  arRequestID :: string
  arSessionID :: string
  arTimestamp :: time
  arLatency :: rat
  arAgentID :: string
  arAgentName :: string
  arCapabilities :: string
  arMethod :: string
  arTool :: string
  arResourceURI :: string
  arArguments :: string
  arIdentityVerified :: bool
  arDID :: string
  arAllowed :: bool
  arMatchedRule :: string
  arViolations :: string
  arPolicyMode :: string
  arSourceIP :: string
  arEnvironment :: string

definition NewRecordBuilder :: "time \<Rightarrow> AuditRecord" where
  "NewRecordBuilder now =
     \<lparr>arID = 0, arRequestID = [], arSessionID = [], arTimestamp = now, arLatency = 0, arAgentID = [],
      arAgentName = [], arCapabilities = [], arMethod = [], arTool = [], arResourceURI = [],
      arArguments = [], arIdentityVerified = False, arDID = [], arAllowed = False,
      arMatchedRule = [], arViolations = [], arPolicyMode = [], arSourceIP = [], arEnvironment = []\<rparr>"

definition Record_WithRequest :: "string \<Rightarrow> string \<Rightarrow> AuditRecord \<Rightarrow> AuditRecord" where
  "Record_WithRequest requestID sessionID b = b\<lparr>arRequestID := requestID, arSessionID := sessionID\<rparr>"

definition Record_WithTiming :: "rat \<Rightarrow> AuditRecord \<Rightarrow> AuditRecord" where
  "Record_WithTiming latencyMs b = b\<lparr>arLatency := latencyMs\<rparr>"

definition Record_WithAgent :: "string \<Rightarrow> string \<Rightarrow> string \<Rightarrow> AuditRecord \<Rightarrow> AuditRecord" where
  "Record_WithAgent agentID agentName capabilities b =
     b\<lparr>arAgentID := agentID, arAgentName := agentName, arCapabilities := capabilities\<rparr>"

definition Record_WithMethod :: "string \<Rightarrow> string \<Rightarrow> string \<Rightarrow> string \<Rightarrow> AuditRecord \<Rightarrow> AuditRecord" where
  "Record_WithMethod meth tool resourceURI arguments b =
     b\<lparr>arMethod := meth, arTool := tool, arResourceURI := resourceURI, arArguments := arguments\<rparr>"

definition Record_WithIdentity :: "bool \<Rightarrow> string \<Rightarrow> AuditRecord \<Rightarrow> AuditRecord" where
  "Record_WithIdentity verified did b = b\<lparr>arIdentityVerified := verified, arDID := did\<rparr>"

definition Record_WithDecision :: "bool \<Rightarrow> string \<Rightarrow> string \<Rightarrow> string \<Rightarrow> AuditRecord \<Rightarrow> AuditRecord" where
  "Record_WithDecision allowed matchedRule violations policyMode b =
     b\<lparr>arAllowed := allowed, arMatchedRule := matchedRule, arViolations := violations,
       arPolicyMode := policyMode\<rparr>"

definition Record_WithEnvironment :: "string \<Rightarrow> string \<Rightarrow> AuditRecord \<Rightarrow> AuditRecord" where
  "Record_WithEnvironment sourceIP environment b = b\<lparr>arSourceIP := sourceIP, arEnvironment := environment\<rparr>"

definition Record_Build :: "AuditRecord \<Rightarrow> AuditRecord" where
  "Record_Build b = b"

section \<open>The writer\<close>

text \<open>The signal channel has room for one token; \<open>wrFlushChan\<close> is the number it holds.\<close>

record Writer =
  wrBuffer :: "AuditRecord list"
  wrBufferMax :: int
  wrFlushInterval :: duration
  wrFlushChan :: nat
  wrCancelled :: bool
  wrWritten :: int
  wrDropped :: int
  wrFlushes :: int

record WriterConfig =
  wcBufferSize :: int
  wcFlushInterval :: duration

definition NewWriter :: "WriterConfig \<Rightarrow> Writer" where
  "NewWriter cfg =
     (let cfg1 = (if wcBufferSize cfg \<le> 0 then cfg\<lparr>wcBufferSize := 100\<rparr> else cfg);
          cfg2 = (if wcFlushInterval cfg1 \<le> 0 then cfg1\<lparr>wcFlushInterval := second\<rparr> else cfg1)
      in \<lparr>wrBuffer = [], wrBufferMax = wcBufferSize cfg2, wrFlushInterval = wcFlushInterval cfg2,
          wrFlushChan = 0, wrCancelled = False, wrWritten = 0, wrDropped = 0, wrFlushes = 0\<rparr>)"

text \<open>
  \<^verbatim>\<open>NewWriter\<close> makes \<^verbatim>\<open>bufferMax\<close> positive, so a full buffer is not empty and slicing
  off its first record is in range.
\<close>

definition Writer_Write :: "AuditRecord \<Rightarrow> Writer \<Rightarrow> Writer" where
  "Writer_Write r w =
     (let w1 = (if int (length (wrBuffer w)) \<ge> wrBufferMax w
                then let w2 = (if wrFlushChan w < 1 then w\<lparr>wrFlushChan := wrFlushChan w + 1\<rparr> else w)
                     in if int (length (wrBuffer w2)) \<ge> wrBufferMax w2
                        then w2\<lparr>wrBuffer := tl (wrBuffer w2), wrDropped := wrap64 (wrDropped w2 + 1)\<rparr>
                        else w2
                else w)
      in w1\<lparr>wrBuffer := wrBuffer w1 @ [r]\<rparr>)"

text \<open>
  \<^verbatim>\<open>flush\<close> in two halves: taking the buffer under its lock, and booking the result of the
  store's batch insertion.
\<close>

definition flush_take :: "Writer \<Rightarrow> (AuditRecord list \<times> Writer) option" where
  "flush_take w = (if length (wrBuffer w) = 0 then None else Some (wrBuffer w, w\<lparr>wrBuffer := []\<rparr>))"

definition flush_finish :: "bool \<Rightarrow> AuditRecord list \<Rightarrow> Writer \<Rightarrow> Writer" where
  "flush_finish ok records w =
     (if ok then w\<lparr>wrWritten := wrap64 (wrWritten w + int (length records)),
                   wrFlushes := wrap64 (wrFlushes w + 1)\<rparr>
      else w\<lparr>wrDropped := wrap64 (wrDropped w + int (length records))\<rparr>)"

text \<open>An undisturbed flush against a store; the store reports whether the batch was inserted.\<close>

definition Writer_flush ::
    "('s \<Rightarrow> AuditRecord list \<Rightarrow> bool \<times> 's) \<Rightarrow> Writer \<times> 's \<Rightarrow> Writer \<times> 's" where
  "Writer_flush insertBatch ws =
     (case flush_take (fst ws) of
        None \<Rightarrow> ws
      | Some (records, w) \<Rightarrow>
          let (ok, s) = insertBatch (snd ws) records in (flush_finish ok records w, s))"

definition Writer_cancel :: "Writer \<Rightarrow> Writer" where
  "Writer_cancel w = w\<lparr>wrCancelled := True\<rparr>"

record WriterStats =
  wsWritten :: int
  wsDropped :: int
  wsFlushes :: int
  wsBufferSize :: int

definition Writer_Stats :: "Writer \<Rightarrow> WriterStats" where
  "Writer_Stats w = \<lparr>wsWritten = wrWritten w, wsDropped = wrDropped w, wsFlushes = wrFlushes w,
     wsBufferSize = int (length (wrBuffer w))\<rparr>"

section \<open>The running writer\<close>

text \<open>
  The loop is idle in its \<^verbatim>\<open>select\<close>, inserting a batch (the flag says that it is the final
  flush), or has returned. \<open>syOthers\<close> are the batches being inserted by direct callers of
  \<^verbatim>\<open>Flush\<close>; \<open>syStored\<close> are the rows of the store in insertion order and \<open>syAccepted\<close>
  records the history of calls of \<^verbatim>\<open>Write\<close>.
\<close>

datatype loop_pc = LIdle | LFlushing "AuditRecord list" bool | LExited

record writer_sys =
  syW :: Writer
  syLoop :: loop_pc
  syOthers :: "AuditRecord list list"
  syStored :: "AuditRecord list"
  syAccepted :: "AuditRecord list"

definition sys_start :: "WriterConfig \<Rightarrow> writer_sys" where
  "sys_start cfg = \<lparr>syW = NewWriter cfg, syLoop = LIdle, syOthers = [], syStored = [], syAccepted = []\<rparr>"

definition sys_write :: "AuditRecord \<Rightarrow> writer_sys \<Rightarrow> writer_sys" where
  "sys_write r s = s\<lparr>syW := Writer_Write r (syW s), syAccepted := syAccepted s @ [r]\<rparr>"

definition after_flush :: "bool \<Rightarrow> loop_pc" where
  "after_flush fin = (if fin then LExited else LIdle)"

definition loop_wake :: "bool \<Rightarrow> Writer \<Rightarrow> writer_sys \<Rightarrow> writer_sys" where
  "loop_wake fin w s =
     (case flush_take w of
        None \<Rightarrow> s\<lparr>syW := w, syLoop := after_flush fin\<rparr>
      | Some (records, w') \<Rightarrow> s\<lparr>syW := w', syLoop := LFlushing records fin\<rparr>)"

definition loop_finish :: "bool \<Rightarrow> AuditRecord list \<Rightarrow> bool \<Rightarrow> writer_sys \<Rightarrow> writer_sys" where
  "loop_finish ok records fin s =
     s\<lparr>syW := flush_finish ok records (syW s), syLoop := after_flush fin,
       syStored := (if ok then syStored s @ records else syStored s)\<rparr>"

definition call_finish :: "bool \<Rightarrow> nat \<Rightarrow> writer_sys \<Rightarrow> writer_sys" where
  "call_finish ok i s =
     s\<lparr>syW := flush_finish ok (syOthers s ! i) (syW s),
       syOthers := take i (syOthers s) @ drop (Suc i) (syOthers s),
       syStored := (if ok then syStored s @ syOthers s ! i else syStored s)\<rparr>"

text \<open>
  The steps; \<open>callers\<close> says whether \<^verbatim>\<open>Flush\<close> is called directly (the proxy itself never
  does).
\<close>

inductive writer_step :: "bool \<Rightarrow> writer_sys \<Rightarrow> writer_sys \<Rightarrow> bool" for callers :: bool where
  w_write: "writer_step callers s (sys_write r s)"
| w_tick: "syLoop s = LIdle \<Longrightarrow> writer_step callers s (loop_wake False (syW s) s)"
| w_signal: "syLoop s = LIdle \<Longrightarrow> wrFlushChan (syW s) > 0 \<Longrightarrow>
    writer_step callers s (loop_wake False ((syW s)\<lparr>wrFlushChan := wrFlushChan (syW s) - 1\<rparr>) s)"
| w_shutdown: "syLoop s = LIdle \<Longrightarrow> wrCancelled (syW s) \<Longrightarrow> writer_step callers s (loop_wake True (syW s) s)"
| w_inserted: "syLoop s = LFlushing records fin \<Longrightarrow> writer_step callers s (loop_finish ok records fin s)"
| w_stop: "writer_step callers s (s\<lparr>syW := Writer_cancel (syW s)\<rparr>)"
| w_call: "callers \<Longrightarrow> flush_take (syW s) = Some (records, w) \<Longrightarrow>
    writer_step callers s (s\<lparr>syW := w, syOthers := syOthers s @ [records]\<rparr>)"
| w_called: "i < length (syOthers s) \<Longrightarrow> writer_step callers s (call_finish ok i s)"

definition in_loop :: "writer_sys \<Rightarrow> AuditRecord list" where
  "in_loop s = (case syLoop s of LFlushing records fin \<Rightarrow> records | _ \<Rightarrow> [])"

definition pending :: "writer_sys \<Rightarrow> nat" where
  "pending s = length (wrBuffer (syW s)) + length (in_loop s) + length (concat (syOthers s))"

section \<open>The abstract log\<close>

record lossy_log =
  llAccepted :: "AuditRecord list"
  llPending :: "AuditRecord list"
  llLog :: "AuditRecord list"

definition log_empty :: "lossy_log \<Rightarrow> bool" where
  "log_empty l \<longleftrightarrow> l = \<lparr>llAccepted = [], llPending = [], llLog = []\<rparr>"

inductive log_step :: "lossy_log \<Rightarrow> lossy_log \<Rightarrow> bool" where
  accept: "log_step l (l\<lparr>llAccepted := llAccepted l @ [r], llPending := llPending l @ [r]\<rparr>)"
| displace: "llPending l = xs @ d # ys \<Longrightarrow>
    log_step l (l\<lparr>llAccepted := llAccepted l @ [r], llPending := xs @ ys @ [r]\<rparr>)"
| commit: "llPending l = b @ ps \<Longrightarrow> log_step l (l\<lparr>llPending := ps, llLog := llLog l @ b\<rparr>)"
| lose: "llPending l = b @ ps \<Longrightarrow> log_step l (l\<lparr>llPending := ps\<rparr>)"

definition log_inv :: "lossy_log \<Rightarrow> bool" where
  "log_inv l \<longleftrightarrow> subseq (llLog l @ llPending l) (llAccepted l)"

definition writer_abs :: "writer_sys \<Rightarrow> lossy_log" where
  "writer_abs s = \<lparr>llAccepted = syAccepted s, llPending = in_loop s @ wrBuffer (syW s), llLog = syStored s\<rparr>"

section \<open>The two mutexes\<close>

text \<open>
  One caller of \<^verbatim>\<open>Write\<close> and one caller of \<^verbatim>\<open>Stats\<close>, step by step between lock
  operations. \<^verbatim>\<open>Write\<close> takes \<^verbatim>\<open>bufferMu\<close> and, when the buffer is full,
  \<^verbatim>\<open>metricMu\<close> inside it; \<^verbatim>\<open>Stats\<close> takes \<^verbatim>\<open>metricMu\<close> and then
  \<^verbatim>\<open>bufferMu\<close>. A lock holds the thread that owns it.
\<close>

datatype lock_thread = WriteThread | StatsThread

datatype write_pc = WStart | WLocked | WFull | WMetric | WAppend | WEnd

datatype stats_pc = SStart | SMetric | SBuffer | SUnlocked | SEnd

record lock_state =
  lsW :: Writer
  lsBufferMu :: "lock_thread option"
  lsMetricMu :: "lock_thread option"
  lsWrite :: write_pc
  lsStats :: stats_pc
  lsResult :: "WriterStats option"

inductive lock_step :: "AuditRecord \<Rightarrow> lock_state \<Rightarrow> lock_state \<Rightarrow> bool" for r :: AuditRecord where
  l_lock_buffer: "lsWrite s = WStart \<Longrightarrow> lsBufferMu s = None \<Longrightarrow>
    lock_step r s (s\<lparr>lsWrite := WLocked, lsBufferMu := Some WriteThread\<rparr>)"
| l_full: "lsWrite s = WLocked \<Longrightarrow> int (length (wrBuffer (lsW s))) \<ge> wrBufferMax (lsW s) \<Longrightarrow>
    lock_step r s (s\<lparr>lsWrite := WFull,
      lsW := (lsW s)\<lparr>wrFlushChan := max 1 (wrFlushChan (lsW s)), wrBuffer := tl (wrBuffer (lsW s))\<rparr>\<rparr>)"
| l_room: "lsWrite s = WLocked \<Longrightarrow> int (length (wrBuffer (lsW s))) < wrBufferMax (lsW s) \<Longrightarrow>
    lock_step r s (s\<lparr>lsWrite := WAppend\<rparr>)"
| l_lock_metric: "lsWrite s = WFull \<Longrightarrow> lsMetricMu s = None \<Longrightarrow>
    lock_step r s (s\<lparr>lsWrite := WMetric, lsMetricMu := Some WriteThread\<rparr>)"
| l_count: "lsWrite s = WMetric \<Longrightarrow>
    lock_step r s (s\<lparr>lsWrite := WAppend, lsMetricMu := None,
      lsW := (lsW s)\<lparr>wrDropped := wrap64 (wrDropped (lsW s) + 1)\<rparr>\<rparr>)"
| l_append: "lsWrite s = WAppend \<Longrightarrow>
    lock_step r s (s\<lparr>lsWrite := WEnd, lsBufferMu := None,
      lsW := (lsW s)\<lparr>wrBuffer := wrBuffer (lsW s) @ [r]\<rparr>\<rparr>)"
| l_stats_metric: "lsStats s = SStart \<Longrightarrow> lsMetricMu s = None \<Longrightarrow>
    lock_step r s (s\<lparr>lsStats := SMetric, lsMetricMu := Some StatsThread\<rparr>)"
| l_stats_buffer: "lsStats s = SMetric \<Longrightarrow> lsBufferMu s = None \<Longrightarrow>
    lock_step r s (s\<lparr>lsStats := SBuffer, lsBufferMu := Some StatsThread\<rparr>)"
| l_stats_read: "lsStats s = SBuffer \<Longrightarrow>
    lock_step r s (s\<lparr>lsStats := SUnlocked, lsBufferMu := None, lsResult := Some (Writer_Stats (lsW s))\<rparr>)"
| l_stats_return: "lsStats s = SUnlocked \<Longrightarrow>
    lock_step r s (s\<lparr>lsStats := SEnd, lsMetricMu := None\<rparr>)"

inductive_cases lock_stepE: "lock_step r s t"

definition lock_init :: "Writer \<Rightarrow> lock_state \<Rightarrow> bool" where
  "lock_init w s \<longleftrightarrow> s = \<lparr>lsW = w, lsBufferMu = None, lsMetricMu = None, lsWrite = WStart,
     lsStats = SStart, lsResult = None\<rparr>"

section \<open>Lemmas\<close>

definition writer_ok :: "Writer \<Rightarrow> bool" where
  "writer_ok w \<longleftrightarrow> 1 \<le> wrBufferMax w \<and> int (length (wrBuffer w)) \<le> wrBufferMax w"

lemma NewWriter_ok: "writer_ok (NewWriter cfg)"
  by (simp add: writer_ok_def NewWriter_def Let_def)

lemma Writer_Write_buffer: "writer_ok w \<Longrightarrow> wrBuffer (Writer_Write r w) =
    (if int (length (wrBuffer w)) = wrBufferMax w then tl (wrBuffer w) else wrBuffer w) @ [r]"
  by (auto simp: Writer_Write_def writer_ok_def Let_def)

lemma Writer_Write_fields [simp]:
  "wrBufferMax (Writer_Write r w) = wrBufferMax w" "wrWritten (Writer_Write r w) = wrWritten w"
  by (simp_all add: Writer_Write_def Let_def)

lemma Writer_Write_dropped: "writer_ok w \<Longrightarrow> wrDropped (Writer_Write r w) =
    (if int (length (wrBuffer w)) = wrBufferMax w then wrap64 (wrDropped w + 1) else wrDropped w)"
  by (auto simp: Writer_Write_def writer_ok_def Let_def)

lemma Writer_Write_ok: "writer_ok w \<Longrightarrow> writer_ok (Writer_Write r w)"
  by (auto simp: writer_ok_def Writer_Write_buffer [unfolded writer_ok_def])

lemma flush_take_Some: "flush_take w = Some (rs, w') \<longleftrightarrow> rs = wrBuffer w \<and> rs \<noteq> [] \<and> w' = w\<lparr>wrBuffer := []\<rparr>"
  by (auto simp: flush_take_def)

lemma flush_take_None: "flush_take w = None \<longleftrightarrow> wrBuffer w = []"
  by (simp add: flush_take_def)

lemma flush_finish_fields [simp]:
  "wrBuffer (flush_finish ok rs w) = wrBuffer w" "wrBufferMax (flush_finish ok rs w) = wrBufferMax w"
  by (simp_all add: flush_finish_def)

lemma flush_finish_ok [simp]: "writer_ok (flush_finish ok rs w) = writer_ok w"
  by (simp add: writer_ok_def)

lemma writer_ok_updates [simp]:
  "writer_ok (w\<lparr>wrFlushChan := n\<rparr>) = writer_ok w" "writer_ok (Writer_cancel w) = writer_ok w"
  "writer_ok w \<Longrightarrow> writer_ok (w\<lparr>wrBuffer := []\<rparr>)"
  by (simp_all add: writer_ok_def Writer_cancel_def)

lemma loop_wake_ok: "writer_ok w \<Longrightarrow> writer_ok (syW (loop_wake fin w s))"
  by (auto simp: loop_wake_def flush_take_def)

lemma Writer_Write_all:
  "writer_ok w \<Longrightarrow> int (length (wrBuffer w) + length rs) \<le> wrBufferMax w \<Longrightarrow>
   wrBuffer (fold Writer_Write rs w) = wrBuffer w @ rs \<and> wrDropped (fold Writer_Write rs w) = wrDropped w \<and>
   wrWritten (fold Writer_Write rs w) = wrWritten w"
  by (induction rs arbitrary: w) (simp_all add: Writer_Write_buffer Writer_Write_dropped Writer_Write_ok)

section \<open>What the writer relies on in its store\<close>

text \<open>
  The interface of \<^verbatim>\<open>flush\<close>: a batch insertion that reports success has added every record, one
  that reports an error has added none.
\<close>

locale audit_sink =
  fixes insertBatch :: "'s \<Rightarrow> AuditRecord list \<Rightarrow> bool \<times> 's"
    and rows :: "'s \<Rightarrow> 'r list"
    and row_of :: "AuditRecord \<Rightarrow> 'r"
    and invar :: "'s \<Rightarrow> bool"
  assumes insert_all_rows: "invar s \<Longrightarrow> insertBatch s records = (True, s') \<Longrightarrow>
      rows s' = rows s @ map row_of records"
    and insert_no_rows: "invar s \<Longrightarrow> insertBatch s records = (False, s') \<Longrightarrow> rows s' = rows s"
    and insert_invar: "invar s \<Longrightarrow> insertBatch s records = (ok, s') \<Longrightarrow> invar s'"
begin

lemma flush_accounts:
  assumes "invar s" and "Writer_flush insertBatch (w, s) = (w', s')"
  shows "wrBuffer w' = [] \<and> invar s' \<and>
    (rows s' = rows s @ map row_of (wrBuffer w) \<and> wrDropped w' = wrDropped w \<or>
     rows s' = rows s \<and> wrDropped w' = wrap64 (wrDropped w + int (length (wrBuffer w))))"
proof (cases "wrBuffer w = []")
  case True
  with assms show ?thesis by (simp add: Writer_flush_def flush_take_def)
next
  case False
  obtain ok s1 where ins: "insertBatch s (wrBuffer w) = (ok, s1)" by fastforce
  with False assms(2) have "w' = flush_finish ok (wrBuffer w) (w\<lparr>wrBuffer := []\<rparr>)" "s' = s1"
    by (simp_all add: Writer_flush_def flush_take_def)
  then show ?thesis
    using ins insert_all_rows [OF assms(1)] insert_no_rows [OF assms(1)] insert_invar [OF assms(1)]
    by (cases ok) (auto simp: flush_finish_def)
qed

lemma write_then_flush:
  assumes "invar s" and "writer_ok w" and "int (length (wrBuffer w) + length rs) \<le> wrBufferMax w"
    and "Writer_flush insertBatch (fold Writer_Write rs w, s) = (w', s')"
  shows "wrBuffer w' = [] \<and>
    (rows s' = rows s @ map row_of (wrBuffer w @ rs) \<and> wrDropped w' = wrDropped w \<or>
     rows s' = rows s \<and> wrDropped w' = wrap64 (wrDropped w + int (length (wrBuffer w @ rs))))"
  using flush_accounts [OF assms(1,4)] Writer_Write_all [OF assms(2,3)] by auto

end

section \<open>The running writer: conservation\<close>

text \<open>Conservation: every accepted record is stored, counted as dropped, or still on its way.\<close>

definition balanced :: "writer_sys \<Rightarrow> bool" where
  "balanced s \<longleftrightarrow> 0 \<le> wrDropped (syW s) \<and> wrWritten (syW s) = int (length (syStored s)) \<and>
     wrWritten (syW s) + wrDropped (syW s) + int (pending s) = int (length (syAccepted s))"

definition sys_inv :: "writer_sys \<Rightarrow> bool" where
  "sys_inv s \<longleftrightarrow> writer_ok (syW s) \<and> (int (length (syAccepted s)) \<le> max_int64 \<longrightarrow> balanced s)"

lemma wrap64_count: "0 \<le> x \<Longrightarrow> x \<le> max_int64 \<Longrightarrow> wrap64 x = x"
  by (rule wrap64_id) (simp_all add: int64_defs)

lemma concat_remove_nth:
  "i < length xss \<Longrightarrow> length (concat xss) = length (xss ! i) + length (concat (take i xss @ drop (Suc i) xss))"
proof -
  assume "i < length xss"
  then have "concat xss = concat (take i xss @ xss ! i # drop (Suc i) xss)"
    by (simp add: id_take_nth_drop [symmetric])
  then show ?thesis by simp
qed

lemma balanced_finish:
  assumes "balanced s" and "int (length (syAccepted s)) \<le> max_int64"
    and "syW s' = flush_finish ok rs (syW s)" and "syAccepted s' = syAccepted s"
    and "syStored s' = (if ok then syStored s @ rs else syStored s)"
    and "pending s = pending s' + length rs"
  shows "balanced s'"
proof -
  have "wrap64 (wrWritten (syW s) + int (length rs)) = wrWritten (syW s) + int (length rs)"
    "wrap64 (wrDropped (syW s) + int (length rs)) = wrDropped (syW s) + int (length rs)"
    using assms(1,2,6) by (auto simp: balanced_def intro!: wrap64_count)
  with assms show ?thesis by (auto simp: balanced_def flush_finish_def)
qed

lemma sys_inv_start: "sys_inv (sys_start cfg)"
  using NewWriter_ok [of cfg]
  by (simp add: sys_inv_def sys_start_def balanced_def pending_def in_loop_def)
    (simp add: NewWriter_def Let_def)

lemma sys_inv_write [op_invs]: "sys_inv s \<Longrightarrow> sys_inv (sys_write r s)"
proof -
  assume inv: "sys_inv s"
  let ?w = "syW s"
  have ok: "writer_ok ?w" using inv by (simp add: sys_inv_def)
  have "balanced (sys_write r s)" if le: "int (length (syAccepted (sys_write r s))) \<le> max_int64"
  proof -
    have bal: "balanced s" using le inv by (simp add: sys_inv_def sys_write_def)
    then have "wrap64 (wrDropped ?w + 1) = wrDropped ?w + 1"
      using le by (intro wrap64_count) (auto simp: balanced_def sys_write_def)
    with bal ok show ?thesis
      by (auto simp: balanced_def sys_write_def pending_def in_loop_def Writer_Write_buffer
          Writer_Write_dropped writer_ok_def)
  qed
  then show ?thesis using ok by (simp add: sys_inv_def Writer_Write_ok) (simp add: sys_write_def Writer_Write_ok)
qed

lemma sys_inv_wake [op_invs]:
  assumes "sys_inv s" and "syLoop s = LIdle"
    and "wrBuffer w = wrBuffer (syW s)" "wrBufferMax w = wrBufferMax (syW s)"
      "wrWritten w = wrWritten (syW s)" "wrDropped w = wrDropped (syW s)"
  shows "sys_inv (loop_wake fin w s)"
  using assms
  by (auto simp: sys_inv_def loop_wake_def balanced_def pending_def in_loop_def after_flush_def writer_ok_def
      flush_take_Some flush_take_None split: option.split)

lemma sys_inv_cancel [op_invs]: "sys_inv s \<Longrightarrow> sys_inv (s\<lparr>syW := Writer_cancel (syW s)\<rparr>)"
  by (auto simp: sys_inv_def balanced_def pending_def in_loop_def writer_ok_def Writer_cancel_def)

lemma sys_inv_step: "sys_inv s \<Longrightarrow> writer_step callers s t \<Longrightarrow> sys_inv t"
proof (erule writer_step.cases)
  fix r s' assume "sys_inv s" "s = s'" "t = sys_write r s'"
  then show ?thesis by (simp add: sys_inv_write)
next
  fix s' records fin ok
  assume *: "sys_inv s" "s = s'" "t = loop_finish ok records fin s'" "syLoop s' = LFlushing records fin"
  have "balanced t" if "int (length (syAccepted t)) \<le> max_int64"
    by (rule balanced_finish [of s t ok records])
      (use * that in \<open>auto simp: sys_inv_def loop_finish_def pending_def in_loop_def after_flush_def\<close>)
  with * show ?thesis by (simp add: sys_inv_def loop_finish_def)
next
  fix s' i ok
  assume *: "sys_inv s" "s = s'" "t = call_finish ok i s'" "i < length (syOthers s')"
  have "balanced t" if "int (length (syAccepted t)) \<le> max_int64"
    by (rule balanced_finish [of s t ok "syOthers s ! i"])
      (use * that concat_remove_nth [of i "syOthers s"] in
        \<open>auto simp: sys_inv_def call_finish_def pending_def in_loop_def\<close>)
  with * show ?thesis by (simp add: sys_inv_def call_finish_def)
next
  fix s' records w
  assume "sys_inv s" "s = s'" "t = s'\<lparr>syW := w, syOthers := syOthers s' @ [records]\<rparr>"
    "flush_take (syW s') = Some (records, w)"
  then show ?thesis
    by (auto simp: sys_inv_def balanced_def pending_def in_loop_def flush_take_Some writer_ok_def)
qed (auto intro!: op_invs)

interpretation ws: safe_system "\<lambda>s. s = sys_start cfg" "writer_step callers" sys_inv for cfg callers
  by unfold_locales (auto intro: sys_inv_start sys_inv_step)

text \<open>The writer without direct callers refines the abstract log.\<close>

lemma log_inv_step: "log_inv l \<Longrightarrow> log_step l m \<Longrightarrow> log_inv m"
proof (erule log_step.cases)
  fix l' r assume "log_inv l" "l = l'" "m = l'\<lparr>llAccepted := llAccepted l' @ [r], llPending := llPending l' @ [r]\<rparr>"
  then show ?thesis
    using list_emb_append_mono [of "(=)" "llLog l @ llPending l" "llAccepted l" "[r]" "[r]"]
    by (simp add: log_inv_def)
next
  fix l' xs d ys r
  assume *: "log_inv l" "l = l'" "m = l'\<lparr>llAccepted := llAccepted l' @ [r], llPending := xs @ ys @ [r]\<rparr>"
    "llPending l' = xs @ d # ys"
  have "subseq ((llLog l @ xs) @ ys) ((llLog l @ xs) @ d # ys)"
    by (intro list_emb_append_mono subseq_order.refl) (simp add: subseq_Cons')
  also have "subseq \<dots> (llAccepted l)" using * by (simp add: log_inv_def)
  finally show ?thesis
    using * list_emb_append_mono [of "(=)" "(llLog l @ xs) @ ys" "llAccepted l" "[r]" "[r]"]
    by (simp add: log_inv_def)
next
  fix l' b ps assume "log_inv l" "l = l'" "m = l'\<lparr>llPending := ps, llLog := llLog l' @ b\<rparr>" "llPending l' = b @ ps"
  then show ?thesis by (simp add: log_inv_def)
next
  fix l' b ps assume *: "log_inv l" "l = l'" "m = l'\<lparr>llPending := ps\<rparr>" "llPending l' = b @ ps"
  have "subseq (llLog l @ ps) (llLog l @ b @ ps)"
    by (intro list_emb_append_mono subseq_order.refl) (simp add: list_emb_append2 subseq_order.refl)
  also have "subseq \<dots> (llAccepted l)" using * by (simp add: log_inv_def)
  finally show ?thesis using * by (simp add: log_inv_def)
qed

interpretation ll: safe_system log_empty log_step log_inv
proof unfold_locales
  show "log_empty l \<Longrightarrow> log_inv l" for l by (simp add: log_empty_def log_inv_def)
  show "log_inv l \<Longrightarrow> log_step l m \<Longrightarrow> log_inv m" for l m by (rule log_inv_step)
qed

definition loop_inv :: "writer_sys \<Rightarrow> bool" where
  "loop_inv s \<longleftrightarrow> writer_ok (syW s) \<and> syOthers s = []"

lemma loop_wake_others: "syOthers (loop_wake fin w s) = syOthers s"
  by (simp add: loop_wake_def split: option.split)

lemma loop_inv_step: "loop_inv s \<Longrightarrow> writer_step False s t \<Longrightarrow> loop_inv t"
  by (erule writer_step.cases)
    (auto simp: loop_inv_def sys_write_def loop_finish_def Writer_Write_ok loop_wake_ok loop_wake_others)

lemma writer_abs_wake: "syLoop s = LIdle \<Longrightarrow> wrBuffer w = wrBuffer (syW s) \<Longrightarrow>
    writer_abs (loop_wake fin w s) = writer_abs s"
  by (simp add: writer_abs_def loop_wake_def in_loop_def after_flush_def flush_take_def)

lemma writer_abs_cancel: "writer_abs (s\<lparr>syW := Writer_cancel (syW s)\<rparr>) = writer_abs s"
  by (simp add: writer_abs_def in_loop_def Writer_cancel_def)

lemma writer_abs_write:
  assumes "loop_inv s"
  shows "log_step (writer_abs s) (writer_abs (sys_write r s))"
proof (cases "int (length (wrBuffer (syW s))) = wrBufferMax (syW s)")
  case True
  then obtain d ys where b: "wrBuffer (syW s) = d # ys"
    using assms by (cases "wrBuffer (syW s)") (auto simp: loop_inv_def writer_ok_def)
  then have "llPending (writer_abs s) = in_loop s @ d # ys" by (simp add: writer_abs_def)
  from log_step.displace [OF this, of r] show ?thesis
    using True b assms by (simp add: writer_abs_def sys_write_def in_loop_def loop_inv_def Writer_Write_buffer)
next
  case False
  with assms log_step.accept [of "writer_abs s" r] show ?thesis
    by (simp add: writer_abs_def sys_write_def in_loop_def loop_inv_def Writer_Write_buffer)
qed

lemma writer_abs_finish:
  assumes "syLoop s = LFlushing rs fin"
  shows "log_step (writer_abs s) (writer_abs (loop_finish ok rs fin s))"
proof -
  have "llPending (writer_abs s) = rs @ wrBuffer (syW s)" using assms by (simp add: writer_abs_def in_loop_def)
  from log_step.commit [OF this] log_step.lose [OF this] show ?thesis
    by (simp add: writer_abs_def loop_finish_def in_loop_def after_flush_def)
qed

interpretation wl: simulation "\<lambda>s. s = sys_start cfg" "writer_step False" loop_inv log_empty log_step writer_abs
  for cfg
proof unfold_locales
  fix s t
  show "s = sys_start cfg \<Longrightarrow> loop_inv s" by (simp add: loop_inv_def sys_start_def NewWriter_ok)
  show "loop_inv s \<Longrightarrow> writer_step False s t \<Longrightarrow> loop_inv t" by (rule loop_inv_step)
  show "s = sys_start cfg \<Longrightarrow> log_empty (writer_abs s)"
    by (simp add: log_empty_def writer_abs_def sys_start_def in_loop_def NewWriter_def Let_def)
  show "loop_inv s \<Longrightarrow> writer_step False s t \<Longrightarrow> writer_abs t = writer_abs s \<or> log_step (writer_abs s) (writer_abs t)"
    by (erule writer_step.cases)
      (auto simp: writer_abs_wake writer_abs_write writer_abs_finish writer_abs_cancel loop_inv_def)
qed

section \<open>Properties\<close>

definition demo_record :: "nat \<Rightarrow> AuditRecord" where
  "demo_record n = Record_WithRequest (''req_'' @ replicate n (CHR ''x'')) ''s1'' (NewRecordBuilder 0)"

definition demo_writer_cfg :: WriterConfig where
  "demo_writer_cfg = \<lparr>wcBufferSize = 1, wcFlushInterval = 0\<rparr>"

definition demo_full :: writer_sys where
  "demo_full = sys_write (demo_record 1) (sys_write (demo_record 0) (sys_start demo_writer_cfg))"

lemma demo_full_reach: "reach (\<lambda>s. s = sys_start demo_writer_cfg) (writer_step callers) demo_full"
proof -
  let ?R = "reach (\<lambda>s. s = sys_start demo_writer_cfg) (writer_step callers)"
  have "?R (sys_start demo_writer_cfg)" by (rule reach.reach_init) simp
  then have "?R (sys_write (demo_record 0) (sys_start demo_writer_cfg))" by (rule reach.reach_step) (rule w_write)
  then show ?thesis unfolding demo_full_def by (rule reach.reach_step) (rule w_write)
qed

text \<open>
  C11. Conservation in the audit writer: in every state reached by any interleaving of request
  handlers, the flush loop, direct flushes and shutdown, with insertions that may fail, the buffer
  stays within its bound and every record ever accepted is stored, counted as dropped, or still in
  the buffer or in a batch being inserted; the written counter is the number of stored rows.
\<close>

theorem audit_conservation:
  assumes "reach (\<lambda>s. s = sys_start cfg) (writer_step callers) s"
    and "int (length (syAccepted s)) \<le> max_int64"
  shows "int (length (wrBuffer (syW s))) \<le> wrBufferMax (syW s) \<and>
    wrWritten (syW s) = int (length (syStored s)) \<and>
    wrWritten (syW s) + wrDropped (syW s) + int (pending s) = int (length (syAccepted s))"
  using ws.reach_inv [OF assms(1)] assms(2) by (simp add: sys_inv_def balanced_def writer_ok_def)

theorem audit_conservation_witness:
  "wrDropped (syW demo_full) + 1 = int (length (syAccepted demo_full)) \<and> wrDropped (syW demo_full) = 1"
proof -
  have acc: "int (length (syAccepted demo_full)) = 2" "wrWritten (syW demo_full) = 0" "pending demo_full = 1"
    by code_simp+
  then have "int (length (syAccepted demo_full)) \<le> max_int64" by (simp add: max_int64_def)
  from audit_conservation [OF demo_full_reach this] acc show ?thesis by simp
qed



text \<open>
  C31. \<^verbatim>\<open>Write\<close> and \<^verbatim>\<open>Stats\<close> can deadlock: from any writer whose buffer is full there is
  an interleaving after which the one holds \<^verbatim>\<open>bufferMu\<close> and waits for \<^verbatim>\<open>metricMu\<close>, the
  other the reverse, and no step is possible although neither has returned.
\<close>

theorem write_stats_deadlock:
  assumes "wrBufferMax w \<le> int (length (wrBuffer w))"
  shows "\<exists>s. reach (lock_init w) (lock_step r) s \<and> lsWrite s = WFull \<and> lsStats s = SMetric \<and>
    (\<forall>t. \<not> lock_step r s t)"
proof -
  define s0 where "s0 = \<lparr>lsW = w, lsBufferMu = None, lsMetricMu = None, lsWrite = WStart,
     lsStats = SStart, lsResult = None\<rparr>"
  define s1 where "s1 = s0\<lparr>lsWrite := WLocked, lsBufferMu := Some WriteThread\<rparr>"
  define s2 where "s2 = s1\<lparr>lsWrite := WFull,
      lsW := (lsW s1)\<lparr>wrFlushChan := max 1 (wrFlushChan (lsW s1)), wrBuffer := tl (wrBuffer (lsW s1))\<rparr>\<rparr>"
  define s3 where "s3 = s2\<lparr>lsStats := SMetric, lsMetricMu := Some StatsThread\<rparr>"
  have "lock_init w s0" by (simp add: lock_init_def s0_def)
  moreover have "lock_step r s0 s1" unfolding s1_def by (rule l_lock_buffer) (simp_all add: s0_def)
  moreover have "lock_step r s1 s2" unfolding s2_def by (rule l_full) (use assms in \<open>simp_all add: s1_def s0_def\<close>)
  moreover have "lock_step r s2 s3" unfolding s3_def by (rule l_stats_metric) (simp_all add: s2_def s1_def s0_def)
  ultimately have "reach (lock_init w) (lock_step r) s3" by (meson reach.intros)
  moreover have s3: "lsWrite s3 = WFull" "lsStats s3 = SMetric" "lsBufferMu s3 = Some WriteThread"
    "lsMetricMu s3 = Some StatsThread" by (simp_all add: s3_def s2_def s1_def s0_def)
  moreover have "\<not> lock_step r s3 t" for t by (auto elim!: lock_stepE simp: s3)
  ultimately show ?thesis by blast
qed

theorem write_stats_deadlock_witness:
  "\<exists>s. reach (lock_init (syW demo_full)) (lock_step (demo_record 2)) s \<and> (\<forall>t. \<not> lock_step (demo_record 2) s t)"
proof -
  have "wrBufferMax (syW demo_full) \<le> int (length (wrBuffer (syW demo_full)))" by code_simp
  from write_stats_deadlock [OF this, of "demo_record 2"] show ?thesis by blast
qed

end
