(* ===== verification/Config.thy ===== *)
theory Config
  imports Prelude "HOL-Library.Multiset"
begin

text \<open>
  The configuration, \<^verbatim>\<open>src/internal/config\<close>: its types, defaults, environment overrides and
  validation. Reading the file and decoding YAML are parameters; the process environment is a
  function that gives the empty string for a variable that is not set.
\<close>

declare map_of_eq_Some_iff [simp del] Some_eq_map_of_iff [simp del]

section \<open>Types\<close>

record ListenConfig =
  liAddress :: string
  liPort :: int

record SecurityConfig =
  seCORSAllowedOrigins :: "string slice"
  seEnableSecurityHeaders :: bool

record ServerConfig =
  svListen :: ListenConfig
  svTransport :: string
  svReadTimeout :: duration
  svWriteTimeout :: duration
  svIdleTimeout :: duration
  svGracefulShutdown :: duration
  svMaxConnections :: int
  svSecurity :: SecurityConfig

record ConnectionPoolConfig =
  cpMaxIdle :: int
  cpMaxOpen :: int
  cpIdleTimeout :: duration

record RetryConfig =
  rtEnabled :: bool
  rtMaxAttempts :: int
  rtInitialDelay :: duration
  rtMaxDelay :: duration
  rtBackoff :: string

record CircuitBreakerConfig =
  cbEnabled :: bool
  cbThreshold :: int
  cbTimeout :: duration

record UpstreamConfig =
  upURL :: string
  upTransport :: string
  upTimeout :: duration
  upConnectionPool :: ConnectionPoolConfig
  upRetry :: RetryConfig
  upCircuitBreaker :: CircuitBreakerConfig

record AgentConfig =
  agID :: string
  agName :: string
  agCapabilities :: "string slice"
  agModel :: string
  agPublisher :: string
  agTags :: "string slice"

record CacheSettings =
  chEnabled :: bool
  chTTL :: duration
  chMaxEntries :: int

record AgentFactsConfig =
  afMode :: string
  afMaxAge :: duration
  afClockSkew :: duration
  afAllowedDIDs :: "string slice"
  afVerifyLogProof :: bool
  afCache :: CacheSettings

record EvaluationConfig =
  evTimeout :: duration
  evStrictBuiltinErrors :: bool

record PolicyConfig =
  poEnabled :: bool
  poMode :: string
  poPolicyDir :: string
  poJSONPolicyDir :: string
  poDataFile :: string
  poWatchForChanges :: bool
  poEnvironment :: string
  poCache :: CacheSettings
  poEvaluation :: EvaluationConfig

record CaptureConfig =
  caRequestArguments :: bool
  caResponseSummary :: bool

record AuditConfig =
  auEnabled :: bool
  auDBPath :: string
  auBufferSize :: int
  auFlushInterval :: duration
  auRetentionDays :: int
  auCapture :: CaptureConfig

record MetricsConfig =
  meEnabled :: bool
  meAddress :: string
  mePort :: int
  mePath :: string

record HealthConfig =
  heEnabled :: bool
  heAddress :: string
  hePort :: int
  heLivenessPath :: string
  heReadinessPath :: string

record FileConfig =
  fiPath :: string
  fiMaxSize :: int
  fiMaxBackups :: int
  fiMaxAge :: int

record LoggingConfig =
  loLevel :: string
  loFormat :: string
  loOutput :: string
  loFile :: FileConfig

record TLSConfig =
  tlEnabled :: bool
  tlCertFile :: string
  tlKeyFile :: string
  tlCAFile :: string
  tlMinVersion :: string
  tlClientAuth :: string

record Config =
  cgVersion :: string
  cgServer :: ServerConfig
  cgUpstream :: UpstreamConfig
  cgAgent :: AgentConfig
  cgAgentFacts :: AgentFactsConfig
  cgPolicy :: PolicyConfig
  cgAudit :: AuditConfig
  cgMetrics :: MetricsConfig
  cgHealth :: HealthConfig
  cgLogging :: LoggingConfig
  cgTLS :: TLSConfig

section \<open>Library functions\<close>

definition millisecond :: duration where
  "millisecond = 1000000"

text \<open>\<^verbatim>\<open>strings.Split\<close> at a single character.\<close>

fun Split :: "string \<Rightarrow> char \<Rightarrow> string list" where
  "Split [] sep = [[]]"
| "Split (c # s) sep =
     (if c = sep then [] # Split s sep
      else case Split s sep of x # xs \<Rightarrow> (c # x) # xs | [] \<Rightarrow> [[c]])"

text \<open>\<^verbatim>\<open>filepath.Clean\<close> on a slash-separated path, with the components kept so far in reverse.\<close>

fun clean_parts :: "bool \<Rightarrow> string list \<Rightarrow> string list \<Rightarrow> string list" where
  "clean_parts rooted acc [] = rev acc"
| "clean_parts rooted acc (p # ps) =
     (if p = [] \<or> p = ''.'' then clean_parts rooted acc ps
      else if p = ''..''
      then (case acc of
              [] \<Rightarrow> clean_parts rooted (if rooted then [] else [''..'']) ps
            | a # as \<Rightarrow> if a = ''..'' then clean_parts rooted (''..'' # acc) ps else clean_parts rooted as ps)
      else clean_parts rooted (p # acc) ps)"

definition path_clean :: "string \<Rightarrow> string" where
  "path_clean path =
     (let rooted = HasPrefix path ''/'';
          body = Join (clean_parts rooted [] (Split path (CHR ''/''))) ''/''
      in if rooted then ''/'' @ body else if body = [] then ''.'' else body)"

text \<open>\<^verbatim>\<open>filepath.Join\<close> of two elements, empty ones left out.\<close>

definition path_join :: "string \<Rightarrow> string \<Rightarrow> string" where
  "path_join a b =
     (if a = [] then (if b = [] then [] else path_clean b)
      else path_clean (if b = [] then a else a @ ''/'' @ b))"

text \<open>\<^verbatim>\<open>strconv.Atoi\<close>: an optional sign and decimal digits within 64 bits.\<close>

definition digits_value :: "string \<Rightarrow> int" where
  "digits_value s = foldl (\<lambda>n c. n * 10 + (int (of_char c) - 48)) 0 s"

definition Atoi :: "string \<Rightarrow> int option" where
  "Atoi s =
     (let (neg, ds) = (case s of
            c # cs \<Rightarrow> if c = CHR ''-'' then (True, cs) else if c = CHR ''+'' then (False, cs) else (False, s)
          | [] \<Rightarrow> (False, s))
      in if ds = [] \<or> \<not> list_all is_digit ds then None
         else let v = (if neg then - digits_value ds else digits_value ds)
              in if min_int64 \<le> v \<and> v \<le> max_int64 then Some v else None)"

text \<open>
  \<^verbatim>\<open>strings.ToLower\<close> on ASCII; no other rune has a lower case among the letters that
  \<^verbatim>\<open>parseBool\<close> looks for.
\<close>

definition to_lower :: "string \<Rightarrow> string" where
  "to_lower s = map (\<lambda>c. if is_upper c then char_of (of_char c + (32 :: nat)) else c) s"

section \<open>Defaults\<close>

definition dflt :: "'a \<Rightarrow> 'a \<Rightarrow> 'a \<Rightarrow> 'a" where
  "dflt zero d x = (if x = zero then d else x)"

definition applyServerDefaults :: "ServerConfig \<Rightarrow> ServerConfig" where
  "applyServerDefaults s =
     s\<lparr>svListen := (svListen s)\<lparr>liAddress := dflt [] ''0.0.0.0'' (liAddress (svListen s)),
                               liPort := dflt 0 3000 (liPort (svListen s))\<rparr>,
       svTransport := dflt [] ''sse'' (svTransport s),
       svReadTimeout := dflt 0 (30 * second) (svReadTimeout s),
       svWriteTimeout := dflt 0 (30 * second) (svWriteTimeout s),
       svIdleTimeout := dflt 0 (120 * second) (svIdleTimeout s),
       svGracefulShutdown := dflt 0 (30 * second) (svGracefulShutdown s),
       svMaxConnections := dflt 0 1000 (svMaxConnections s),
       svSecurity := (svSecurity s)\<lparr>seEnableSecurityHeaders := True\<rparr>\<rparr>"

definition applyUpstreamDefaults :: "UpstreamConfig \<Rightarrow> UpstreamConfig" where
  "applyUpstreamDefaults u =
     u\<lparr>upTransport := dflt [] ''sse'' (upTransport u),
       upTimeout := dflt 0 (30 * second) (upTimeout u),
       upConnectionPool := (upConnectionPool u)\<lparr>cpMaxIdle := dflt 0 10 (cpMaxIdle (upConnectionPool u)),
         cpMaxOpen := dflt 0 100 (cpMaxOpen (upConnectionPool u)),
         cpIdleTimeout := dflt 0 (90 * second) (cpIdleTimeout (upConnectionPool u))\<rparr>,
       upRetry := (upRetry u)\<lparr>rtMaxAttempts := dflt 0 3 (rtMaxAttempts (upRetry u)),
         rtInitialDelay := dflt 0 (100 * millisecond) (rtInitialDelay (upRetry u)),
         rtMaxDelay := dflt 0 (5 * second) (rtMaxDelay (upRetry u)),
         rtBackoff := dflt [] ''exponential'' (rtBackoff (upRetry u))\<rparr>,
       upCircuitBreaker := (upCircuitBreaker u)\<lparr>cbThreshold := dflt 0 5 (cbThreshold (upCircuitBreaker u)),
         cbTimeout := dflt 0 (30 * second) (cbTimeout (upCircuitBreaker u))\<rparr>\<rparr>"

definition applyAgentFactsDefaults :: "AgentFactsConfig \<Rightarrow> AgentFactsConfig" where
  "applyAgentFactsDefaults af =
     af\<lparr>afMode := dflt [] ''optional'' (afMode af),
        afMaxAge := dflt 0 (24 * hour) (afMaxAge af),
        afClockSkew := dflt 0 (5 * minute) (afClockSkew af),
        afCache := (afCache af)\<lparr>chTTL := dflt 0 (5 * minute) (chTTL (afCache af)),
          chMaxEntries := dflt 0 1000 (chMaxEntries (afCache af))\<rparr>\<rparr>"

definition applyPolicyDefaults :: "PolicyConfig \<Rightarrow> PolicyConfig" where
  "applyPolicyDefaults p =
     (let p1 = p\<lparr>poMode := dflt [] ''enforce'' (poMode p),
                 poPolicyDir := dflt [] ''policies'' (poPolicyDir p)\<rparr>
      in p1\<lparr>poJSONPolicyDir := dflt [] (path_join (poPolicyDir p1) ''json'') (poJSONPolicyDir p1),
            poDataFile := dflt [] ''config/policy_data.json'' (poDataFile p1),
            poCache := (poCache p1)\<lparr>chTTL := dflt 0 (5 * minute) (chTTL (poCache p1)),
              chMaxEntries := dflt 0 10000 (chMaxEntries (poCache p1))\<rparr>,
            poEvaluation := (poEvaluation p1)\<lparr>evTimeout := dflt 0 (100 * millisecond) (evTimeout (poEvaluation p1))\<rparr>\<rparr>)"

definition applyAuditDefaults :: "AuditConfig \<Rightarrow> AuditConfig" where
  "applyAuditDefaults a =
     a\<lparr>auDBPath := dflt [] ''audit.db'' (auDBPath a),
       auBufferSize := dflt 0 100 (auBufferSize a),
       auFlushInterval := dflt 0 second (auFlushInterval a),
       auRetentionDays := dflt 0 30 (auRetentionDays a)\<rparr>"

definition applyMetricsDefaults :: "MetricsConfig \<Rightarrow> MetricsConfig" where
  "applyMetricsDefaults m =
     m\<lparr>meAddress := dflt [] ''0.0.0.0'' (meAddress m), mePort := dflt 0 9090 (mePort m),
       mePath := dflt [] ''/metrics'' (mePath m)\<rparr>"

definition applyHealthDefaults :: "HealthConfig \<Rightarrow> HealthConfig" where
  "applyHealthDefaults h =
     h\<lparr>heAddress := dflt [] ''0.0.0.0'' (heAddress h), hePort := dflt 0 8080 (hePort h),
       heLivenessPath := dflt [] ''/health'' (heLivenessPath h),
       heReadinessPath := dflt [] ''/ready'' (heReadinessPath h)\<rparr>"

definition applyLoggingDefaults :: "LoggingConfig \<Rightarrow> LoggingConfig" where
  "applyLoggingDefaults l =
     l\<lparr>loLevel := dflt [] ''info'' (loLevel l), loFormat := dflt [] ''json'' (loFormat l),
       loOutput := dflt [] ''stdout'' (loOutput l)\<rparr>"

definition applyTLSDefaults :: "TLSConfig \<Rightarrow> TLSConfig" where
  "applyTLSDefaults t =
     t\<lparr>tlMinVersion := dflt [] ''1.2'' (tlMinVersion t), tlClientAuth := dflt [] ''none'' (tlClientAuth t)\<rparr>"

definition applyDefaults :: "Config \<Rightarrow> Config" where
  "applyDefaults cfg =
     cfg\<lparr>cgVersion := dflt [] ''1.0'' (cgVersion cfg),
         cgServer := applyServerDefaults (cgServer cfg),
         cgUpstream := applyUpstreamDefaults (cgUpstream cfg),
         cgAgentFacts := applyAgentFactsDefaults (cgAgentFacts cfg),
         cgPolicy := applyPolicyDefaults (cgPolicy cfg),
         cgAudit := applyAuditDefaults (cgAudit cfg),
         cgMetrics := applyMetricsDefaults (cgMetrics cfg),
         cgHealth := applyHealthDefaults (cgHealth cfg),
         cgLogging := applyLoggingDefaults (cgLogging cfg),
         cgTLS := applyTLSDefaults (cgTLS cfg)\<rparr>"

section \<open>Environment overrides\<close>

definition parseInt :: "string \<Rightarrow> int \<Rightarrow> int" where
  "parseInt s defaultVal = (case Atoi s of Some v \<Rightarrow> v | None \<Rightarrow> defaultVal)"

definition parseBool :: "string \<Rightarrow> bool" where
  "parseBool s = (to_lower s \<in> {''true'', ''1'', ''yes''})"

text \<open>The variables of \<^verbatim>\<open>envMappings\<close> with their setters.\<close>

datatype env_var =
    EnvServerPort | EnvServerAddress | EnvServerTransport | EnvUpstreamURL | EnvAgentID | EnvAgentName
  | EnvAgentFactsMode | EnvPolicyMode | EnvPolicyRulesDir | EnvPolicyDataFile | EnvAuditEnabled
  | EnvAuditDBPath | EnvMetricsEnabled | EnvMetricsPort | EnvHealthEnabled | EnvHealthPort
  | EnvLoggingLevel | EnvLoggingFormat | EnvTLSEnabled | EnvTLSCertFile | EnvTLSKeyFile

definition env_vars :: "env_var list" where
  "env_vars = [EnvServerPort, EnvServerAddress, EnvServerTransport, EnvUpstreamURL, EnvAgentID,
     EnvAgentName, EnvAgentFactsMode, EnvPolicyMode, EnvPolicyRulesDir, EnvPolicyDataFile,
     EnvAuditEnabled, EnvAuditDBPath, EnvMetricsEnabled, EnvMetricsPort, EnvHealthEnabled,
     EnvHealthPort, EnvLoggingLevel, EnvLoggingFormat, EnvTLSEnabled, EnvTLSCertFile, EnvTLSKeyFile]"

fun env_name :: "env_var \<Rightarrow> string" where
  "env_name EnvServerPort = ''MCP_SERVER_PORT''"
| "env_name EnvServerAddress = ''MCP_SERVER_ADDRESS''"
| "env_name EnvServerTransport = ''MCP_SERVER_TRANSPORT''"
| "env_name EnvUpstreamURL = ''MCP_UPSTREAM_URL''"
| "env_name EnvAgentID = ''MCP_AGENT_ID''"
| "env_name EnvAgentName = ''MCP_AGENT_NAME''"
| "env_name EnvAgentFactsMode = ''MCP_AGENTFACTS_MODE''"
| "env_name EnvPolicyMode = ''MCP_POLICY_MODE''"
| "env_name EnvPolicyRulesDir = ''MCP_POLICY_RULES_DIR''"
| "env_name EnvPolicyDataFile = ''MCP_POLICY_DATA_FILE''"
| "env_name EnvAuditEnabled = ''MCP_AUDIT_ENABLED''"
| "env_name EnvAuditDBPath = ''MCP_AUDIT_DB_PATH''"
| "env_name EnvMetricsEnabled = ''MCP_METRICS_ENABLED''"
| "env_name EnvMetricsPort = ''MCP_METRICS_PORT''"
| "env_name EnvHealthEnabled = ''MCP_HEALTH_ENABLED''"
| "env_name EnvHealthPort = ''MCP_HEALTH_PORT''"
| "env_name EnvLoggingLevel = ''MCP_LOGGING_LEVEL''"
| "env_name EnvLoggingFormat = ''MCP_LOGGING_FORMAT''"
| "env_name EnvTLSEnabled = ''MCP_TLS_ENABLED''"
| "env_name EnvTLSCertFile = ''MCP_TLS_CERT_FILE''"
| "env_name EnvTLSKeyFile = ''MCP_TLS_KEY_FILE''"

fun env_set :: "env_var \<Rightarrow> string \<Rightarrow> Config \<Rightarrow> Config" where
  "env_set EnvServerPort v c = cgServer_update (svListen_update (liPort_update (parseInt v))) c"
| "env_set EnvServerAddress v c = cgServer_update (svListen_update (liAddress_update (\<lambda>_. v))) c"
| "env_set EnvServerTransport v c = cgServer_update (svTransport_update (\<lambda>_. v)) c"
| "env_set EnvUpstreamURL v c = cgUpstream_update (upURL_update (\<lambda>_. v)) c"
| "env_set EnvAgentID v c = cgAgent_update (agID_update (\<lambda>_. v)) c"
| "env_set EnvAgentName v c = cgAgent_update (agName_update (\<lambda>_. v)) c"
| "env_set EnvAgentFactsMode v c = cgAgentFacts_update (afMode_update (\<lambda>_. v)) c"
| "env_set EnvPolicyMode v c = cgPolicy_update (poMode_update (\<lambda>_. v)) c"
| "env_set EnvPolicyRulesDir v c = cgPolicy_update (poPolicyDir_update (\<lambda>_. v)) c"
| "env_set EnvPolicyDataFile v c = cgPolicy_update (poDataFile_update (\<lambda>_. v)) c"
| "env_set EnvAuditEnabled v c = cgAudit_update (auEnabled_update (\<lambda>_. parseBool v)) c"
| "env_set EnvAuditDBPath v c = cgAudit_update (auDBPath_update (\<lambda>_. v)) c"
| "env_set EnvMetricsEnabled v c = cgMetrics_update (meEnabled_update (\<lambda>_. parseBool v)) c"
| "env_set EnvMetricsPort v c = cgMetrics_update (mePort_update (parseInt v)) c"
| "env_set EnvHealthEnabled v c = cgHealth_update (heEnabled_update (\<lambda>_. parseBool v)) c"
| "env_set EnvHealthPort v c = cgHealth_update (hePort_update (parseInt v)) c"
| "env_set EnvLoggingLevel v c = cgLogging_update (loLevel_update (\<lambda>_. v)) c"
| "env_set EnvLoggingFormat v c = cgLogging_update (loFormat_update (\<lambda>_. v)) c"
| "env_set EnvTLSEnabled v c = cgTLS_update (tlEnabled_update (\<lambda>_. parseBool v)) c"
| "env_set EnvTLSCertFile v c = cgTLS_update (tlCertFile_update (\<lambda>_. v)) c"
| "env_set EnvTLSKeyFile v c = cgTLS_update (tlKeyFile_update (\<lambda>_. v)) c"

definition env_apply :: "(string \<Rightarrow> string) \<Rightarrow> env_var \<Rightarrow> Config \<Rightarrow> Config" where
  "env_apply getenv x c = (if getenv (env_name x) \<noteq> [] then env_set x (getenv (env_name x)) c else c)"

text \<open>The map of setters is enumerated in the order \<open>vars\<close>.\<close>

definition applyEnvOverrides :: "env_var list \<Rightarrow> (string \<Rightarrow> string) \<Rightarrow> Config \<Rightarrow> Config" where
  "applyEnvOverrides vars getenv cfg =
     (let c1 = fold (env_apply getenv) vars cfg;
          caps = getenv ''MCP_AGENT_CAPABILITIES'';
          c2 = (if caps \<noteq> [] then cgAgent_update (agCapabilities_update (\<lambda>_. Some (Split caps (CHR '','')))) c1 else c1);
          dids = getenv ''MCP_AGENTFACTS_ALLOWED_DIDS''
      in if dids \<noteq> [] then cgAgentFacts_update (afAllowedDIDs_update (\<lambda>_. Some (Split dids (CHR '','')))) c2 else c2)"

text \<open>The mapping that the package publishes for its documentation.\<close>

definition GetEnvMapping :: "(string, string) gomap" where
  "GetEnvMapping =
    [(''server.port'', ''MCP_SERVER_PORT''), (''server.address'', ''MCP_SERVER_ADDRESS''),
     (''server.transport'', ''MCP_SERVER_TRANSPORT''), (''upstream.url'', ''MCP_UPSTREAM_URL''),
     (''agent.id'', ''MCP_AGENT_ID''), (''agent.name'', ''MCP_AGENT_NAME''),
     (''agent.capabilities'', ''MCP_AGENT_CAPABILITIES''), (''agentfacts.mode'', ''MCP_AGENTFACTS_MODE''),
     (''agentfacts.allowed_dids'', ''MCP_AGENTFACTS_ALLOWED_DIDS''), (''policy.mode'', ''MCP_POLICY_MODE''),
     (''policy.rules_dir'', ''MCP_POLICY_RULES_DIR''), (''policy.data_file'', ''MCP_POLICY_DATA_FILE''),
     (''audit.enabled'', ''MCP_AUDIT_ENABLED''), (''audit.db_path'', ''MCP_AUDIT_DB_PATH''),
     (''metrics.enabled'', ''MCP_METRICS_ENABLED''), (''metrics.port'', ''MCP_METRICS_PORT''),
     (''health.enabled'', ''MCP_HEALTH_ENABLED''), (''health.port'', ''MCP_HEALTH_PORT''),
     (''logging.level'', ''MCP_LOGGING_LEVEL''), (''logging.format'', ''MCP_LOGGING_FORMAT''),
     (''tls.enabled'', ''MCP_TLS_ENABLED''), (''tls.cert_file'', ''MCP_TLS_CERT_FILE''),
     (''tls.key_file'', ''MCP_TLS_KEY_FILE'')]"

section \<open>Validation, loading\<close>

definition validate :: "Config \<Rightarrow> string option" where
  "validate cfg =
     (let port = liPort (svListen (cgServer cfg)) in
      if port < 1 \<or> port > 65535 then Some (''invalid server port: '' @ itoa port)
      else if svTransport (cgServer cfg) \<notin> {''sse'', ''stdio'', ''http''}
      then Some (''invalid server transport: '' @ svTransport (cgServer cfg) @ '' (must be sse, stdio, or http)'')
      else if afMode (cgAgentFacts cfg) \<notin> {''disabled'', ''optional'', ''required''}
      then Some (''invalid agentfacts mode: '' @ afMode (cgAgentFacts cfg) @
                 '' (must be disabled, optional, or required)'')
      else if poMode (cgPolicy cfg) \<notin> {''audit'', ''enforce''}
      then Some (''invalid policy mode: '' @ poMode (cgPolicy cfg) @ '' (must be audit or enforce)'')
      else if loLevel (cgLogging cfg) \<notin> {''debug'', ''info'', ''warn'', ''error''}
      then Some (''invalid logging level: '' @ loLevel (cgLogging cfg) @ '' (must be debug, info, warn, or error)'')
      else None)"

definition Load ::
    "(string \<Rightarrow> string + bytes) \<Rightarrow> (bytes \<Rightarrow> string + Config) \<Rightarrow> env_var list \<Rightarrow> (string \<Rightarrow> string) \<Rightarrow>
     string \<Rightarrow> string + Config" where
  "Load readFile yaml vars getenv path =
     (case readFile (path_clean path) of
        Inl e \<Rightarrow> Inl (''reading config file: '' @ e)
      | Inr data \<Rightarrow>
          (case yaml data of
             Inl e \<Rightarrow> Inl (''parsing config file: '' @ e)
           | Inr cfg0 \<Rightarrow>
               let cfg = applyEnvOverrides vars getenv (applyDefaults cfg0)
               in case validate cfg of
                    Some e \<Rightarrow> Inl (''validating config: '' @ e)
                  | None \<Rightarrow> Inr cfg))"

definition Config_String :: "Config \<Rightarrow> string" where
  "Config_String c = ''Config{version='' @ cgVersion c @ '', server='' @ liAddress (svListen (cgServer c)) @ '':'' @
     itoa (liPort (svListen (cgServer c))) @ '', transport='' @ svTransport (cgServer c) @
     '', policy_mode='' @ poMode (cgPolicy c) @ ''}''"

definition MaskSensitive :: "Config \<Rightarrow> Config" where
  "MaskSensitive c =
     (if tlKeyFile (cgTLS c) \<noteq> [] then c\<lparr>cgTLS := (cgTLS c)\<lparr>tlKeyFile := ''****''\<rparr>\<rparr> else c)"

section \<open>Lemmas\<close>

lemma dflt_idem [simp]: "dflt z d (dflt z d x) = dflt z d x"
  by (simp add: dflt_def)

lemma dflt_keep: "x \<noteq> z \<Longrightarrow> dflt z d x = x"
  by (simp add: dflt_def)

lemma dflt_zero_iff [simp]: "dflt z d x = z \<longleftrightarrow> x = z \<and> d = z"
  by (auto simp: dflt_def)

lemma env_set_commute: "x \<noteq> y \<Longrightarrow> env_set x v (env_set y w c) = env_set y w (env_set x v c)"
  by (cases x; cases y; simp)

lemma env_apply_commute: "env_apply g x \<circ> env_apply g y = env_apply g y \<circ> env_apply g x"
  by (cases "x = y") (auto simp: env_apply_def env_set_commute)

lemma env_keeps:
  "svMaxConnections (cgServer (env_apply g x c)) = svMaxConnections (cgServer c)"
  "auBufferSize (cgAudit (env_apply g x c)) = auBufferSize (cgAudit c)"
  "svReadTimeout (cgServer (env_apply g x c)) = svReadTimeout (cgServer c)"
  "upTimeout (cgUpstream (env_apply g x c)) = upTimeout (cgUpstream c)"
  by (cases x; simp add: env_apply_def)+

lemma env_fold_keeps:
  "svMaxConnections (cgServer (fold (env_apply g) xs c)) = svMaxConnections (cgServer c)"
  "auBufferSize (cgAudit (fold (env_apply g) xs c)) = auBufferSize (cgAudit c)"
  "svReadTimeout (cgServer (fold (env_apply g) xs c)) = svReadTimeout (cgServer c)"
  "upTimeout (cgUpstream (fold (env_apply g) xs c)) = upTimeout (cgUpstream c)"
  by (induction xs arbitrary: c) (simp_all add: env_keeps)

lemma path_join_json: "path_join dir ''json'' \<noteq> []"
  by (simp add: path_join_def path_clean_def Let_def)

lemmas section_defaults = applyServerDefaults_def applyUpstreamDefaults_def applyAgentFactsDefaults_def
  applyAuditDefaults_def applyMetricsDefaults_def applyHealthDefaults_def applyLoggingDefaults_def
  applyTLSDefaults_def

lemma section_defaults_idem:
  "applyServerDefaults (applyServerDefaults sv) = applyServerDefaults sv"
  "applyUpstreamDefaults (applyUpstreamDefaults u) = applyUpstreamDefaults u"
  "applyAgentFactsDefaults (applyAgentFactsDefaults af) = applyAgentFactsDefaults af"
  "applyAuditDefaults (applyAuditDefaults a) = applyAuditDefaults a"
  "applyMetricsDefaults (applyMetricsDefaults m) = applyMetricsDefaults m"
  "applyHealthDefaults (applyHealthDefaults h) = applyHealthDefaults h"
  "applyLoggingDefaults (applyLoggingDefaults l) = applyLoggingDefaults l"
  "applyTLSDefaults (applyTLSDefaults t) = applyTLSDefaults t"
  by (simp_all add: section_defaults)

lemma applyPolicyDefaults_idem: "applyPolicyDefaults (applyPolicyDefaults p) = applyPolicyDefaults p"
  by (simp add: applyPolicyDefaults_def Let_def dflt_keep path_join_json)

text \<open>Applying the defaults twice changes nothing more, and explicit settings are kept.\<close>

lemma applyDefaults_idem: "applyDefaults (applyDefaults cfg) = applyDefaults cfg"
  by (simp add: applyDefaults_def section_defaults_idem applyPolicyDefaults_idem)

lemma applyDefaults_keeps:
  "liPort (svListen (cgServer cfg)) \<noteq> 0 \<Longrightarrow>
     liPort (svListen (cgServer (applyDefaults cfg))) = liPort (svListen (cgServer cfg))"
  "poMode (cgPolicy cfg) \<noteq> [] \<Longrightarrow> poMode (cgPolicy (applyDefaults cfg)) = poMode (cgPolicy cfg)"
  by (simp_all add: applyDefaults_def applyServerDefaults_def applyPolicyDefaults_def Let_def dflt_keep)

section \<open>Properties\<close>


definition zero_config :: Config where
  "zero_config = \<lparr>cgVersion = [],
     cgServer = \<lparr>svListen = \<lparr>liAddress = [], liPort = 0\<rparr>, svTransport = [], svReadTimeout = 0, svWriteTimeout = 0,
       svIdleTimeout = 0, svGracefulShutdown = 0, svMaxConnections = 0,
       svSecurity = \<lparr>seCORSAllowedOrigins = None, seEnableSecurityHeaders = False\<rparr>\<rparr>,
     cgUpstream = \<lparr>upURL = [], upTransport = [], upTimeout = 0,
       upConnectionPool = \<lparr>cpMaxIdle = 0, cpMaxOpen = 0, cpIdleTimeout = 0\<rparr>,
       upRetry = \<lparr>rtEnabled = False, rtMaxAttempts = 0, rtInitialDelay = 0, rtMaxDelay = 0, rtBackoff = []\<rparr>,
       upCircuitBreaker = \<lparr>cbEnabled = False, cbThreshold = 0, cbTimeout = 0\<rparr>\<rparr>,
     cgAgent = \<lparr>agID = [], agName = [], agCapabilities = None, agModel = [], agPublisher = [], agTags = None\<rparr>,
     cgAgentFacts = \<lparr>afMode = [], afMaxAge = 0, afClockSkew = 0, afAllowedDIDs = None, afVerifyLogProof = False,
       afCache = \<lparr>chEnabled = False, chTTL = 0, chMaxEntries = 0\<rparr>\<rparr>,
     cgPolicy = \<lparr>poEnabled = False, poMode = [], poPolicyDir = [], poJSONPolicyDir = [], poDataFile = [],
       poWatchForChanges = False, poEnvironment = [], poCache = \<lparr>chEnabled = False, chTTL = 0, chMaxEntries = 0\<rparr>,
       poEvaluation = \<lparr>evTimeout = 0, evStrictBuiltinErrors = False\<rparr>\<rparr>,
     cgAudit = \<lparr>auEnabled = False, auDBPath = [], auBufferSize = 0, auFlushInterval = 0, auRetentionDays = 0,
       auCapture = \<lparr>caRequestArguments = False, caResponseSummary = False\<rparr>\<rparr>,
     cgMetrics = \<lparr>meEnabled = False, meAddress = [], mePort = 0, mePath = []\<rparr>,
     cgHealth = \<lparr>heEnabled = False, heAddress = [], hePort = 0, heLivenessPath = [], heReadinessPath = []\<rparr>,
     cgLogging = \<lparr>loLevel = [], loFormat = [], loOutput = [],
       loFile = \<lparr>fiPath = [], fiMaxSize = 0, fiMaxBackups = 0, fiMaxAge = 0\<rparr>\<rparr>,
     cgTLS = \<lparr>tlEnabled = False, tlCertFile = [], tlKeyFile = [], tlCAFile = [], tlMinVersion = [], tlClientAuth = []\<rparr>\<rparr>"

definition demo_getenv :: "string \<Rightarrow> string" where
  "demo_getenv k = (if k = ''MCP_SERVER_PORT'' then ''8443'' else if k = ''MCP_POLICY_MODE'' then ''audit'' else [])"

definition demo_load :: "env_var list \<Rightarrow> string + Config" where
  "demo_load vars = Load (\<lambda>p. Inr []) (\<lambda>d. Inr zero_config) vars demo_getenv ''config/proxy.yaml''"


text \<open>
  Overrides are deterministic: the order in which the runtime enumerates the map of environment
  variables does not influence the resulting configuration.
\<close>

lemma env_order_irrelevant:
  assumes "mset vars = mset env_vars"
  shows "applyEnvOverrides vars getenv cfg = applyEnvOverrides env_vars getenv cfg"
proof -
  have "fold (env_apply getenv) vars = fold (env_apply getenv) env_vars"
    by (rule fold_multiset_equiv) (use assms env_apply_commute in auto)
  then show ?thesis by (simp add: applyEnvOverrides_def)
qed

text \<open>
  The published mapping is complete and has no entry too many: it names the variables that the overrides
  read, so two environments that agree on them give the same configuration.
\<close>

lemma GetEnvMapping_names:
  "set (map snd GetEnvMapping) = insert ''MCP_AGENT_CAPABILITIES'' (insert ''MCP_AGENTFACTS_ALLOWED_DIDS'' (env_name ` set env_vars))"
  "distinct (map fst GetEnvMapping)" "distinct (map snd GetEnvMapping)"
  by code_simp+

lemma GetEnvMapping_complete:
  assumes "\<forall>v \<in> set (map snd GetEnvMapping). g v = h v"
  shows "applyEnvOverrides env_vars g cfg = applyEnvOverrides env_vars h cfg"
proof -
  have eq: "g ''MCP_AGENT_CAPABILITIES'' = h ''MCP_AGENT_CAPABILITIES''"
    "g ''MCP_AGENTFACTS_ALLOWED_DIDS'' = h ''MCP_AGENTFACTS_ALLOWED_DIDS''" "\<forall>x \<in> set env_vars. g (env_name x) = h (env_name x)"
    using assms unfolding GetEnvMapping_names(1) by simp_all
  have "fold (env_apply g) env_vars cfg = fold (env_apply h) env_vars cfg"
    by (rule fold_cong) (use eq(3) in \<open>auto simp: env_apply_def\<close>)
  with eq(1,2) show ?thesis by (simp add: applyEnvOverrides_def)
qed

end
