(* ===== verification/Metrics.thy ===== *)
theory Metrics
  imports Prelude
begin

text \<open>
  The metrics, \<^verbatim>\<open>src/internal/observability/metrics.go\<close>: the collectors the proxy registers and
  the operations that record in them. The Prometheus client is the parameter \<open>prom\<close>: a registry with
  the operations the code calls. Values are exact rationals where the client has a \<^verbatim>\<open>float64\<close>.
\<close>

declare map_of_eq_Some_iff [simp del] Some_eq_map_of_iff [simp del]

section \<open>Collectors\<close>

datatype metric_kind = Counter | Gauge | Histogram "rat list"

record metric =
  mtNamespace :: string
  mtName :: string
  mtHelp :: string
  mtKind :: metric_kind
  mtLabels :: "string list"

text \<open>The name a collector is registered under.\<close>

definition full_name :: "metric \<Rightarrow> string \<times> string" where
  "full_name m = (mtNamespace m, mtName m)"

text \<open>
  The client: registering a collector, adding to a counter and observing with the label values of
  \<^verbatim>\<open>WithLabelValues\<close> (none for a collector without labels), setting a gauge.
\<close>

record 'm prom =
  pmRegister :: "metric \<Rightarrow> (unit, 'm) act"
  pmAdd :: "metric \<Rightarrow> string list \<Rightarrow> rat \<Rightarrow> (unit, 'm) act"
  pmObserve :: "metric \<Rightarrow> string list \<Rightarrow> rat \<Rightarrow> (unit, 'm) act"
  pmSet :: "metric \<Rightarrow> rat \<Rightarrow> (unit, 'm) act"

record Metrics =
  RequestsTotal :: metric
  RequestDuration :: metric
  RequestsInFlight :: metric
  ActiveSessions :: metric
  SessionsTotal :: metric
  SessionDuration :: metric
  PolicyDecisions :: metric
  PolicyEvaluation :: metric
  PolicyCacheHits :: metric
  PolicyCacheMisses :: metric
  UpstreamRequests :: metric
  UpstreamDuration :: metric
  UpstreamConnected :: metric
  AuditRecordsWritten :: metric
  AuditRecordsDropped :: metric
  AuditBufferSize :: metric
  AuditFlushes :: metric

definition metrics_of :: "string \<Rightarrow> Metrics" where
  "metrics_of ns =
     \<lparr>RequestsTotal = \<lparr>mtNamespace = ns, mtName = ''requests_total'',
        mtHelp = ''Total number of MCP requests processed'', mtKind = Counter,
        mtLabels = [''method'', ''tool'', ''allowed'']\<rparr>,
      RequestDuration = \<lparr>mtNamespace = ns, mtName = ''request_duration_seconds'',
        mtHelp = ''Request processing duration in seconds'',
        mtKind = Histogram [1/1000, 5/1000, 1/100, 25/1000, 5/100, 1/10, 25/100, 5/10, 1, 5/2, 5, 10],
        mtLabels = [''method'']\<rparr>,
      RequestsInFlight = \<lparr>mtNamespace = ns, mtName = ''requests_in_flight'',
        mtHelp = ''Number of requests currently being processed'', mtKind = Gauge, mtLabels = []\<rparr>,
      ActiveSessions = \<lparr>mtNamespace = ns, mtName = ''sessions_active'',
        mtHelp = ''Number of active sessions'', mtKind = Gauge, mtLabels = []\<rparr>,
      SessionsTotal = \<lparr>mtNamespace = ns, mtName = ''sessions_total'',
        mtHelp = ''Total number of sessions created'', mtKind = Counter, mtLabels = [''transport'']\<rparr>,
      SessionDuration = \<lparr>mtNamespace = ns, mtName = ''session_duration_seconds'',
        mtHelp = ''Session duration in seconds'',
        mtKind = Histogram [1, 5, 15, 30, 60, 120, 300, 600, 1800, 3600], mtLabels = []\<rparr>,
      PolicyDecisions = \<lparr>mtNamespace = ns, mtName = ''policy_decisions_total'',
        mtHelp = ''Total policy decisions by result'', mtKind = Counter,
        mtLabels = [''decision'', ''rule'', ''mode'']\<rparr>,
      PolicyEvaluation = \<lparr>mtNamespace = ns, mtName = ''policy_evaluation_seconds'',
        mtHelp = ''Policy evaluation duration in seconds'',
        mtKind = Histogram [1/10000, 5/10000, 1/1000, 5/1000, 1/100, 25/1000, 5/100, 1/10], mtLabels = []\<rparr>,
      PolicyCacheHits = \<lparr>mtNamespace = ns, mtName = ''policy_cache_hits_total'',
        mtHelp = ''Number of policy cache hits'', mtKind = Counter, mtLabels = []\<rparr>,
      PolicyCacheMisses = \<lparr>mtNamespace = ns, mtName = ''policy_cache_misses_total'',
        mtHelp = ''Number of policy cache misses'', mtKind = Counter, mtLabels = []\<rparr>,
      UpstreamRequests = \<lparr>mtNamespace = ns, mtName = ''upstream_requests_total'',
        mtHelp = ''Total upstream requests by status'', mtKind = Counter, mtLabels = [''status'']\<rparr>,
      UpstreamDuration = \<lparr>mtNamespace = ns, mtName = ''upstream_request_duration_seconds'',
        mtHelp = ''Upstream request duration in seconds'',
        mtKind = Histogram [1/100, 5/100, 1/10, 25/100, 5/10, 1, 5/2, 5, 10, 30], mtLabels = []\<rparr>,
      UpstreamConnected = \<lparr>mtNamespace = ns, mtName = ''upstream_connected'',
        mtHelp = ''Whether upstream is connected (1) or not (0)'', mtKind = Gauge, mtLabels = []\<rparr>,
      AuditRecordsWritten = \<lparr>mtNamespace = ns, mtName = ''audit_records_written_total'',
        mtHelp = ''Total audit records written to storage'', mtKind = Counter, mtLabels = []\<rparr>,
      AuditRecordsDropped = \<lparr>mtNamespace = ns, mtName = ''audit_records_dropped_total'',
        mtHelp = ''Total audit records dropped due to buffer overflow or errors'', mtKind = Counter, mtLabels = []\<rparr>,
      AuditBufferSize = \<lparr>mtNamespace = ns, mtName = ''audit_buffer_size'',
        mtHelp = ''Current number of records in audit buffer'', mtKind = Gauge, mtLabels = []\<rparr>,
      AuditFlushes = \<lparr>mtNamespace = ns, mtName = ''audit_flushes_total'',
        mtHelp = ''Total number of audit buffer flushes'', mtKind = Counter, mtLabels = []\<rparr>\<rparr>"

definition all_metrics :: "Metrics \<Rightarrow> metric list" where
  "all_metrics m =
     [RequestsTotal m, RequestDuration m, RequestsInFlight m, ActiveSessions m, SessionsTotal m, SessionDuration m,
      PolicyDecisions m, PolicyEvaluation m, PolicyCacheHits m, PolicyCacheMisses m, UpstreamRequests m,
      UpstreamDuration m, UpstreamConnected m, AuditRecordsWritten m, AuditRecordsDropped m, AuditBufferSize m,
      AuditFlushes m]"

primrec register_all :: "'m prom \<Rightarrow> metric list \<Rightarrow> (unit, 'm) act" where
  "register_all pm [] = ret_act ()"
| "register_all pm (m # ms) = bind_act (pmRegister pm m) (\<lambda>_. register_all pm ms)"

text \<open>Creating the metrics registers each of them, in this order.\<close>

definition NewMetrics :: "'m prom \<Rightarrow> string \<Rightarrow> (Metrics, 'm) act" where
  "NewMetrics pm namespace =
     (let ns = (if namespace = [] then ''mcp_proxy'' else namespace)
      in bind_act (register_all pm (all_metrics (metrics_of ns))) (\<lambda>_. ret_act (metrics_of ns)))"

section \<open>Recording\<close>

definition RecordRequest :: "'m prom \<Rightarrow> Metrics \<Rightarrow> string \<Rightarrow> string \<Rightarrow> bool \<Rightarrow> rat \<Rightarrow> (unit, 'm) act" where
  "RecordRequest pm m method tool allowed durationSeconds =
     (let allowedStr = (if \<not> allowed then ''false'' else ''true'')
      in bind_act (pmAdd pm (RequestsTotal m) [method, tool, allowedStr] 1) (\<lambda>_.
           pmObserve pm (RequestDuration m) [method] durationSeconds))"

definition RecordPolicyDecision :: "'m prom \<Rightarrow> Metrics \<Rightarrow> bool \<Rightarrow> string \<Rightarrow> string \<Rightarrow> rat \<Rightarrow> (unit, 'm) act" where
  "RecordPolicyDecision pm m allowed rule mode durationSeconds =
     (let decision = (if \<not> allowed then ''deny'' else ''allow'')
      in bind_act (pmAdd pm (PolicyDecisions m) [decision, rule, mode] 1) (\<lambda>_.
           pmObserve pm (PolicyEvaluation m) [] durationSeconds))"

definition RecordSession :: "'m prom \<Rightarrow> Metrics \<Rightarrow> string \<Rightarrow> rat \<Rightarrow> (unit, 'm) act" where
  "RecordSession pm m transport durationSeconds =
     bind_act (pmAdd pm (SessionsTotal m) [transport] 1) (\<lambda>_.
       if durationSeconds > 0 then pmObserve pm (SessionDuration m) [] durationSeconds else ret_act ())"

definition RecordUpstreamRequest :: "'m prom \<Rightarrow> Metrics \<Rightarrow> string \<Rightarrow> rat \<Rightarrow> (unit, 'm) act" where
  "RecordUpstreamRequest pm m status durationSeconds =
     bind_act (pmAdd pm (UpstreamRequests m) [status] 1) (\<lambda>_.
       pmObserve pm (UpstreamDuration m) [] durationSeconds)"

text \<open>Only the gauge is set; the counters are not.\<close>

definition UpdateAuditStats :: "'m prom \<Rightarrow> Metrics \<Rightarrow> int \<Rightarrow> int \<Rightarrow> int \<Rightarrow> int \<Rightarrow> (unit, 'm) act" where
  "UpdateAuditStats pm m bufferSize written dropped flushes = pmSet pm (AuditBufferSize m) (of_int bufferSize)"

definition IncrementAuditWritten :: "'m prom \<Rightarrow> Metrics \<Rightarrow> int \<Rightarrow> (unit, 'm) act" where
  "IncrementAuditWritten pm m n = pmAdd pm (AuditRecordsWritten m) [] (of_int n)"

definition IncrementAuditDropped :: "'m prom \<Rightarrow> Metrics \<Rightarrow> int \<Rightarrow> (unit, 'm) act" where
  "IncrementAuditDropped pm m n = pmAdd pm (AuditRecordsDropped m) [] (of_int n)"

definition IncrementAuditFlushes :: "'m prom \<Rightarrow> Metrics \<Rightarrow> (unit, 'm) act" where
  "IncrementAuditFlushes pm m = pmAdd pm (AuditFlushes m) [] 1"

section \<open>What the client promises\<close>

text \<open>
  The documented behaviour of the client: a collector can be registered when its full name is not
  taken; recording in a registered collector of the right kind succeeds when the label values are as
  many as its labels, a counter moreover when the amount is not negative, and changes only the series
  it names. \<open>names\<close> are the full names taken, \<open>tally\<close> the value of a counter's series.
\<close>

definition prom_laws ::
    "'m prom \<Rightarrow> ('m \<Rightarrow> (string \<times> string) set) \<Rightarrow> ('m \<Rightarrow> metric \<Rightarrow> string list \<Rightarrow> rat) \<Rightarrow> bool" where
  "prom_laws pm names tally \<longleftrightarrow>
     (\<forall>m s. full_name m \<notin> names s \<longrightarrow>
        (\<exists>s'. pmRegister pm m s = (Return (), s') \<and> names s' = insert (full_name m) (names s) \<and>
              tally s' = tally s)) \<and>
     (\<forall>m ls x s. full_name m \<in> names s \<and> mtKind m = Counter \<and> length ls = length (mtLabels m) \<and> 0 \<le> x \<longrightarrow>
        (\<exists>s'. pmAdd pm m ls x s = (Return (), s') \<and> names s' = names s \<and>
              tally s' = (tally s)(m := (tally s m)(ls := tally s m ls + x)))) \<and>
     (\<forall>m ls x s b. full_name m \<in> names s \<and> mtKind m = Histogram b \<and> length ls = length (mtLabels m) \<longrightarrow>
        (\<exists>s'. pmObserve pm m ls x s = (Return (), s') \<and> names s' = names s \<and> tally s' = tally s)) \<and>
     (\<forall>m x s. full_name m \<in> names s \<and> mtKind m = Gauge \<and> mtLabels m = [] \<longrightarrow>
        (\<exists>s'. pmSet pm m x s = (Return (), s') \<and> names s' = names s \<and> tally s' = tally s))"

lemma prom_register:
  "prom_laws pm names tally \<Longrightarrow> full_name m \<notin> names s \<Longrightarrow>
   \<exists>s'. pmRegister pm m s = (Return (), s') \<and> names s' = insert (full_name m) (names s) \<and> tally s' = tally s"
  by (simp add: prom_laws_def)

lemma prom_add:
  "prom_laws pm names tally \<Longrightarrow> full_name m \<in> names s \<Longrightarrow> mtKind m = Counter \<Longrightarrow>
   length ls = length (mtLabels m) \<Longrightarrow> 0 \<le> x \<Longrightarrow>
   \<exists>s'. pmAdd pm m ls x s = (Return (), s') \<and> names s' = names s \<and>
     tally s' = (tally s)(m := (tally s m)(ls := tally s m ls + x))"
  by (simp add: prom_laws_def)

lemma prom_observe:
  "prom_laws pm names tally \<Longrightarrow> full_name m \<in> names s \<Longrightarrow> mtKind m = Histogram b \<Longrightarrow>
   length ls = length (mtLabels m) \<Longrightarrow>
   \<exists>s'. pmObserve pm m ls x s = (Return (), s') \<and> names s' = names s \<and> tally s' = tally s"
  by (simp add: prom_laws_def)

lemma prom_set:
  "prom_laws pm names tally \<Longrightarrow> full_name m \<in> names s \<Longrightarrow> mtKind m = Gauge \<Longrightarrow> mtLabels m = [] \<Longrightarrow>
   \<exists>s'. pmSet pm m x s = (Return (), s') \<and> names s' = names s \<and> tally s' = tally s"
  by (simp add: prom_laws_def)

text \<open>The metrics are registered in a registry.\<close>

definition metrics_ready :: "('m \<Rightarrow> (string \<times> string) set) \<Rightarrow> Metrics \<Rightarrow> 'm \<Rightarrow> bool" where
  "metrics_ready names m s \<longleftrightarrow> (\<exists>ns. m = metrics_of ns) \<and>
     (\<forall>x \<in> set (all_metrics m). full_name x \<in> names s)"

lemma register_all_ready:
  assumes "prom_laws pm names tally"
  shows "distinct (map full_name ms) \<Longrightarrow>
    (\<forall>m \<in> set ms. full_name m \<notin> names s) \<Longrightarrow>
    \<exists>s'. register_all pm ms s = (Return (), s') \<and> tally s' = tally s \<and>
      names s' = names s \<union> full_name ` set ms"
proof (induction ms arbitrary: s)
  case (Cons m ms)
  obtain s1 where s1: "pmRegister pm m s = (Return (), s1)" "names s1 = insert (full_name m) (names s)"
    "tally s1 = tally s" using prom_register [OF assms, of m s] Cons.prems by auto
  have "\<forall>x \<in> set ms. full_name x \<notin> names s1" using Cons.prems s1(2) by (auto simp: image_iff)
  then obtain s2 where "register_all pm ms s1 = (Return (), s2)" "tally s2 = tally s1"
    "names s2 = names s1 \<union> full_name ` set ms" using Cons.IH [of s1] Cons.prems(1) by auto
  with s1 show ?case by (auto simp: bind_act_Return)
qed (simp add: ret_act_def)

lemma all_metrics_names: "map mtName (all_metrics (metrics_of ns)) =
    [''requests_total'', ''request_duration_seconds'', ''requests_in_flight'', ''sessions_active'',
     ''sessions_total'', ''session_duration_seconds'', ''policy_decisions_total'',
     ''policy_evaluation_seconds'', ''policy_cache_hits_total'', ''policy_cache_misses_total'',
     ''upstream_requests_total'', ''upstream_request_duration_seconds'', ''upstream_connected'',
     ''audit_records_written_total'', ''audit_records_dropped_total'', ''audit_buffer_size'',
     ''audit_flushes_total'']"
  by (simp only: all_metrics_def metrics_of_def Metrics.simps metric.simps list.map)

lemma all_metrics_distinct: "distinct (map full_name (all_metrics (metrics_of ns)))"
proof -
  have "distinct (map mtName (all_metrics (metrics_of ns)))" unfolding all_metrics_names by code_simp
  then show ?thesis unfolding distinct_map inj_on_def full_name_def by auto
qed

lemma NewMetrics_ready:
  assumes "prom_laws pm names tally" and "names s = {}"
  shows "\<exists>m s'. NewMetrics pm ns s = (Return m, s') \<and> metrics_ready names m s' \<and> tally s' = tally s"
proof -
  let ?ns = "if ns = [] then ''mcp_proxy'' else ns"
  obtain s' where "register_all pm (all_metrics (metrics_of ?ns)) s = (Return (), s')" "tally s' = tally s"
    "names s' = names s \<union> full_name ` set (all_metrics (metrics_of ?ns))"
    using register_all_ready [OF assms(1) all_metrics_distinct [of ?ns], of s] assms(2) by auto
  then show ?thesis by (auto simp: NewMetrics_def Let_def bind_act_Return ret_act_def metrics_ready_def)
qed

text \<open>A count followed by an observation.\<close>

lemma add_observe:
  assumes "prom_laws pm names tally" and "full_name c \<in> names s" and "full_name h \<in> names s"
    and "mtKind c = Counter" and "length ls = length (mtLabels c)"
    and "mtKind h = Histogram b" and "length ks = length (mtLabels h)"
  shows "\<exists>s'. bind_act (pmAdd pm c ls 1) (\<lambda>_. pmObserve pm h ks x) s = (Return (), s') \<and> names s' = names s \<and>
    tally s' = (tally s)(c := (tally s c)(ls := tally s c ls + 1))"
proof -
  obtain s1 where s1: "pmAdd pm c ls 1 s = (Return (), s1)" "names s1 = names s"
    "tally s1 = (tally s)(c := (tally s c)(ls := tally s c ls + 1))"
    using prom_add [OF assms(1,2,4,5), of 1] by auto
  obtain s2 where "pmObserve pm h ks x s1 = (Return (), s2)" "names s2 = names s1" "tally s2 = tally s1"
    using prom_observe [OF assms(1) _ assms(6,7), of s1 x] assms(3) s1(2) by auto
  with s1 show ?thesis by (simp add: bind_act_Return)
qed

lemma ready_members:
  assumes "metrics_ready names m s"
  shows "full_name (RequestsTotal m) \<in> names s"
    "full_name (RequestDuration m) \<in> names s"
    "full_name (PolicyDecisions m) \<in> names s"
    "full_name (PolicyEvaluation m) \<in> names s"
    "full_name (SessionsTotal m) \<in> names s"
    "full_name (SessionDuration m) \<in> names s"
    "full_name (UpstreamRequests m) \<in> names s"
    "full_name (UpstreamDuration m) \<in> names s"
    "full_name (AuditBufferSize m) \<in> names s"
    "full_name (AuditRecordsWritten m) \<in> names s"
    "full_name (AuditRecordsDropped m) \<in> names s"
    "full_name (AuditFlushes m) \<in> names s"
  using assms by (simp_all add: metrics_ready_def all_metrics_def)

lemma RecordRequest_counts:
  assumes "prom_laws pm names tally" and "metrics_ready names m s"
  shows "\<exists>s'. RecordRequest pm m method tool allowed secs s = (Return (), s') \<and> metrics_ready names m s' \<and>
    tally s' = (tally s)(RequestsTotal m := (tally s (RequestsTotal m))
      ([method, tool, if allowed then ''true'' else ''false''] :=
         tally s (RequestsTotal m) [method, tool, if allowed then ''true'' else ''false''] + 1))"
proof -
  obtain ns where "m = metrics_of ns" using assms(2) by (auto simp: metrics_ready_def)
  then have k: "mtKind (RequestsTotal m) = Counter" "length (mtLabels (RequestsTotal m)) = 3"
    "\<exists>b. mtKind (RequestDuration m) = Histogram b" "length (mtLabels (RequestDuration m)) = 1"
    by (simp_all add: metrics_of_def)
  then obtain b where b: "mtKind (RequestDuration m) = Histogram b" by blast
  obtain s' where "RecordRequest pm m method tool allowed secs s = (Return (), s')" "names s' = names s"
    "tally s' = (tally s)(RequestsTotal m := (tally s (RequestsTotal m))
      ([method, tool, if allowed then ''true'' else ''false''] :=
         tally s (RequestsTotal m) [method, tool, if allowed then ''true'' else ''false''] + 1))"
    using add_observe [OF assms(1) ready_members(1,2) [OF assms(2)] k(1) _ b,
        of "[method, tool, if allowed then ''true'' else ''false'']" "[method]" secs] k
    by (cases allowed) (auto simp: RecordRequest_def)
  then show ?thesis using assms(2) by (auto simp: metrics_ready_def)
qed

lemma RecordPolicyDecision_returns:
  assumes "prom_laws pm names tally" and "metrics_ready names m s"
  shows "\<exists>s'. RecordPolicyDecision pm m allowed rule mode secs s = (Return (), s') \<and> metrics_ready names m s' \<and>
    (\<forall>c. c \<noteq> PolicyDecisions m \<longrightarrow> tally s' c = tally s c)"
proof -
  obtain ns where "m = metrics_of ns" using assms(2) by (auto simp: metrics_ready_def)
  then have k: "mtKind (PolicyDecisions m) = Counter" "length (mtLabels (PolicyDecisions m)) = 3"
    "\<exists>b. mtKind (PolicyEvaluation m) = Histogram b" "mtLabels (PolicyEvaluation m) = []"
    by (simp_all add: metrics_of_def)
  then obtain b where b: "mtKind (PolicyEvaluation m) = Histogram b" by blast
  obtain s' where "RecordPolicyDecision pm m allowed rule mode secs s = (Return (), s')" "names s' = names s"
    "\<forall>c. c \<noteq> PolicyDecisions m \<longrightarrow> tally s' c = tally s c"
    using add_observe [OF assms(1) ready_members(3,4) [OF assms(2)] k(1) _ b,
        of "[if allowed then ''allow'' else ''deny'', rule, mode]" "[]" secs] k
    by (cases allowed) (auto simp: RecordPolicyDecision_def)
  then show ?thesis using assms(2) by (auto simp: metrics_ready_def)
qed

section \<open>Sequences of recordings\<close>

datatype metric_op =
    ORequest string string bool rat
  | ODecision bool string string rat
  | OSession string rat
  | OUpstream string rat
  | OStats int int int int
  | OWritten int
  | ODropped int
  | OFlush

fun record_op :: "'m prom \<Rightarrow> Metrics \<Rightarrow> metric_op \<Rightarrow> (unit, 'm) act" where
  "record_op pm m (ORequest method tool allowed secs) = RecordRequest pm m method tool allowed secs"
| "record_op pm m (ODecision allowed rule mode secs) = RecordPolicyDecision pm m allowed rule mode secs"
| "record_op pm m (OSession transport secs) = RecordSession pm m transport secs"
| "record_op pm m (OUpstream status secs) = RecordUpstreamRequest pm m status secs"
| "record_op pm m (OStats sz wr dr fl) = UpdateAuditStats pm m sz wr dr fl"
| "record_op pm m (OWritten n) = IncrementAuditWritten pm m n"
| "record_op pm m (ODropped n) = IncrementAuditDropped pm m n"
| "record_op pm m OFlush = IncrementAuditFlushes pm m"

fun counts_up :: "metric_op \<Rightarrow> bool" where
  "counts_up (OWritten n) \<longleftrightarrow> 0 \<le> n"
| "counts_up (ODropped n) \<longleftrightarrow> 0 \<le> n"
| "counts_up _ \<longleftrightarrow> True"

primrec record_ops :: "'m prom \<Rightarrow> Metrics \<Rightarrow> metric_op list \<Rightarrow> (unit, 'm) act" where
  "record_ops pm m [] = ret_act ()"
| "record_ops pm m (p # ps) = bind_act (record_op pm m p) (\<lambda>_. record_ops pm m ps)"

lemma metrics_ready_names: "metrics_ready names m s \<Longrightarrow> names s' = names s \<Longrightarrow> metrics_ready names m s'"
  by (simp add: metrics_ready_def)

lemma record_op_returns:
  assumes "prom_laws pm names tally" and "metrics_ready names m s" and "counts_up p"
  shows "\<exists>s'. record_op pm m p s = (Return (), s') \<and> metrics_ready names m s'"
proof -
  obtain ns where m: "m = metrics_of ns" using assms(2) by (auto simp: metrics_ready_def)
  note ready = ready_members [OF assms(2)]
  have add: "\<exists>s'. pmAdd pm c ls x s = (Return (), s') \<and> metrics_ready names m s'"
    if "full_name c \<in> names s" "mtKind c = Counter" "length ls = length (mtLabels c)" "0 \<le> x" for c ls x
    using prom_add [OF assms(1) that] metrics_ready_names [OF assms(2)] by metis
  have both: "\<exists>s'. bind_act (pmAdd pm c ls 1) (\<lambda>_. pmObserve pm h ks x) s = (Return (), s') \<and> metrics_ready names m s'"
    if "full_name c \<in> names s" "full_name h \<in> names s" "mtKind c = Counter"
      "length ls = length (mtLabels c)" "mtKind h = Histogram b" "length ks = length (mtLabels h)" for c ls h b ks x
    using add_observe [OF assms(1) that] metrics_ready_names [OF assms(2)] by metis
  show ?thesis
  proof (cases p)
    case (ORequest name tool allowed secs)
    then show ?thesis using RecordRequest_counts [OF assms(1,2)] by (metis record_op.simps(1))
  next
    case (ODecision allowed rule mode secs)
    then show ?thesis using RecordPolicyDecision_returns [OF assms(1,2)] by (metis record_op.simps(2))
  next
    case (OSession transport secs)
    show ?thesis
    proof (cases "secs > 0")
      case True
      with OSession show ?thesis using both [OF ready(5,6), of "[transport]" _ "[]" secs]
        by (simp add: RecordSession_def m metrics_of_def)
    next
      case False
      with OSession show ?thesis using add [OF ready(5), of "[transport]" 1]
        by (auto simp: RecordSession_def m metrics_of_def bind_act_Return ret_act_def)
    qed
  next
    case (OUpstream status secs)
    then show ?thesis using both [OF ready(7,8), of "[status]" _ "[]" secs]
      by (simp add: RecordUpstreamRequest_def m metrics_of_def)
  next
    case (OStats sz wr dr fl)
    then show ?thesis
      using prom_set [OF assms(1) ready(9), of "of_int sz"] metrics_ready_names [OF assms(2)]
      by (auto simp: UpdateAuditStats_def m metrics_of_def)
  next
    case (OWritten n)
    then show ?thesis using add [OF ready(10), of "[]" "of_int n"] assms(3)
      by (simp add: IncrementAuditWritten_def m metrics_of_def)
  next
    case (ODropped n)
    then show ?thesis using add [OF ready(11), of "[]" "of_int n"] assms(3)
      by (simp add: IncrementAuditDropped_def m metrics_of_def)
  next
    case OFlush
    then show ?thesis using add [OF ready(12), of "[]" 1] by (simp add: IncrementAuditFlushes_def m metrics_of_def)
  qed
qed

lemma record_ops_return:
  assumes "prom_laws pm names tally"
  shows "metrics_ready names m s \<Longrightarrow> list_all counts_up ps \<Longrightarrow>
    \<exists>s'. record_ops pm m ps s = (Return (), s') \<and> metrics_ready names m s'"
proof (induction ps arbitrary: s)
  case (Cons p ps)
  then obtain s1 where "record_op pm m p s = (Return (), s1)" "metrics_ready names m s1"
    using record_op_returns [OF assms, of m s p] by auto
  with Cons show ?case by (simp add: bind_act_Return)
qed (simp add: ret_act_def)

section \<open>Property\<close>


text \<open>A registry as a list of collectors and the values of the counters.\<close>

record demo_registry =
  dgNames :: "(string \<times> string) list"
  dgCounts :: "metric \<Rightarrow> string list \<Rightarrow> rat"

definition demo_prom :: "demo_registry prom" where
  "demo_prom =
     \<lparr>pmRegister = (\<lambda>m s. if full_name m \<in> set (dgNames s) then (Panicked ''duplicate metrics collector'', s)
        else (Return (), s\<lparr>dgNames := full_name m # dgNames s\<rparr>)),
      pmAdd = (\<lambda>m ls x s. if length ls = length (mtLabels m) \<and> 0 \<le> x
        then (Return (), s\<lparr>dgCounts := (dgCounts s)(m := (dgCounts s m)(ls := dgCounts s m ls + x))\<rparr>)
        else (Panicked ''inconsistent label cardinality'', s)),
      pmObserve = (\<lambda>m ls x s. if length ls = length (mtLabels m) then (Return (), s)
        else (Panicked ''inconsistent label cardinality'', s)),
      pmSet = (\<lambda>m x s. (Return (), s))\<rparr>"

definition demo_registry0 :: demo_registry where
  "demo_registry0 = \<lparr>dgNames = [], dgCounts = (\<lambda>m ls. 0)\<rparr>"

lemma demo_prom_laws: "prom_laws demo_prom (\<lambda>s. set (dgNames s)) dgCounts"
  by (simp add: prom_laws_def demo_prom_def)

lemma demo_ready: "metrics_ready (\<lambda>s. set (dgNames s)) (metrics_of ''mcp_proxy'') (snd (NewMetrics demo_prom [] demo_registry0))"
proof -
  obtain m s' where m: "NewMetrics demo_prom [] demo_registry0 = (Return m, s')" "metrics_ready (\<lambda>s. set (dgNames s)) m s'"
    using NewMetrics_ready [OF demo_prom_laws, of demo_registry0 "[]"] by (auto simp: demo_registry0_def)
  then have "m = metrics_of ''mcp_proxy''"
    by (auto simp: NewMetrics_def Let_def bind_act_def ret_act_def split: prod.splits call.splits)
  with m show ?thesis by simp
qed


end
