(* ===== verification/Application.thy ===== *)
theory Application
  imports Engine Router Audit_Writer Config Metrics
begin

text \<open>
  The application, \<^verbatim>\<open>src/cmd/proxy/main.go\<close>: the callbacks that \<^verbatim>\<open>newApplication\<close>
  installs in the router, and the handling of a message. The world of the router is the state these
  callbacks share: the policy engine, the audit writer, the upstream client and the metrics. The
  upstream client, OPA and the Prometheus client are parameters; log output is left out.
\<close>

declare map_of_eq_Some_iff [simp del] Some_eq_map_of_iff [simp del]

section \<open>Model\<close>

record ('q, 'u, 'm) world =
  woEngine :: "'q Engine"
  woWriter :: "Writer option"
  woUpstream :: 'u
  woMetrics :: 'm

text \<open>The Prometheus client with the collectors of the proxy.\<close>

record 'm meter =
  mrProm :: "'m prom"
  mrMetrics :: Metrics

text \<open>The upstream client: whether it is connected, and sending a message; \<^const>\<open>None\<close> without a URL.\<close>

record 'u upstream_client =
  ucConnected :: "'u \<Rightarrow> bool"
  ucSend :: "bytes \<Rightarrow> (bytes option \<times> string option, 'u) act"

text \<open>The readings of one message: time stamps of the policy input and of the audit record, clocks of the evaluation.\<close>

record app_env =
  aeInputNow :: time
  aeEval :: eval_env
  aeRecordNow :: time

definition lift_upstream :: "('a, 'u) act \<Rightarrow> ('a, ('q, 'u, 'm) world) act" where
  "lift_upstream m = (\<lambda>w. case m (woUpstream w) of (r, u) \<Rightarrow> (r, w\<lparr>woUpstream := u\<rparr>))"

definition lift_metrics :: "('a, 'm) act \<Rightarrow> ('a, ('q, 'u, 'm) world) act" where
  "lift_metrics m = (\<lambda>w. case m (woMetrics w) of (r, u) \<Rightarrow> (r, w\<lparr>woMetrics := u\<rparr>))"

text \<open>The upstream sender; without a connected client the message is echoed.\<close>

definition send_upstream :: "'u upstream_client option \<Rightarrow> ('q, 'u, 'm) world upstream_sender" where
  "send_upstream client message =
     (\<lambda>w. case client of
            Some c \<Rightarrow>
              if ucConnected c (woUpstream w) then lift_upstream (ucSend c message) w
              else (Return (Some message, None), w)
          | None \<Rightarrow> (Return (Some message, None), w))"

definition policy_input :: "Config \<Rightarrow> time \<Rightarrow> Session \<Rightarrow> RequestContext \<Rightarrow> PolicyInput" where
  "policy_input cfg now sess reqCtx =
     (let input = Build
            (WithEnvironment (sSourceIP sess) (poEnvironment (cgPolicy cfg)) (liAddress (svListen (cgServer cfg)))
            (WithSession (sID sess) (sRequestCount sess) (sCreatedAt sess)
            (WithRequest (xMethod reqCtx) (xTool reqCtx) (xArguments reqCtx)
            (WithAgent (sAgentID sess) (sAgentID sess) (sCapabilities sess)
            (NewInputBuilder now)))))
      in if agID (cgAgent cfg) \<noteq> []
         then input\<lparr>piAgent := (piAgent input)\<lparr>acModel := agModel (cgAgent cfg),
                                             acPublisher := agPublisher (cgAgent cfg)\<rparr>\<rparr>
         else input)"

definition to_router_decision :: "EvaluationResult \<Rightarrow> RouterDecision" where
  "to_router_decision result =
     \<lparr>rdAllow = pdAllow (erDecision result), rdViolations = pdViolations (erDecision result),
      rdMatchedRule = pdMatchedRule (erDecision result), rdPolicyMode = erPolicyMode result\<rparr>"

definition evaluate_policy ::
    "'q opa \<Rightarrow> (time \<Rightarrow> string outcome) \<Rightarrow> Config \<Rightarrow> app_env \<Rightarrow> ('q, 'u, 'm) world policy_evaluator" where
  "evaluate_policy opa fmt cfg env sess reqCtx =
     (\<lambda>w. let input = policy_input cfg (aeInputNow env) sess reqCtx
           in case Evaluate opa fmt (aeEval env) input (woEngine w) of
                (Ok result, e) \<Rightarrow> (Return (Some (to_router_decision result), None), w\<lparr>woEngine := e\<rparr>)
              | (Err err, e) \<Rightarrow> (Return (None, Some err), w\<lparr>woEngine := e\<rparr>)
              | (Panic p, e) \<Rightarrow> (Panicked p, w\<lparr>woEngine := e\<rparr>))"

text \<open>
  The audit record of a request. \<open>num\<close> writes a number in JSON; the arguments are captured only
  when the configuration says so.
\<close>

definition audit_record ::
    "(rat \<Rightarrow> string) \<Rightarrow> Config \<Rightarrow> time \<Rightarrow> Session \<Rightarrow> RequestContext \<Rightarrow> RouterDecision option \<Rightarrow> duration \<Rightarrow>
     AuditRecord" where
  "audit_record num cfg now sess reqCtx decision latency =
     (let allowed = (case decision of None \<Rightarrow> True | Some d \<Rightarrow> rdAllow d);
          capsJSON = (case sCapabilities sess of None \<Rightarrow> ''null'' | Some cs \<Rightarrow> json_text num (GStrs cs));
          argsJSON = (case xArguments reqCtx of
              Some m \<Rightarrow> if caRequestArguments (auCapture (cgAudit cfg)) then json_text num (GObj m) else []
            | None \<Rightarrow> []);
          violations = (case decision of None \<Rightarrow> [] | Some d \<Rightarrow> Join (rdViolations d) ''; '');
          matchedRule = (case decision of None \<Rightarrow> [] | Some d \<Rightarrow> rdMatchedRule d);
          policyMode = (case decision of None \<Rightarrow> [] | Some d \<Rightarrow> rdPolicyMode d)
      in Record_Build
         (Record_WithEnvironment (sSourceIP sess) (poEnvironment (cgPolicy cfg))
         (Record_WithDecision allowed matchedRule violations policyMode
         (Record_WithIdentity (sIdentityVerified sess) (sDID sess)
         (Record_WithMethod (xMethod reqCtx) (xTool reqCtx) (xResourceURI reqCtx) argsJSON
         (Record_WithAgent (sAgentID sess) (sAgentName sess) capsJSON
         (Record_WithTiming (of_int (latency sdiv 1000) / 1000)
         (Record_WithRequest (xRequestID reqCtx) (sID sess)
         (NewRecordBuilder now)))))))))"

text \<open>The metrics of a request; a latency in seconds is exact where the code rounds it.\<close>

definition record_metrics :: "'m meter \<Rightarrow> RequestContext \<Rightarrow> RouterDecision option \<Rightarrow> duration \<Rightarrow> (unit, 'm) act" where
  "record_metrics mtr reqCtx decision latency =
     (let allowed = (case decision of None \<Rightarrow> True | Some d \<Rightarrow> rdAllow d);
          durationSeconds = of_int latency / 1000000000;
          tool = (if xTool reqCtx = [] then ''unknown'' else xTool reqCtx)
      in bind_act (RecordRequest (mrProm mtr) (mrMetrics mtr) (xMethod reqCtx) tool allowed durationSeconds) (\<lambda>_.
           case decision of
             None \<Rightarrow> ret_act ()
           | Some d \<Rightarrow> RecordPolicyDecision (mrProm mtr) (mrMetrics mtr) allowed (rdMatchedRule d) (rdPolicyMode d)
                         durationSeconds))"

definition audit_request ::
    "(rat \<Rightarrow> string) \<Rightarrow> 'm meter \<Rightarrow> Config \<Rightarrow> app_env \<Rightarrow> ('q, 'u, 'm) world audit_logger" where
  "audit_request num mtr cfg env sess reqCtx decision response latency =
     bind_act (lift_metrics (record_metrics mtr reqCtx decision latency)) (\<lambda>_ w.
       case woWriter w of
         None \<Rightarrow> (Return (), w)
       | Some wr \<Rightarrow>
           (Return (), w\<lparr>woWriter := Some
              (Writer_Write (audit_record num cfg (aeRecordNow env) sess reqCtx decision latency) wr)\<rparr>))"

text \<open>The router with the callbacks of the application.\<close>

definition app_router ::
    "'q opa \<Rightarrow> (time \<Rightarrow> string outcome) \<Rightarrow> (rat \<Rightarrow> string) \<Rightarrow> 'm meter \<Rightarrow> Config \<Rightarrow> 'u upstream_client option \<Rightarrow> app_env \<Rightarrow>
     ('q, 'u, 'm) world Router" where
  "app_router opa fmt num mtr cfg client env =
     SetPolicyEvaluator (evaluate_policy opa fmt cfg env)
       (SetAuditLogger (audit_request num mtr cfg env)
         (SetUpstreamSender (send_upstream client) NewRouter))"

definition handleMessage ::
    "gojson \<Rightarrow> 'q opa \<Rightarrow> (time \<Rightarrow> string outcome) \<Rightarrow> (rat \<Rightarrow> string) \<Rightarrow> 'm meter \<Rightarrow> Config \<Rightarrow> 'u upstream_client option \<Rightarrow>
     app_env \<Rightarrow> route_env \<Rightarrow> Session \<Rightarrow> bytes \<Rightarrow> (bytes option \<times> string option, ('q, 'u, 'm) world) act" where
  "handleMessage gj opa fmt num mtr cfg client env renv sess message =
     Route gj renv (app_router opa fmt num mtr cfg client env) sess message"

section \<open>Lemmas\<close>

lemma app_router_callbacks [simp]:
  "roPolicyEvaluator (app_router opa fmt num mtr cfg client env) = Some (evaluate_policy opa fmt cfg env)"
  "roUpstreamSender (app_router opa fmt num mtr cfg client env) = Some (send_upstream client)"
  "roAuditLogger (app_router opa fmt num mtr cfg client env) = Some (audit_request num mtr cfg env)"
  by (simp_all add: app_router_def SetPolicyEvaluator_def SetAuditLogger_def SetUpstreamSender_def)

text \<open>The metrics work: the client behaves as documented and the collectors are registered.\<close>

definition meter_ok ::
    "('m \<Rightarrow> (string \<times> string) set) \<Rightarrow> ('m \<Rightarrow> metric \<Rightarrow> string list \<Rightarrow> rat) \<Rightarrow> 'm meter \<Rightarrow> 'm \<Rightarrow> bool" where
  "meter_ok names tally mtr m \<longleftrightarrow> prom_laws (mrProm mtr) names tally \<and> metrics_ready names (mrMetrics mtr) m"

text \<open>The series of the request counter that a request belongs to.\<close>

definition request_series :: "RequestContext \<Rightarrow> bool \<Rightarrow> string list" where
  "request_series ctx allowed =
     [xMethod ctx, if xTool ctx = [] then ''unknown'' else xTool ctx, if allowed then ''true'' else ''false'']"

text \<open>The \<open>allowed\<close> field of a record: without a decision the request counts as allowed.\<close>

definition recorded :: "RouterDecision option \<Rightarrow> bool" where
  "recorded decision = (case decision of None \<Rightarrow> True | Some d \<Rightarrow> rdAllow d)"

lemma record_metrics_counts:
  assumes "meter_ok names tally mtr m"
  shows "\<exists>m'. record_metrics mtr ctx d lat m = (Return (), m') \<and> meter_ok names tally mtr m' \<and>
    tally m' (RequestsTotal (mrMetrics mtr)) =
      (tally m (RequestsTotal (mrMetrics mtr)))(request_series ctx (recorded d) :=
        tally m (RequestsTotal (mrMetrics mtr)) (request_series ctx (recorded d)) + 1)"
proof -
  let ?M = "mrMetrics mtr"
  let ?tool = "if xTool ctx = [] then ''unknown'' else xTool ctx"
  let ?secs = "of_int lat / 1000000000 :: rat"
  have laws: "prom_laws (mrProm mtr) names tally" and ready: "metrics_ready names ?M m"
    using assms by (simp_all add: meter_ok_def)
  obtain m1 where m1: "RecordRequest (mrProm mtr) ?M (xMethod ctx) ?tool (recorded d) ?secs m = (Return (), m1)"
    "metrics_ready names ?M m1"
    "tally m1 (RequestsTotal ?M) = (tally m (RequestsTotal ?M))(request_series ctx (recorded d) :=
        tally m (RequestsTotal ?M) (request_series ctx (recorded d)) + 1)"
    using RecordRequest_counts [OF laws ready] unfolding request_series_def by (metis fun_upd_same)
  show ?thesis
  proof (cases d)
    case None
    with m1 show ?thesis by (simp add: record_metrics_def Let_def recorded_def bind_act_Return ret_act_def meter_ok_def laws)
  next
    case (Some dec)
    obtain m2 where "RecordPolicyDecision (mrProm mtr) ?M (rdAllow dec) (rdMatchedRule dec) (rdPolicyMode dec) ?secs m1 = (Return (), m2)"
      "metrics_ready names ?M m2" "\<forall>c. c \<noteq> PolicyDecisions ?M \<longrightarrow> tally m2 c = tally m1 c"
      using RecordPolicyDecision_returns [OF laws m1(2)] by metis
    moreover have "RequestsTotal ?M \<noteq> PolicyDecisions ?M" using ready by (auto simp: metrics_ready_def metrics_of_def)
    ultimately show ?thesis using Some m1
      by (simp add: record_metrics_def Let_def recorded_def bind_act_Return meter_ok_def laws)
  qed
qed

lemma audit_request_runs:
  assumes "meter_ok names tally mtr (woMetrics w)"
  shows "\<exists>m'. audit_request num mtr cfg env sess ctx d resp lat w =
      (Return (), w\<lparr>woMetrics := m',
         woWriter := map_option (Writer_Write (audit_record num cfg (aeRecordNow env) sess ctx d lat)) (woWriter w)\<rparr>) \<and>
    meter_ok names tally mtr m' \<and>
    tally m' (RequestsTotal (mrMetrics mtr)) =
      (tally (woMetrics w) (RequestsTotal (mrMetrics mtr)))(request_series ctx (recorded d) :=
        tally (woMetrics w) (RequestsTotal (mrMetrics mtr)) (request_series ctx (recorded d)) + 1)"
proof -
  obtain m' where m': "record_metrics mtr ctx d lat (woMetrics w) = (Return (), m')" "meter_ok names tally mtr m'"
    "tally m' (RequestsTotal (mrMetrics mtr)) =
      (tally (woMetrics w) (RequestsTotal (mrMetrics mtr)))(request_series ctx (recorded d) :=
        tally (woMetrics w) (RequestsTotal (mrMetrics mtr)) (request_series ctx (recorded d)) + 1)"
    using record_metrics_counts [OF assms] by blast
  then have "lift_metrics (record_metrics mtr ctx d lat) w = (Return (), w\<lparr>woMetrics := m'\<rparr>)" by (simp add: lift_metrics_def)
  then have "audit_request num mtr cfg env sess ctx d resp lat w =
      (Return (), w\<lparr>woMetrics := m',
         woWriter := map_option (Writer_Write (audit_record num cfg (aeRecordNow env) sess ctx d lat)) (woWriter w)\<rparr>)"
    by (cases w; cases "woWriter w") (simp_all add: audit_request_def bind_act_Return)
  with m'(2,3) show ?thesis by blast
qed

lemma builder_identity [simp]:
  "piIdentity (NewInputBuilder now) = zero_identity" "piIdentity (WithAgent i n c b) = piIdentity b"
  "piIdentity (WithRequest m t a b) = piIdentity b" "piIdentity (WithSession i k t' b) = piIdentity b"
  "piIdentity (WithEnvironment ip en rg b) = piIdentity b"
  by (simp_all add: NewInputBuilder_def WithAgent_def WithRequest_def WithSession_def WithEnvironment_def)

lemma policy_input_identity: "piIdentity (policy_input cfg now sess ctx) = zero_identity"
  by (simp add: policy_input_def Build_def Let_def)

lemma enforced_logged:
  "m \<in> {''tools/call'', ''resources/read'', ''resources/subscribe''} \<Longrightarrow> mcLogLevel (method_config m) = LogFull"
proof -
  have "mcLogLevel (method_config ''tools/call'') = LogFull" by code_simp
  moreover have "mcLogLevel (method_config ''resources/read'') = LogFull" by code_simp
  moreover have "mcLogLevel (method_config ''resources/subscribe'') = LogFull" by code_simp
  ultimately show "m \<in> {''tools/call'', ''resources/read'', ''resources/subscribe''} \<Longrightarrow> ?thesis" by blast
qed

lemma audit_step_enforced:
  assumes "admitted gj renv message = Some (req, ctx)"
    and "reqMethod req \<in> {''tools/call'', ''resources/read'', ''resources/subscribe''}"
  shows "audit_step renv (app_router opa fmt num mtr cfg client env) sess ctx d resp =
    audit_request num mtr cfg env sess ctx d resp (time_sub (reEnd renv) (reStart renv))"
  using enforced_logged [OF assms(2)] admitted_ctx(2) [OF assms(1)] by (simp add: audit_step_def)

lemma evaluate_policy_Ok:
  assumes "Evaluate opa fmt (aeEval env) (policy_input cfg (aeInputNow env) sess ctx) (woEngine w) = (Ok r, e)"
  shows "evaluate_policy opa fmt cfg env sess ctx w =
    (Return (Some (to_router_decision r), None), w\<lparr>woEngine := e\<rparr>)"
  using assms by (simp add: evaluate_policy_def Let_def)

lemma send_upstream_returns:
  assumes "\<And>c m u. client = Some c \<Longrightarrow> \<exists>x u'. ucSend c m u = (Return x, u')"
  shows "\<exists>reply err w'. send_upstream client message w = (Return (reply, err), w') \<and>
    woWriter w' = woWriter w \<and> woMetrics w' = woMetrics w"
proof (cases client)
  case (Some c)
  then obtain x u' where "ucSend c message (woUpstream w) = (Return x, u')" using assms by blast
  with Some show ?thesis by (cases x) (auto simp: send_upstream_def lift_upstream_def)
qed (simp add: send_upstream_def)

lemma audit_record_fields:
  "arRequestID (audit_record num cfg now sess ctx d lat) = xRequestID ctx"
  "arMethod (audit_record num cfg now sess ctx d lat) = xMethod ctx"
  "arTool (audit_record num cfg now sess ctx d lat) = xTool ctx"
  "arAgentID (audit_record num cfg now sess ctx d lat) = sAgentID sess"
  "arAllowed (audit_record num cfg now sess ctx d lat) = recorded d"
  by (simp_all add: audit_record_def Record_Build_def Record_WithEnvironment_def Record_WithDecision_def
      Record_WithIdentity_def Record_WithMethod_def Record_WithAgent_def Record_WithTiming_def
      Record_WithRequest_def recorded_def Let_def)

lemma evaluate_policy_Err:
  assumes "Evaluate opa fmt (aeEval env) (policy_input cfg (aeInputNow env) sess ctx) (woEngine w) = (Err x, e)"
  shows "evaluate_policy opa fmt cfg env sess ctx w = (Return (None, Some x), w\<lparr>woEngine := e\<rparr>)"
  using assms by (simp add: evaluate_policy_def Let_def)

lemma handleMessage_enforced:
  assumes "admitted gj renv message = Some (req, ctx)"
    and "reqMethod req \<in> {''tools/call'', ''resources/read'', ''resources/subscribe''}"
    and "handleEnforce gj (reStamp renv) (app_router opa fmt num mtr cfg client env) sess ctx message w =
      (Return (resp, d, None), w1)"
    and "meter_ok names tally mtr (woMetrics w1)"
  shows "\<exists>m'. handleMessage gj opa fmt num mtr cfg client env renv sess message w =
      (Return (resp, None), w1\<lparr>woMetrics := m', woWriter := map_option
        (Writer_Write (audit_record num cfg (aeRecordNow env) sess ctx d (time_sub (reEnd renv) (reStart renv))))
        (woWriter w1)\<rparr>) \<and> meter_ok names tally mtr m' \<and>
    tally m' (RequestsTotal (mrMetrics mtr)) =
      (tally (woMetrics w1) (RequestsTotal (mrMetrics mtr)))(request_series ctx (recorded d) :=
        tally (woMetrics w1) (RequestsTotal (mrMetrics mtr)) (request_series ctx (recorded d)) + 1)"
  using audit_request_runs [OF assms(4), of num cfg env sess ctx d resp "time_sub (reEnd renv) (reStart renv)"] assms(3)
  by (auto simp: handleMessage_def Route_admitted [OF assms(1)] dispatch_enforced [OF assms(1,2)]
      audit_step_enforced [OF assms(1,2)] bind_act_Return ret_act_def)

text \<open>A request that the engine denies in enforce mode.\<close>

lemma handleMessage_denied:
  assumes "admitted gj renv message = Some (req, ctx)"
    and "reqMethod req \<in> {''tools/call'', ''resources/read'', ''resources/subscribe''}"
    and "Evaluate opa fmt (aeEval env) (policy_input cfg (aeInputNow env) sess ctx) (woEngine w) = (Ok r, e)"
    and "enMode (woEngine w) = ''enforce''" and "\<not> pdAllow (erDecision r)"
    and "meter_ok names tally mtr (woMetrics w)"
  shows "\<exists>resp err w' rc. respError resp = Some err \<and> errCode err = CodePolicyViolation \<and> respID resp = reqID req \<and>
    handleMessage gj opa fmt num mtr cfg client env renv sess message w = (Return (marshal_or_nil gj resp, None), w') \<and>
    woUpstream w' = woUpstream w \<and> woWriter w' = map_option (Writer_Write rc) (woWriter w) \<and>
    arRequestID rc = xRequestID ctx \<and> \<not> arAllowed rc"
proof -
  let ?d = "to_router_decision r"
  have d: "\<not> rdAllow ?d" "rdPolicyMode ?d = ''enforce''"
    using assms(4,5) Evaluate_mode [OF assms(3)] by (simp_all add: to_router_decision_def)
  note denied = handleEnforce_denied [OF app_router_callbacks(1) evaluate_policy_Ok [OF assms(3)] d,
      unfolded dispatch_enforced(2) [OF assms(1,2)]]
  have "meter_ok names tally mtr (woMetrics (w\<lparr>woEngine := e\<rparr>))" using assms(6) by simp
  note run = handleMessage_enforced [OF assms(1,2) denied this]
  show ?thesis using run PolicyViolation_shape d(1) by (fastforce simp: audit_record_fields recorded_def)
qed

lemma handleEnforce_outcome:
  assumes "Evaluate opa fmt (aeEval env) (policy_input cfg (aeInputNow env) sess ctx) (woEngine w) = (out, e)"
    and "\<And>p. out \<noteq> Panic p"
    and "\<And>c m u. client = Some c \<Longrightarrow> \<exists>x u'. ucSend c m u = (Return x, u')"
    and "woWriter w = Some wr"
  shows "\<exists>resp d w1. handleEnforce gj now (app_router opa fmt num mtr cfg client env) sess ctx message w =
       (Return (resp, d, None), w1) \<and> woWriter w1 = Some wr \<and> woMetrics w1 = woMetrics w \<and>
     recorded d = (case out of Ok r \<Rightarrow> pdAllow (erDecision r) | _ \<Rightarrow> True) \<and>
     ((\<exists>x. out = Err x) \<longrightarrow> woUpstream w1 = woUpstream w \<and>
      resp = marshal_or_nil gj (InternalError (ctx_id ctx) ''Policy evaluation failed''))"
proof (cases out)
  case (Ok r)
  note ev = evaluate_policy_Ok [OF assms(1) [unfolded Ok]]
  obtain reply err w2 where send: "send_upstream client message (w\<lparr>woEngine := e\<rparr>) = (Return (reply, err), w2)"
    "woWriter w2 = Some wr" "woMetrics w2 = woMetrics w"
    using send_upstream_returns [OF assms(3), of client message "w\<lparr>woEngine := e\<rparr>"] assms(4) by auto
  show ?thesis
    using Ok send(2,3) handleEnforce_denied [OF app_router_callbacks(1) ev] assms(4)
      handleEnforce_admitted [OF app_router_callbacks(1) ev _ app_router_callbacks(2) send(1)]
    by (cases "\<not> pdAllow (erDecision r) \<and> erPolicyMode r = ''enforce''")
      (auto simp: to_router_decision_def recorded_def)
next
  case (Err x)
  then show ?thesis using evaluate_policy_Err [OF assms(1) [unfolded Err]] assms(4)
    by (auto simp: handleEnforce_def bind_act_Return ret_act_def recorded_def)
qed (use assms(2) in auto)

text \<open>What the policy input takes from the session and the request.\<close>

lemma policy_input_fields:
  "piRequest (policy_input cfg now sess ctx) = zero_request\<lparr>rqMethod := xMethod ctx, rqTool := xTool ctx,
     rqArguments := xArguments ctx\<rparr>"
  "acID (piAgent (policy_input cfg now sess ctx)) = sAgentID sess"
  "acName (piAgent (policy_input cfg now sess ctx)) = sAgentID sess"
  by (simp_all add: policy_input_def Build_def Let_def WithEnvironment_def WithSession_def WithRequest_def WithAgent_def)

end
