(* ===== verification/Json_Scan.thy ===== *)
theory Json_Scan
  imports Prelude
begin

text \<open>
  \<^verbatim>\<open>json.Valid\<close> of Go's \<^verbatim>\<open>encoding/json\<close>: the scanner, one state function per constructor,
  with the stack of open objects and arrays. Both transports reject what it rejects.
\<close>

datatype parse_state = ObjectKey | ObjectValue | ArrayValue

text \<open>
  \<open>JEscU n\<close> expects \<open>n\<close> more hexadecimal digits, \<open>JLit s\<close> the rest \<open>s\<close> of a literal name.
\<close>

datatype jstate =
    JBeginValue | JBeginValueOrEmpty | JBeginString | JBeginStringOrEmpty
  | JEndValue | JEndTop | JInString | JEsc | JEscU nat
  | JNeg | J1 | J0 | JDot | JDot0 | JE | JESign | JE0 | JLit string | JError

definition json_space :: "char \<Rightarrow> bool" where
  "json_space c \<longleftrightarrow> c = CHR '' '' \<or> c = CHR 0x09 \<or> c = CHR 0x0D \<or> c = CHR 0x0A"

definition nonzero_digit :: "char \<Rightarrow> bool" where
  "nonzero_digit c \<longleftrightarrow> is_digit c \<and> c \<noteq> CHR ''0''"

definition hex_digit :: "char \<Rightarrow> bool" where
  "hex_digit c \<longleftrightarrow> is_digit c \<or> c \<in> set ''abcdefABCDEF''"

type_synonym jscan = "jstate \<times> parse_state list"

definition maxNestingDepth :: nat where
  "maxNestingDepth = 10000"

definition push_state :: "parse_state \<Rightarrow> jstate \<Rightarrow> parse_state list \<Rightarrow> jscan" where
  "push_state p next st = (if Suc (length st) \<le> maxNestingDepth then (next, p # st) else (JError, p # st))"

definition pop_state :: "parse_state list \<Rightarrow> jscan" where
  "pop_state st = (if tl st = [] then (JEndTop, []) else (JEndValue, tl st))"

definition end_top :: "char \<Rightarrow> jscan" where
  "end_top c = (if json_space c then JEndTop else JError, [])"

definition end_value :: "char \<Rightarrow> parse_state list \<Rightarrow> jscan" where
  "end_value c st =
     (case st of
        [] \<Rightarrow> end_top c
      | p # ps \<Rightarrow>
          if json_space c then (JEndValue, st)
          else (case p of
              ObjectKey \<Rightarrow> if c = CHR '':'' then (JBeginValue, ObjectValue # ps) else (JError, st)
            | ObjectValue \<Rightarrow>
                if c = CHR '','' then (JBeginString, ObjectKey # ps)
                else if c = CHR ''}'' then pop_state st else (JError, st)
            | ArrayValue \<Rightarrow>
                if c = CHR '','' then (JBeginValue, st)
                else if c = CHR '']'' then pop_state st else (JError, st)))"

definition begin_value :: "char \<Rightarrow> parse_state list \<Rightarrow> jscan" where
  "begin_value c st =
     (if json_space c then (JBeginValue, st)
      else if c = CHR ''{'' then push_state ObjectKey JBeginStringOrEmpty st
      else if c = CHR ''['' then push_state ArrayValue JBeginValueOrEmpty st
      else if c = CHR 0x22 then (JInString, st)
      else if c = CHR ''-'' then (JNeg, st)
      else if c = CHR ''0'' then (J0, st)
      else if c = CHR ''t'' then (JLit ''rue'', st)
      else if c = CHR ''f'' then (JLit ''alse'', st)
      else if c = CHR ''n'' then (JLit ''ull'', st)
      else if nonzero_digit c then (J1, st)
      else (JError, st))"

definition begin_string :: "char \<Rightarrow> parse_state list \<Rightarrow> jscan" where
  "begin_string c st =
     (if json_space c then (JBeginString, st)
      else if c = CHR 0x22 then (JInString, st) else (JError, st))"

definition number_tail :: "char \<Rightarrow> parse_state list \<Rightarrow> jscan" where
  "number_tail c st =
     (if c = CHR ''.'' then (JDot, st)
      else if c = CHR ''e'' \<or> c = CHR ''E'' then (JE, st) else end_value c st)"

definition e_sign :: "char \<Rightarrow> parse_state list \<Rightarrow> jscan" where
  "e_sign c st = (if is_digit c then (JE0, st) else (JError, st))"

fun json_step :: "jstate \<Rightarrow> parse_state list \<Rightarrow> char \<Rightarrow> jscan" where
  "json_step JBeginValue st c = begin_value c st"
| "json_step JBeginValueOrEmpty st c =
     (if json_space c then (JBeginValueOrEmpty, st)
      else if c = CHR '']'' then end_value c st else begin_value c st)"
| "json_step JBeginString st c = begin_string c st"
| "json_step JBeginStringOrEmpty st c =
     (if json_space c then (JBeginStringOrEmpty, st)
      else if c = CHR ''}'' then end_value c (ObjectValue # tl st) else begin_string c st)"
| "json_step JEndValue st c = end_value c st"
| "json_step JEndTop st c = end_top c"
| "json_step JInString st c =
     (if c = CHR 0x22 then (JEndValue, st)
      else if c = CHR 0x5C then (JEsc, st)
      else if (of_char c :: nat) < 32 then (JError, st) else (JInString, st))"
| "json_step JEsc st c =
     (if c \<in> {CHR ''b'', CHR ''f'', CHR ''n'', CHR ''r'', CHR ''t'', CHR 0x5C, CHR ''/'', CHR 0x22}
      then (JInString, st)
      else if c = CHR ''u'' then (JEscU 4, st) else (JError, st))"
| "json_step (JEscU n) st c =
     (if hex_digit c then (if n \<le> 1 then JInString else JEscU (n - 1), st) else (JError, st))"
| "json_step JNeg st c =
     (if c = CHR ''0'' then (J0, st) else if nonzero_digit c then (J1, st) else (JError, st))"
| "json_step J1 st c = (if is_digit c then (J1, st) else number_tail c st)"
| "json_step J0 st c = number_tail c st"
| "json_step JDot st c = (if is_digit c then (JDot0, st) else (JError, st))"
| "json_step JDot0 st c =
     (if is_digit c then (JDot0, st)
      else if c = CHR ''e'' \<or> c = CHR ''E'' then (JE, st) else end_value c st)"
| "json_step JE st c = (if c = CHR ''+'' \<or> c = CHR ''-'' then (JESign, st) else e_sign c st)"
| "json_step JESign st c = e_sign c st"
| "json_step JE0 st c = (if is_digit c then (JE0, st) else end_value c st)"
| "json_step (JLit s) st c =
     (case s of
        [] \<Rightarrow> end_value c st
      | x # xs \<Rightarrow> if c = x then (if xs = [] then JEndValue else JLit xs, st) else (JError, st))"
| "json_step JError st c = (JError, st)"

text \<open>The input is valid when it ends a top-level value, possibly only with a space appended.\<close>

definition json_scan :: "string \<Rightarrow> jscan" where
  "json_scan s = foldl (\<lambda>(q, st) c. json_step q st c) (JBeginValue, []) s"

definition Valid :: "string \<Rightarrow> bool" where
  "Valid s =
     (let (q, st) = json_scan s
      in q \<noteq> JError \<and> (q = JEndTop \<or> fst (json_step q st (CHR '' '')) = JEndTop))"

section \<open>Lemmas\<close>

lemma Valid_Nil [simp]: "\<not> Valid []"
  by (simp add: Valid_def json_scan_def begin_value_def json_space_def)

end
