(* ===== verification/Transport.thy ===== *)
theory Transport
  imports Session Config Json Json_Scan
begin

text \<open>
  What the two transports share, \<^verbatim>\<open>src/internal/transport/transport.go\<close>: the type of the message
  handler, the life cycle of a transport as an interface, and the JSON-RPC error that both write when
  a message cannot be handled.
\<close>

declare map_of_eq_Some_iff [simp del] Some_eq_map_of_iff [simp del]

type_synonym 'w message_handler = "Session \<Rightarrow> bytes \<Rightarrow> (bytes option \<times> string option, 'w) act"

text \<open>
  The error object that the transports build from a map, and its JSON text; an ID decoded from JSON
  may be a number, whose form is the parameter \<open>num\<close>.
\<close>

definition rpc_error :: "gval \<Rightarrow> int \<Rightarrow> string \<Rightarrow> gval" where
  "rpc_error i code message =
     GObj [(''jsonrpc'', GStr ''2.0''), (''id'', i),
           (''error'', GObj [(''code'', GInt code), (''message'', GStr message)])]"

section \<open>The life cycle of a transport\<close>

text \<open>
  Both servers keep a flag \<^verbatim>\<open>started\<close> and a channel \<^verbatim>\<open>done\<close> that \<^verbatim>\<open>Stop\<close> closes. The laws:
  a started server refuses to start again, a stopped one ignores \<^verbatim>\<open>Stop\<close>, and stopping closes
  \<^verbatim>\<open>done\<close>, which panics when it is closed already; nothing opens it again.
\<close>

locale transport =
  fixes started :: "'s \<Rightarrow> bool" and done_closed :: "'s \<Rightarrow> bool"
    and start :: "'e \<Rightarrow> (string option, 's) act" and stop :: "'f \<Rightarrow> (string option, 's) act"
  assumes start_started: "started s \<Longrightarrow> start e s = (Return (Some ''server already started''), s)"
    and start_starts: "\<not> started s \<Longrightarrow> start e s = (r, s') \<Longrightarrow> started s' \<and> done_closed s' = done_closed s"
    and stop_stopped: "\<not> started s \<Longrightarrow> stop f s = (Return None, s)"
    and stop_stops: "started s \<Longrightarrow> \<not> done_closed s \<Longrightarrow> stop f s = (r, s') \<Longrightarrow>
      (\<forall>p. r \<noteq> Panicked p) \<and> \<not> started s' \<and> done_closed s'"
    and stop_panics: "started s \<Longrightarrow> done_closed s \<Longrightarrow> \<exists>s'. stop f s = (Panicked ''close of closed channel'', s')"
begin

lemma stop_twice:
  assumes "started s" and "\<not> done_closed s" and "stop f s = (r, s')"
  shows "stop f' s' = (Return None, s')"
  using stop_stops [OF assms] stop_stopped by blast

lemma restart_panics:
  assumes "\<not> started s0" and "\<not> done_closed s0"
    and "start e s0 = (r1, s1)" and "stop f s1 = (r2, s2)" and "start e' s2 = (r3, s3)"
  shows "\<exists>s4. stop f' s3 = (Panicked ''close of closed channel'', s4)"
proof -
  have "started s1" "\<not> done_closed s1" using start_starts [OF assms(1,3)] assms(2) by auto
  then have "\<not> started s2" "done_closed s2" using stop_stops [OF _ _ assms(4)] by auto
  then have "started s3" "done_closed s3" using start_starts [OF _ assms(5)] by auto
  then show ?thesis by (rule stop_panics)
qed

end

end
