(* ===== verification/Upstream_Client.thy ===== *)
theory Upstream_Client
  imports Config Go_Value Utf8
begin

text \<open>
  The client of the upstream MCP server, \<^verbatim>\<open>src/internal/upstream/client.go\<close>: a stream of
  server-sent events that carries the answers, requests posted beside it, and the table that matches
  answers with waiting callers of \<^verbatim>\<open>Send\<close>. The results of HTTP calls, the events of the stream
  and the choices of the scheduler are arguments; \<open>unmarshal\<close> is the decoding of a JSON object.
\<close>

declare map_of_eq_Some_iff [simp del] Some_eq_map_of_iff [simp del]

section \<open>Model\<close>

record UpResponse =
  urSessionID :: string
  urData :: bytes
  urError :: "string option"

text \<open>
  Every call of \<^verbatim>\<open>Send\<close> makes a channel with room for one response. Channels are addresses in
  \<open>clChans\<close>, because the table of pending requests and the waiting caller share them. A panic inside
  a critical section leaves \<^verbatim>\<open>pendingMu\<close> locked: \<open>clPendingMu\<close>.
\<close>

record Client =
  clCfg :: UpstreamConfig
  clConnected :: bool
  clMessageURL :: string
  clConn :: bool
  clPending :: "(gval, nat) gomap"
  clPendingMu :: bool
  clDone :: bool
  clChans :: "UpResponse option list"

definition NewClient :: "UpstreamConfig \<Rightarrow> Client" where
  "NewClient cfg = \<lparr>clCfg = cfg, clConnected = False, clMessageURL = [], clConn = False, clPending = [],
     clPendingMu = False, clDone = False, clChans = []\<rparr>"

definition IsConnected :: "Client \<Rightarrow> bool" where
  "IsConnected c = clConnected c"

definition GetMessageURL :: "Client \<Rightarrow> string" where
  "GetMessageURL c = clMessageURL c"

text \<open>The result of an HTTP call: the request cannot be built, the call fails, or a status is returned.\<close>

datatype http_result = BadRequest string | CallFailed string | Status int

definition status_error :: "int \<Rightarrow> string" where
  "status_error code = ''upstream returned status '' @ itoa code"

definition Connect :: "http_result \<Rightarrow> Client \<Rightarrow> string option \<times> Client" where
  "Connect res c =
     (if clConnected c then (None, c)
      else case res of
             BadRequest e \<Rightarrow> (Some (''failed to create SSE request: '' @ e), c)
           | CallFailed e \<Rightarrow> (Some (''failed to connect to upstream: '' @ e), c)
           | Status code \<Rightarrow>
               if code \<noteq> 200 then (Some (status_error code), c)
               else (None, c\<lparr>clConn := True, clConnected := True\<rparr>))"

text \<open>Closing a closed channel panics.\<close>

definition Disconnect :: "(unit, Client) act" where
  "Disconnect = (\<lambda>c.
     if \<not> clConnected c then (Return (), c)
     else let c1 = c\<lparr>clConnected := False\<rparr>
          in if clDone c1 then (Panicked ''close of closed channel'', c1)
             else (Return (), c1\<lparr>clDone := True, clConn := False\<rparr>))"

text \<open>The values that may be keys of a map with interface keys.\<close>

fun hashable :: "gval \<Rightarrow> bool" where
  "hashable (GArr xs) = False"
| "hashable (GStrs ss) = False"
| "hashable (GObj m) = False"
| "hashable v = True"

definition unhashable_panic :: string where
  "unhashable_panic = ''hash of unhashable type''"

text \<open>
  \<^verbatim>\<open>Send\<close> in three parts: the checks and the decoding of the request ID; the registration of a
  channel under it; and the return, with the deferred deletion of the table entry.
\<close>

definition Send_check :: "(bytes \<Rightarrow> string + gobj) \<Rightarrow> bytes \<Rightarrow> Client \<Rightarrow> string + gval" where
  "Send_check unmarshal message c =
     (if \<not> clConnected c then Inl ''not connected to upstream''
      else if clMessageURL c = [] then Inl ''upstream message URL not yet received''
      else case unmarshal message of
             Inl e \<Rightarrow> Inl (''invalid JSON message: '' @ e)
           | Inr parsed \<Rightarrow> Inr (gindex parsed ''id''))"

definition Send_register :: "gval \<Rightarrow> (nat, Client) act" where
  "Send_register requestID = (\<lambda>c.
     let respChan = length (clChans c);
         c1 = c\<lparr>clChans := clChans c @ [None]\<rparr>
     in if hashable requestID
        then (Return respChan, c1\<lparr>clPending := AList.update requestID respChan (clPending c1)\<rparr>)
        else (Panicked unhashable_panic, c1\<lparr>clPendingMu := True\<rparr>))"

definition Send_return :: "gval \<Rightarrow> Client \<Rightarrow> Client" where
  "Send_return requestID c = c\<lparr>clPending := AList.delete requestID (clPending c)\<rparr>"

text \<open>The result of posting the message: \<^const>\<open>None\<close> when the caller goes on to wait.\<close>

definition post_result :: "http_result \<Rightarrow> string option" where
  "post_result res =
     (case res of
        BadRequest e \<Rightarrow> Some (''failed to create request: '' @ e)
      | CallFailed e \<Rightarrow> Some (''failed to send to upstream: '' @ e)
      | Status code \<Rightarrow> if code \<noteq> 200 \<and> code \<noteq> 202 then Some (status_error code) else None)"

definition received :: "UpResponse \<Rightarrow> string + bytes" where
  "received r = (case urError r of Some e \<Rightarrow> Inl e | None \<Rightarrow> Inr (urData r))"

definition timeout_error :: string where
  "timeout_error = ''timeout waiting for upstream response''"

definition SendAsync :: "http_result \<Rightarrow> Client \<Rightarrow> string option" where
  "SendAsync res c =
     (if \<not> clConnected c then Some ''not connected to upstream''
      else if clMessageURL c = [] then Some ''upstream message URL not yet received''
      else post_result res)"

text \<open>A send that does not block: a full channel keeps its response.\<close>

definition offer :: "nat \<Rightarrow> UpResponse \<Rightarrow> Client \<Rightarrow> Client" where
  "offer a r c =
     (if a < length (clChans c) \<and> clChans c ! a = None then c\<lparr>clChans := (clChans c)[a := Some r]\<rparr> else c)"

definition data_response :: "string \<Rightarrow> UpResponse" where
  "data_response data = \<lparr>urSessionID = [], urData = data, urError = None\<rparr>"

text \<open>Looking up a key that cannot be hashed panics, in a goroutine that nothing recovers.\<close>

definition handleEvent :: "(bytes \<Rightarrow> string + gobj) \<Rightarrow> string \<Rightarrow> string \<Rightarrow> (unit, Client) act" where
  "handleEvent unmarshal event data = (\<lambda>c.
     if event = ''endpoint''
     then (Return (), c\<lparr>clMessageURL :=
             (if HasPrefix data ''/'' then TrimSuffix (upURL (clCfg c)) ''/'' @ data else data)\<rparr>)
     else if event = ''message''
     then (case unmarshal data of
             Inl e \<Rightarrow> (Return (), c)
           | Inr parsed \<Rightarrow>
               let requestID = gindex parsed ''id''
               in if \<not> hashable requestID then (Panicked unhashable_panic, c)
                  else case map_of (clPending c) requestID of
                         Some respChan \<Rightarrow> (Return (), offer respChan (data_response data) c)
                       | None \<Rightarrow> (Return (), c))
     else (Return (), c))"

definition disconnect_response :: UpResponse where
  "disconnect_response = \<lparr>urSessionID = [], urData = [], urError = Some ''upstream disconnected''\<rparr>"

definition handleDisconnect :: "Client \<Rightarrow> Client" where
  "handleDisconnect c =
     (let c1 = c\<lparr>clConnected := False\<rparr>
      in if clConnected c
         then (fold (\<lambda>(i, ch). offer ch disconnect_response) (clPending c1) c1)\<lparr>clPending := []\<rparr>
         else c1)"

text \<open>
  The lines of the event stream, as \<^verbatim>\<open>readEvents\<close> takes them: the fields of the event under
  construction, and the event that an empty line completes.
\<close>

definition sse_line :: "string \<Rightarrow> string \<times> string \<Rightarrow> (string \<times> string) option \<times> string \<times> string" where
  "sse_line line0 ed =
     (let (event, data) = ed; line = TrimSpace line0
      in if line = []
         then (if event \<noteq> [] \<or> data \<noteq> [] then (Some (event, data), [], []) else (None, event, data))
         else if HasPrefix line ''event:'' then (None, TrimSpace (TrimPrefix line ''event:''), data)
         else if HasPrefix line ''data:'' then (None, event, TrimSpace (TrimPrefix line ''data:''))
         else (None, event, data))"

fun sse_events :: "string list \<Rightarrow> string \<times> string \<Rightarrow> (string \<times> string) list" where
  "sse_events [] ed = []"
| "sse_events (l # ls) ed =
     (case sse_line l ed of
        (None, ed') \<Rightarrow> sse_events ls ed'
      | (Some e, ed') \<Rightarrow> e # sse_events ls ed')"

text \<open>
  \<^verbatim>\<open>ReadString\<close> at a newline: the complete lines of a stream, each with its newline. What follows
  the last newline ends in an error, upon which the loop handles the disconnection.
\<close>

fun stream_lines :: "string \<Rightarrow> string \<Rightarrow> string list" where
  "stream_lines acc [] = []"
| "stream_lines acc (c # s) =
     (if c = CHR 0x0A then rev (c # acc) # stream_lines [] s else stream_lines (c # acc) s)"

fun run_events :: "(bytes \<Rightarrow> string + gobj) \<Rightarrow> (string \<times> string) list \<Rightarrow> (unit, Client) act" where
  "run_events unmarshal [] = ret_act ()"
| "run_events unmarshal ((event, data) # es) =
     bind_act (handleEvent unmarshal event data) (\<lambda>_. run_events unmarshal es)"

text \<open>
  The loop on a stream that delivers \<open>body\<close> and then fails or ends. \<open>stop\<close> is the number of lines
  after which the loop finds \<^verbatim>\<open>done\<close> closed, if it does so before the end.
\<close>

definition readEvents :: "(bytes \<Rightarrow> string + gobj) \<Rightarrow> nat option \<Rightarrow> string \<Rightarrow> (unit, Client) act" where
  "readEvents unmarshal stop body = (\<lambda>c.
     let lines = stream_lines [] body
     in if \<not> clConn c then (Return (), c)
        else case stop of
               Some n \<Rightarrow>
                 if n \<le> length lines then run_events unmarshal (sse_events (take n lines) ([], [])) c
                 else bind_act (run_events unmarshal (sse_events lines ([], [])))
                        (\<lambda>_ c'. (Return (), handleDisconnect c')) c
             | None \<Rightarrow>
                 bind_act (run_events unmarshal (sse_events lines ([], [])))
                   (\<lambda>_ c'. (Return (), handleDisconnect c')) c)"

text \<open>
  \<^verbatim>\<open>Send\<close> as one caller sees it: \<open>evs\<close> are the events the reading goroutine handles while
  the call is in progress, \<open>pick\<close> is the case of the final select. The value \<^const>\<open>None\<close> is a call
  that never returns, because the lock of the table is held for ever.
\<close>

datatype wait_case = WaitResponse | WaitCancelled string | WaitTimeout

definition wait_result :: "wait_case \<Rightarrow> UpResponse option \<Rightarrow> string + bytes" where
  "wait_result pick ch =
     (case pick of
        WaitCancelled e \<Rightarrow> Inl e
      | WaitTimeout \<Rightarrow> Inl timeout_error
      | WaitResponse \<Rightarrow> (case ch of Some r \<Rightarrow> received r | None \<Rightarrow> Inl timeout_error))"

definition Client_Send ::
    "(bytes \<Rightarrow> string + gobj) \<Rightarrow> http_result \<Rightarrow> (string \<times> string) list \<Rightarrow> wait_case \<Rightarrow> bytes \<Rightarrow> Client \<Rightarrow>
     ((bytes option \<times> string option) call \<times> Client) option" where
  "Client_Send unmarshal res evs pick message c =
     (case Send_check unmarshal message c of
        Inl e \<Rightarrow> Some (Return (None, Some e), c)
      | Inr requestID \<Rightarrow>
          if clPendingMu c then None
          else case Send_register requestID c of
                 (Panicked p, c1) \<Rightarrow> Some (Panicked p, c1)
               | (Return respChan, c1) \<Rightarrow>
                   (case run_events unmarshal evs c1 of
                      (Panicked p, c2) \<Rightarrow> Some (Panicked p, c2)
                    | (Return _, c2) \<Rightarrow>
                        let r = (case post_result res of
                                   Some e \<Rightarrow> Inl e
                                 | None \<Rightarrow> wait_result pick (clChans c2 ! respChan))
                        in Some (Return (case r of Inl e \<Rightarrow> (None, Some e) | Inr data \<Rightarrow> (Some data, None)),
                                 Send_return requestID c2)))"

section \<open>Concurrent callers\<close>

text \<open>
  A call in flight has passed its checks, or waits on its channel. \<open>usReturned\<close> is the history of
  returned calls with their results; \<open>usCrashed\<close> counts the calls that ended in a panic, which
  \<^verbatim>\<open>net/http\<close> recovers; \<open>usDead\<close> says that a panic in the reading goroutine ended the process.
\<close>

datatype flight_pc = Checked | Waiting nat

record flight =
  flCaller :: nat
  flID :: gval
  flPC :: flight_pc

record upstream_sys =
  usClient :: Client
  usFlights :: "flight list"
  usReturned :: "(nat \<times> gval \<times> (string + bytes)) list"
  usCrashed :: nat
  usDead :: bool

definition up_start :: "UpstreamConfig \<Rightarrow> upstream_sys \<Rightarrow> bool" where
  "up_start cfg s \<longleftrightarrow> s = \<lparr>usClient = NewClient cfg, usFlights = [], usReturned = [], usCrashed = 0, usDead = False\<rparr>"

definition land :: "nat \<Rightarrow> (string + bytes) \<Rightarrow> upstream_sys \<Rightarrow> upstream_sys" where
  "land n res s =
     (let f = usFlights s ! n
      in s\<lparr>usFlights := take n (usFlights s) @ drop (Suc n) (usFlights s),
           usReturned := usReturned s @ [(flCaller f, flID f, res)],
           usClient := Send_return (flID f) (usClient s)\<rparr>)"

text \<open>
  The steps of a process that is alive: connecting, disconnecting, calling \<^verbatim>\<open>Send\<close>, registering
  the channel, returning after a failed post, a cancelled context or a timeout (all of them with an
  error), returning with a response, an event, and the loss of the stream. Steps that take
  \<^verbatim>\<open>pendingMu\<close> need it to be free; an event that takes it is a message.
\<close>

inductive up_step :: "(bytes \<Rightarrow> string + gobj) \<Rightarrow> upstream_sys \<Rightarrow> upstream_sys \<Rightarrow> bool"
  for unmarshal :: "bytes \<Rightarrow> string + gobj" where
  u_connect: "\<not> usDead s \<Longrightarrow> up_step unmarshal s (s\<lparr>usClient := snd (Connect res (usClient s))\<rparr>)"
| u_disconnect: "\<not> usDead s \<Longrightarrow> Disconnect (usClient s) = (Return (), c) \<Longrightarrow>
    up_step unmarshal s (s\<lparr>usClient := c\<rparr>)"
| u_check: "\<not> usDead s \<Longrightarrow> Send_check unmarshal message (usClient s) = Inr i \<Longrightarrow>
    up_step unmarshal s (s\<lparr>usFlights := usFlights s @ [\<lparr>flCaller = k, flID = i, flPC = Checked\<rparr>]\<rparr>)"
| u_refuse: "\<not> usDead s \<Longrightarrow> Send_check unmarshal message (usClient s) = Inl e \<Longrightarrow>
    up_step unmarshal s (s\<lparr>usReturned := usReturned s @ [(k, GNil, Inl e)]\<rparr>)"
| u_register: "\<not> usDead s \<Longrightarrow> n < length (usFlights s) \<Longrightarrow> flPC (usFlights s ! n) = Checked \<Longrightarrow>
    \<not> clPendingMu (usClient s) \<Longrightarrow>
    Send_register (flID (usFlights s ! n)) (usClient s) = (Return a, c) \<Longrightarrow>
    up_step unmarshal s (s\<lparr>usClient := c, usFlights := (usFlights s)[n := (usFlights s ! n)\<lparr>flPC := Waiting a\<rparr>]\<rparr>)"
| u_crash: "\<not> usDead s \<Longrightarrow> n < length (usFlights s) \<Longrightarrow> flPC (usFlights s ! n) = Checked \<Longrightarrow>
    \<not> clPendingMu (usClient s) \<Longrightarrow>
    Send_register (flID (usFlights s ! n)) (usClient s) = (Panicked p, c) \<Longrightarrow>
    up_step unmarshal s (s\<lparr>usClient := c, usFlights := take n (usFlights s) @ drop (Suc n) (usFlights s),
      usCrashed := Suc (usCrashed s)\<rparr>)"
| u_fail: "\<not> usDead s \<Longrightarrow> n < length (usFlights s) \<Longrightarrow> flPC (usFlights s ! n) = Waiting a \<Longrightarrow>
    \<not> clPendingMu (usClient s) \<Longrightarrow> up_step unmarshal s (land n (Inl e) s)"
| u_receive: "\<not> usDead s \<Longrightarrow> n < length (usFlights s) \<Longrightarrow> flPC (usFlights s ! n) = Waiting a \<Longrightarrow>
    \<not> clPendingMu (usClient s) \<Longrightarrow> clChans (usClient s) ! a = Some r \<Longrightarrow>
    up_step unmarshal s (land n (received r) s)"
| u_event: "\<not> usDead s \<Longrightarrow> clPendingMu (usClient s) \<longrightarrow> event \<noteq> ''message'' \<Longrightarrow>
    handleEvent unmarshal event data (usClient s) = (Return (), c) \<Longrightarrow>
    up_step unmarshal s (s\<lparr>usClient := c\<rparr>)"
| u_die: "\<not> usDead s \<Longrightarrow> clPendingMu (usClient s) \<longrightarrow> event \<noteq> ''message'' \<Longrightarrow>
    handleEvent unmarshal event data (usClient s) = (Panicked p, c) \<Longrightarrow>
    up_step unmarshal s (s\<lparr>usClient := c, usDead := True\<rparr>)"
| u_lost: "\<not> usDead s \<Longrightarrow> \<not> clPendingMu (usClient s) \<Longrightarrow>
    up_step unmarshal s (s\<lparr>usClient := handleDisconnect (usClient s)\<rparr>)"

section \<open>Lemmas\<close>

lemma offer_fields [simp]:
  "clPending (offer a r c) = clPending c" "length (clChans (offer a r c)) = length (clChans c)"
  "clPendingMu (offer a r c) = clPendingMu c" "clConnected (offer a r c) = clConnected c"
  "clMessageURL (offer a r c) = clMessageURL c"
  by (simp_all add: offer_def)

lemma offer_chan: "b < length (clChans c) \<Longrightarrow> clChans (offer a r c) ! b =
    (if b = a \<and> clChans c ! a = None then Some r else clChans c ! b)"
  by (simp add: offer_def nth_list_update)

lemma fold_offer_fields [simp]:
  "length (clChans (fold (\<lambda>(i, ch). offer ch r) es c)) = length (clChans c)"
  "clPendingMu (fold (\<lambda>(i, ch). offer ch r) es c) = clPendingMu c"
  by (induction es arbitrary: c) (simp_all add: case_prod_beta)

lemma fold_offer_chan: "b < length (clChans c) \<Longrightarrow> clChans (fold (\<lambda>(i, ch). offer ch r) es c) ! b =
    (if clChans c ! b = None \<and> b \<in> snd ` set es then Some r else clChans c ! b)"
  by (induction es arbitrary: c) (auto simp: offer_chan case_prod_beta)

lemma handleDisconnect_pending: "clPending (handleDisconnect c) = (if clConnected c then [] else clPending c)"
  by (simp add: handleDisconnect_def Let_def)

lemma handleDisconnect_chan: "b < length (clChans c) \<Longrightarrow> clChans (handleDisconnect c) ! b =
    (if clConnected c \<and> clChans c ! b = None \<and> b \<in> snd ` set (clPending c) then Some disconnect_response
     else clChans c ! b)"
  by (simp add: handleDisconnect_def Let_def fold_offer_chan)

lemma handleDisconnect_fields [simp]:
  "length (clChans (handleDisconnect c)) = length (clChans c)"
  "clPendingMu (handleDisconnect c) = clPendingMu c"
  by (simp_all add: handleDisconnect_def Let_def)

lemma Connect_fields [simp]:
  "clPending (snd (Connect res c)) = clPending c" "clChans (snd (Connect res c)) = clChans c"
  "clPendingMu (snd (Connect res c)) = clPendingMu c"
  by (simp_all add: Connect_def split: http_result.split)

lemma Disconnect_fields:
  "Disconnect c = (r, c') \<Longrightarrow> clPending c' = clPending c \<and> clChans c' = clChans c \<and> clPendingMu c' = clPendingMu c"
  by (auto simp: Disconnect_def Let_def split: if_splits)

text \<open>An event either leaves table and channels alone or offers a response under its own ID.\<close>

lemma handleEvent_other:
  "event \<noteq> ''message'' \<Longrightarrow> \<exists>u. handleEvent unmarshal event data c = (Return (), c\<lparr>clMessageURL := u\<rparr>)"
  by (rule exI [of _ "clMessageURL (snd (handleEvent unmarshal event data c))"]) (simp add: handleEvent_def)

lemma handleEvent_message:
  "handleEvent unmarshal ''message'' data c =
     (case unmarshal data of
        Inl e \<Rightarrow> (Return (), c)
      | Inr parsed \<Rightarrow>
          if \<not> hashable (gindex parsed ''id'') then (Panicked unhashable_panic, c)
          else (Return (), case map_of (clPending c) (gindex parsed ''id'') of
                  Some a \<Rightarrow> offer a (data_response data) c | None \<Rightarrow> c))"
  by (simp add: handleEvent_def Let_def split: sum.split option.split)

lemma handleEvent_effect:
  assumes "handleEvent unmarshal event data c = (r, c')"
  shows "clPending c' = clPending c \<and> clPendingMu c' = clPendingMu c \<and>
   (clChans c' = clChans c \<or>
    (\<exists>parsed a. unmarshal data = Inr parsed \<and> map_of (clPending c) (gindex parsed ''id'') = Some a \<and>
       c' = offer a (data_response data) c))"
proof (cases "event = ''message''")
  case True
  with assms show ?thesis by (auto simp: handleEvent_message split: sum.splits option.splits if_splits)
next
  case False
  with assms handleEvent_other [of event unmarshal data c] show ?thesis by auto
qed

text \<open>
  The invariant: the table maps an ID to a channel that only callers with this ID wait on, and a
  waiting caller's channel holds nothing but a response to its ID or an error.
\<close>

definition answers :: "(bytes \<Rightarrow> string + gobj) \<Rightarrow> gval \<Rightarrow> bytes \<Rightarrow> bool" where
  "answers unmarshal i data \<longleftrightarrow> (\<exists>parsed. unmarshal data = Inr parsed \<and> gindex parsed ''id'' = i)"

definition waits_on :: "upstream_sys \<Rightarrow> gval \<Rightarrow> nat \<Rightarrow> bool" where
  "waits_on s i a \<longleftrightarrow> (\<exists>f \<in> set (usFlights s). flID f = i \<and> flPC f = Waiting a)"

definition up_inv :: "(bytes \<Rightarrow> string + gobj) \<Rightarrow> upstream_sys \<Rightarrow> bool" where
  "up_inv unmarshal s \<longleftrightarrow>
     gm_wf (clPending (usClient s)) \<and>
     (\<forall>i a. map_of (clPending (usClient s)) i = Some a \<longrightarrow> a < length (clChans (usClient s)) \<and> waits_on s i a) \<and>
     (\<forall>i a. waits_on s i a \<longrightarrow> a < length (clChans (usClient s)) \<and>
        (\<forall>r. clChans (usClient s) ! a = Some r \<longrightarrow> urError r = None \<longrightarrow> answers unmarshal i (urData r))) \<and>
     (\<forall>i j a. waits_on s i a \<longrightarrow> waits_on s j a \<longrightarrow> i = j) \<and>
     (\<forall>k i d. (k, i, Inr d) \<in> set (usReturned s) \<longrightarrow> answers unmarshal i d)"

lemma set_without: "n < length xs \<Longrightarrow> set xs = insert (xs ! n) (set (take n xs @ drop (Suc n) xs))"
  by (subst id_take_nth_drop [of n xs]) auto

lemma waits_on_without:
  "n < length (usFlights s) \<Longrightarrow> usFlights s' = take n (usFlights s) @ drop (Suc n) (usFlights s) \<Longrightarrow>
   waits_on s i a \<longleftrightarrow> flID (usFlights s ! n) = i \<and> flPC (usFlights s ! n) = Waiting a \<or> waits_on s' i a"
  using set_without [of n "usFlights s"] by (auto simp: waits_on_def)

lemma set_update_other:
  assumes "n < length xs"
  shows "x \<in> set (xs[n := y]) \<longleftrightarrow> x = y \<or> (\<exists>k < length xs. k \<noteq> n \<and> xs ! k = x)"
  using assms by (auto simp: in_set_conv_nth nth_list_update split: if_splits)

lemma waits_on_register:
  assumes "n < length (usFlights s)" and "flPC (usFlights s ! n) = Checked"
    and "usFlights s' = (usFlights s)[n := (usFlights s ! n)\<lparr>flPC := Waiting b\<rparr>]"
  shows "waits_on s' i a \<longleftrightarrow> waits_on s i a \<or> i = flID (usFlights s ! n) \<and> a = b"
proof -
  have "waits_on s i a \<longleftrightarrow> (\<exists>k < length (usFlights s). k \<noteq> n \<and> flID (usFlights s ! k) = i \<and> flPC (usFlights s ! k) = Waiting a)"
    unfolding waits_on_def Bex_def in_set_conv_nth using assms(2) by (metis flight_pc.distinct(1))
  then show ?thesis
    using assms(1) by (auto simp: waits_on_def assms(3) Bex_def set_update_other)
qed

lemma up_inv_same:
  assumes "up_inv unmarshal s" and "clPending (usClient s') = clPending (usClient s)"
    and "clChans (usClient s') = clChans (usClient s)" and "\<And>i a. waits_on s' i a = waits_on s i a"
    and "\<And>k i d. (k, i, Inr d) \<in> set (usReturned s') \<Longrightarrow> (k, i, Inr d) \<in> set (usReturned s)"
  shows "up_inv unmarshal s'"
  using assms(1,5) unfolding up_inv_def assms(2-4) by blast

lemma up_inv_offer:
  assumes "up_inv unmarshal s" and "unmarshal data = Inr parsed"
    and "map_of (clPending (usClient s)) (gindex parsed ''id'') = Some a"
    and "usClient s' = offer a (data_response data) (usClient s)" "usFlights s' = usFlights s"
      "usReturned s' = usReturned s"
  shows "up_inv unmarshal s'"
proof -
  let ?i = "gindex parsed ''id''" and ?c = "usClient s"
  have own: "waits_on s ?i a" using assms(1,3) by (auto simp: up_inv_def)
  have ans: "answers unmarshal ?i (urData (data_response data))"
    using assms(2) by (simp add: answers_def data_response_def)
  have w: "waits_on s' j b = waits_on s j b" for j b by (simp add: waits_on_def assms(5))
  have "answers unmarshal j (urData r)"
    if "waits_on s j b" "clChans (offer a (data_response data) ?c) ! b = Some r" "urError r = None" for j b r
  proof -
    have "b < length (clChans ?c)" using assms(1) that(1) by (simp add: up_inv_def)
    moreover have "j = ?i" if "b = a" using that \<open>waits_on s j b\<close> own assms(1) by (auto simp: up_inv_def)
    ultimately show ?thesis
      using that ans assms(1) by (auto simp: up_inv_def offer_chan split: if_split_asm)
  qed
  with assms(1) show ?thesis unfolding up_inv_def w by (simp add: assms(4,6))
qed

lemma up_inv_event:
  assumes "up_inv unmarshal s" and "handleEvent unmarshal event data (usClient s) = (r, c)"
    and "usClient s' = c" "usFlights s' = usFlights s" "usReturned s' = usReturned s"
  shows "up_inv unmarshal s'"
proof -
  from handleEvent_effect [OF assms(2)] consider
      "clPending c = clPending (usClient s)" "clChans c = clChans (usClient s)"
    | parsed a where "unmarshal data = Inr parsed" "map_of (clPending (usClient s)) (gindex parsed ''id'') = Some a"
        "c = offer a (data_response data) (usClient s)" by blast
  then show ?thesis
  proof cases
    case 1
    then show ?thesis by (intro up_inv_same [OF assms(1)]) (auto simp: waits_on_def assms(3-5))
  next
    case 2
    then show ?thesis by (intro up_inv_offer [OF assms(1) 2(1,2)]) (simp_all add: assms(3-5))
  qed
qed

lemma up_inv_lost [op_invs]:
  assumes "up_inv unmarshal s"
  shows "up_inv unmarshal (s\<lparr>usClient := handleDisconnect (usClient s)\<rparr>)"
proof -
  let ?s = "s\<lparr>usClient := handleDisconnect (usClient s)\<rparr>"
  have w: "waits_on ?s j b = waits_on s j b" for j b by (simp add: waits_on_def)
  have "answers unmarshal j (urData r)"
    if "waits_on s j b" "clChans (handleDisconnect (usClient s)) ! b = Some r" "urError r = None" for j b r
  proof -
    have "b < length (clChans (usClient s))" using assms that(1) by (simp add: up_inv_def)
    then show ?thesis using that assms
      by (auto simp: up_inv_def handleDisconnect_chan disconnect_response_def split: if_splits)
  qed
  with assms show ?thesis unfolding up_inv_def w by (simp add: handleDisconnect_pending)
qed

lemma up_inv_register [op_invs]:
  assumes "up_inv unmarshal s" and "n < length (usFlights s)" and "flPC (usFlights s ! n) = Checked"
    and "Send_register (flID (usFlights s ! n)) (usClient s) = (Return a, c)"
  shows "up_inv unmarshal (s\<lparr>usClient := c, usFlights := (usFlights s)[n := (usFlights s ! n)\<lparr>flPC := Waiting a\<rparr>]\<rparr>)"
    (is "up_inv unmarshal ?s")
proof -
  let ?i = "flID (usFlights s ! n)" and ?c = "usClient s"
  have c: "a = length (clChans ?c)" "clChans c = clChans ?c @ [None]"
    "clPending c = AList.update ?i a (clPending ?c)"
    using assms(4) by (auto simp: Send_register_def Let_def split: if_splits)
  have w: "waits_on ?s j b \<longleftrightarrow> waits_on s j b \<or> j = ?i \<and> b = a" for j b
    by (rule waits_on_register [OF assms(2,3)]) simp
  have bound: "b < a" if "waits_on s j b" for j b using assms(1) that by (simp add: up_inv_def c(1))
  have "clChans c ! b = clChans ?c ! b" if "waits_on s j b" for j b
    using bound [OF that] by (simp add: c nth_append)
  moreover have "clChans c ! a = None" by (simp add: c nth_append)
  moreover have "map_of (AList.update ?i a (clPending ?c)) = (map_of (clPending ?c))(?i \<mapsto> a)" by (rule update_conv')
  ultimately show ?thesis
    using assms(1) bound unfolding up_inv_def w
    by (auto simp: c(2,3) distinct_update less_Suc_eq c(1) [symmetric] split: if_splits dest: bound)
qed

lemma up_inv_land [op_invs]:
  assumes "up_inv unmarshal s" and "n < length (usFlights s)"
    and "\<And>d. res = Inr d \<Longrightarrow> answers unmarshal (flID (usFlights s ! n)) d"
  shows "up_inv unmarshal (land n res s)"
proof -
  let ?i = "flID (usFlights s ! n)" and ?s = "land n res s"
  have w: "waits_on s j b \<longleftrightarrow> ?i = j \<and> flPC (usFlights s ! n) = Waiting b \<or> waits_on ?s j b" for j b
    by (rule waits_on_without [OF assms(2)]) (simp add: land_def Let_def)
  have p: "map_of (clPending (usClient ?s)) j = (if j = ?i then None else map_of (clPending (usClient s)) j)" for j
    by (simp add: land_def Let_def Send_return_def delete_conv')
  have same: "clChans (usClient ?s) = clChans (usClient s)" "gm_wf (clPending (usClient s)) \<Longrightarrow> gm_wf (clPending (usClient ?s))"
    "usReturned ?s = usReturned s @ [(flCaller (usFlights s ! n), ?i, res)]"
    by (simp_all add: land_def Let_def Send_return_def distinct_delete)
  show ?thesis
    using assms(1,3) same w unfolding up_inv_def by (auto simp: p)
qed

lemma up_inv_received: "up_inv unmarshal s \<Longrightarrow> n < length (usFlights s) \<Longrightarrow>
    flPC (usFlights s ! n) = Waiting a \<Longrightarrow> clChans (usClient s) ! a = Some r \<Longrightarrow> received r = Inr d \<Longrightarrow>
    answers unmarshal (flID (usFlights s ! n)) d"
proof -
  assume asm: "up_inv unmarshal s" "n < length (usFlights s)" "flPC (usFlights s ! n) = Waiting a"
    "clChans (usClient s) ! a = Some r" "received r = Inr d"
  then have "waits_on s (flID (usFlights s ! n)) a" by (auto simp: waits_on_def)
  moreover have "urError r = None" "urData r = d" using asm(5) by (auto simp: received_def split: option.splits)
  ultimately show ?thesis using asm(1,4) by (auto simp: up_inv_def)
qed

lemma up_inv_step: "up_step unmarshal s t \<Longrightarrow> up_inv unmarshal s \<Longrightarrow> up_inv unmarshal t"
proof (induction rule: up_step.induct)
  case (u_connect s res)
  show ?case by (rule up_inv_same [OF u_connect.prems]) (simp_all add: waits_on_def)
next
  case (u_disconnect s c)
  then show ?case
    using Disconnect_fields [OF u_disconnect.hyps(2)]
    by (intro up_inv_same [OF u_disconnect.prems]) (simp_all add: waits_on_def)
next
  case (u_check s message i k)
  show ?case by (rule up_inv_same [OF u_check.prems]) (auto simp: waits_on_def)
next
  case (u_refuse s message e k)
  show ?case by (rule up_inv_same [OF u_refuse.prems]) (auto simp: waits_on_def)
next
  case (u_crash s n p c)
  let ?s = "s\<lparr>usClient := c, usFlights := take n (usFlights s) @ drop (Suc n) (usFlights s), usCrashed := Suc (usCrashed s)\<rparr>"
  have "waits_on s i a = waits_on ?s i a" for i a
    using waits_on_without [OF u_crash.hyps(2), of ?s i a] u_crash.hyps(3) by simp
  moreover have "clPending c = clPending (usClient s)" "clChans c = clChans (usClient s) @ [None]"
    using u_crash.hyps(5) by (auto simp: Send_register_def Let_def split: if_splits)
  ultimately show ?case using u_crash.prems by (simp add: up_inv_def nth_append less_SucI)
next
  case (u_receive s n a r)
  then show ?case by (intro up_inv_land up_inv_received)
next
  case (u_event s event data c)
  show ?case by (rule up_inv_event [OF u_event.prems u_event.hyps(3)]) simp_all
next
  case (u_die s event data p c)
  show ?case by (rule up_inv_event [OF u_die.prems u_die.hyps(3)]) simp_all
next
  case (u_fail s n a e)
  then show ?case by (intro up_inv_land) auto
qed (auto intro: op_invs)

lemma up_inv_start: "up_start cfg s \<Longrightarrow> up_inv unmarshal s"
  by (simp add: up_start_def up_inv_def NewClient_def waits_on_def)

interpretation up: safe_system "up_start cfg" "up_step unmarshal" "up_inv unmarshal" for cfg unmarshal
  by unfold_locales (erule up_inv_start, rule up_inv_step)

text \<open>A locked table: nothing that needs it happens any more.\<close>

definition waiting :: "upstream_sys \<Rightarrow> flight set" where
  "waiting s = {f \<in> set (usFlights s). flPC f \<noteq> Checked}"

definition answered :: "upstream_sys \<Rightarrow> (nat \<times> gval \<times> bytes) set" where
  "answered s = {(k, i, d). (k, i, Inr d) \<in> set (usReturned s)}"

lemma locked_step:
  "up_step unmarshal s t \<Longrightarrow> clPendingMu (usClient s) \<Longrightarrow>
   clPendingMu (usClient t) \<and> waiting t = waiting s \<and> answered t = answered s"
proof (induction rule: up_step.induct)
  case (u_disconnect s c)
  then show ?case using Disconnect_fields [OF u_disconnect.hyps(2)] by (simp add: waiting_def answered_def)
next
  case (u_event s event data c)
  then show ?case using handleEvent_effect [OF u_event.hyps(3)] by (simp add: waiting_def answered_def)
next
  case (u_die s event data p c)
  then show ?case using handleEvent_effect [OF u_die.hyps(3)] by (simp add: waiting_def answered_def)
qed (auto simp: waiting_def answered_def)

lemma locked_forever:
  "(up_step unmarshal)\<^sup>*\<^sup>* s t \<Longrightarrow> clPendingMu (usClient s) \<Longrightarrow>
   clPendingMu (usClient t) \<and> waiting t = waiting s \<and> answered t = answered s"
  by (induction rule: rtranclp_induct) (auto dest: locked_step)

section \<open>One caller\<close>

text \<open>A message that cannot be decoded, or whose ID can be a key of the table; a message with a given ID.\<close>

definition keyed :: "(bytes \<Rightarrow> string + gobj) \<Rightarrow> string \<times> string \<Rightarrow> bool" where
  "keyed unmarshal ev \<longleftrightarrow> (fst ev = ''message'' \<longrightarrow>
     (case unmarshal (snd ev) of Inl e \<Rightarrow> True | Inr parsed \<Rightarrow> hashable (gindex parsed ''id'')))"

definition answer_to :: "(bytes \<Rightarrow> string + gobj) \<Rightarrow> gval \<Rightarrow> string \<times> string \<Rightarrow> bool" where
  "answer_to unmarshal i ev \<longleftrightarrow> fst ev = ''message'' \<and> answers unmarshal i (snd ev)"

text \<open>The channel that the table holds for one ID and no other.\<close>

definition only_for :: "gval \<Rightarrow> nat \<Rightarrow> Client \<Rightarrow> bool" where
  "only_for i a c \<longleftrightarrow> a < length (clChans c) \<and> map_of (clPending c) i = Some a \<and>
     (\<forall>j. map_of (clPending c) j = Some a \<longrightarrow> j = i)"

lemma handleEvent_keyed:
  assumes "keyed unmarshal ev" and "only_for i a c"
  shows "\<exists>c'. handleEvent unmarshal (fst ev) (snd ev) c = (Return (), c') \<and> clPending c' = clPending c \<and> only_for i a c' \<and>
    clChans c' ! a = (if clChans c ! a = None \<and> answer_to unmarshal i ev then Some (data_response (snd ev)) else clChans c ! a)"
proof (cases "fst ev = ''message''")
  case False
  then obtain u where "handleEvent unmarshal (fst ev) (snd ev) c = (Return (), c\<lparr>clMessageURL := u\<rparr>)"
    using handleEvent_other by blast
  with False assms(2) show ?thesis by (simp add: only_for_def answer_to_def)
next
  case msg: True
  show ?thesis
  proof (cases "unmarshal (snd ev)")
    case (Inl e)
    with msg assms(2) show ?thesis by (simp add: handleEvent_message answer_to_def answers_def)
  next
    case (Inr parsed)
    then have h: "hashable (gindex parsed ''id'')" using assms(1) msg by (simp add: keyed_def)
    have ans: "answer_to unmarshal i ev \<longleftrightarrow> gindex parsed ''id'' = i" using msg Inr by (simp add: answer_to_def answers_def)
    show ?thesis
    proof (cases "map_of (clPending c) (gindex parsed ''id'')")
      case None
      moreover have "map_of (clPending c) i = Some a" using assms(2) unfolding only_for_def by (elim conjE)
      ultimately have "gindex parsed ''id'' \<noteq> i" by auto
      moreover have "handleEvent unmarshal (fst ev) (snd ev) c = (Return (), c)"
        using None msg Inr h by (simp add: handleEvent_message)
      ultimately show ?thesis using assms(2) by (simp add: ans)
    next
      case (Some b)
      then have "handleEvent unmarshal (fst ev) (snd ev) c = (Return (), offer b (data_response (snd ev)) c)"
        using msg Inr h by (simp add: handleEvent_message)
      moreover have "b = a \<longleftrightarrow> gindex parsed ''id'' = i"
        using assms(2) Some unfolding only_for_def by (metis option.inject)
      moreover have "only_for i a (offer b (data_response (snd ev)) c)" using assms(2) by (simp add: only_for_def)
      moreover have "a < length (clChans c)" using assms(2) by (simp add: only_for_def)
      ultimately show ?thesis by (cases "b = a") (simp_all add: offer_chan ans)
    qed
  qed
qed

lemma run_events_keyed:
  "list_all (keyed unmarshal) evs \<Longrightarrow> only_for i a c \<Longrightarrow>
   \<exists>c'. run_events unmarshal evs c = (Return (), c') \<and> clPending c' = clPending c \<and>
     clChans c' ! a = (case clChans c ! a of
        Some r \<Rightarrow> Some r
      | None \<Rightarrow> map_option (\<lambda>ev. data_response (snd ev)) (find (answer_to unmarshal i) evs))"
proof (induction evs arbitrary: c)
  case Nil
  then show ?case by (simp add: ret_act_def split: option.split)
next
  case (Cons ev evs)
  obtain c1 where c1: "handleEvent unmarshal (fst ev) (snd ev) c = (Return (), c1)" "clPending c1 = clPending c" "only_for i a c1"
    "clChans c1 ! a = (if clChans c ! a = None \<and> answer_to unmarshal i ev then Some (data_response (snd ev)) else clChans c ! a)"
    using handleEvent_keyed [of unmarshal ev i a c] Cons.prems by auto
  obtain c2 where c2: "run_events unmarshal evs c1 = (Return (), c2)" "clPending c2 = clPending c1"
    "clChans c2 ! a = (case clChans c1 ! a of
        Some r \<Rightarrow> Some r
      | None \<Rightarrow> map_option (\<lambda>ev. data_response (snd ev)) (find (answer_to unmarshal i) evs))"
    using Cons.IH [of c1] Cons.prems c1(3) by auto
  have "run_events unmarshal (ev # evs) c = (Return (), c2)" using c1(1) c2(1) by (cases ev) (simp add: bind_act_Return)
  with c1 c2 show ?case by (auto split: option.splits)
qed

text \<open>A table whose channels exist.\<close>

definition pending_ok :: "Client \<Rightarrow> bool" where
  "pending_ok c \<longleftrightarrow> gm_wf (clPending c) \<and> (\<forall>(i, a) \<in> set (clPending c). a < length (clChans c))"

lemma Send_register_only:
  assumes "pending_ok c" and "hashable i"
  shows "\<exists>c1. Send_register i c = (Return (length (clChans c)), c1) \<and> only_for i (length (clChans c)) c1 \<and>
    clChans c1 ! length (clChans c) = None \<and> clPending c1 = AList.update i (length (clChans c)) (clPending c)"
proof -
  have "map_of (clPending c) j \<noteq> Some (length (clChans c))" for j
    using assms(1) by (auto simp: pending_ok_def dest: map_of_SomeD)
  then show ?thesis using assms(2) by (simp add: Send_register_def Let_def only_for_def update_conv')
qed

lemma Client_Send_answers:
  assumes "Send_check unmarshal message c = Inr i" and "hashable i" and "\<not> clPendingMu c" and "pending_ok c"
    and "post_result res = None" and "list_all (keyed unmarshal) evs"
  shows "\<exists>c'. Client_Send unmarshal res evs WaitResponse message c =
      Some (Return (case find (answer_to unmarshal i) evs of
          Some ev \<Rightarrow> (Some (snd ev), None)
        | None \<Rightarrow> (None, Some timeout_error)), c') \<and>
    map_of (clPending c') = (map_of (clPending c))(i := None)"
proof -
  obtain c1 where c1: "Send_register i c = (Return (length (clChans c)), c1)" "only_for i (length (clChans c)) c1"
    "clChans c1 ! length (clChans c) = None" "clPending c1 = AList.update i (length (clChans c)) (clPending c)"
    using Send_register_only [OF assms(4,2)] by blast
  obtain c2 where c2: "run_events unmarshal evs c1 = (Return (), c2)" "clPending c2 = clPending c1"
    "clChans c2 ! length (clChans c) = map_option (\<lambda>ev. data_response (snd ev)) (find (answer_to unmarshal i) evs)"
    using run_events_keyed [OF assms(6) c1(2)] c1(3) by auto
  have "map_of (clPending (Send_return i c2)) = (map_of (clPending c))(i := None)"
    by (simp add: Send_return_def c2(2) c1(4) delete_conv' update_conv')
  moreover have "Client_Send unmarshal res evs WaitResponse message c =
      Some (Return (case find (answer_to unmarshal i) evs of
          Some ev \<Rightarrow> (Some (snd ev), None)
        | None \<Rightarrow> (None, Some timeout_error)), Send_return i c2)"
    using assms(1,3,5) c1(1) c2(1,3)
    by (simp add: Client_Send_def wait_result_def received_def data_response_def split: option.split)
  ultimately show ?thesis by blast
qed

section \<open>Properties\<close>

text \<open>
  C12. Whatever the interleaving of callers, events and disconnections, a call of \<^verbatim>\<open>Send\<close> that returns
  data returns a message that carries the ID of its request, and the table of pending requests never
  has more entries than there are callers waiting for an answer.
\<close>

theorem response_matches_request:
  assumes "reach (up_start cfg) (up_step unmarshal) s"
  shows "(\<forall>k i d. (k, i, Inr d) \<in> set (usReturned s) \<longrightarrow> answers unmarshal i d) \<and>
    length (clPending (usClient s)) \<le> length (filter (\<lambda>f. flPC f \<noteq> Checked) (usFlights s))"
proof -
  have inv: "up_inv unmarshal s" using assms by (rule up.reach_inv)
  let ?p = "clPending (usClient s)" and ?w = "filter (\<lambda>f. flPC f \<noteq> Checked) (usFlights s)"
  have "set (map fst ?p) \<subseteq> set (map flID ?w)"
  proof
    fix i assume "i \<in> set (map fst ?p)"
    then obtain a where "map_of ?p i = Some a" by (metis list.set_map map_of_eq_None_iff not_None_eq)
    then have "waits_on s i a" using inv by (simp add: up_inv_def)
    then show "i \<in> set (map flID ?w)" by (auto simp: waits_on_def)
  qed
  then have "card (set (map fst ?p)) \<le> card (set (map flID ?w))" by (rule card_mono [OF finite_set])
  also have "\<dots> \<le> length ?w" using card_length [of "map flID ?w"] by simp
  finally have "length ?p \<le> length ?w" using inv distinct_card [of "map fst ?p"] by (simp add: up_inv_def)
  with inv show ?thesis by (simp add: up_inv_def)
qed

text \<open>A decoder for concrete runs: the ID of a message is its first character, except for one message.\<close>

definition demo_unmarshal :: "bytes \<Rightarrow> string + gobj" where
  "demo_unmarshal d = Inr [(''id'', if d = ''[]'' then GArr [] else GStr (take 1 d))]"

definition demo_up :: Client where
  "demo_up = (NewClient (cgUpstream zero_config))\<lparr>clConn := True, clConnected := True, clMessageURL := ''/m''\<rparr>"

definition demo_up_sys :: upstream_sys where
  "demo_up_sys = \<lparr>usClient = demo_up, usFlights = [], usReturned = [], usCrashed = 0, usDead = False\<rparr>"

lemma demo_up_fields [simp]: "clConnected demo_up" "clMessageURL demo_up = ''/m''" "clChans demo_up = []"
  "clPending demo_up = []" "\<not> clPendingMu demo_up"
  by (simp_all add: demo_up_def NewClient_def)

lemma demo_up_reach: "reach (up_start (cgUpstream zero_config)) (up_step demo_unmarshal) demo_up_sys"
proof -
  let ?R = "reach (up_start (cgUpstream zero_config)) (up_step demo_unmarshal)"
  let ?s0 = "\<lparr>usClient = NewClient (cgUpstream zero_config), usFlights = [], usReturned = [], usCrashed = 0, usDead = False\<rparr>"
  let ?s1 = "?s0\<lparr>usClient := snd (Connect (Status 200) (usClient ?s0))\<rparr>"
  have "?R ?s0" by (rule reach.reach_init) (simp add: up_start_def)
  then have "?R ?s1" by (rule reach.reach_step) (rule up_step.u_connect, simp)
  moreover have "handleEvent demo_unmarshal ''endpoint'' ''/m'' (usClient ?s1) = (Return (), demo_up)"
    by (simp add: handleEvent_def Connect_def NewClient_def demo_up_def zero_config_def HasPrefix_def TrimSuffix_def)
  then have "up_step demo_unmarshal ?s1 (?s1\<lparr>usClient := demo_up\<rparr>)" by (intro up_step.u_event) auto
  ultimately have "?R (?s1\<lparr>usClient := demo_up\<rparr>)" by (rule reach.reach_step)
  then show ?thesis by (simp add: demo_up_sys_def)
qed

theorem response_matches_request_witness:
  "\<exists>s. reach (up_start (cgUpstream zero_config)) (up_step demo_unmarshal) s \<and>
     usReturned s = [(7, GStr ''1'', Inr ''1ok'')] \<and> answers demo_unmarshal (GStr ''1'') ''1ok'' \<and>
     clPending (usClient s) = []"
proof -
  let ?R = "reach (up_start (cgUpstream zero_config)) (up_step demo_unmarshal)"
  let ?f = "\<lparr>flCaller = 7, flID = GStr ''1'', flPC = Checked\<rparr>"
  let ?s1 = "demo_up_sys\<lparr>usFlights := [?f]\<rparr>"
  let ?c2 = "demo_up\<lparr>clChans := [None], clPending := [(GStr ''1'', 0)]\<rparr>"
  let ?s2 = "demo_up_sys\<lparr>usClient := ?c2, usFlights := [?f\<lparr>flPC := Waiting 0\<rparr>]\<rparr>"
  let ?c3 = "?c2\<lparr>clChans := [Some (data_response ''1ok'')]\<rparr>"
  let ?s3 = "?s2\<lparr>usClient := ?c3\<rparr>"
  have "up_step demo_unmarshal demo_up_sys (demo_up_sys\<lparr>usFlights := usFlights demo_up_sys @ [?f]\<rparr>)"
    by (rule up_step.u_check [where message = "''1?''"])
      (simp_all add: Send_check_def demo_up_sys_def demo_unmarshal_def gindex_def)
  then have "?R ?s1" using reach.reach_step [OF demo_up_reach] by (simp add: demo_up_sys_def)
  moreover have "up_step demo_unmarshal ?s1 (?s1\<lparr>usClient := ?c2, usFlights := (usFlights ?s1)[0 := (usFlights ?s1 ! 0)\<lparr>flPC := Waiting 0\<rparr>]\<rparr>)"
    by (rule up_step.u_register) (simp_all add: Send_register_def demo_up_sys_def)
  ultimately have "?R ?s2" using reach.reach_step by (fastforce simp: demo_up_sys_def)
  moreover have "up_step demo_unmarshal ?s2 ?s3"
    using up_step.u_event [of ?s2 "''message''" demo_unmarshal "''1ok''" ?c3]
    by (simp add: handleEvent_message demo_unmarshal_def gindex_def offer_def demo_up_sys_def)
  ultimately have "?R ?s3" by (rule reach.reach_step)
  moreover have "up_step demo_unmarshal ?s3 (land 0 (received (data_response ''1ok'')) ?s3)"
    by (rule up_step.u_receive [where a = 0]) (simp_all add: demo_up_sys_def)
  ultimately have "?R (land 0 (received (data_response ''1ok'')) ?s3)" by (rule reach.reach_step)
  moreover from response_matches_request [OF this]
  have "answers demo_unmarshal (GStr ''1'') ''1ok''"
    by (simp add: land_def received_def data_response_def demo_up_sys_def)
  ultimately show ?thesis
    by (auto simp: land_def received_def data_response_def demo_up_sys_def Send_return_def intro!: exI)
qed

text \<open>
  C37. Requests are matched by their ID alone, although the clients choose it: when two callers, of
  two sessions say, wait under the same ID, an answer with this ID goes to the caller that came last
  and to no other, and once either of the two has returned, an answer reaches neither.
\<close>

theorem shared_id_misrouted:
  assumes "Send_register i c = (Return a, c1)" and "Send_register i c1 = (Return b, c2)"
    and "answers unmarshal i data"
  shows "(\<exists>c3. handleEvent unmarshal ''message'' data c2 = (Return (), c3) \<and>
      clChans c3 ! b = Some (data_response data) \<and> clChans c3 ! a = None) \<and>
    handleEvent unmarshal ''message'' data (Send_return i c2) = (Return (), Send_return i c2) \<and>
    clChans (Send_return i c2) ! a = None \<and> clChans (Send_return i c2) ! b = None"
proof -
  obtain parsed where parsed: "unmarshal data = Inr parsed" "gindex parsed ''id'' = i"
    using assms(3) by (auto simp: answers_def)
  have i: "hashable i" and a: "a = length (clChans c)" and b: "b = Suc (length (clChans c))"
    and c2: "clChans c2 = clChans c @ [None, None]" "map_of (clPending c2) i = Some b"
    using assms(1,2) by (auto simp: Send_register_def Let_def update_conv' split: if_splits)
  have "handleEvent unmarshal ''message'' data c2 = (Return (), offer b (data_response data) c2)"
    using i parsed c2(2) by (simp add: handleEvent_message)
  moreover have "clChans (offer b (data_response data) c2) ! b = Some (data_response data)"
    "clChans (offer b (data_response data) c2) ! a = None"
    by (simp_all add: offer_chan c2(1) a b nth_append)
  moreover have "handleEvent unmarshal ''message'' data (Send_return i c2) = (Return (), Send_return i c2)"
    using i parsed by (simp add: handleEvent_message Send_return_def delete_conv')
  moreover have "clChans (Send_return i c2) ! a = None" "clChans (Send_return i c2) ! b = None"
    by (simp_all add: Send_return_def c2(1) a b nth_append)
  ultimately show ?thesis by blast
qed

theorem shared_id_misrouted_witness:
  "\<exists>c2 c3. Send_register (GStr ''1'') (snd (Send_register (GStr ''1'') demo_up)) = (Return 1, c2) \<and>
     handleEvent demo_unmarshal ''message'' ''1secret'' c2 = (Return (), c3) \<and>
     clChans c3 ! 1 = Some (data_response ''1secret'') \<and> clChans c3 ! 0 = None"
proof -
  let ?c1 = "snd (Send_register (GStr ''1'') demo_up)"
  let ?c2 = "snd (Send_register (GStr ''1'') ?c1)"
  have "Send_register (GStr ''1'') demo_up = (Return 0, ?c1)" "Send_register (GStr ''1'') ?c1 = (Return 1, ?c2)"
    by (simp_all add: Send_register_def)
  from shared_id_misrouted [OF this, of demo_unmarshal "''1secret''"] this(2)
  show ?thesis by (auto simp: answers_def demo_unmarshal_def gindex_def)
qed

text \<open>
  C38. One request can disable the upstream for good: when a caller sends a message whose ID is a JSON
  array or object, the registration panics with the lock of the table held. From then on no waiting
  caller ever returns and no call is answered, in any continuation of the run.
\<close>

theorem unhashable_id_locks_table:
  assumes "\<not> usDead s" and "\<not> clPendingMu (usClient s)"
    and "Send_check unmarshal message (usClient s) = Inr i" and "\<not> hashable i"
  shows "\<exists>t. (up_step unmarshal)\<^sup>*\<^sup>* s t \<and> usCrashed t = Suc (usCrashed s) \<and> waiting t = waiting s \<and>
    (\<forall>u. (up_step unmarshal)\<^sup>*\<^sup>* t u \<longrightarrow> waiting u = waiting s \<and> answered u = answered s)"
proof -
  let ?s1 = "s\<lparr>usFlights := usFlights s @ [\<lparr>flCaller = 0, flID = i, flPC = Checked\<rparr>]\<rparr>"
  let ?n = "length (usFlights s)"
  obtain p c where reg: "Send_register i (usClient s) = (Panicked p, c)" "clPendingMu c"
    using assms(4) by (simp add: Send_register_def Let_def)
  let ?t = "s\<lparr>usClient := c, usCrashed := Suc (usCrashed s)\<rparr>"
  have "up_step unmarshal s ?s1" by (rule up_step.u_check [OF assms(1,3)])
  moreover have "up_step unmarshal ?s1 (?s1\<lparr>usClient := c,
      usFlights := take ?n (usFlights ?s1) @ drop (Suc ?n) (usFlights ?s1), usCrashed := Suc (usCrashed ?s1)\<rparr>)"
    by (rule up_step.u_crash) (use assms(1,2) reg in simp_all)
  then have "up_step unmarshal ?s1 ?t" by simp
  ultimately have "(up_step unmarshal)\<^sup>*\<^sup>* s ?t"
    by (rule converse_rtranclp_into_rtranclp [OF _ r_into_rtranclp])
  moreover have same: "waiting ?t = waiting s" "answered ?t = answered s" by (simp_all add: waiting_def answered_def)
  moreover have "waiting u = waiting s \<and> answered u = answered s" if "(up_step unmarshal)\<^sup>*\<^sup>* ?t u" for u
    using locked_forever [OF that] reg(2) unfolding same by simp
  moreover have "usCrashed ?t = Suc (usCrashed s)" by simp
  ultimately show ?thesis by blast
qed

theorem unhashable_id_locks_table_witness:
  "\<exists>t. (up_step demo_unmarshal)\<^sup>*\<^sup>* demo_up_sys t \<and>
     (\<forall>u. (up_step demo_unmarshal)\<^sup>*\<^sup>* t u \<longrightarrow> answered u = {})"
proof -
  have "Send_check demo_unmarshal ''[]'' (usClient demo_up_sys) = Inr (GArr [])"
    by (simp add: Send_check_def demo_up_sys_def demo_unmarshal_def gindex_def)
  from unhashable_id_locks_table [OF _ _ this] show ?thesis
    by (force simp: demo_up_sys_def answered_def)
qed

end
