(* ===== verification/Http.thy ===== *)
theory Http
  imports Prelude
begin

text \<open>
  What the servers of the proxy use of \<^verbatim>\<open>net/http\<close>: a request as the handlers see it, the
  response they build, and a multiplexer of paths.
\<close>

section \<open>Requests and responses\<close>

record HttpRequest =
  hqSessionID :: string
  hqBody :: "string + bytes"
  hqOrigin :: string
  hqRemoteAddr :: string
  hqUserAgent :: string

record HttpResponse =
  hpStatus :: "int option"
  hpHeaders :: "(string, string) gomap"
  hpBody :: string

definition new_response :: HttpResponse where
  "new_response = \<lparr>hpStatus = None, hpHeaders = [], hpBody = []\<rparr>"

definition SetHeader :: "string \<Rightarrow> string \<Rightarrow> HttpResponse \<Rightarrow> HttpResponse" where
  "SetHeader k v w = w\<lparr>hpHeaders := AList.update k v (hpHeaders w)\<rparr>"

text \<open>The first status counts, and writing a body without one sends 200.\<close>

definition WriteHeader :: "int \<Rightarrow> HttpResponse \<Rightarrow> HttpResponse" where
  "WriteHeader code w = (if hpStatus w = None then w\<lparr>hpStatus := Some code\<rparr> else w)"

definition WriteBody :: "string \<Rightarrow> HttpResponse \<Rightarrow> HttpResponse" where
  "WriteBody b w = (let w1 = WriteHeader 200 w in w1\<lparr>hpBody := hpBody w1 @ b\<rparr>)"

definition http_Error :: "string \<Rightarrow> int \<Rightarrow> HttpResponse \<Rightarrow> HttpResponse" where
  "http_Error msg code w =
     WriteBody (msg @ [CHR 0x0A]) (WriteHeader code
       (SetHeader ''X-Content-Type-Options'' ''nosniff''
         (SetHeader ''Content-Type'' ''text/plain; charset=utf-8'' w)))"

section \<open>Multiplexer\<close>

text \<open>
  Registering a path: an empty pattern and a pattern that is registered already panic. The patterns
  are paths without wildcards.
\<close>

definition mux_handle :: "string \<Rightarrow> 'h \<Rightarrow> (string, 'h) gomap \<Rightarrow> (string, 'h) gomap outcome" where
  "mux_handle pattern handler mux =
     (if pattern = [] then Panic ''http: invalid pattern''
      else if map_of mux pattern \<noteq> None then Panic (''http: multiple registrations for '' @ pattern)
      else Ok (AList.update pattern handler mux))"

end
