(* ===== verification/Sse_Transport.thy ===== *)
theory Sse_Transport
  imports Transport Upstream_Client Http
begin

text \<open>
  The SSE transport, \<^verbatim>\<open>src/internal/transport/sse\<close>: the handler of event streams and of posted
  messages, and the server around it. Requests arrive decoded by \<^verbatim>\<open>net/http\<close>: the query
  parameter, the outcome of reading the body, the headers that are used. A response writer is the
  status and headers it was given and the bytes written.
\<close>

declare map_of_eq_Some_iff [simp del] Some_eq_map_of_iff [simp del]

section \<open>The handler\<close>

record 'w Handler =
  haAgentCfg :: AgentConfig
  haSecurityCfg :: SecurityConfig
  haMessageHandler :: "'w message_handler option"

definition NewHandler :: "AgentConfig \<Rightarrow> 'w Handler" where
  "NewHandler agentCfg =
     \<lparr>haAgentCfg = agentCfg,
      haSecurityCfg = \<lparr>seCORSAllowedOrigins = Some [], seEnableSecurityHeaders = True\<rparr>,
      haMessageHandler = None\<rparr>"

definition NewHandlerWithSecurity :: "AgentConfig \<Rightarrow> SecurityConfig \<Rightarrow> 'w Handler" where
  "NewHandlerWithSecurity agentCfg securityCfg =
     \<lparr>haAgentCfg = agentCfg, haSecurityCfg = securityCfg, haMessageHandler = None\<rparr>"

definition setSecurityHeaders :: "'w Handler \<Rightarrow> HttpResponse \<Rightarrow> HttpResponse" where
  "setSecurityHeaders h w =
     (if \<not> seEnableSecurityHeaders (haSecurityCfg h) then w
      else SetHeader ''Permissions-Policy'' ''geolocation=(), microphone=(), camera=()''
        (SetHeader ''Referrer-Policy'' ''strict-origin-when-cross-origin''
          (SetHeader ''X-Frame-Options'' ''DENY''
            (SetHeader ''X-Content-Type-Options'' ''nosniff'' w))))"

text \<open>\<open>equalFold\<close> is \<^verbatim>\<open>strings.EqualFold\<close>, equality under Unicode case folding.\<close>

definition setCORSHeaders ::
    "(string \<Rightarrow> string \<Rightarrow> bool) \<Rightarrow> 'w Handler \<Rightarrow> HttpRequest \<Rightarrow> HttpResponse \<Rightarrow> HttpResponse" where
  "setCORSHeaders equalFold h r w =
     (let origin = hqOrigin r; allowed = elems (seCORSAllowedOrigins (haSecurityCfg h))
      in if allowed = [] then w
         else if ''*'' \<in> set allowed then SetHeader ''Access-Control-Allow-Origin'' ''*'' w
         else if list_ex (equalFold origin) allowed
         then SetHeader ''Vary'' ''Origin'' (SetHeader ''Access-Control-Allow-Origin'' origin w)
         else w)"

definition sse_SetMessageHandler :: "'w message_handler \<Rightarrow> 'w Handler \<Rightarrow> 'w Handler" where
  "sse_SetMessageHandler f h = h\<lparr>haMessageHandler := Some f\<rparr>"

definition sendEvent :: "string \<Rightarrow> string \<Rightarrow> string" where
  "sendEvent event data =
     (if event \<noteq> [] then ''event: '' @ event @ [CHR 0x0A] else []) @
     (if data \<noteq> [] then ''data: '' @ data @ [CHR 0x0A] else []) @ [CHR 0x0A]"

definition sendError :: "'w Handler \<Rightarrow> int \<Rightarrow> int \<Rightarrow> string \<Rightarrow> HttpResponse \<Rightarrow> HttpResponse" where
  "sendError h httpStatus code message w =
     WriteBody (json_text (\<lambda>_. []) (rpc_error GNil code message) @ [CHR 0x0A])
       (WriteHeader httpStatus (SetHeader ''Content-Type'' ''application/json'' (setSecurityHeaders h w)))"

text \<open>
  The start of a stream: the session is created and the endpoint is announced. The result is the
  response so far and, when the stream is open, the address of its session. \<open>flushes\<close> says whether
  the writer supports flushing.
\<close>

definition HandleSSE_open ::
    "(string \<Rightarrow> string \<Rightarrow> bool) \<Rightarrow> 'w Handler \<Rightarrow> bool \<Rightarrow> string \<Rightarrow> time \<Rightarrow> time \<Rightarrow> HttpRequest \<Rightarrow> Manager \<Rightarrow>
     HttpResponse \<times> nat option \<times> Manager" where
  "HandleSSE_open equalFold h flushes uuid t1 t2 r m =
     (if \<not> flushes then (http_Error ''Streaming not supported'' 500 new_response, None, m)
      else case Manager_Create uuid t1 t2 m of
             (Inl e, m1) \<Rightarrow> (http_Error ''Failed to create session'' 503 new_response, None, m1)
           | (Inr sess, m1) \<Rightarrow>
               let m2 = upd_session sess (SetAgent (agID (haAgentCfg h)) (agName (haAgentCfg h))
                          (agCapabilities (haAgentCfg h))) m1;
                   m3 = upd_session sess (SetClientInfo (hqRemoteAddr r) (hqUserAgent r)) m2;
                   w1 = SetHeader ''X-Accel-Buffering'' ''no''
                          (SetHeader ''Connection'' ''keep-alive''
                            (SetHeader ''Cache-Control'' ''no-cache, no-store, must-revalidate''
                              (SetHeader ''Content-Type'' ''text/event-stream'' new_response)));
                   w2 = setCORSHeaders equalFold h r (setSecurityHeaders h w1);
                   messageURL = ''/message?sessionId='' @ sID (mHeap m3 ! sess)
               in (WriteBody (sendEvent ''endpoint'' messageURL) w2, Some sess, m3))"

text \<open>
  One turn of the event loop: the select takes a ready case. \<^const>\<open>None\<close> means that the case is not
  ready; the flag says that the handler returns; the frame is what is written.
\<close>

datatype sse_case = ClientGone | SessionDone | MessageReady | HeartbeatTick

fun HandleSSE_turn :: "sse_case \<Rightarrow> nat \<Rightarrow> Manager \<Rightarrow> (bool \<times> (string \<times> string) option \<times> Manager) option" where
  "HandleSSE_turn ClientGone sess m = Some (True, None, Manager_Delete (sID (mHeap m ! sess)) m)"
| "HandleSSE_turn SessionDone sess m = (if sDone (mHeap m ! sess) then Some (True, None, m) else None)"
| "HandleSSE_turn MessageReady sess m =
     (case RecvMessage (mHeap m ! sess) of
        (None, s) \<Rightarrow> None
      | (Some msg, s) \<Rightarrow> Some (False, Some (''message'', msg), upd_session sess (\<lambda>_. s) m))"
| "HandleSSE_turn HeartbeatTick sess m = Some (False, Some (''ping'', []), m)"

text \<open>
  A posted message. The session object is passed to the message handler as it is after counting the
  request. \<open>now\<close> is the clock reading of the count, \<open>pick\<close> the runtime's choice in sending.
\<close>

definition body_limit :: nat where
  "body_limit = 1024 * 1024"

definition HandleMessage ::
    "'w Handler \<Rightarrow> time \<Rightarrow> bool \<Rightarrow> HttpRequest \<Rightarrow> (HttpResponse, Manager \<times> 'w) act" where
  "HandleMessage h now pick r = (\<lambda>(m, wo).
     let fail = (\<lambda>m' wo' status code msg. (Return (sendError h status code msg new_response), (m', wo')))
     in if hqSessionID r = [] then fail m wo 400 (-32600) ''Missing sessionId parameter''
        else case Manager_Get (hqSessionID r) m of
          (None, m1) \<Rightarrow> fail m1 wo 404 (-32600) ''Session not found or expired''
        | (Some sess, m1) \<Rightarrow>
            (case hqBody r of
               Inl e \<Rightarrow> fail m1 wo 400 (-32700) ''Failed to read request body''
             | Inr full \<Rightarrow>
                 let body = take body_limit full
                 in if \<not> Valid body then fail m1 wo 400 (-32700) ''Invalid JSON''
                    else let m2 = upd_session sess (\<lambda>s. snd (Session_IncrementRequestCount now s)) m1
                    in case (case haMessageHandler h of
                               Some f \<Rightarrow> f (mHeap m2 ! sess) body wo
                             | None \<Rightarrow> (Return (Some body, None), wo)) of
                         (Panicked p, wo1) \<Rightarrow> (Panicked p, (m2, wo1))
                       | (Return (response, Some e), wo1) \<Rightarrow> fail m2 wo1 500 (-32603) ''Internal server error''
                       | (Return (response, None), wo1) \<Rightarrow>
                           let m3 = (case response of
                                 Some msg \<Rightarrow> upd_session sess (\<lambda>s. snd (SendMessage pick msg s)) m2
                               | None \<Rightarrow> m2)
                           in (Return (WriteHeader 202 new_response), (m3, wo1))))"

section \<open>The server\<close>

record 'w SseServer =
  seCfg :: ServerConfig
  seHandler :: "'w Handler"
  seHttpServer :: "string option"
  seStarted :: bool
  seDone :: bool

definition sse_NewServer :: "ServerConfig \<Rightarrow> AgentConfig \<Rightarrow> 'w SseServer" where
  "sse_NewServer cfg agentCfg =
     \<lparr>seCfg = cfg, seHandler = NewHandler agentCfg, seHttpServer = None, seStarted = False, seDone = False\<rparr>"

definition sse_Server_SetMessageHandler :: "'w message_handler \<Rightarrow> 'w SseServer \<Rightarrow> 'w SseServer" where
  "sse_Server_SetMessageHandler f s = s\<lparr>seHandler := sse_SetMessageHandler f (seHandler s)\<rparr>"

text \<open>\<open>listen\<close> is the error of listening on the address, if any.\<close>

definition sse_Start :: "(string \<Rightarrow> string option) \<Rightarrow> (string option, 'w SseServer) act" where
  "sse_Start listen = (\<lambda>s.
     if seStarted s then (Return (Some ''server already started''), s)
     else let addr = liAddress (svListen (seCfg s)) @ '':'' @ itoa (liPort (svListen (seCfg s)));
              s1 = s\<lparr>seStarted := True, seHttpServer := Some addr\<rparr>
          in case listen addr of
               Some e \<Rightarrow> (Return (Some (''failed to listen on '' @ addr @ '': '' @ e)), s1)
             | None \<Rightarrow> (Return None, s1))"

text \<open>\<open>shutdown\<close> is the error of shutting the HTTP server down, a timeout for instance.\<close>

definition sse_Stop :: "string option \<Rightarrow> (string option, 'w SseServer) act" where
  "sse_Stop shutdown = (\<lambda>s.
     if \<not> seStarted s then (Return None, s)
     else let s1 = s\<lparr>seStarted := False\<rparr>
          in if seDone s1 then (Panicked ''close of closed channel'', s1)
             else (Return (case seHttpServer s1 of
                             Some addr \<Rightarrow> map_option (\<lambda>e. ''server shutdown error: '' @ e) shutdown
                           | None \<Rightarrow> None), s1\<lparr>seDone := True\<rparr>))"

definition sse_Name :: string where
  "sse_Name = ''sse''"

text \<open>
  The multiplexer that \<^verbatim>\<open>Start\<close> installs, for a path that is clean: the pattern of the stream matches
  \<^verbatim>\<open>GET\<close> and \<^verbatim>\<open>HEAD\<close> on every path, that of the messages \<^verbatim>\<open>POST\<close> on one. Every
  path matches some pattern, so another verb is answered with 405 and never with 404.
\<close>

datatype sse_route = RouteSSE | RouteMessage | RouteStatus int

definition sse_mux :: "string \<Rightarrow> string \<Rightarrow> sse_route" where
  "sse_mux verb path =
     (if verb = ''POST'' \<and> path = ''/message'' then RouteMessage
      else if verb = ''GET'' \<or> verb = ''HEAD'' then RouteSSE
      else RouteStatus 405)"

text \<open>
  The request logger wraps the response writer. What a handler does to the writer is a list of calls;
  flushing sends the header if it was not sent yet.
\<close>

datatype write_op = OpHeader string string | OpStatus int | OpBody string | OpFlush

fun write_to :: "write_op \<Rightarrow> HttpResponse \<Rightarrow> HttpResponse" where
  "write_to (OpHeader k v) w = SetHeader k v w"
| "write_to (OpStatus code) w = WriteHeader code w"
| "write_to (OpBody b) w = WriteBody b w"
| "write_to OpFlush w = WriteHeader 200 w"

record responseWriter =
  rwInner :: HttpResponse
  rwStatusCode :: int

definition rw_WriteHeader :: "int \<Rightarrow> responseWriter \<Rightarrow> responseWriter" where
  "rw_WriteHeader code rw = rw\<lparr>rwStatusCode := code, rwInner := WriteHeader code (rwInner rw)\<rparr>"

definition rw_Flush :: "responseWriter \<Rightarrow> responseWriter" where
  "rw_Flush rw = rw\<lparr>rwInner := write_to OpFlush (rwInner rw)\<rparr>"

fun rw_write :: "write_op \<Rightarrow> responseWriter \<Rightarrow> responseWriter" where
  "rw_write (OpStatus code) rw = rw_WriteHeader code rw"
| "rw_write OpFlush rw = rw_Flush rw"
| "rw_write op rw = rw\<lparr>rwInner := write_to op (rwInner rw)\<rparr>"

text \<open>The response, and the status that is logged.\<close>

definition requestLogger :: "write_op list \<Rightarrow> HttpResponse \<Rightarrow> HttpResponse \<times> int" where
  "requestLogger calls w =
     (let wrapped = fold rw_write calls \<lparr>rwInner = w, rwStatusCode = 200\<rparr>
      in (rwInner wrapped, rwStatusCode wrapped))"

interpretation sse: transport seStarted seDone sse_Start sse_Stop
  by unfold_locales (auto simp: sse_Start_def sse_Stop_def Let_def split: option.splits)

section \<open>Frames\<close>

text \<open>A text that survives the framing: it fits on one line and has no space at its ends.\<close>

definition line_safe :: "string \<Rightarrow> bool" where
  "line_safe s \<longleftrightarrow> CHR 0x0A \<notin> set s \<and> trimmed s"

definition frame_safe :: "string \<times> string \<Rightarrow> bool" where
  "frame_safe f \<longleftrightarrow> fst f \<noteq> [] \<and> line_safe (fst f) \<and> line_safe (snd f)"

definition stream_text :: "(string \<times> string) list \<Rightarrow> string" where
  "stream_text fs = concat (map (\<lambda>(e, d). sendEvent e d) fs)"

lemma line_safe_ascii:
  assumes "list_all (\<lambda>c. byte_of c < 128 \<and> c \<noteq> CHR 0x0A) s"
    and "\<not> IsSpace (byte_of (hd s))" and "\<not> IsSpace (byte_of (last s))"
  shows "line_safe s"
proof -
  have "ascii s" using assms(1) by (simp add: ascii_def list_all_iff)
  then have "trimmed s" by (rule trimmed_ascii [OF _ assms(2,3)])
  moreover have "CHR 0x0A \<notin> set s" using assms(1) unfolding list_all_iff by blast
  ultimately show ?thesis by (simp add: line_safe_def)
qed

lemma line_safe_Nil [simp]: "line_safe []"
  by (simp add: line_safe_def trimmed_def)

lemma stream_lines_line:
  "CHR 0x0A \<notin> set s \<Longrightarrow> stream_lines acc (s @ CHR 0x0A # t) = (rev acc @ s @ [CHR 0x0A]) # stream_lines [] t"
  by (induction s arbitrary: acc) auto

lemma field_line:
  assumes "ascii k" and "k \<noteq> []" and "\<not> IsSpace (byte_of (hd k))" and "line_safe v" and "v \<noteq> []"
  shows "TrimSpace (k @ '' '' @ v @ [CHR 0x0A]) = k @ '' '' @ v" and "TrimSpace ('' '' @ v) = v"
proof -
  have "ascii (k @ '' '')" using assms(1) by (simp add: ascii_def)
  then have "trimmed ((k @ '' '') @ v)"
    by (rule trimmed_prepend) (use assms(2-5) in \<open>simp_all add: line_safe_def\<close>)
  from TrimSpace_trail [OF _ _ this, of "CHR 0x0A"]
  show "TrimSpace (k @ '' '' @ v @ [CHR 0x0A]) = k @ '' '' @ v" by (simp add: IsSpace_def)
  show "TrimSpace ('' '' @ v) = v"
    using assms(4) by (simp add: TrimSpace_lead IsSpace_def TrimSpace_trimmed line_safe_def)
qed

lemma sse_line_event: "line_safe v \<Longrightarrow> v \<noteq> [] \<Longrightarrow>
    sse_line (''event: '' @ v @ [CHR 0x0A]) (e, d) = (None, v, d)"
  using field_line [of "''event:''" v]
  by (simp add: sse_line_def ascii_def IsSpace_def HasPrefix_def TrimPrefix_def)

lemma sse_line_data: "line_safe v \<Longrightarrow> v \<noteq> [] \<Longrightarrow>
    sse_line (''data: '' @ v @ [CHR 0x0A]) (e, d) = (None, e, v)"
  using field_line [of "''data:''" v]
  by (simp add: sse_line_def ascii_def IsSpace_def HasPrefix_def TrimPrefix_def)

lemma sse_line_empty: "e \<noteq> [] \<Longrightarrow> sse_line [CHR 0x0A] (e, d) = (Some (e, d), [], [])"
  by (simp add: sse_line_def TrimSpace_lead IsSpace_def)

lemma sse_events_frame:
  assumes "frame_safe (e, d)"
  shows "sse_events (stream_lines [] (sendEvent e d @ t)) ([], []) = (e, d) # sse_events (stream_lines [] t) ([], [])"
proof -
  have e: "e \<noteq> []" "line_safe e" "line_safe d" using assms by (simp_all add: frame_safe_def)
  have ev: "stream_lines [] (''event: '' @ e @ CHR 0x0A # u) = (''event: '' @ e @ [CHR 0x0A]) # stream_lines [] u" for u
    using stream_lines_line [of "''event: '' @ e" "[]" u] e(2) by (simp add: line_safe_def)
  have da: "stream_lines [] (''data: '' @ d @ CHR 0x0A # u) = (''data: '' @ d @ [CHR 0x0A]) # stream_lines [] u" for u
    using stream_lines_line [of "''data: '' @ d" "[]" u] e(3) by (simp add: line_safe_def)
  show ?thesis
  proof (cases "d = []")
    case True
    have "sendEvent e d @ t = ''event: '' @ e @ CHR 0x0A # (CHR 0x0A # t)" using e(1) True by (simp add: sendEvent_def)
    then show ?thesis unfolding True
      by (simp only: ev sse_events.simps sse_line_event [OF e(2,1)] stream_lines.simps
          prod.case option.case) (simp add: sse_line_empty [OF e(1)])
  next
    case False
    have "sendEvent e d @ t = ''event: '' @ e @ CHR 0x0A # (''data: '' @ d @ CHR 0x0A # (CHR 0x0A # t))"
      using e(1) False by (simp add: sendEvent_def)
    then show ?thesis
      by (simp only: ev da sse_events.simps sse_line_event [OF e(2,1)] sse_line_data [OF e(3) False] stream_lines.simps
          prod.case option.case) (simp add: sse_line_empty [OF e(1)])
  qed
qed

lemma sse_events_text: "\<forall>f \<in> set fs. frame_safe f \<Longrightarrow> sse_events (stream_lines [] (stream_text fs)) ([], []) = fs"
proof (induction fs)
  case Nil
  then show ?case by (simp add: stream_text_def)
next
  case (Cons f fs)
  then have "frame_safe (fst f, snd f)" by simp
  from sse_events_frame [OF this, of "stream_text fs"] Cons show ?case
    by (simp add: stream_text_def case_prod_beta)
qed

section \<open>An open stream\<close>

text \<open>
  A stream with its session while other goroutines run: they send to the session's channel or change
  anything but this channel. \<open>smFrames\<close> are the frames written, \<open>smAccepted\<close> the messages that
  \<^verbatim>\<open>SendMessage\<close> has accepted.
\<close>

record stream_sys =
  smManager :: Manager
  smSess :: nat
  smFrames :: "(string \<times> string) list"
  smAccepted :: "bytes list"
  smOpen :: bool

definition stream_chan :: "stream_sys \<Rightarrow> bytes list" where
  "stream_chan s = sMessageChan (mHeap (smManager s) ! smSess s)"

definition stream_start :: "stream_sys \<Rightarrow> bool" where
  "stream_start s \<longleftrightarrow> smSess s < length (mHeap (smManager s)) \<and> stream_chan s = [] \<and> smAccepted s = [] \<and> smOpen s \<and>
     (\<exists>url. smFrames s = [(''endpoint'', url)])"

inductive stream_step :: "stream_sys \<Rightarrow> stream_sys \<Rightarrow> bool" where
  st_send: "SendMessage pick msg (mHeap (smManager s) ! smSess s) = (True, sess) \<Longrightarrow>
    stream_step s (s\<lparr>smManager := upd_session (smSess s) (\<lambda>_. sess) (smManager s), smAccepted := smAccepted s @ [msg]\<rparr>)"
| st_turn: "smOpen s \<Longrightarrow> HandleSSE_turn c (smSess s) (smManager s) = Some (ret, frame, m) \<Longrightarrow>
    stream_step s (s\<lparr>smManager := m, smFrames := smFrames s @ (case frame of None \<Rightarrow> [] | Some f \<Rightarrow> [f]),
      smOpen := \<not> ret\<rparr>)"
| st_other: "length (mHeap (smManager s)) \<le> length (mHeap m) \<Longrightarrow>
    sMessageChan (mHeap m ! smSess s) = stream_chan s \<Longrightarrow> stream_step s (s\<lparr>smManager := m\<rparr>)"

definition delivered :: "(string \<times> string) list \<Rightarrow> bytes list" where
  "delivered fs = map snd (filter (\<lambda>f. fst f = ''message'') fs)"

definition stream_inv :: "stream_sys \<Rightarrow> bool" where
  "stream_inv s \<longleftrightarrow> smSess s < length (mHeap (smManager s)) \<and>
     smAccepted s = delivered (smFrames s) @ stream_chan s \<and>
     (\<exists>url fs. smFrames s = (''endpoint'', url) # fs \<and>
       (\<forall>f \<in> set fs. fst f = ''message'' \<or> f = (''ping'', [])))"

lemma upd_session_at: "r < length (mHeap m) \<Longrightarrow> mHeap (upd_session r f m) ! r = f (mHeap m ! r)"
  "length (mHeap (upd_session r f m)) = length (mHeap m)"
  by (simp_all add: upd_session_def)

lemma Manager_Delete_chan:
  assumes "r < length (mHeap m)"
  shows "sMessageChan (mHeap (Manager_Delete k m) ! r) = sMessageChan (mHeap m ! r)"
    and "length (mHeap (Manager_Delete k m)) = length (mHeap m)"
proof -
  have "sMessageChan (mHeap (upd_session x Session_Close m) ! r) = sMessageChan (mHeap m ! r)" for x
    using assms by (cases "x = r") (simp_all add: upd_session_def Session_Close_def)
  then show "sMessageChan (mHeap (Manager_Delete k m) ! r) = sMessageChan (mHeap m ! r)"
    by (simp add: Manager_Delete_def upd_session_def Let_def split: option.split)
  show "length (mHeap (Manager_Delete k m)) = length (mHeap m)"
    by (simp add: Manager_Delete_def upd_session_def Let_def split: option.split)
qed

lemma delivered_append [simp]: "delivered (fs @ gs) = delivered fs @ delivered gs"
  "delivered [] = []" "delivered [(''message'', m)] = [m]" "delivered [(''ping'', m)] = []"
  "delivered (f # fs) = delivered [f] @ delivered fs"
  by (simp_all add: delivered_def)

declare delivered_append(5) [simp del]

lemma stream_inv_turn [op_invs]:
  assumes "stream_inv s" and "HandleSSE_turn c (smSess s) (smManager s) = Some (ret, frame, m)"
  shows "stream_inv (s\<lparr>smManager := m, smFrames := smFrames s @ (case frame of None \<Rightarrow> [] | Some f \<Rightarrow> [f]), smOpen := \<not> ret\<rparr>)"
proof -
  have r: "smSess s < length (mHeap (smManager s))" using assms(1) by (simp add: stream_inv_def)
  show ?thesis
  proof (cases c)
    case ClientGone
    with assms r show ?thesis by (auto simp: stream_inv_def stream_chan_def Manager_Delete_chan)
  next
    case SessionDone
    with assms show ?thesis by (auto simp: stream_inv_def stream_chan_def split: if_splits)
  next
    case MessageReady
    then obtain msg rest where "stream_chan s = msg # rest" "frame = Some (''message'', msg)" "\<not> ret"
      "m = upd_session (smSess s) (\<lambda>_. (mHeap (smManager s) ! smSess s)\<lparr>sMessageChan := rest\<rparr>) (smManager s)"
      using assms(2) by (auto simp: RecvMessage_def stream_chan_def split: list.splits)
    with assms(1) r show ?thesis by (auto simp: stream_inv_def stream_chan_def upd_session_at)
  next
    case HeartbeatTick
    with assms show ?thesis by (auto simp: stream_inv_def stream_chan_def)
  qed
qed

lemma stream_inv_step: "stream_step s t \<Longrightarrow> stream_inv s \<Longrightarrow> stream_inv t"
proof (induction rule: stream_step.induct)
  case (st_send pick msg s sess)
  then have "sess = (mHeap (smManager s) ! smSess s)\<lparr>sMessageChan := stream_chan s @ [msg]\<rparr>"
    by (auto simp: SendMessage_def stream_chan_def Let_def split: if_splits)
  with st_send.prems show ?case by (auto simp: stream_inv_def stream_chan_def upd_session_at)
next
  case (st_turn s c ret frame m)
  then show ?case by (intro op_invs)
next
  case (st_other s m)
  then show ?case by (auto simp: stream_inv_def stream_chan_def)
qed

lemma stream_inv_start: "stream_start s \<Longrightarrow> stream_inv s"
  by (auto simp: stream_start_def stream_inv_def delivered_def)

interpretation stream: safe_system stream_start stream_step stream_inv
  by unfold_locales (erule stream_inv_start, rule stream_inv_step)

section \<open>Posted messages\<close>

lemma HandleMessage_run:
  assumes "hqSessionID r \<noteq> []" and "Manager_Get (hqSessionID r) m = (Some sess, m1)" and "hqBody r = Inr full"
    and "Valid (take body_limit full)"
    and "m2 = upd_session sess (\<lambda>s. snd (Session_IncrementRequestCount now s)) m1"
    and "haMessageHandler h = Some f"
    and "f (mHeap m2 ! sess) (take body_limit full) wo = (Return (response, None), wo1)"
  shows "HandleMessage h now pick r (m, wo) = (Return (WriteHeader 202 new_response),
    (case response of Some msg \<Rightarrow> upd_session sess (\<lambda>s. snd (SendMessage pick msg s)) m2 | None \<Rightarrow> m2), wo1)"
  using assms(1-4,6,7) unfolding assms(5) by (simp add: HandleMessage_def Let_def)

text \<open>The channel after a response: the message is last if there was room, and lost otherwise.\<close>

definition queued :: "bytes option \<Rightarrow> bytes list \<Rightarrow> bytes list" where
  "queued response ch = ch @ (case response of Some msg \<Rightarrow> if length ch < MessageChan_cap then [msg] else [] | None \<Rightarrow> [])"

lemma HandleMessage_answered:
  assumes "hqSessionID r \<noteq> []" and "map_of (mSessions m) (hqSessionID r) = Some i" and "\<not> sDone (mHeap m ! i)"
    and "i < length (mHeap m)" and "hqBody r = Inr full" and "Valid (take body_limit full)" and "haMessageHandler h = Some f"
    and "f (snd (Session_IncrementRequestCount now (mHeap m ! i))) (take body_limit full) wo = (Return (response, None), wo')"
  shows "\<exists>m'. HandleMessage h now pick r (m, wo) = (Return (WriteHeader 202 new_response), m', wo') \<and>
    sRequestCount (mHeap m' ! i) = wrap64 (sRequestCount (mHeap m ! i) + 1) \<and>
    sMessageChan (mHeap m' ! i) = queued response (sMessageChan (mHeap m ! i)) \<and>
    (\<forall>j. j \<noteq> i \<longrightarrow> mHeap m' ! j = mHeap m ! j) \<and> mSessions m' = mSessions m"
proof -
  let ?s = "snd (Session_IncrementRequestCount now (mHeap m ! i))"
  let ?m2 = "upd_session i (\<lambda>s. snd (Session_IncrementRequestCount now s)) m"
  let ?m' = "case response of Some msg \<Rightarrow> upd_session i (\<lambda>s. snd (SendMessage pick msg s)) ?m2 | None \<Rightarrow> ?m2"
  have get: "Manager_Get (hqSessionID r) m = (Some i, m)" using assms(2,3) by (simp add: Manager_Get_def IsClosed_def)
  have "HandleMessage h now pick r (m, wo) = (Return (WriteHeader 202 new_response), ?m', wo')"
    by (rule HandleMessage_run [OF assms(1) get assms(5,6) refl assms(7)])
      (use assms(4,8) in \<open>simp add: upd_session_at\<close>)
  moreover have s: "sRequestCount ?s = wrap64 (sRequestCount (mHeap m ! i) + 1)" "sMessageChan ?s = sMessageChan (mHeap m ! i)" "\<not> sDone ?s"
    using assms(3) by (simp_all add: Session_IncrementRequestCount_def Let_def)
  moreover have "sRequestCount (mHeap ?m' ! i) = wrap64 (sRequestCount (mHeap m ! i) + 1)"
    "sMessageChan (mHeap ?m' ! i) = queued response (sMessageChan (mHeap m ! i))"
    using assms(4) s by (auto simp: upd_session_at SendMessage_def Let_def queued_def split: option.split)
  moreover have "\<forall>j. j \<noteq> i \<longrightarrow> mHeap ?m' ! j = mHeap m ! j" "mSessions ?m' = mSessions m"
    by (simp_all add: upd_session_def split: option.split)
  ultimately show ?thesis by blast
qed

lemma Manager_Get_live: "Manager_Get k m = (Some r, m') \<Longrightarrow> m' = m \<and> map_of (mSessions m) k = Some r \<and> \<not> sDone (mHeap m ! r)"
  by (auto simp: Manager_Get_def IsClosed_def split: option.splits if_splits)

section \<open>Properties\<close>

text \<open>
  C15. An event stream delivers what its session accepted: in every state of an open stream, under any
  interleaving with senders and other goroutines, the accepted messages are those already written,
  followed by those still queued, in order. When every message fits on one line and has no space at
  its ends, the reader of the proxy's own upstream client finds exactly the written frames in the
  bytes of the stream.
\<close>

theorem sse_stream_delivers:
  assumes "reach stream_start stream_step s"
  shows "smAccepted s = delivered (smFrames s) @ stream_chan s \<and>
    (line_safe (snd (hd (smFrames s))) \<longrightarrow> (\<forall>m \<in> set (smAccepted s). line_safe m) \<longrightarrow>
     sse_events (stream_lines [] (stream_text (smFrames s))) ([], []) = smFrames s)"
proof -
  have inv: "stream_inv s" using assms by (rule stream.reach_inv)
  have "frame_safe f" if url: "line_safe (snd (hd (smFrames s)))" and all: "\<forall>m \<in> set (smAccepted s). line_safe m"
    and f: "f \<in> set (smFrames s)" for f
  proof -
    have names: "line_safe ''endpoint''" "line_safe ''message''" "line_safe ''ping''" "line_safe []" by (simp_all add: line_safe_ascii IsSpace_def)
    have "f = hd (smFrames s) \<and> fst f = ''endpoint'' \<or> fst f = ''message'' \<and> snd f \<in> set (delivered (smFrames s)) \<or> f = (''ping'', [])"
      using inv f by (auto simp: stream_inv_def delivered_def)
    then show ?thesis using inv all url names by (auto simp: frame_safe_def stream_inv_def)
  qed
  with inv show ?thesis using sse_events_text [of "smFrames s"] by (auto simp: stream_inv_def)
qed

definition demo_manager :: Manager where
  "demo_manager = (NewManager DefaultManagerConfig)\<lparr>mHeap := [NewSession ''s1'' 0 0], mSessions := [(''s1'', 0)],
     mActive := 1\<rparr>"

definition demo_stream :: stream_sys where
  "demo_stream = \<lparr>smManager = demo_manager, smSess = 0, smFrames = [(''endpoint'', ''/message'')], smAccepted = [],
     smOpen = True\<rparr>"

theorem sse_stream_delivers_witness:
  "\<exists>s. reach stream_start stream_step s \<and> smFrames s = [(''endpoint'', ''/message''), (''message'', ''{}'')] \<and>
     smAccepted s = [''{}''] @ stream_chan s \<and>
     sse_events (stream_lines [] (stream_text (smFrames s))) ([], []) = smFrames s"
proof -
  let ?sess = "NewSession ''s1'' 0 0"
  let ?m1 = "upd_session 0 (\<lambda>_. ?sess\<lparr>sMessageChan := [''{}'']\<rparr>) demo_manager"
  let ?s1 = "demo_stream\<lparr>smManager := ?m1, smAccepted := [''{}'']\<rparr>"
  let ?m2 = "upd_session 0 (\<lambda>_. ?sess) ?m1"
  let ?s2 = "?s1\<lparr>smManager := ?m2, smFrames := smFrames ?s1 @ [(''message'', ''{}'')], smOpen := True\<rparr>"
  have "reach stream_start stream_step demo_stream"
    by (rule reach.reach_init) (simp add: stream_start_def demo_stream_def demo_manager_def stream_chan_def NewSession_def)
  moreover have "stream_step demo_stream (demo_stream\<lparr>smManager := upd_session (smSess demo_stream)
      (\<lambda>_. ?sess\<lparr>sMessageChan := [''{}'']\<rparr>) (smManager demo_stream), smAccepted := smAccepted demo_stream @ [''{}'']\<rparr>)"
    by (rule stream_step.st_send [where pick = True])
      (simp add: demo_stream_def demo_manager_def SendMessage_def NewSession_def MessageChan_cap_def)
  then have "stream_step demo_stream ?s1" by (simp add: demo_stream_def)
  ultimately have "reach stream_start stream_step ?s1" by (rule reach.reach_step)
  moreover have "stream_step ?s1 ?s2"
    using stream_step.st_turn [of ?s1 MessageReady False "Some (''message'', ''{}'')" ?m2]
    by (simp add: demo_stream_def demo_manager_def RecvMessage_def upd_session_def NewSession_def)
  ultimately have r: "reach stream_start stream_step ?s2" by (rule reach.reach_step)
  have "line_safe ''/message''" "line_safe ''{}''" by (simp_all add: line_safe_ascii IsSpace_def)
  with sse_stream_delivers [OF r] r show ?thesis
    by (intro exI [of _ ?s2]) (simp add: demo_stream_def delivered_def)
qed

text \<open>
  C17. A posted message. The message handler and the world behind it are reached only by a valid JSON
  text for a session that is stored and open. Then the request is counted once on that session, the
  handler's response is queued last on the session's channel when there is room and lost otherwise,
  the status is 202 in both cases, and no other session changes.
\<close>

theorem posted_message_handled:
  assumes "HandleMessage h now pick r (m, wo) = (x, m', wo')" and "haMessageHandler h = Some f"
    and "\<And>k i. map_of (mSessions m) k = Some i \<Longrightarrow> i < length (mHeap m)"
  shows "(wo' \<noteq> wo \<longrightarrow> (\<exists>i full. map_of (mSessions m) (hqSessionID r) = Some i \<and> \<not> sDone (mHeap m ! i) \<and>
      hqBody r = Inr full \<and> Valid (take body_limit full))) \<and>
    (\<forall>i full response. hqSessionID r \<noteq> [] \<longrightarrow> map_of (mSessions m) (hqSessionID r) = Some i \<longrightarrow>
      \<not> sDone (mHeap m ! i) \<longrightarrow> hqBody r = Inr full \<longrightarrow> Valid (take body_limit full) \<longrightarrow>
      f (snd (Session_IncrementRequestCount now (mHeap m ! i))) (take body_limit full) wo = (Return (response, None), wo') \<longrightarrow>
      (\<exists>resp. x = Return resp \<and> hpStatus resp = Some 202) \<and>
      sRequestCount (mHeap m' ! i) = wrap64 (sRequestCount (mHeap m ! i) + 1) \<and>
      sMessageChan (mHeap m' ! i) = queued response (sMessageChan (mHeap m ! i)) \<and>
      (\<forall>j. j \<noteq> i \<longrightarrow> mHeap m' ! j = mHeap m ! j) \<and> mSessions m' = mSessions m)"
proof (intro conjI allI impI)
  assume changed: "wo' \<noteq> wo"
  then obtain i m1 where get: "Manager_Get (hqSessionID r) m = (Some i, m1)"
    using assms(1) by (auto simp: HandleMessage_def Let_def split: if_splits prod.splits option.splits)
  moreover obtain full where "hqBody r = Inr full" "Valid (take body_limit full)"
    using assms(1) get changed by (auto simp: HandleMessage_def Let_def split: if_splits sum.splits)
  ultimately show "\<exists>i full. map_of (mSessions m) (hqSessionID r) = Some i \<and> \<not> sDone (mHeap m ! i) \<and>
      hqBody r = Inr full \<and> Valid (take body_limit full)"
    using Manager_Get_live by blast
next
  fix i full response
  let ?s = "snd (Session_IncrementRequestCount now (mHeap m ! i))"
  assume h: "hqSessionID r \<noteq> []" "map_of (mSessions m) (hqSessionID r) = Some i" "\<not> sDone (mHeap m ! i)"
    "hqBody r = Inr full" "Valid (take body_limit full)" "f ?s (take body_limit full) wo = (Return (response, None), wo')"
  from HandleMessage_answered [OF h(1-3) assms(3) [OF h(2)] h(4,5) assms(2) h(6), of pick] assms(1)
  have run: "x = Return (WriteHeader 202 new_response)"
    "sRequestCount (mHeap m' ! i) = wrap64 (sRequestCount (mHeap m ! i) + 1)"
    "sMessageChan (mHeap m' ! i) = queued response (sMessageChan (mHeap m ! i))"
    "\<forall>j. j \<noteq> i \<longrightarrow> mHeap m' ! j = mHeap m ! j" "mSessions m' = mSessions m" by auto
  then show "\<exists>resp. x = Return resp \<and> hpStatus resp = Some 202" by (simp add: WriteHeader_def new_response_def)
  show "sRequestCount (mHeap m' ! i) = wrap64 (sRequestCount (mHeap m ! i) + 1)"
    "sMessageChan (mHeap m' ! i) = queued response (sMessageChan (mHeap m ! i))" "mSessions m' = mSessions m"
    by (fact run)+
  show "mHeap m' ! j = mHeap m ! j" if "j \<noteq> i" for j using run(4) that by blast
qed

definition demo_post :: HttpRequest where
  "demo_post = \<lparr>hqSessionID = ''s1'', hqBody = Inr ''{}'', hqOrigin = [], hqRemoteAddr = [], hqUserAgent = []\<rparr>"

definition demo_handler :: "nat Handler" where
  "demo_handler = sse_SetMessageHandler (\<lambda>s b n. (Return (Some b, None), n + 1)) (NewHandler (cgAgent zero_config))"

theorem posted_message_handled_witness:
  "\<exists>x m'. HandleMessage demo_handler 5 True demo_post (demo_manager, 0) = (x, m', 1) \<and>
     sMessageChan (mHeap m' ! 0) = [''{}''] \<and> sRequestCount (mHeap m' ! 0) = 1"
proof -
  have valid: "Valid ''{}''" by code_simp
  have body: "take body_limit ''{}'' = ''{}''" by (simp add: body_limit_def)
  obtain x m' n where run: "HandleMessage demo_handler 5 True demo_post (demo_manager, 0) = (x, m', n)"
    by (metis prod.collapse)
  moreover have "n = 1" using run valid body
    by (simp add: HandleMessage_def demo_post_def demo_handler_def sse_SetMessageHandler_def demo_manager_def
        Manager_Get_def IsClosed_def NewSession_def Let_def)
  moreover have "wrap64 1 = 1" by (rule wrap64_id) (simp_all add: int64_defs)
  moreover have refs: "i < length (mHeap demo_manager)" if "map_of (mSessions demo_manager) k = Some i" for k i
    using that by (simp add: demo_manager_def split: if_splits)
  moreover have f: "haMessageHandler demo_handler = Some (\<lambda>s b n. (Return (Some b, None), n + 1))"
    by (simp add: demo_handler_def sse_SetMessageHandler_def)
  ultimately show ?thesis
    using posted_message_handled [OF run f refs] valid body
    by (auto simp: demo_post_def demo_handler_def sse_SetMessageHandler_def demo_manager_def NewSession_def
        queued_def MessageChan_cap_def split: if_splits)
qed

text \<open>
  The server does not use the security settings of its configuration: whatever origins are
  allowed and whether or not security headers are switched off, a stream is opened with all the
  security headers and without permission for any other origin.
\<close>

lemma security_config_ignored:
  assumes "HandleSSE_open equalFold (seHandler (sse_NewServer cfg agent)) True uuid t1 t2 r m = (w, Some sess, m')"
  shows "map_of (hpHeaders w) ''Access-Control-Allow-Origin'' = None \<and>
    map_of (hpHeaders w) ''X-Frame-Options'' = Some ''DENY'' \<and>
    map_of (hpHeaders w) ''X-Content-Type-Options'' = Some ''nosniff'' \<and>
    seHandler (sse_NewServer cfg agent) = (seHandler (sse_NewServer (cfg\<lparr>svSecurity := sec\<rparr>) agent) :: 'w Handler)"
  using assms
  by (auto simp: HandleSSE_open_def sse_NewServer_def NewHandler_def setCORSHeaders_def setSecurityHeaders_def
      SetHeader_def WriteBody_def WriteHeader_def new_response_def update_conv' Let_def split: prod.splits sum.splits)

text \<open>
  The logger is transparent: the client gets what the handler wrote. The logged status is the one that
  was sent if the handler sets a status at most once, before the body.
\<close>

lemma rw_write_inner: "rwInner (rw_write op rw) = write_to op (rwInner rw)"
  by (cases op) (simp_all add: rw_WriteHeader_def rw_Flush_def)

lemma requestLogger_transparent: "fst (requestLogger calls w) = fold write_to calls w"
proof -
  have "rwInner (fold rw_write calls rw) = fold write_to calls (rwInner rw)" for rw
    by (induction calls arbitrary: rw) (simp_all add: rw_write_inner)
  then show ?thesis by (simp add: requestLogger_def)
qed

fun no_status :: "write_op \<Rightarrow> bool" where
  "no_status (OpStatus code) = False"
| "no_status op = True"

lemma no_status_write:
  "no_status op \<Longrightarrow> rwStatusCode (rw_write op rw) = rwStatusCode rw"
  "no_status op \<Longrightarrow> hpStatus (write_to op w) \<in> {hpStatus w, Some 200}"
  "hpStatus w \<noteq> None \<Longrightarrow> hpStatus (write_to op w) = hpStatus w"
  by (cases op; auto simp: rw_Flush_def WriteBody_def WriteHeader_def SetHeader_def Let_def)+

lemma no_status_writes:
  assumes "list_all no_status calls"
  shows "rwStatusCode (fold rw_write calls rw) = rwStatusCode rw"
    and "hpStatus w \<in> {None, Some 200} \<Longrightarrow> hpStatus (fold write_to calls w) \<in> {None, Some 200}"
    and "hpStatus w = Some c \<Longrightarrow> hpStatus (fold write_to calls w) = Some c"
  using assms
proof (induction calls arbitrary: rw w)
  case (Cons op calls)
  { case 1 with Cons show ?case by (simp add: no_status_write) }
  { case 2 with Cons(2) [of "write_to op w"] no_status_write(2) [of op w] show ?case by auto }
  { case 3 with Cons(3) [of "write_to op w"] no_status_write(3) [of w op] show ?case by auto }
qed simp_all

lemma requestLogger_status:
  assumes "list_all no_status before" and "list_all no_status after"
    and "hpStatus (fold write_to before new_response) = None"
  shows "requestLogger (before @ OpStatus code # after) new_response =
      (fold write_to (before @ OpStatus code # after) new_response, code) \<and>
    hpStatus (fold write_to (before @ OpStatus code # after) new_response) = Some code"
proof -
  let ?calls = "before @ OpStatus code # after"
  have "snd (requestLogger ?calls new_response) = code"
    by (simp add: requestLogger_def Let_def no_status_writes(1) [OF assms(2)] rw_WriteHeader_def)
  moreover have "hpStatus (fold write_to ?calls new_response) = Some code"
    using assms(3) by (simp add: no_status_writes(3) [OF assms(2)] WriteHeader_def)
  ultimately show ?thesis using requestLogger_transparent [of ?calls new_response] by (simp add: prod_eq_iff)
qed

lemma requestLogger_default:
  "list_all no_status calls \<Longrightarrow> snd (requestLogger calls new_response) = 200 \<and>
     hpStatus (fst (requestLogger calls new_response)) \<in> {None, Some 200}"
  using no_status_writes(2) [of calls new_response]
  by (simp add: requestLogger_transparent) (simp add: requestLogger_def no_status_writes(1) new_response_def Let_def)

text \<open>A second status is not sent, but it is the one that is logged.\<close>

lemma requestLogger_second_status:
  "hpStatus (fst (requestLogger [OpStatus 200, OpStatus 500] new_response)) = Some 200 \<and>
   snd (requestLogger [OpStatus 200, OpStatus 500] new_response) = 500"
  by code_simp

end
