(* ===== verification/Proxy.thy ===== *)
theory Proxy
  imports Application Sse_Transport
begin

text \<open>
  The handling of a message with the proxy's own upstream client: the parameter of
  \<open>Application\<close> is instantiated with \<^verbatim>\<open>Send\<close> of \<open>Upstream_Client\<close>. Then the proxy over
  a whole run: which messages are sent to the upstream, for an arbitrary upstream, while policies are
  reloaded and records are flushed in between.
\<close>

declare map_of_eq_Some_iff [simp del] Some_eq_map_of_iff [simp del]

section \<open>The upstream client as the router's sender\<close>

definition upstream_connected :: "Client option \<Rightarrow> bool" where
  "upstream_connected u = (case u of Some c \<Rightarrow> IsConnected c | None \<Rightarrow> False)"

text \<open>
  The readings of one message: those of router and callbacks, and for the call of \<^verbatim>\<open>Send\<close> the
  result of the post, the events that the reading goroutine handles meanwhile and the case of its select.
\<close>

record call_env =
  vxApp :: app_env
  vxRoute :: route_env
  vxPost :: http_result
  vxEvents :: "(string \<times> string) list"
  vxWait :: wait_case

text \<open>
  A call of \<^verbatim>\<open>Send\<close> that never returns ends the handling of the message like a panic: nothing
  after it is executed.
\<close>

definition client_sender :: "(bytes \<Rightarrow> string + gobj) \<Rightarrow> call_env \<Rightarrow> Client option upstream_client" where
  "client_sender unmarshal env =
     \<lparr>ucConnected = upstream_connected,
      ucSend = (\<lambda>message u. case u of
          None \<Rightarrow> (Panicked ''nil pointer dereference'', u)
        | Some c \<Rightarrow>
            (case Client_Send unmarshal (vxPost env) (vxEvents env) (vxWait env) message c of
               None \<Rightarrow> (Panicked ''blocked for ever'', u)
             | Some (r, c') \<Rightarrow> (r, Some c')))\<rparr>"

definition app_handleMessage ::
    "gojson \<Rightarrow> 'q opa \<Rightarrow> (time \<Rightarrow> string outcome) \<Rightarrow> (rat \<Rightarrow> string) \<Rightarrow> (bytes \<Rightarrow> string + gobj) \<Rightarrow> 'm meter \<Rightarrow> Config \<Rightarrow>
     call_env \<Rightarrow> Session \<Rightarrow> bytes \<Rightarrow> (bytes option \<times> string option, ('q, Client option, 'm) world) act" where
  "app_handleMessage gj opa fmt num unmarshal mtr cfg env =
     handleMessage gj opa fmt num mtr cfg (Some (client_sender unmarshal env)) (vxApp env) (vxRoute env)"

section \<open>Which messages are forwarded\<close>

definition enforced_methods :: "string set" where
  "enforced_methods = {''tools/call'', ''resources/read'', ''resources/subscribe''}"

text \<open>The verdict on an enforced request: an approval, or any decision outside the enforce mode.\<close>

fun lets_pass :: "EvaluationResult outcome \<Rightarrow> bool" where
  "lets_pass (Ok r) \<longleftrightarrow> pdAllow (erDecision r) \<or> erPolicyMode r \<noteq> ''enforce''"
| "lets_pass (Err e) \<longleftrightarrow> False"
| "lets_pass (Panic p) \<longleftrightarrow> False"

definition verdict ::
    "'q opa \<Rightarrow> (time \<Rightarrow> string outcome) \<Rightarrow> Config \<Rightarrow> app_env \<Rightarrow> Session \<Rightarrow> RequestContext \<Rightarrow> 'q Engine \<Rightarrow>
     EvaluationResult outcome" where
  "verdict opa fmt cfg env sess ctx e = fst (Evaluate opa fmt (aeEval env) (policy_input cfg (aeInputNow env) sess ctx) e)"

text \<open>An upstream client that also records the messages it is given.\<close>

definition recording :: "'u upstream_client \<Rightarrow> ('u \<times> bytes list) upstream_client" where
  "recording c =
     \<lparr>ucConnected = (\<lambda>(u, sent). ucConnected c u),
      ucSend = (\<lambda>message (u, sent). case ucSend c message u of (r, u') \<Rightarrow> (r, (u', sent @ [message])))\<rparr>"

lemma send_recording:
  "send_upstream (Some (recording c)) message w = (x, w') \<Longrightarrow>
   snd (woUpstream w') = snd (woUpstream w) @ (if ucConnected c (fst (woUpstream w)) then [message] else [])"
  by (auto simp: send_upstream_def recording_def lift_upstream_def split: if_splits prod.splits)

text \<open>Auditing touches metrics and writer only.\<close>

lemma audit_step_upstream:
  assumes "audit_step renv (app_router opa fmt num mtr cfg client env) sess ctx d resp w = (x, w')"
  shows "woUpstream w' = woUpstream w" and "woEngine w' = woEngine w"
  using assms
  by (auto simp: audit_step_def audit_request_def lift_metrics_def bind_act_def ret_act_def
      split: if_splits prod.splits call.splits option.splits)

lemma evaluate_policy_state:
  assumes "evaluate_policy opa fmt cfg env sess ctx w = (y, w1)"
  shows "woUpstream w1 = woUpstream w \<and> (case y of
      Return (Some d, None) \<Rightarrow> (\<exists>r. verdict opa fmt cfg env sess ctx (woEngine w) = Ok r \<and> d = to_router_decision r)
    | Return (dd, err) \<Rightarrow> err \<noteq> None \<and> \<not> lets_pass (verdict opa fmt cfg env sess ctx (woEngine w))
    | Panicked p \<Rightarrow> \<not> lets_pass (verdict opa fmt cfg env sess ctx (woEngine w)))"
  using assms
  by (auto simp: evaluate_policy_def verdict_def Let_def split: prod.splits outcome.splits)

text \<open>What never changes in a running engine: its mode and whether it is enabled.\<close>

lemma updateAvgEvalTime_mode [simp]: "enMode (updateAvgEvalTime t e) = enMode e" "enEnabled (updateAvgEvalTime t e) = enEnabled e"
  by (simp_all add: updateAvgEvalTime_def Let_def)

lemma Evaluate_keeps: "enMode (snd (Evaluate opa fmt env i e)) = enMode e" "enEnabled (snd (Evaluate opa fmt env i e)) = enEnabled e"
  by (simp_all add: Evaluate_def Let_def split: prod.split outcome.split)

lemma engine_op_keeps:
  "enMode (apply_engine_op opa fmt op e) = enMode e" "enEnabled (apply_engine_op opa fmt op e) = enEnabled e"
  by (cases op; simp add: Evaluate_keeps LoadPolicies_def SetPolicyData_def compileWithData_def Let_def split: outcome.split)+

definition same_mode :: "'q Engine \<Rightarrow> 'q Engine \<Rightarrow> bool" where
  "same_mode e e' \<longleftrightarrow> enMode e' = enMode e \<and> enEnabled e' = enEnabled e"

lemma send_upstream_engine: "send_upstream client message w = (x, w') \<Longrightarrow> woEngine w' = woEngine w"
  by (auto simp: send_upstream_def lift_upstream_def split: option.splits if_splits prod.splits)

lemma evaluate_policy_engine: "evaluate_policy opa fmt cfg env sess ctx w = (x, w') \<Longrightarrow> same_mode (woEngine w) (woEngine w')"
  using Evaluate_keeps [of opa fmt "aeEval env" "policy_input cfg (aeInputNow env) sess ctx" "woEngine w"]
  by (auto simp: evaluate_policy_def same_mode_def Let_def split: prod.splits outcome.splits)


section \<open>Deciding and finishing\<close>

definition requests_decision :: "gojson \<Rightarrow> route_env \<Rightarrow> bytes \<Rightarrow> RequestContext option" where
  "requests_decision gj renv message =
     (case admitted gj renv message of
        Some (req, ctx) \<Rightarrow> if reqMethod req \<in> enforced_methods then Some ctx else None
      | None \<Rightarrow> None)"

type_synonym policy_result = "(RouterDecision option \<times> string option) call"

definition decide_message ::
    "gojson \<Rightarrow> 'q opa \<Rightarrow> (time \<Rightarrow> string outcome) \<Rightarrow> Config \<Rightarrow> app_env \<Rightarrow> route_env \<Rightarrow> Session \<Rightarrow> bytes \<Rightarrow>
     ('q, 'u, 'm) world \<Rightarrow> policy_result \<times> ('q, 'u, 'm) world" where
  "decide_message gj opa fmt cfg env renv sess message w =
     (case requests_decision gj renv message of
        Some ctx \<Rightarrow> evaluate_policy opa fmt cfg env sess ctx w
      | None \<Rightarrow> (Return (None, None), w))"

definition decided_router ::
    "'q opa \<Rightarrow> (time \<Rightarrow> string outcome) \<Rightarrow> (rat \<Rightarrow> string) \<Rightarrow> 'm meter \<Rightarrow> Config \<Rightarrow> 'u upstream_client option \<Rightarrow> app_env \<Rightarrow>
     policy_result \<Rightarrow> ('q, 'u, 'm) world Router" where
  "decided_router opa fmt num mtr cfg client env y =
     (app_router opa fmt num mtr cfg client env)\<lparr>roPolicyEvaluator := Some (\<lambda>sess ctx w. (y, w))\<rparr>"

definition finish_message ::
    "gojson \<Rightarrow> 'q opa \<Rightarrow> (time \<Rightarrow> string outcome) \<Rightarrow> (rat \<Rightarrow> string) \<Rightarrow> 'm meter \<Rightarrow> Config \<Rightarrow> 'u upstream_client option \<Rightarrow>
     app_env \<Rightarrow> route_env \<Rightarrow> Session \<Rightarrow> bytes \<Rightarrow> policy_result \<Rightarrow> (bytes option \<times> string option, ('q, 'u, 'm) world) act" where
  "finish_message gj opa fmt num mtr cfg client env renv sess message y =
     Route gj renv (decided_router opa fmt num mtr cfg client env y) sess message"

lemma decided_router_callbacks [simp]:
  "roPolicyEvaluator (decided_router opa fmt num mtr cfg client env y) = Some (\<lambda>sess ctx w. (y, w))"
  "roUpstreamSender (decided_router opa fmt num mtr cfg client env y) = Some (send_upstream client)"
  "roAuditLogger (decided_router opa fmt num mtr cfg client env y) = Some (audit_request num mtr cfg env)"
  by (simp_all add: decided_router_def)

lemma audit_step_decided: "audit_step renv (decided_router opa fmt num mtr cfg client env y) =
    audit_step renv (app_router opa fmt num mtr cfg client env)"
  by (simp add: audit_step_def fun_eq_iff)

lemma forward_decided: "forward gj (decided_router opa fmt num mtr cfg client env y) =
    forward gj (app_router opa fmt num mtr cfg client env)"
  by (simp add: forward_def fun_eq_iff)

lemma handler_of:
  "admitted gj renv message = Some (req, ctx) \<Longrightarrow>
   mcHandler (xConfig ctx) = HandlerFullEnforce \<longleftrightarrow> reqMethod req \<in> enforced_methods"
  using admitted_ctx(2) [of gj renv message req ctx] method_config_enforce by (simp add: enforced_methods_def)

lemma handleMessage_split:
  assumes "decide_message gj opa fmt cfg env renv sess message w = (y, w1)"
  shows "handleMessage gj opa fmt num mtr cfg client env renv sess message w =
    finish_message gj opa fmt num mtr cfg client env renv sess message y w1"
proof (cases "admitted gj renv message")
  case None
  then have "w1 = w" using assms by (simp add: decide_message_def requests_decision_def)
  then show ?thesis using Route_rejected [OF None] unfolding handleMessage_def finish_message_def by metis
next
  case (Some rc)
  obtain req ctx where adm: "admitted gj renv message = Some (req, ctx)" using Some by (cases rc) auto
  have "dispatch gj (reStamp renv) (app_router opa fmt num mtr cfg client env) sess ctx message w =
    dispatch gj (reStamp renv) (decided_router opa fmt num mtr cfg client env y) sess ctx message w1"
  proof (cases "reqMethod req \<in> enforced_methods")
    case True
    then have "evaluate_policy opa fmt cfg env sess ctx w = (y, w1)"
      using assms adm by (simp add: decide_message_def requests_decision_def)
    then show ?thesis using handler_of [OF adm] True
      by (auto simp: dispatch_def handleEnforce_def forward_decided bind_act_def split: call.split option.split prod.split)
  next
    case False
    then have "w1 = w" using assms adm by (simp add: decide_message_def requests_decision_def)
    then show ?thesis using handler_of [OF adm] False
      by (cases "mcHandler (xConfig ctx)") (simp_all add: dispatch_def handlePassthrough_def handleFilter_def)
  qed
  then show ?thesis
    by (simp add: handleMessage_def finish_message_def Route_admitted [OF adm] bind_act_def audit_step_decided)
qed

text \<open>A result that lets the request through.\<close>

fun result_passes :: "policy_result \<Rightarrow> bool" where
  "result_passes (Return (Some d, None)) \<longleftrightarrow> rdAllow d \<or> rdPolicyMode d \<noteq> ''enforce''"
| "result_passes _ \<longleftrightarrow> False"

lemma evaluate_policy_passes:
  assumes "evaluate_policy opa fmt cfg env sess ctx w = (y, w1)"
  shows "result_passes y \<longleftrightarrow> lets_pass (verdict opa fmt cfg env sess ctx (woEngine w))"
  using assms
  by (auto simp: evaluate_policy_def verdict_def to_router_decision_def Let_def split: prod.splits outcome.splits)

lemma finish_forwards:
  assumes "finish_message gj opa fmt num mtr cfg (Some (recording c)) env renv sess message y w = (x, w')"
  shows "snd (woUpstream w') = snd (woUpstream w) @
      (if ucConnected c (fst (woUpstream w)) \<and> admitted gj renv message \<noteq> None \<and>
          (requests_decision gj renv message \<noteq> None \<longrightarrow> result_passes y) then [message] else [])"
    and "woEngine w' = woEngine w"
proof -
  have "snd (woUpstream w') = snd (woUpstream w) @
      (if ucConnected c (fst (woUpstream w)) \<and> admitted gj renv message \<noteq> None \<and>
          (requests_decision gj renv message \<noteq> None \<longrightarrow> result_passes y) then [message] else []) \<and> woEngine w' = woEngine w"
  proof (cases "admitted gj renv message")
    case None
    then have "w' = w" using assms Route_rejected [OF None] unfolding finish_message_def by (metis prod.inject)
    with None show ?thesis by simp
  next
    case (Some rc)
    obtain req ctx where adm: "admitted gj renv message = Some (req, ctx)" using Some by (cases rc) auto
    let ?r = "decided_router opa fmt num mtr cfg (Some (recording c)) env y"
    obtain z w1 where disp: "dispatch gj (reStamp renv) ?r sess ctx message w = (z, w1)" by fastforce
    have audit: "woUpstream w' = woUpstream w1" "woEngine w' = woEngine w1"
      using assms disp audit_step_upstream
      by (auto simp: finish_message_def Route_admitted [OF adm] bind_act_def ret_act_def audit_step_decided
          split: prod.splits call.splits)
    obtain u w2 where send: "send_upstream (Some (recording c)) message w = (u, w2)" by fastforce
    have req: "requests_decision gj renv message \<noteq> None \<longleftrightarrow> mcHandler (xConfig ctx) = HandlerFullEnforce"
      using handler_of [OF adm] by (simp add: requests_decision_def adm)
    have "w1 = (if mcHandler (xConfig ctx) = HandlerFullEnforce \<longrightarrow> result_passes y then w2 else w)"
      using disp send
      by (cases "mcHandler (xConfig ctx)"; cases y rule: result_passes.cases)
        (auto simp: dispatch_def handlePassthrough_def handleFilter_def handleEnforce_def forward_def bind_act_def
          ret_act_def panic_act_def split: prod.splits call.splits option.splits if_splits)
    then show ?thesis using audit req adm send_recording [OF send] send_upstream_engine [OF send] by auto
  qed
  then show "snd (woUpstream w') = snd (woUpstream w) @
      (if ucConnected c (fst (woUpstream w)) \<and> admitted gj renv message \<noteq> None \<and>
          (requests_decision gj renv message \<noteq> None \<longrightarrow> result_passes y) then [message] else [])"
    "woEngine w' = woEngine w" by simp_all
qed

section \<open>The proxy over a whole run\<close>

text \<open>The method of a valid request.\<close>

definition method_of :: "gojson \<Rightarrow> route_env \<Rightarrow> bytes \<Rightarrow> string option" where
  "method_of gj renv message = map_option (\<lambda>(req, ctx). reqMethod req) (admitted gj renv message)"

text \<open>
  A message between its decision and its end, and the history of finished messages: what it was, what
  it asked the policy, the verdict and whether the upstream was connected when it was finished.
\<close>

record flying =
  fyEnv :: app_env
  fyRoute :: route_env
  fySess :: Session
  fyMessage :: bytes
  fyResult :: policy_result
  fyVerdict :: "EvaluationResult outcome option"

record finished =
  fdMessage :: bytes
  fdMethod :: "string option"
  fdVerdict :: "EvaluationResult outcome option"
  fdConnected :: bool

record ('q, 'u, 'm) proxy_sys =
  pyWorld :: "('q, 'u \<times> bytes list, 'm) world"
  pyFlying :: "flying list"
  pyFinished :: "finished list"

definition proxy_start :: "string \<Rightarrow> ('q, 'u, 'm) proxy_sys \<Rightarrow> bool" where
  "proxy_start mode s \<longleftrightarrow> enMode (woEngine (pyWorld s)) = mode \<and> enEnabled (woEngine (pyWorld s)) \<and>
     snd (woUpstream (pyWorld s)) = [] \<and> pyFlying s = [] \<and> pyFinished s = []"

definition asked ::
    "gojson \<Rightarrow> 'q opa \<Rightarrow> (time \<Rightarrow> string outcome) \<Rightarrow> Config \<Rightarrow> app_env \<Rightarrow> route_env \<Rightarrow> Session \<Rightarrow> bytes \<Rightarrow> 'q Engine \<Rightarrow>
     EvaluationResult outcome option" where
  "asked gj opa fmt cfg env renv sess message e =
     map_option (\<lambda>ctx. verdict opa fmt cfg env sess ctx e) (requests_decision gj renv message)"

text \<open>
  The steps: a message arrives and is decided; a decided message is finished, by forwarding or by
  refusing it, whatever the upstream client \<open>c\<close> does in this call; policies or policy data are
  reloaded and the cache is swept; the upstream client, writer and metrics change on their own.
\<close>

inductive proxy_step ::
    "gojson \<Rightarrow> 'q opa \<Rightarrow> (time \<Rightarrow> string outcome) \<Rightarrow> (rat \<Rightarrow> string) \<Rightarrow> 'm meter \<Rightarrow> Config \<Rightarrow>
     ('q, 'u, 'm) proxy_sys \<Rightarrow> ('q, 'u, 'm) proxy_sys \<Rightarrow> bool"
  for gj :: gojson and opa :: "'q opa" and fmt :: "time \<Rightarrow> string outcome" and num :: "rat \<Rightarrow> string"
    and mtr :: "'m meter" and cfg :: Config where
  px_decide: "decide_message gj opa fmt cfg env renv sess message (pyWorld s) = (y, w) \<Longrightarrow>
    proxy_step gj opa fmt num mtr cfg s (s\<lparr>pyWorld := w, pyFlying := pyFlying s @
      [\<lparr>fyEnv = env, fyRoute = renv, fySess = sess, fyMessage = message, fyResult = y,
        fyVerdict = asked gj opa fmt cfg env renv sess message (woEngine (pyWorld s))\<rparr>]\<rparr>)"
| px_finish: "n < length (pyFlying s) \<Longrightarrow> pyFlying s ! n = f \<Longrightarrow>
    finish_message gj opa fmt num mtr cfg (Some (recording c)) (fyEnv f) (fyRoute f) (fySess f) (fyMessage f) (fyResult f)
      (pyWorld s) = (x, w) \<Longrightarrow>
    proxy_step gj opa fmt num mtr cfg s (s\<lparr>pyWorld := w,
      pyFlying := take n (pyFlying s) @ drop (Suc n) (pyFlying s),
      pyFinished := pyFinished s @ [\<lparr>fdMessage = fyMessage f, fdMethod = method_of gj (fyRoute f) (fyMessage f),
        fdVerdict = fyVerdict f, fdConnected = ucConnected c (fst (woUpstream (pyWorld s)))\<rparr>]\<rparr>)"
| px_engine: "proxy_step gj opa fmt num mtr cfg s
    (s\<lparr>pyWorld := (pyWorld s)\<lparr>woEngine := apply_engine_op opa fmt op (woEngine (pyWorld s))\<rparr>\<rparr>)"
| px_upstream: "proxy_step gj opa fmt num mtr cfg s
    (s\<lparr>pyWorld := (pyWorld s)\<lparr>woUpstream := (u, snd (woUpstream (pyWorld s)))\<rparr>\<rparr>)"
| px_audit: "proxy_step gj opa fmt num mtr cfg s (s\<lparr>pyWorld := (pyWorld s)\<lparr>woWriter := wr, woMetrics := m\<rparr>\<rparr>)"

text \<open>A finished message that was let through.\<close>

definition passed :: "finished \<Rightarrow> bool" where
  "passed d \<longleftrightarrow> fdConnected d \<and> fdMethod d \<noteq> None \<and> (\<forall>v. fdVerdict d = Some v \<longrightarrow> lets_pass v)"

definition flying_ok :: "gojson \<Rightarrow> string \<Rightarrow> flying \<Rightarrow> bool" where
  "flying_ok gj mode f \<longleftrightarrow>
     (fyVerdict f \<noteq> None \<longleftrightarrow> requests_decision gj (fyRoute f) (fyMessage f) \<noteq> None) \<and>
     (\<forall>v. fyVerdict f = Some v \<longrightarrow> (result_passes (fyResult f) \<longleftrightarrow> lets_pass v) \<and>
       (\<forall>r. v = Ok r \<longrightarrow> erPolicyMode r = mode))"

definition finished_ok :: "string \<Rightarrow> finished \<Rightarrow> bool" where
  "finished_ok mode d \<longleftrightarrow> (\<forall>r. fdVerdict d = Some (Ok r) \<longrightarrow> erPolicyMode r = mode) \<and>
     (\<forall>m. fdMethod d = Some m \<longrightarrow> m \<in> enforced_methods \<longrightarrow> fdVerdict d \<noteq> None)"

definition proxy_inv :: "gojson \<Rightarrow> string \<Rightarrow> ('q, 'u, 'm) proxy_sys \<Rightarrow> bool" where
  "proxy_inv gj mode s \<longleftrightarrow> enMode (woEngine (pyWorld s)) = mode \<and> enEnabled (woEngine (pyWorld s)) \<and>
     (\<forall>f \<in> set (pyFlying s). flying_ok gj mode f) \<and>
     (\<forall>d \<in> set (pyFinished s). finished_ok mode d) \<and>
     snd (woUpstream (pyWorld s)) = map fdMessage (filter passed (pyFinished s))"

lemma decide_message_ok:
  assumes "decide_message gj opa fmt cfg env renv sess message w = (y, w1)" and "enMode (woEngine w) = mode"
  shows "woUpstream w1 = woUpstream w" and "same_mode (woEngine w) (woEngine w1)"
    and "flying_ok gj mode \<lparr>fyEnv = env, fyRoute = renv, fySess = sess, fyMessage = message, fyResult = y,
      fyVerdict = asked gj opa fmt cfg env renv sess message (woEngine w)\<rparr>"
proof -
  have "woUpstream w1 = woUpstream w \<and> same_mode (woEngine w) (woEngine w1) \<and>
    flying_ok gj mode \<lparr>fyEnv = env, fyRoute = renv, fySess = sess, fyMessage = message, fyResult = y,
      fyVerdict = asked gj opa fmt cfg env renv sess message (woEngine w)\<rparr>"
  proof (cases "requests_decision gj renv message")
    case None
    with assms show ?thesis by (auto simp: decide_message_def flying_ok_def asked_def same_mode_def)
  next
    case (Some ctx)
    then have ev: "evaluate_policy opa fmt cfg env sess ctx w = (y, w1)" using assms by (simp add: decide_message_def)
    have "erPolicyMode r = mode" if "verdict opa fmt cfg env sess ctx (woEngine w) = Ok r" for r
      using that assms(2) Evaluate_mode unfolding verdict_def by (metis prod.collapse)
    then show ?thesis
      using Some evaluate_policy_state [OF ev] evaluate_policy_engine [OF ev] evaluate_policy_passes [OF ev]
      by (auto simp: flying_ok_def asked_def)
  qed
  then show "woUpstream w1 = woUpstream w" "same_mode (woEngine w) (woEngine w1)"
    "flying_ok gj mode \<lparr>fyEnv = env, fyRoute = renv, fySess = sess, fyMessage = message, fyResult = y,
      fyVerdict = asked gj opa fmt cfg env renv sess message (woEngine w)\<rparr>" by simp_all
qed

lemma requests_decision_method:
  "requests_decision gj renv message \<noteq> None \<longleftrightarrow> (\<exists>m \<in> enforced_methods. method_of gj renv message = Some m)"
  "admitted gj renv message \<noteq> None \<longleftrightarrow> method_of gj renv message \<noteq> None"
  by (auto simp: requests_decision_def method_of_def split: option.splits if_splits)

lemma finish_ok:
  assumes "flying_ok gj mode f"
    and "finish_message gj opa fmt num mtr cfg (Some (recording c)) (fyEnv f) (fyRoute f) (fySess f) (fyMessage f) (fyResult f) w =
      (x, w')"
  defines "d \<equiv> \<lparr>fdMessage = fyMessage f, fdMethod = method_of gj (fyRoute f) (fyMessage f),
        fdVerdict = fyVerdict f, fdConnected = ucConnected c (fst (woUpstream w))\<rparr>"
  shows "snd (woUpstream w') = snd (woUpstream w) @ (if passed d then [fyMessage f] else [])" and "finished_ok mode d"
proof -
  have "(requests_decision gj (fyRoute f) (fyMessage f) \<noteq> None \<longrightarrow> result_passes (fyResult f)) \<longleftrightarrow>
      (\<forall>v. fyVerdict f = Some v \<longrightarrow> lets_pass v)"
    using assms(1) by (auto simp: flying_ok_def)
  then have "passed d \<longleftrightarrow> ucConnected c (fst (woUpstream w)) \<and> admitted gj (fyRoute f) (fyMessage f) \<noteq> None \<and>
      (requests_decision gj (fyRoute f) (fyMessage f) \<noteq> None \<longrightarrow> result_passes (fyResult f))"
    unfolding passed_def d_def requests_decision_method(2) by simp
  then show "snd (woUpstream w') = snd (woUpstream w) @ (if passed d then [fyMessage f] else [])"
    using finish_forwards(1) [OF assms(2)] by simp
  show "finished_ok mode d"
    using assms(1) requests_decision_method(1) [of gj "fyRoute f" "fyMessage f"]
    by (auto simp: finished_ok_def flying_ok_def d_def)
qed

lemma proxy_inv_step:
  assumes "proxy_inv gj mode s" and "proxy_step gj opa fmt num mtr cfg s t"
  shows "proxy_inv gj mode t"
  using assms(2,1)
proof (induction rule: proxy_step.induct)
  case (px_decide env renv sess message s y w)
  then show ?case using decide_message_ok [OF px_decide(1)] by (auto simp: proxy_inv_def same_mode_def)
next
  case (px_finish n s f c x w)
  have "f \<in> set (pyFlying s)" using px_finish(1,2) by auto
  then have ok: "flying_ok gj mode f" using px_finish.prems by (simp add: proxy_inv_def)
  have rest: "g \<in> set (pyFlying s)" if "g \<in> set (take n (pyFlying s)) \<union> set (drop (Suc n) (pyFlying s))" for g
    using that by (auto dest: in_set_takeD in_set_dropD)
  from px_finish.prems finish_ok [OF ok px_finish(3)] finish_forwards(2) [OF px_finish(3)] rest
  show ?case by (simp add: proxy_inv_def ball_Un)
next
  case (px_engine s op)
  then show ?case by (simp add: proxy_inv_def engine_op_keeps)
qed (simp_all add: proxy_inv_def)

interpretation mediated: safe_system "proxy_start mode" "proxy_step gj opa fmt num mtr cfg" "proxy_inv gj mode"
  by (unfold_locales, simp add: proxy_start_def proxy_inv_def, rule proxy_inv_step)

text \<open>What an observer of the upstream can rely on.\<close>

definition only_approved :: "('q, 'u, 'm) proxy_sys \<Rightarrow> bool" where
  "only_approved s \<longleftrightarrow> snd (woUpstream (pyWorld s)) = map fdMessage (filter passed (pyFinished s)) \<and>
    (\<forall>d \<in> set (pyFinished s). passed d \<longrightarrow> (\<exists>m. fdMethod d = Some m \<and>
      (m \<in> enforced_methods \<longrightarrow> (\<exists>r. fdVerdict d = Some (Ok r) \<and> pdAllow (erDecision r)))))"

lemma proxy_inv_mediates:
  assumes inv: "proxy_inv gj ''enforce'' s"
  shows "only_approved s"
proof -
  have "\<exists>m. fdMethod d = Some m \<and> (m \<in> enforced_methods \<longrightarrow> (\<exists>r. fdVerdict d = Some (Ok r) \<and> pdAllow (erDecision r)))"
    if d: "d \<in> set (pyFinished s)" "passed d" for d
  proof -
    obtain m where m: "fdMethod d = Some m" using d(2) by (auto simp: passed_def)
    have ok: "finished_ok ''enforce'' d" using inv d(1) by (simp add: proxy_inv_def)
    have "\<exists>r. fdVerdict d = Some (Ok r) \<and> pdAllow (erDecision r)" if enf: "m \<in> enforced_methods"
    proof -
      obtain v where v: "fdVerdict d = Some v" using ok m enf by (auto simp: finished_ok_def)
      then have "lets_pass v" using d(2) by (simp add: passed_def)
      then show ?thesis using ok v by (cases v) (auto simp: finished_ok_def)
    qed
    with m show ?thesis by blast
  qed
  with inv show ?thesis by (simp add: proxy_inv_def only_approved_def)
qed

text \<open>An approved call on a connected client.\<close>

lemma handleMessage_served:
  assumes "admitted gj (vxRoute env) message = Some (req, ctx)" and "reqMethod req \<in> enforced_methods"
    and "Evaluate opa fmt (aeEval (vxApp env)) (policy_input cfg (aeInputNow (vxApp env)) sess ctx) (woEngine w) = (Ok r, e)"
    and "pdAllow (erDecision r)" and "meter_ok names tally mtr (woMetrics w)"
    and "woUpstream w = Some c" and "Send_check unmarshal message c = Inr i" and "hashable i" and "\<not> clPendingMu c"
    and "pending_ok c" and "post_result (vxPost env) = None" and "list_all (keyed unmarshal) (vxEvents env)"
    and "vxWait env = WaitResponse"
  shows "\<exists>w' c' rc. app_handleMessage gj opa fmt num unmarshal mtr cfg env sess message w =
      (Return (case find (answer_to unmarshal i) (vxEvents env) of
          Some ev \<Rightarrow> Some (snd ev)
        | None \<Rightarrow> marshal_or_nil gj (ErrorResponse (reqID req) CodeUpstreamError timeout_error), None), w') \<and>
    woUpstream w' = Some c' \<and> map_of (clPending c') = (map_of (clPending c))(i := None) \<and>
    woWriter w' = map_option (Writer_Write rc) (woWriter w) \<and> arRequestID rc = xRequestID ctx \<and> arAllowed rc"
proof -
  let ?reply = "case find (answer_to unmarshal i) (vxEvents env) of
      Some ev \<Rightarrow> (Some (snd ev), None) | None \<Rightarrow> (None, Some timeout_error)"
  let ?client = "Some (client_sender unmarshal env)"
  let ?d = "to_router_decision r"
  have m: "reqMethod req \<in> {''tools/call'', ''resources/read'', ''resources/subscribe''}" using assms(2) by (simp add: enforced_methods_def)
  obtain c' where c': "Client_Send unmarshal (vxPost env) (vxEvents env) WaitResponse message c = Some (Return ?reply, c')"
    "map_of (clPending c') = (map_of (clPending c))(i := None)"
    using Client_Send_answers [OF assms(7-12)] by blast
  have "clConnected c" using assms(7) by (simp add: Send_check_def split: if_splits)
  then have send: "send_upstream ?client message (w\<lparr>woEngine := e\<rparr>) =
      (Return (fst ?reply, snd ?reply), w\<lparr>woEngine := e, woUpstream := Some c'\<rparr>)"
    using c'(1) assms(6,13)
    by (simp add: send_upstream_def client_sender_def lift_upstream_def upstream_connected_def IsConnected_def)
  note ev = evaluate_policy_Ok [OF assms(3)]
  have "rdAllow ?d \<or> rdPolicyMode ?d \<noteq> ''enforce''" using assms(4) by (simp add: to_router_decision_def)
  note run = handleEnforce_admitted [OF app_router_callbacks(1) ev this app_router_callbacks(2) send,
      unfolded dispatch_enforced(2) [OF assms(1) m]]
  have "meter_ok names tally mtr (woMetrics (w\<lparr>woEngine := e, woUpstream := Some c'\<rparr>))" using assms(5) by simp
  from handleMessage_enforced [OF assms(1) m run this]
  obtain m' where "app_handleMessage gj opa fmt num unmarshal mtr cfg env sess message w =
      (Return (case snd ?reply of None \<Rightarrow> fst ?reply
         | Some e \<Rightarrow> marshal_or_nil gj (ErrorResponse (reqID req) CodeUpstreamError e), None),
       w\<lparr>woEngine := e, woUpstream := Some c', woMetrics := m', woWriter := map_option
        (Writer_Write (audit_record num cfg (aeRecordNow (vxApp env)) sess ctx (Some ?d)
          (time_sub (reEnd (vxRoute env)) (reStart (vxRoute env))))) (woWriter w)\<rparr>)"
    unfolding app_handleMessage_def by auto
  then show ?thesis using c'(2) assms(4)
    by (intro exI [of _ "w\<lparr>woEngine := e, woUpstream := Some c', woMetrics := m', woWriter := map_option
        (Writer_Write (audit_record num cfg (aeRecordNow (vxApp env)) sess ctx (Some ?d)
          (time_sub (reEnd (vxRoute env)) (reStart (vxRoute env))))) (woWriter w)\<rparr>"] exI [of _ c']
        exI [of _ "audit_record num cfg (aeRecordNow (vxApp env)) sess ctx (Some ?d)
          (time_sub (reEnd (vxRoute env)) (reStart (vxRoute env)))"])
      (simp add: audit_record_fields recorded_def to_router_decision_def split: option.split)
qed


section \<open>Properties\<close>

text \<open>
  C1. Complete mediation: in every state of a run that starts in enforce mode with an enabled engine,
  the messages that were given to the upstream are, in order, exactly the finished messages that passed
  while the upstream was connected; each of them was a valid request, and if its method is a tool call,
  a resource read or a subscription, the engine had approved it. Messages are decided and finished in
  any interleaving, with reloads of the policies, sweeps of the cache and changes of the upstream client
  in between. What the upstream client does may differ from call to call; OPA and the JSON codec are
  arbitrary.
\<close>

theorem complete_mediation:
  assumes "reach (proxy_start ''enforce'') (proxy_step gj opa fmt num mtr cfg) s"
  shows "snd (woUpstream (pyWorld s)) = map fdMessage (filter passed (pyFinished s)) \<and>
    (\<forall>d \<in> set (pyFinished s). passed d \<longrightarrow> (\<exists>m. fdMethod d = Some m \<and>
      (m \<in> enforced_methods \<longrightarrow> (\<exists>r. fdVerdict d = Some (Ok r) \<and> pdAllow (erDecision r)))))"
  using assms by (rule mediated.reach_inv [THEN proxy_inv_mediates, unfolded only_approved_def])

definition demo_app_env :: app_env where
  "demo_app_env = \<lparr>aeInputNow = 0, aeEval = demo_env 0, aeRecordNow = 0\<rparr>"

definition demo_meter :: "demo_registry meter" where
  "demo_meter = \<lparr>mrProm = demo_prom, mrMetrics = metrics_of ''mcp_proxy''\<rparr>"

text \<open>A codec that reads every message as the call of the tool \<open>read\<close>.\<close>

definition demo_call_gj :: gojson where
  "demo_call_gj = demo_gj\<lparr>gjRequest := (\<lambda>data. gjRequest demo_gj ''tools/call'')\<rparr>"

lemma demo_call_admitted: "admitted demo_call_gj demo_route_env ''{}'' = Some (demo_req ''tools/call'', demo_call_ctx)"
proof -
  have "fst (Parse demo_call_gj (reRequest demo_route_env) ''{}'') = Inr (demo_req ''tools/call'')"
    by (simp add: Parse_Inr demo_call_gj_def demo_gj_def GetRequest_const demo_req_def methodPattern_def char_class_defs)
  moreover have "EncodeToString (replicate 4 0) = ''00000000''" by code_simp
  ultimately show ?thesis
    by (simp add: admitted_def NewRequestContextAt_def generateRequestID_def randomHex_def demo_route_env_def
        extractRequestDetails_def ParseToolCall_def ExtractMeta_def demo_req_def demo_call_gj_def demo_gj_def
        demo_ctx_def demo_call_ctx_def)
qed


text \<open>An engine that approves calls of the tool \<open>read\<close>, and an upstream that echoes.\<close>

definition demo_echo :: "unit upstream_client" where
  "demo_echo = \<lparr>ucConnected = (\<lambda>u. True), ucSend = (\<lambda>m u. (Return (Some m, None), u))\<rparr>"

definition demo_read_world :: "'u \<Rightarrow> (string, 'u, demo_registry) world" where
  "demo_read_world u = \<lparr>woEngine = demo_engine,
     woWriter = Some (NewWriter \<lparr>wcBufferSize = 10, wcFlushInterval = second\<rparr>), woUpstream = u,
     woMetrics = snd (NewMetrics demo_prom [] demo_registry0)\<rparr>"

lemma demo_engine_mode: "enMode demo_engine = ''enforce''"
  by code_simp

lemma demo_read_approved:
  "\<exists>r e. Evaluate demo_opa demo_fmt (aeEval demo_app_env) (policy_input zero_config (aeInputNow demo_app_env) sess demo_call_ctx)
      demo_engine = (Ok r, e) \<and> pdAllow (erDecision r)"
proof -
  let ?i = "policy_input zero_config (aeInputNow demo_app_env) sess demo_call_ctx"
  have "rqArguments (piRequest ?i) = None" "rqTool (piRequest ?i) = ''read''"
    by (simp_all add: policy_input_fields demo_call_ctx_def)
  moreover have "utf8_coerce ''read'' = ''read''" by (rule utf8_coerce_ascii) (simp add: ascii_def)
  ultimately show ?thesis
    using demo_evaluate_any [OF _ demo_engine_empty(1) demo_engine_find, of ?i "aeEval demo_app_env"] demo_engine_empty(3) by metis
qed

lemma demo_call_enforced: "reqMethod (demo_req ''tools/call'') \<in> enforced_methods"
  by (simp add: demo_req_def enforced_methods_def)

theorem complete_mediation_witness:
  "\<exists>s :: (string, unit, demo_registry) proxy_sys. reach (proxy_start ''enforce'') (proxy_step demo_call_gj demo_opa demo_fmt (\<lambda>_. []) demo_meter zero_config) s \<and>
     snd (woUpstream (pyWorld s)) = [''{}'']"
proof -
  let ?step = "proxy_step demo_call_gj demo_opa demo_fmt (\<lambda>_. []) demo_meter zero_config"
  let ?s0 = "\<lparr>pyWorld = demo_read_world ((), []), pyFlying = [], pyFinished = []\<rparr>"
  have r0: "reach (proxy_start ''enforce'') ?step ?s0"
    by (rule reach.reach_init) (simp add: proxy_start_def demo_read_world_def demo_engine_mode demo_engine_empty)
  obtain r e where ev: "Evaluate demo_opa demo_fmt (aeEval demo_app_env)
      (policy_input zero_config (aeInputNow demo_app_env) demo_sess demo_call_ctx) demo_engine = (Ok r, e)"
    "pdAllow (erDecision r)" using demo_read_approved by blast
  have req: "requests_decision demo_call_gj demo_route_env ''{}'' = Some demo_call_ctx"
    using demo_call_enforced by (simp add: requests_decision_def demo_call_admitted)
  have ask: "asked demo_call_gj demo_opa demo_fmt zero_config demo_app_env demo_route_env demo_sess ''{}''
      (woEngine (demo_read_world ((), []))) = Some (Ok r)"
    using ev(1) by (simp add: asked_def req verdict_def demo_read_world_def)
  obtain y w where dec: "decide_message demo_call_gj demo_opa demo_fmt zero_config demo_app_env demo_route_env demo_sess ''{}''
      (pyWorld ?s0) = (y, w)" by fastforce
  let ?f = "\<lparr>fyEnv = demo_app_env, fyRoute = demo_route_env, fySess = demo_sess, fyMessage = ''{}'', fyResult = y,
      fyVerdict = Some (Ok r)\<rparr>"
  let ?s1 = "?s0\<lparr>pyWorld := w, pyFlying := [?f]\<rparr>"
  have "?step ?s0 ?s1" using proxy_step.px_decide [OF dec, where num = "\<lambda>_. []" and mtr = demo_meter] by (simp add: ask)
  with r0 have r1: "reach (proxy_start ''enforce'') ?step ?s1" by (rule reach.reach_step)
  obtain x w' where fin: "finish_message demo_call_gj demo_opa demo_fmt (\<lambda>_. []) demo_meter zero_config (Some (recording demo_echo))
      demo_app_env demo_route_env demo_sess ''{}'' y w = (x, w')" by fastforce
  have "?step ?s1 (?s1\<lparr>pyWorld := w', pyFlying := take 0 (pyFlying ?s1) @ drop (Suc 0) (pyFlying ?s1),
      pyFinished := pyFinished ?s1 @ [\<lparr>fdMessage = fyMessage ?f, fdMethod = method_of demo_call_gj (fyRoute ?f) (fyMessage ?f),
        fdVerdict = fyVerdict ?f, fdConnected = ucConnected demo_echo (fst (woUpstream (pyWorld ?s1)))\<rparr>]\<rparr>)"
    by (rule proxy_step.px_finish [where x = x]) (use fin in simp_all)
  with r1 have r2: "reach (proxy_start ''enforce'') ?step (?s1\<lparr>pyWorld := w', pyFlying := [],
      pyFinished := [\<lparr>fdMessage = ''{}'', fdMethod = Some ''tools/call'', fdVerdict = Some (Ok r), fdConnected = True\<rparr>]\<rparr>)"
    using reach.reach_step by (fastforce simp: method_of_def demo_call_admitted demo_req_def demo_echo_def)
  show ?thesis by (rule exI, rule conjI, rule r2) (use complete_mediation [OF r2] ev(2) in \<open>simp add: passed_def\<close>)
qed

text \<open>
  C6. An approved call from the wire to the wire, through the proxy's own upstream client: when a client
  posts a tool call, a resource read or a subscription on its open session, the engine approves it, the
  upstream accepts the post and the call waits for its answer, then the data of the first upstream
  message with the request's ID is queued on that session's channel and on no other, or an upstream
  error under the request's ID when no such message came in time. The entry of the request is gone
  from the table of pending requests, and one audit record says that the request was allowed.
\<close>

theorem posted_call_served:
  assumes "haMessageHandler h = Some (app_handleMessage gj opa fmt num unmarshal mtr cfg env)"
    and "hqSessionID p \<noteq> []" and "map_of (mSessions m) (hqSessionID p) = Some k" and "k < length (mHeap m)"
    and "\<not> IsClosed (mHeap m ! k)" and "hqBody p = Inr body" and "length body \<le> body_limit" and "Valid body"
    and "admitted gj (vxRoute env) body = Some (req, ctx)" and "reqMethod req \<in> enforced_methods"
    and "Evaluate opa fmt (aeEval (vxApp env)) (policy_input cfg (aeInputNow (vxApp env))
      (snd (Session_IncrementRequestCount now (mHeap m ! k))) ctx) (woEngine w) = (Ok r, e)"
    and "pdAllow (erDecision r)" and "meter_ok names tally mtr (woMetrics w)"
    and "woUpstream w = Some c" and "Send_check unmarshal body c = Inr i" and "hashable i" and "\<not> clPendingMu c"
    and "pending_ok c" and "post_result (vxPost env) = None" and "list_all (keyed unmarshal) (vxEvents env)"
    and "vxWait env = WaitResponse"
  shows "\<exists>x m' w' c' rc. HandleMessage h now pick p (m, w) = (Return x, m', w') \<and> hpStatus x = Some 202 \<and>
    sMessageChan (mHeap m' ! k) = queued (case find (answer_to unmarshal i) (vxEvents env) of
          Some ev \<Rightarrow> Some (snd ev)
        | None \<Rightarrow> marshal_or_nil gj (ErrorResponse (reqID req) CodeUpstreamError timeout_error)) (sMessageChan (mHeap m ! k)) \<and>
    (\<forall>j. j \<noteq> k \<longrightarrow> mHeap m' ! j = mHeap m ! j) \<and>
    woUpstream w' = Some c' \<and> map_of (clPending c') = (map_of (clPending c))(i := None) \<and>
    woWriter w' = map_option (Writer_Write rc) (woWriter w) \<and> arRequestID rc = xRequestID ctx \<and> arAllowed rc"
proof -
  let ?resp = "case find (answer_to unmarshal i) (vxEvents env) of Some ev \<Rightarrow> Some (snd ev)
        | None \<Rightarrow> marshal_or_nil gj (ErrorResponse (reqID req) CodeUpstreamError timeout_error)"
  have body: "take body_limit body = body" using assms(7) by simp
  obtain w' c' rc where run: "app_handleMessage gj opa fmt num unmarshal mtr cfg env
      (snd (Session_IncrementRequestCount now (mHeap m ! k))) (take body_limit body) w = (Return (?resp, None), w')"
    "woUpstream w' = Some c'" "map_of (clPending c') = (map_of (clPending c))(i := None)"
    "woWriter w' = map_option (Writer_Write rc) (woWriter w)" "arRequestID rc = xRequestID ctx" "arAllowed rc"
    using handleMessage_served [OF assms(9-21)] unfolding body by blast
  have open_sess: "\<not> sDone (mHeap m ! k)" using assms(5) by (simp add: IsClosed_def)
  obtain m' where "HandleMessage h now pick p (m, w) = (Return (WriteHeader 202 new_response), m', w')"
    "sMessageChan (mHeap m' ! k) = queued ?resp (sMessageChan (mHeap m ! k))"
    "\<forall>j. j \<noteq> k \<longrightarrow> mHeap m' ! j = mHeap m ! j"
    using HandleMessage_answered [OF assms(2,3) open_sess assms(4,6) _ assms(1) run(1), of pick] assms(8) unfolding body by blast
  moreover have "hpStatus (WriteHeader 202 new_response) = Some 202" by (simp add: WriteHeader_def new_response_def)
  ultimately show ?thesis using run(2-6) by blast
qed

definition demo_call_env :: call_env where
  "demo_call_env = \<lparr>vxApp = demo_app_env, vxRoute = demo_route_env, vxPost = Status 202,
     vxEvents = [(''message'', ''1no''), (''message'', ''{ok'')], vxWait = WaitResponse\<rparr>"

lemma demo_metrics_ok: "meter_ok (\<lambda>s. set (dgNames s)) dgCounts demo_meter (snd (NewMetrics demo_prom [] demo_registry0))"
  using demo_prom_laws demo_ready by (simp add: meter_ok_def demo_meter_def)

theorem posted_call_served_witness:
  "\<exists>x m' w' rc. HandleMessage (sse_SetMessageHandler (app_handleMessage demo_call_gj demo_opa demo_fmt (\<lambda>_. []) demo_unmarshal
        demo_meter zero_config demo_call_env) (NewHandler (cgAgent zero_config))) 0 True demo_post
        (demo_manager, demo_read_world (Some demo_up)) = (Return x, m', w') \<and>
     hpStatus x = Some 202 \<and> sMessageChan (mHeap m' ! 0) = [''{ok''] \<and>
     woWriter w' = map_option (Writer_Write rc) (woWriter (demo_read_world (Some demo_up))) \<and> arAllowed rc"
proof -
  let ?h = "sse_SetMessageHandler (app_handleMessage demo_call_gj demo_opa demo_fmt (\<lambda>_. []) demo_unmarshal
        demo_meter zero_config demo_call_env) (NewHandler (cgAgent zero_config))"
  let ?w = "demo_read_world (Some demo_up)"
  let ?s = "snd (Session_IncrementRequestCount 0 (mHeap demo_manager ! 0))"
  have h: "haMessageHandler ?h = Some (app_handleMessage demo_call_gj demo_opa demo_fmt (\<lambda>_. []) demo_unmarshal
        demo_meter zero_config demo_call_env)" by (simp add: sse_SetMessageHandler_def)
  have sess: "hqSessionID demo_post \<noteq> []" "map_of (mSessions demo_manager) (hqSessionID demo_post) = Some 0"
    "0 < length (mHeap demo_manager)" "\<not> IsClosed (mHeap demo_manager ! 0)" "hqBody demo_post = Inr ''{}''"
    "length ''{}'' \<le> body_limit"
    by (simp_all add: demo_post_def demo_manager_def IsClosed_def NewSession_def body_limit_def)
  have valid: "Valid ''{}''" by code_simp
  obtain r e where ev: "Evaluate demo_opa demo_fmt (aeEval (vxApp demo_call_env))
      (policy_input zero_config (aeInputNow (vxApp demo_call_env)) ?s demo_call_ctx) (woEngine ?w) = (Ok r, e)"
    "pdAllow (erDecision r)"
    using demo_read_approved [of ?s] by (auto simp: demo_call_env_def demo_read_world_def)
  have adm: "admitted demo_call_gj (vxRoute demo_call_env) ''{}'' = Some (demo_req ''tools/call'', demo_call_ctx)"
    by (simp add: demo_call_env_def demo_call_admitted)
  have meter: "meter_ok (\<lambda>s. set (dgNames s)) dgCounts demo_meter (woMetrics ?w)" using demo_metrics_ok by (simp add: demo_read_world_def)
  have up: "woUpstream ?w = Some demo_up" "Send_check demo_unmarshal ''{}'' demo_up = Inr (GStr ''{'')" "hashable (GStr ''{'')"
    "\<not> clPendingMu demo_up" "pending_ok demo_up" "post_result (vxPost demo_call_env) = None"
    "list_all (keyed demo_unmarshal) (vxEvents demo_call_env)" "vxWait demo_call_env = WaitResponse"
    by (simp_all add: demo_read_world_def Send_check_def demo_unmarshal_def gindex_def pending_ok_def post_result_def
        demo_call_env_def keyed_def)
  have found: "find (answer_to demo_unmarshal (GStr ''{'')) (vxEvents demo_call_env) = Some (''message'', ''{ok'')"
    by (simp add: demo_call_env_def answer_to_def answers_def demo_unmarshal_def gindex_def)
  have chan: "sMessageChan (mHeap demo_manager ! 0) = []" by (simp add: demo_manager_def NewSession_def)
  from posted_call_served [OF h sess valid adm demo_call_enforced ev meter up, of True]
  show ?thesis unfolding found chan by (auto simp: queued_def MessageChan_cap_def)
qed

end
