(* ===== verification/Rego_Format.thy ===== *)
theory Rego_Format
  imports Go_Value Utf8 "HOL-Library.List_Lexorder" "HOL-Library.Char_ord"
begin

text \<open>
  Formatting as the policy compiler uses it: \<^verbatim>\<open>strconv.Quote\<close> (the verb \<^verbatim>\<open>%q\<close>),
  \<^verbatim>\<open>%f\<close>, \<^verbatim>\<open>%v\<close> on decoded JSON values, \<^verbatim>\<open>strings.TrimSpace\<close>, and the
  helpers \<^verbatim>\<open>quoteString\<close>, \<^verbatim>\<open>quoteSlice\<close>, \<^verbatim>\<open>joinStrings\<close>,
  \<^verbatim>\<open>toStringSlice\<close>, \<^verbatim>\<open>toInt\<close>, \<^verbatim>\<open>valueToRego\<close> and \<^verbatim>\<open>fieldPathToRego\<close> of
  \<^verbatim>\<open>src/internal/policy/compiler\<close>. Two tables of the Go runtime are parameters, collected in
  \<open>fe\<close>: which runes above 127 are printable, and the shortest decimal form of a
  \<^verbatim>\<open>float64\<close>.
\<close>

declare map_of_eq_Some_iff [simp del] Some_eq_map_of_iff [simp del]

record fmt_env =
  feIsPrint :: "nat \<Rightarrow> bool"
  feFloat :: "rat \<Rightarrow> string"

section \<open>Quoting\<close>

definition lower_hex :: "nat \<Rightarrow> char" where
  "lower_hex n = ''0123456789abcdef'' ! (n mod 16)"

fun hex_digits :: "nat \<Rightarrow> nat \<Rightarrow> string" where
  "hex_digits 0 n = []"
| "hex_digits (Suc k) n = hex_digits k (n div 16) @ [lower_hex n]"

definition is_print :: "fmt_env \<Rightarrow> nat \<Rightarrow> bool" where
  "is_print fe r = (if r < 128 then 32 \<le> r \<and> r < 127 else feIsPrint fe r)"

text \<open>
  One rune of a quoted string. \<open>bytes\<close> is its encoding in the source; a decoded rune is never a
  surrogate or out of range.
\<close>

definition escape_rune :: "fmt_env \<Rightarrow> nat \<Rightarrow> string \<Rightarrow> string" where
  "escape_rune fe r bytes =
     (if r = 34 \<or> r = 92 then [CHR 0x5C] @ bytes
      else if is_print fe r then bytes
      else if r = 7 then [CHR 0x5C, CHR ''a''] else if r = 8 then [CHR 0x5C, CHR ''b'']
      else if r = 12 then [CHR 0x5C, CHR ''f''] else if r = 10 then [CHR 0x5C, CHR ''n'']
      else if r = 13 then [CHR 0x5C, CHR ''r''] else if r = 9 then [CHR 0x5C, CHR ''t'']
      else if r = 11 then [CHR 0x5C, CHR ''v'']
      else if r < 32 \<or> r = 127 then [CHR 0x5C, CHR ''x''] @ hex_digits 2 r
      else if r < 65536 then [CHR 0x5C, CHR ''u''] @ hex_digits 4 r
      else [CHR 0x5C, CHR ''U''] @ hex_digits 8 r)"

function quote_body :: "fmt_env \<Rightarrow> string \<Rightarrow> string" where
  "quote_body fe s =
     (if s = [] then []
      else let (r, n) = DecodeRune s
           in (if n = 1 \<and> r = RuneError then [CHR 0x5C, CHR ''x''] @ hex_digits 2 (byte_of (hd s))
               else escape_rune fe r (take n s))
              @ quote_body fe (drop n s))"
  by pat_completeness auto
termination
  by (relation "measure (\<lambda>(_, s). length s)") (auto simp: DecodeRune_drop)

declare quote_body.simps [simp del]

definition quoteString :: "fmt_env \<Rightarrow> string \<Rightarrow> string" where
  "quoteString fe s = CHR 0x22 # quote_body fe s @ [CHR 0x22]"

definition joinStrings :: "string \<Rightarrow> string list \<Rightarrow> string" where
  "joinStrings sep items = Join items sep"

definition quoteSlice :: "fmt_env \<Rightarrow> string list \<Rightarrow> string" where
  "quoteSlice fe items = ''['' @ Join (map (quoteString fe) items) '', '' @ '']''"

section \<open>Numbers and values\<close>

text \<open>
  \<^verbatim>\<open>int64(f)\<close> of a float: truncation, and the smallest integer when the value is out of range
  (the behaviour of the 64-bit x86 conversion instruction).
\<close>

definition trunc_rat :: "rat \<Rightarrow> int" where
  "trunc_rat r = (if 0 \<le> r then \<lfloor>r\<rfloor> else \<lceil>r\<rceil>)"

definition float_to_int64 :: "rat \<Rightarrow> int" where
  "float_to_int64 r =
     (let t = trunc_rat r in if min_int64 \<le> t \<and> t \<le> max_int64 then t else min_int64)"

definition toInt :: "gval \<Rightarrow> string + int" where
  "toInt v =
     (case v of
        GInt i \<Rightarrow> Inr i
      | GInt64 i \<Rightarrow> Inr i
      | GNum r \<Rightarrow> Inr (float_to_int64 r)
      | _ \<Rightarrow> Inl (quoted ''limit'' @ '' must be a number''))"

fun strings_of :: "nat \<Rightarrow> gval list \<Rightarrow> string + string list" where
  "strings_of i [] = Inr []"
| "strings_of i (v # vs) =
     (case as_string v of
        None \<Rightarrow> Inl (''values['' @ itoa (int i) @ ''] must be a string'')
      | Some s \<Rightarrow> (case strings_of (Suc i) vs of Inl e \<Rightarrow> Inl e | Inr ss \<Rightarrow> Inr (s # ss)))"

definition toStringSlice :: "gval \<Rightarrow> string + string list" where
  "toStringSlice v =
     (case v of
        GStrs ss \<Rightarrow> Inr ss
      | GArr vs \<Rightarrow> strings_of 0 vs
      | _ \<Rightarrow> Inl ''values must be an array of strings'')"

text \<open>\<^verbatim>\<open>%f\<close>: six decimals, the exact value rounded to the nearest, ties to even.\<close>

definition round_half_even :: "rat \<Rightarrow> int" where
  "round_half_even x =
     (let f = \<lfloor>x\<rfloor>; d = x - of_int f
      in if d < 1 / 2 then f else if d > 1 / 2 then f + 1 else if even f then f else f + 1)"

definition pad_zeros :: "nat \<Rightarrow> string \<Rightarrow> string" where
  "pad_zeros n s = replicate (n - length s) (CHR ''0'') @ s"

definition fmt_f :: "rat \<Rightarrow> string" where
  "fmt_f r =
     (let m = nat (round_half_even (\<bar>r\<bar> * 1000000))
      in (if r < 0 then ''-'' else []) @ nat_digits (m div 1000000) @ ''.'' @
         pad_zeros 6 (nat_digits (m mod 1000000)))"

text \<open>\<^verbatim>\<open>%v\<close>; maps are printed with their keys sorted.\<close>

fun fmt_v :: "fmt_env \<Rightarrow> gval \<Rightarrow> string" where
  "fmt_v fe GNil = ''<nil>''"
| "fmt_v fe (GBool b) = (if b then ''true'' else ''false'')"
| "fmt_v fe (GNum r) = feFloat fe r"
| "fmt_v fe (GInt i) = itoa i"
| "fmt_v fe (GInt64 i) = itoa i"
| "fmt_v fe (GStr s) = s"
| "fmt_v fe (GArr vs) = ''['' @ Join (map (fmt_v fe) vs) '' '' @ '']''"
| "fmt_v fe (GStrs ss) = ''['' @ Join ss '' '' @ '']''"
| "fmt_v fe (GObj m) = ''map['' @
     Join (map (\<lambda>(k, s). k @ '':'' @ s) (sort_key fst (map (\<lambda>(k, v). (k, fmt_v fe v)) m))) '' '' @ '']''"

fun valueToRego :: "fmt_env \<Rightarrow> gval \<Rightarrow> string" where
  "valueToRego fe (GStr s) = quoteString fe s"
| "valueToRego fe (GBool b) = (if b then ''true'' else ''false'')"
| "valueToRego fe (GInt i) = itoa i"
| "valueToRego fe (GInt64 i) = itoa i"
| "valueToRego fe (GNum r) =
     (if r = of_int (float_to_int64 r) then itoa (float_to_int64 r) else fmt_f r)"
| "valueToRego fe (GArr vs) = ''['' @ Join (map (valueToRego fe) vs) '', '' @ '']''"
| "valueToRego fe GNil = ''null''"
| "valueToRego fe (GStrs ss) = fmt_v fe (GStrs ss)"
| "valueToRego fe (GObj m) = fmt_v fe (GObj m)"

definition fieldPathToRego :: "string \<Rightarrow> string" where
  "fieldPathToRego path = (if HasPrefix path ''input.'' then path else ''input.'' @ path)"

section \<open>Trimming\<close>

definition is_space :: "nat \<Rightarrow> bool" where
  "is_space r \<longleftrightarrow> r \<in> {9, 10, 11, 12, 13, 32, 133, 160, 5760, 8232, 8233, 8239, 8287, 12288} \<or>
     (8192 \<le> r \<and> r \<le> 8202)"

text \<open>A string as its runes, each with the bytes that encode it.\<close>

function rune_chunks :: "string \<Rightarrow> (nat \<times> string) list" where
  "rune_chunks s =
     (if s = [] then []
      else let (r, n) = DecodeRune s in (r, take n s) # rune_chunks (drop n s))"
  by pat_completeness auto
termination
  by (relation "measure length") (auto simp: DecodeRune_drop)

declare rune_chunks.simps [simp del]

definition TrimSpace :: "string \<Rightarrow> string" where
  "TrimSpace s =
     (let sp = (\<lambda>(r, b). is_space r)
      in concat (map snd (rev (dropWhile sp (rev (dropWhile sp (rune_chunks s)))))))"

definition indent_str :: "nat \<Rightarrow> string" where
  "indent_str n = concat (replicate n ''    '')"

section \<open>Reading a string literal\<close>

text \<open>
  How a reader of the generated text finds the end of a string literal: a backslash protects the
  next character, a line break is not allowed. The rest behind the closing quote is returned.
\<close>

fun skip_literal :: "string \<Rightarrow> string option" where
  "skip_literal [] = None"
| "skip_literal (c # s) =
     (if c = CHR 0x22 then Some s
      else if c = CHR 0x0A then None
      else if c = CHR 0x5C then (case s of [] \<Rightarrow> None | d # s' \<Rightarrow> if d = CHR 0x0A then None else skip_literal s')
      else skip_literal s)"

section \<open>Lemmas\<close>

lemma lower_hex_set: "lower_hex n \<in> set ''0123456789abcdef''"
  unfolding lower_hex_def by (rule nth_mem) simp

lemma hex_digits_set: "set (hex_digits k n) \<subseteq> set ''0123456789abcdef''"
proof (induction k arbitrary: n)
  case (Suc k)
  have "set (hex_digits (Suc k) n) = insert (lower_hex n) (set (hex_digits k (n div 16)))" by auto
  then show ?case using Suc [of "n div 16"] lower_hex_set [of n] by (simp only: insert_subset)
qed simp

definition plain_char :: "char \<Rightarrow> bool" where
  "plain_char c \<longleftrightarrow> c \<noteq> CHR 0x22 \<and> c \<noteq> CHR 0x0A \<and> c \<noteq> CHR 0x5C"

lemma skip_plain: "list_all plain_char p \<Longrightarrow> skip_literal (p @ s) = skip_literal s"
  by (induction p) (auto simp: plain_char_def)

lemma plain_hex: "list_all plain_char (hex_digits k n)"
  using hex_digits_set [of k n] by (auto simp: list_all_iff plain_char_def)

lemma plain_high: "\<forall>c \<in> set p. 128 \<le> byte_of c \<Longrightarrow> list_all plain_char p"
  by (auto simp: list_all_iff plain_char_def)

lemma skip_escape_plain: "d \<noteq> CHR 0x0A \<Longrightarrow> list_all plain_char p \<Longrightarrow>
    skip_literal (CHR 0x5C # d # p @ s) = skip_literal s"
  by (simp add: skip_plain)

lemma take_one: "s \<noteq> [] \<Longrightarrow> take 1 s = [hd s]"
  by (cases s) auto

lemma skip_escape_rune:
  assumes "DecodeRune s = (r, n)" and "s \<noteq> []"
  shows "skip_literal (escape_rune fe r (take n s) @ t) = skip_literal t"
proof -
  consider "r < 128" "n = 1" "byte_of (hd s) = r" | "128 \<le> r" "\<forall>c \<in> set (take n s). 128 \<le> byte_of c"
    using DecodeRune_multi [OF assms] by blast
  then show ?thesis
  proof cases
    case 1
    let ?c = "hd s"
    have b: "take n s = [?c]" using 1(2) assms(2) take_one by simp
    have ne: "byte_of ?c = r" by (rule 1(3))
    have lf: "?c = CHR 0x0A \<Longrightarrow> r = 10" and q: "?c = CHR 0x22 \<Longrightarrow> r = 34" and bs: "?c = CHR 0x5C \<Longrightarrow> r = 92"
      using ne by auto
    show ?thesis
      using 1(1) lf q bs
      by (auto simp: b escape_rune_def is_print_def skip_escape_plain plain_hex simp del: skip_literal.simps)
         (auto simp: plain_char_def skip_plain)
  next
    case 2
    then show ?thesis
      using plain_high [OF 2(2)]
      by (auto simp: escape_rune_def skip_plain skip_escape_plain plain_hex simp del: skip_literal.simps)
  qed
qed

lemma skip_quote_body: "skip_literal (quote_body fe s @ t) = skip_literal t"
proof (induction fe s rule: quote_body.induct)
  case (1 fe s)
  show ?case
  proof (cases "s = []")
    case True
    then show ?thesis by (simp add: quote_body.simps)
  next
    case False
    obtain r n where d: "DecodeRune s = (r, n)" by fastforce
    have IH: "skip_literal (quote_body fe (drop n s) @ t) = skip_literal t"
      using 1 False d by simp
    then show ?thesis
      by (subst quote_body.simps)
         (auto simp: False d skip_escape_plain plain_hex skip_escape_rune [OF d False] simp del: skip_literal.simps)
  qed
qed

end
