(* ===== verification/Policy_Validation.thy ===== *)
theory Policy_Validation
  imports Rego_Format
begin

text \<open>
  JSON policy definitions and their validation: \<^verbatim>\<open>schema.go\<close> and \<^verbatim>\<open>validation.go\<close> of
  \<^verbatim>\<open>src/internal/policy/compiler\<close>. Rule types, actions and operators are strings, as in the
  code; the conditions of a rule are a decoded JSON object.
\<close>

declare map_of_eq_Some_iff [simp del] Some_eq_map_of_iff [simp del]

section \<open>Schema\<close>

record RuleDefinition =
  ruID :: string
  ruType :: string
  ruPriority :: int
  ruEnabled :: "bool option"
  ruConditions :: gobj
  ruAction :: string
  ruMessage :: string

record DefaultsConfig =
  dfAction :: string
  dfRateLimit :: int

record PolicyDefinition =
  pfSchema :: string
  pfVersion :: string
  pfName :: string
  pfDescription :: string
  pfRules :: "RuleDefinition list"
  pfDefaults :: DefaultsConfig

definition IsEnabled :: "RuleDefinition \<Rightarrow> bool" where
  "IsEnabled r = (case ruEnabled r of None \<Rightarrow> True | Some b \<Rightarrow> b)"

definition operators :: "string list" where
  "operators = [''eq'', ''ne'', ''gt'', ''gte'', ''lt'', ''lte'', ''contains'', ''startswith'',
     ''endswith'', ''matches'', ''in'', ''not_in'']"

section \<open>Validation\<close>

text \<open>A check returns the message of the first error it meets.\<close>

type_synonym check = "string option"

definition prefix_check :: "string \<Rightarrow> check \<Rightarrow> check" where
  "prefix_check p c = map_option (\<lambda>e. p @ '': '' @ e) c"

definition and_then :: "check \<Rightarrow> check \<Rightarrow> check" where
  "and_then a b = (case a of Some e \<Rightarrow> Some e | None \<Rightarrow> b)"

definition isValidIdentifier :: "string \<Rightarrow> bool" where
  "isValidIdentifier s =
     (case s of
        [] \<Rightarrow> False
      | c # cs \<Rightarrow> is_alpha c \<and>
          list_all (\<lambda>x. is_alpha x \<or> is_digit x \<or> x = CHR ''_'' \<or> x = CHR ''-'') cs)"

definition isValidOperator :: "string \<Rightarrow> bool" where
  "isValidOperator op = (op \<in> set operators)"

definition validateCapabilityRule :: "RuleDefinition \<Rightarrow> check" where
  "validateCapabilityRule rule =
     (case map_of (ruConditions rule) ''tool'' of
        None \<Rightarrow> Some (''capability rule requires '' @ quoted ''tool'' @ '' condition'')
      | Some tool \<Rightarrow>
          if as_string tool = None then Some (quoted ''tool'' @ '' must be a string'')
          else (case map_of (ruConditions rule) ''requires_capability'' of
             None \<Rightarrow> Some (''capability rule requires '' @ quoted ''requires_capability'' @ '' condition'')
           | Some cap \<Rightarrow>
               if as_string cap = None then Some (quoted ''requires_capability'' @ '' must be a string'')
               else None))"

fun check_values :: "nat \<Rightarrow> gval list \<Rightarrow> check" where
  "check_values i [] = None"
| "check_values i (v # vs) =
     (if as_string v = None then Some (quoted (''values['' @ itoa (int i) @ '']'') @ '' must be a string'')
      else check_values (Suc i) vs)"

definition validateBlocklistRule :: "RuleDefinition \<Rightarrow> check" where
  "validateBlocklistRule rule =
     (case map_of (ruConditions rule) ''match_type'' of
        None \<Rightarrow> Some (''blocklist rule requires '' @ quoted ''match_type'' @ '' condition'')
      | Some matchType \<Rightarrow>
          (case as_string matchType of
             None \<Rightarrow> Some (quoted ''match_type'' @ '' must be a string'')
           | Some mt \<Rightarrow>
               if mt \<notin> {''tool'', ''agent'', ''did''}
               then Some (quoted ''match_type'' @ '' must be one of: tool, agent, did'')
               else (case map_of (ruConditions rule) ''values'' of
                  None \<Rightarrow> Some (''blocklist rule requires '' @ quoted ''values'' @ '' condition'')
                | Some vals \<Rightarrow>
                    (case as_array vals of
                       None \<Rightarrow> Some (quoted ''values'' @ '' must be an array'')
                     | Some vs \<Rightarrow>
                         if length vs = 0 then Some (quoted ''values'' @ '' must not be empty'')
                         else check_values 0 vs))))"

definition validateRateLimitRule :: "RuleDefinition \<Rightarrow> check" where
  "validateRateLimitRule rule =
     (let window_check =
        (case map_of (ruConditions rule) ''window'' of
           None \<Rightarrow> None
         | Some window \<Rightarrow>
             (case as_string window of
                None \<Rightarrow> Some (quoted ''window'' @ '' must be a string'')
              | Some w \<Rightarrow>
                  if w \<notin> {''session'', ''minute'', ''hour''}
                  then Some (quoted ''window'' @ '' must be one of: session, minute, hour'')
                  else None))
      in case map_of (ruConditions rule) ''limit'' of
           None \<Rightarrow> Some (''rate_limit rule requires '' @ quoted ''limit'' @ '' condition'')
         | Some (GNum l) \<Rightarrow>
             if l \<le> 0 then Some (quoted ''limit'' @ '' must be positive'') else window_check
         | Some (GInt l) \<Rightarrow>
             if l \<le> 0 then Some (quoted ''limit'' @ '' must be positive'') else window_check
         | Some _ \<Rightarrow> Some (quoted ''limit'' @ '' must be a number''))"

text \<open>The loop over the operands of \<^verbatim>\<open>all\<close> and \<^verbatim>\<open>any\<close>, with the check of one operand.\<close>

fun check_items :: "string \<Rightarrow> (gobj \<Rightarrow> check) \<Rightarrow> nat \<Rightarrow> gval list \<Rightarrow> check" where
  "check_items name f i [] = None"
| "check_items name f i (item # items) =
     (case as_object item of
        None \<Rightarrow> Some (quoted (name @ ''['' @ itoa (int i) @ '']'') @ '' must be an object'')
      | Some m \<Rightarrow>
          and_then (prefix_check (name @ ''['' @ itoa (int i) @ '']'') (f m))
            (check_items name f (Suc i) items))"

lemma check_items_cong [fundef_cong]:
  assumes "name = name'" and "i = i'" and "items = items'"
    and "\<And>m. GObj m \<in> set items' \<Longrightarrow> f m = f' m"
  shows "check_items name f i items = check_items name' f' i' items'"
proof -
  have "(\<And>m. GObj m \<in> set xs \<Longrightarrow> f m = f' m) \<Longrightarrow> check_items name f k xs = check_items name f' k xs" for xs k
  proof (induction xs arbitrary: k)
    case (Cons x xs)
    then show ?case by (auto simp: as_object_iff split: option.split)
  qed simp
  with assms show ?thesis by simp
qed

text \<open>The size of an object bounds that of every value in it.\<close>

lemma size_field: "map_of m k = Some v \<Longrightarrow> size v < size (GObj m)"
  by (induction m) (auto split: if_splits)

lemma size_item: "v \<in> set vs \<Longrightarrow> size v < size (GArr vs)"
  by (induction vs) auto

function validateExpression :: "gobj \<Rightarrow> check" where
  "validateExpression expr =
     and_then
       (case map_of expr ''all'' of
          None \<Rightarrow> None
        | Some allv \<Rightarrow>
            (case as_array allv of
               None \<Rightarrow> Some (quoted ''all'' @ '' must be an array'')
             | Some items \<Rightarrow> check_items ''all'' validateExpression 0 items))
     (and_then
       (case map_of expr ''any'' of
          None \<Rightarrow> None
        | Some anyv \<Rightarrow>
            (case as_array anyv of
               None \<Rightarrow> Some (quoted ''any'' @ '' must be an array'')
             | Some items \<Rightarrow> check_items ''any'' validateExpression 0 items))
     (and_then
       (case map_of expr ''not'' of
          None \<Rightarrow> None
        | Some notv \<Rightarrow>
            (case as_object notv of
               None \<Rightarrow> Some (quoted ''not'' @ '' must be an object'')
             | Some m \<Rightarrow> prefix_check ''not'' (validateExpression m)))
       (case map_of expr ''field'' of
          None \<Rightarrow> None
        | Some field \<Rightarrow>
            if as_string field = None then Some (quoted ''field'' @ '' must be a string'')
            else (case map_of expr ''op'' of
               None \<Rightarrow> None
             | Some op \<Rightarrow>
                 (case as_string op of
                    None \<Rightarrow> Some (quoted ''op'' @ '' must be a string'')
                  | Some opStr \<Rightarrow>
                      if \<not> isValidOperator opStr then Some (''invalid operator: '' @ opStr) else None)))))"
  by pat_completeness auto
termination
proof (relation "measure (\<lambda>expr. size (GObj expr))")
  fix expr :: gobj and allv items m
  assume "map_of expr ''all'' = Some allv" "as_array allv = Some items" "GObj m \<in> set items"
  then show "(m, expr) \<in> measure (\<lambda>expr. size (GObj expr))"
    using size_field [of expr "''all''" allv] size_item [of "GObj m" items] by (auto simp: as_iffs)
next
  fix expr :: gobj and anyv items m
  assume "map_of expr ''any'' = Some anyv" "as_array anyv = Some items" "GObj m \<in> set items"
  then show "(m, expr) \<in> measure (\<lambda>expr. size (GObj expr))"
    using size_field [of expr "''any''" anyv] size_item [of "GObj m" items] by (auto simp: as_iffs)
next
  fix expr :: gobj and notv m
  assume "map_of expr ''not'' = Some notv" "as_object notv = Some m"
  then show "(m, expr) \<in> measure (\<lambda>expr. size (GObj expr))"
    using size_field [of expr "''not''" notv] by (auto simp: as_iffs)
qed simp

declare validateExpression.simps [simp del]

definition validateCustomRule :: "RuleDefinition \<Rightarrow> check" where
  "validateCustomRule rule =
     (if length (ruConditions rule) = 0 then Some ''custom rule requires at least one condition''
      else validateExpression (ruConditions rule))"

text \<open>The IDs seen so far are threaded through the rules.\<close>

definition validateRule :: "RuleDefinition \<Rightarrow> string set \<Rightarrow> check \<times> string set" where
  "validateRule rule ids =
     (if ruID rule = [] then (Some ''id is required'', ids)
      else if \<not> isValidIdentifier (ruID rule)
      then (Some (''id must be a valid identifier: '' @ ruID rule), ids)
      else if ruID rule \<in> ids then (Some (''duplicate rule id: '' @ ruID rule), ids)
      else let ids' = insert (ruID rule) ids in
        (if ruType rule = [] then Some ''type is required''
         else if ruType rule = ''capability'' then validateCapabilityRule rule
         else if ruType rule = ''blocklist'' then validateBlocklistRule rule
         else if ruType rule = ''rate_limit'' then validateRateLimitRule rule
         else if ruType rule = ''custom'' then validateCustomRule rule
         else Some (''unknown rule type: '' @ ruType rule), ids'))"

fun validateRules :: "nat \<Rightarrow> RuleDefinition list \<Rightarrow> string set \<Rightarrow> check" where
  "validateRules i [] ids = None"
| "validateRules i (rule # rules) ids =
     (case validateRule rule ids of
        (Some e, ids') \<Rightarrow> Some (''rule['' @ itoa (int i) @ '']: '' @ e)
      | (None, ids') \<Rightarrow> validateRules (Suc i) rules ids')"

definition Validate :: "PolicyDefinition \<Rightarrow> check" where
  "Validate def =
     (if pfVersion def = [] then Some ''version is required''
      else if pfName def = [] then Some ''name is required''
      else if \<not> isValidIdentifier (pfName def)
      then Some (''name must be a valid identifier (alphanumeric and hyphens): '' @ pfName def)
      else if length (pfRules def) = 0 then Some ''at least one rule is required''
      else validateRules 0 (pfRules def) {})"

text \<open>
  Warnings about tools with several capability rules, in the order \<open>ord\<close> in which the map of tools
  is enumerated.
\<close>

fun group_tools :: "RuleDefinition list \<Rightarrow> (string, string list) gomap \<Rightarrow> (string, string list) gomap" where
  "group_tools [] m = m"
| "group_tools (rule # rules) m =
     group_tools rules
       (if ruType rule = ''capability'' then
          (case as_string (gindex (ruConditions rule) ''tool'') of
             Some tool \<Rightarrow>
               AList.update tool ((case map_of m tool of None \<Rightarrow> [] | Some ids \<Rightarrow> ids) @ [ruID rule]) m
           | None \<Rightarrow> m)
        else m)"

definition ValidateWarnings ::
    "((string \<times> string list) list \<Rightarrow> (string \<times> string list) list) \<Rightarrow> PolicyDefinition \<Rightarrow> string list" where
  "ValidateWarnings ord def =
     map (\<lambda>(tool, ids). ''multiple capability rules for tool '' @ quoted tool @ '': '' @ Join ids '', '')
       (filter (\<lambda>(tool, ids). length ids > 1) (ord (group_tools (pfRules def) [])))"

end
