(* ===== verification/Expression_Compiler.thy ===== *)
theory Expression_Compiler
  imports Policy_Validation
begin

text \<open>
  The expression compiler, \<^verbatim>\<open>src/internal/policy/compiler/expression.go\<close>: conditions of custom
  rules to lines of a Rego body. Where the code enumerates a Go map, the enumeration order is the
  argument \<open>ord\<close>. A type assertion without a check panics.
\<close>

declare map_of_eq_Some_iff [simp del] Some_eq_map_of_iff [simp del]

section \<open>Model\<close>

definition nl :: string where
  "nl = [CHR 0x0A]"

definition expr_keywords :: "string list" where
  "expr_keywords = [''all'', ''any'', ''not'', ''field'', ''op'', ''value'', ''field_equals'', ''field_in'',
     ''field_matches'', ''tool_in'', ''agent_in'']"

definition isFieldPath :: "string \<Rightarrow> bool" where
  "isFieldPath s =
     (if s \<in> set expr_keywords then False
      else case s of
        [] \<Rightarrow> False
      | c # cs \<Rightarrow> is_alpha c \<and>
          list_all (\<lambda>x. is_alpha x \<or> is_digit x \<or> x = CHR ''_'' \<or> x = CHR ''.'') cs)"

definition of_sum :: "string + 'a \<Rightarrow> 'a outcome" where
  "of_sum r = (case r of Inl e \<Rightarrow> Err e | Inr x \<Rightarrow> Ok x)"

definition compileFieldEquals :: "fmt_env \<Rightarrow> (gobj \<Rightarrow> gobj) \<Rightarrow> gval \<Rightarrow> nat \<Rightarrow> string outcome" where
  "compileFieldEquals fe ord fieldEquals indent =
     (case as_object fieldEquals of
        None \<Rightarrow> Err (quoted ''field_equals'' @ '' must be an object'')
      | Some feMap \<Rightarrow> Ok (Join
          (map (\<lambda>(path, v). indent_str indent @ fieldPathToRego path @ '' == '' @ valueToRego fe v) (ord feMap)) nl))"

fun field_in_lines :: "fmt_env \<Rightarrow> nat \<Rightarrow> gobj \<Rightarrow> string list outcome" where
  "field_in_lines fe indent [] = Ok []"
| "field_in_lines fe indent ((path, raw) # rest) =
     bind_outcome (of_sum (toStringSlice raw)) (\<lambda>vals.
     bind_outcome (field_in_lines fe indent rest) (\<lambda>ls.
       Ok ((indent_str indent @ fieldPathToRego path @ '' in '' @ quoteSlice fe vals) # ls)))"

definition compileFieldIn :: "fmt_env \<Rightarrow> (gobj \<Rightarrow> gobj) \<Rightarrow> gval \<Rightarrow> nat \<Rightarrow> string outcome" where
  "compileFieldIn fe ord fieldIn indent =
     (case as_object fieldIn of
        None \<Rightarrow> Err (quoted ''field_in'' @ '' must be an object'')
      | Some fiMap \<Rightarrow> bind_outcome (field_in_lines fe indent (ord fiMap)) (\<lambda>ls. Ok (Join ls nl)))"

fun field_match_lines :: "fmt_env \<Rightarrow> nat \<Rightarrow> gobj \<Rightarrow> string list outcome" where
  "field_match_lines fe indent [] = Ok []"
| "field_match_lines fe indent ((path, pattern) # rest) =
     (case as_string pattern of
        None \<Rightarrow> Err (''pattern for '' @ quoted path @ '' must be a string'')
      | Some p \<Rightarrow> bind_outcome (field_match_lines fe indent rest) (\<lambda>ls.
          Ok ((indent_str indent @ ''regex.match('' @ quoteString fe p @ '', '' @ fieldPathToRego path @ '')'') # ls)))"

definition compileFieldMatches :: "fmt_env \<Rightarrow> (gobj \<Rightarrow> gobj) \<Rightarrow> gval \<Rightarrow> nat \<Rightarrow> string outcome" where
  "compileFieldMatches fe ord fieldMatches indent =
     (case as_object fieldMatches of
        None \<Rightarrow> Err (quoted ''field_matches'' @ '' must be an object'')
      | Some fmMap \<Rightarrow> bind_outcome (field_match_lines fe indent (ord fmMap)) (\<lambda>ls. Ok (Join ls nl)))"

definition compileFieldOp :: "fmt_env \<Rightarrow> string \<Rightarrow> gobj \<Rightarrow> nat \<Rightarrow> string outcome" where
  "compileFieldOp fe field expr indent =
     (let ind = indent_str indent; path = fieldPathToRego field; val = gindex expr ''value''; v = valueToRego fe val
      in case as_string (gindex expr ''op'') of
           None \<Rightarrow> Err (quoted ''op'' @ '' is required for field operations'')
         | Some op \<Rightarrow>
             if op = ''eq'' then Ok (ind @ path @ '' == '' @ v)
             else if op = ''ne'' then Ok (ind @ path @ '' != '' @ v)
             else if op = ''gt'' then Ok (ind @ path @ '' > '' @ v)
             else if op = ''gte'' then Ok (ind @ path @ '' >= '' @ v)
             else if op = ''lt'' then Ok (ind @ path @ '' < '' @ v)
             else if op = ''lte'' then Ok (ind @ path @ '' <= '' @ v)
             else if op = ''contains'' then Ok (ind @ ''contains('' @ path @ '', '' @ v @ '')'')
             else if op = ''startswith'' then Ok (ind @ ''startswith('' @ path @ '', '' @ v @ '')'')
             else if op = ''endswith'' then Ok (ind @ ''endswith('' @ path @ '', '' @ v @ '')'')
             else if op = ''matches'' then Ok (ind @ ''regex.match('' @ v @ '', '' @ path @ '')'')
             else if op = ''in'' then bind_outcome (of_sum (toStringSlice val)) (\<lambda>vals.
               Ok (ind @ path @ '' in '' @ quoteSlice fe vals))
             else if op = ''not_in'' then bind_outcome (of_sum (toStringSlice val)) (\<lambda>vals.
               Ok (ind @ ''not '' @ path @ '' in '' @ quoteSlice fe vals))
             else Err (''unknown operator: '' @ op))"

definition compileDirectComparison :: "fmt_env \<Rightarrow> string \<Rightarrow> gval \<Rightarrow> nat \<Rightarrow> string outcome" where
  "compileDirectComparison fe path v indent =
     Ok (indent_str indent @ fieldPathToRego path @ '' == '' @ valueToRego fe v)"

text \<open>The conditions that have no operands of their own, in the order of the code's tests.\<close>

definition compile_leaf :: "fmt_env \<Rightarrow> (gobj \<Rightarrow> gobj) \<Rightarrow> gobj \<Rightarrow> nat \<Rightarrow> string outcome" where
  "compile_leaf fe ord expr indent =
     (case map_of expr ''tool_in'' of Some v \<Rightarrow> bind_outcome (of_sum (toStringSlice v)) (\<lambda>vals.
        Ok (indent_str indent @ ''input.request.tool in '' @ quoteSlice fe vals)) | None \<Rightarrow>
      case map_of expr ''agent_in'' of Some v \<Rightarrow> bind_outcome (of_sum (toStringSlice v)) (\<lambda>vals.
        Ok (indent_str indent @ ''input.agent.id in '' @ quoteSlice fe vals)) | None \<Rightarrow>
      case map_of expr ''field_equals'' of Some v \<Rightarrow> compileFieldEquals fe ord v indent | None \<Rightarrow>
      case map_of expr ''field_in'' of Some v \<Rightarrow> compileFieldIn fe ord v indent | None \<Rightarrow>
      case map_of expr ''field_matches'' of Some v \<Rightarrow> compileFieldMatches fe ord v indent | None \<Rightarrow>
      case map_of expr ''field'' of
        Some field \<Rightarrow> (case as_string field of
            Some f \<Rightarrow> compileFieldOp fe f expr indent
          | None \<Rightarrow> Panic ''interface conversion: field is not string'')
      | None \<Rightarrow>
          (case filter (\<lambda>(key, v). isFieldPath key) (ord expr) of
             (key, v) # _ \<Rightarrow> compileDirectComparison fe key v indent
           | [] \<Rightarrow> Err (''unknown expression type: '' @ fmt_v fe (GObj expr))))"

text \<open>The loop over the operands of \<^verbatim>\<open>all\<close> and \<^verbatim>\<open>any\<close>.\<close>

fun compile_items :: "string \<Rightarrow> (gobj \<Rightarrow> string outcome) \<Rightarrow> nat \<Rightarrow> gval list \<Rightarrow> string list outcome" where
  "compile_items name f i [] = Ok []"
| "compile_items name f i (item # items) =
     (case as_object item of
        None \<Rightarrow> Err (name @ ''['' @ itoa (int i) @ ''] must be an object'')
      | Some m \<Rightarrow>
          bind_outcome (wrap_err (name @ ''['' @ itoa (int i) @ '']'') (f m)) (\<lambda>c.
          bind_outcome (compile_items name f (Suc i) items) (\<lambda>cs. Ok (c # cs))))"

lemma compile_items_cong [fundef_cong]:
  assumes "name = name'" and "i = i'" and "items = items'"
    and "\<And>m. GObj m \<in> set items' \<Longrightarrow> f m = f' m"
  shows "compile_items name f i items = compile_items name' f' i' items'"
proof -
  have "(\<And>m. GObj m \<in> set xs \<Longrightarrow> f m = f' m) \<Longrightarrow> compile_items name f k xs = compile_items name f' k xs" for xs k
  proof (induction xs arbitrary: k)
    case (Cons x xs)
    then show ?case by (auto simp: as_object_iff split: option.split)
  qed simp
  with assms show ?thesis by simp
qed

text \<open>
  What \<^verbatim>\<open>compileAny\<close> returns for its compiled operands: one parenthesised line for each. The
  text it first assembles in a builder is thrown away.
\<close>

definition any_text :: "nat \<Rightarrow> string list \<Rightarrow> string" where
  "any_text indent conditions =
     (let ind = indent_str indent
      in ind @ ''# any: one of the following must be true'' @ nl @ ind @
         Join (map (\<lambda>c. ''('' @ TrimSpace c @ '')'') conditions) (nl @ ind))"

text \<open>
  \<^verbatim>\<open>compileExpr\<close> with \<^verbatim>\<open>compileAll\<close>, \<^verbatim>\<open>compileAny\<close> and \<^verbatim>\<open>compileNot\<close>: the
  first of the keys that is present decides, the others are ignored.
\<close>

function compileExpr :: "fmt_env \<Rightarrow> (gobj \<Rightarrow> gobj) \<Rightarrow> gobj \<Rightarrow> nat \<Rightarrow> string outcome" where
  "compileExpr fe ord expr indent =
     (case map_of expr ''all'' of
        Some allv \<Rightarrow>
          (case as_array allv of
             None \<Rightarrow> Err (quoted ''all'' @ '' must be an array'')
           | Some items \<Rightarrow>
               bind_outcome (compile_items ''all'' (\<lambda>m. compileExpr fe ord m indent) 0 items)
                 (\<lambda>cs. Ok (Join cs nl)))
      | None \<Rightarrow>
     (case map_of expr ''any'' of
        Some anyv \<Rightarrow>
          (case as_array anyv of
             None \<Rightarrow> Err (quoted ''any'' @ '' must be an array'')
           | Some items \<Rightarrow>
               bind_outcome (compile_items ''any'' (\<lambda>m. compileExpr fe ord m (indent + 1)) 0 items)
                 (\<lambda>cs. Ok (any_text indent cs)))
      | None \<Rightarrow>
     (case map_of expr ''not'' of
        Some notv \<Rightarrow>
          (case as_object notv of
             None \<Rightarrow> Err (quoted ''not'' @ '' must be an object'')
           | Some m \<Rightarrow>
               bind_outcome (compileExpr fe ord m 0)
                 (\<lambda>inner. Ok (indent_str indent @ ''not '' @ TrimSpace inner)))
      | None \<Rightarrow> compile_leaf fe ord expr indent)))"
  by pat_completeness auto
termination
proof (relation "measure (\<lambda>(fe, ord, expr, indent). size (GObj expr))")
  fix fe and ord :: "gobj \<Rightarrow> gobj" and expr :: gobj and indent :: nat and allv items m
  assume "map_of expr ''all'' = Some allv" "as_array allv = Some items" "GObj m \<in> set items"
  then show "((fe, ord, m, indent), fe, ord, expr, indent) \<in> measure (\<lambda>(fe, ord, expr, indent). size (GObj expr))"
    using size_field [of expr "''all''" allv] size_item [of "GObj m" items] by (auto simp: as_iffs)
next
  fix fe and ord :: "gobj \<Rightarrow> gobj" and expr :: gobj and indent :: nat and anyv items m
  assume "map_of expr ''any'' = Some anyv" "as_array anyv = Some items" "GObj m \<in> set items"
  then show "((fe, ord, m, indent + 1), fe, ord, expr, indent) \<in> measure (\<lambda>(fe, ord, expr, indent). size (GObj expr))"
    using size_field [of expr "''any''" anyv] size_item [of "GObj m" items] by (auto simp: as_iffs)
next
  fix fe and ord :: "gobj \<Rightarrow> gobj" and expr :: gobj and indent :: nat and notv m
  assume "map_of expr ''not'' = Some notv" "as_object notv = Some m"
  then show "((fe, ord, m, 0), fe, ord, expr, indent) \<in> measure (\<lambda>(fe, ord, expr, indent). size (GObj expr))"
    using size_field [of expr "''not''" notv] by (auto simp: as_iffs)
qed simp

declare compileExpr.simps [simp del]

definition CompileExpression :: "fmt_env \<Rightarrow> (gobj \<Rightarrow> gobj) \<Rightarrow> gobj \<Rightarrow> string outcome" where
  "CompileExpression fe ord expr = compileExpr fe ord expr 1"

section \<open>Lemmas\<close>

lemma no_panic_of_sum [simp]: "of_sum r \<noteq> Panic p"
  by (simp add: of_sum_def split: sum.split)

lemma bind_outcome_Panic: "bind_outcome r f = Panic p \<longleftrightarrow> r = Panic p \<or> (\<exists>x. r = Ok x \<and> f x = Panic p)"
  by (cases r) auto

lemma wrap_err_Panic [simp]: "wrap_err m r = Panic p \<longleftrightarrow> r = Panic p"
  by (cases r) auto

lemma compile_items_Panic:
  "compile_items name f i items = Panic p \<Longrightarrow> \<exists>m. GObj m \<in> set items \<and> f m = Panic p"
  by (induction name f i items rule: compile_items.induct)
    (auto simp: bind_outcome_Panic as_object_iff split: option.splits)

lemma field_lines_no_panic: "field_in_lines fe n m \<noteq> Panic p" "field_match_lines fe n m \<noteq> Panic p"
  by (induction fe n m rule: field_in_lines.induct)
    (auto simp: bind_outcome_Panic split: option.splits)

lemma compile_leaf_Panic:
  "compile_leaf fe ord expr indent = Panic p \<Longrightarrow> \<exists>v. map_of expr ''field'' = Some v \<and> as_string v = None"
  by (auto simp: compile_leaf_def bind_outcome_Panic compileFieldEquals_def compileFieldIn_def compileFieldMatches_def
      compileFieldOp_def compileDirectComparison_def field_lines_no_panic Let_def
      split: option.splits list.splits if_splits)

lemma and_then_None: "and_then a b = None \<longleftrightarrow> a = None \<and> b = None"
  by (simp add: and_then_def split: option.split)

lemma prefix_check_None [simp]: "prefix_check p c = None \<longleftrightarrow> c = None"
  by (simp add: prefix_check_def)

lemma check_items_None: "check_items name f i items = None \<Longrightarrow> GObj m \<in> set items \<Longrightarrow> f m = None"
  by (induction name f i items rule: check_items.induct) (auto simp: and_then_None split: option.splits)

text \<open>What validation guarantees of the parts of an expression.\<close>

lemma validateExpression_parts:
  assumes "validateExpression expr = None"
  shows "map_of expr ''all'' = Some (GArr items) \<Longrightarrow> GObj m \<in> set items \<Longrightarrow> validateExpression m = None"
    and "map_of expr ''any'' = Some (GArr items) \<Longrightarrow> GObj m \<in> set items \<Longrightarrow> validateExpression m = None"
    and "map_of expr ''not'' = Some (GObj m) \<Longrightarrow> validateExpression m = None"
    and "map_of expr ''field'' = Some v \<Longrightarrow> \<exists>s. v = GStr s"
  using assms [unfolded validateExpression.simps [of expr]]
  by (auto simp: and_then_None as_iffs dest: check_items_None split: option.splits if_splits)

lemma validated_no_panic: "validateExpression expr = None \<Longrightarrow> compileExpr fe ord expr indent \<noteq> Panic p"
proof (induction fe ord expr indent rule: compileExpr.induct)
  case (1 fe ord expr indent)
  note parts = validateExpression_parts [OF "1.prems"] and IH = "1.IH"
  show ?case
  proof
    assume panic: "compileExpr fe ord expr indent = Panic p"
    consider allv where "map_of expr ''all'' = Some allv"
      | anyv where "map_of expr ''all'' = None" "map_of expr ''any'' = Some anyv"
      | notv where "map_of expr ''all'' = None" "map_of expr ''any'' = None" "map_of expr ''not'' = Some notv"
      | "map_of expr ''all'' = None" "map_of expr ''any'' = None" "map_of expr ''not'' = None"
      by (cases "map_of expr ''all''"; cases "map_of expr ''any''"; cases "map_of expr ''not''") auto
    then show False
    proof cases
      case (1 allv)
      with panic obtain items m where a: "as_array allv = Some items" "GObj m \<in> set items" "compileExpr fe ord m indent = Panic p"
        by (subst (asm) compileExpr.simps)
          (auto simp: bind_outcome_Panic as_iffs dest!: compile_items_Panic split: option.splits)
      from IH(3) [OF 1 a(1,2)] a parts(1) 1 show False by (simp add: as_iffs)
    next
      case (2 anyv)
      with panic obtain items m where a: "as_array anyv = Some items" "GObj m \<in> set items" "compileExpr fe ord m (indent + 1) = Panic p"
        by (subst (asm) compileExpr.simps)
          (auto simp: bind_outcome_Panic as_iffs dest!: compile_items_Panic split: option.splits)
      from IH(2) [OF 2 a(1,2)] a parts(2) 2 show False by (simp add: as_iffs)
    next
      case (3 notv)
      with panic obtain m where a: "as_object notv = Some m" "compileExpr fe ord m 0 = Panic p"
        by (subst (asm) compileExpr.simps) (auto simp: bind_outcome_Panic as_iffs split: option.splits)
      from IH(1) [OF 3 a(1)] a parts(3) 3 show False by (simp add: as_iffs)
    next
      case 4
      with panic have "compile_leaf fe ord expr indent = Panic p" by (subst (asm) compileExpr.simps) simp
      from compile_leaf_Panic [OF this] parts(4) show False by fastforce
    qed
  qed
qed

end
