(* ===== verification/Policy_Compiler.thy ===== *)
theory Policy_Compiler
  imports Expression_Compiler
begin

text \<open>
  The policy compiler: \<^verbatim>\<open>templates.go\<close>, \<^verbatim>\<open>capability.go\<close>, \<^verbatim>\<open>blocklist.go\<close>,
  \<^verbatim>\<open>ratelimit.go\<close>, \<^verbatim>\<open>custom.go\<close> and \<^verbatim>\<open>compiler.go\<close> of
  \<^verbatim>\<open>src/internal/policy/compiler\<close>. The templates are written out as functions from their data to
  the text they produce; executing them on this data cannot fail. OPA's check of the generated
  module is the parameter \<open>opaCheck\<close>.
\<close>

declare map_of_eq_Some_iff [simp del] Some_eq_map_of_iff [simp del]

section \<open>Templates\<close>

record TemplateData =
  tdPolicyName :: string
  tdDescription :: string
  tdTimestamp :: string

record CapabilityData =
  cdRuleID :: string
  cdTool :: string
  cdCapability :: string
  cdMessage :: string

record BlocklistData =
  bdRuleID :: string
  bdMatchType :: string
  bdValues :: "string list"
  bdMessage :: string

record RateLimitData =
  rlRuleID :: string
  rlAgentID :: string
  rlAgentPattern :: string
  rlLimit :: int
  rlWindow :: string
  rlMessage :: string

record CustomData =
  cuRuleID :: string
  cuDescription :: string
  cuConditions :: string
  cuAction :: string
  cuMessage :: string

definition text_lines :: "string list \<Rightarrow> string" where
  "text_lines ls = concat (map (\<lambda>l. l @ nl) ls)"

definition RenderHeader :: "TemplateData \<Rightarrow> string" where
  "RenderHeader d = text_lines [
     ''# Auto-generated from JSON policy: '' @ tdPolicyName d,
     ''# Description: '' @ tdDescription d,
     ''# Generated at: '' @ tdTimestamp d,
     ''# DO NOT EDIT - changes will be overwritten'',
     [],
     ''package mcp.policy'',
     [],
     ''import rego.v1'']"

definition RenderCapability :: "fmt_env \<Rightarrow> CapabilityData \<Rightarrow> string" where
  "RenderCapability fe d = text_lines [
     [],
     ''# Rule: '' @ cdRuleID d @ '' (capability)'',
     ''# Tool: '' @ cdTool d @ '' requires capability: '' @ cdCapability d,
     [],
     cdRuleID d @ ''_check if {'',
     ''    input.request.tool == '' @ quoteString fe (cdTool d),
     ''    required := '' @ quoteString fe (cdCapability d),
     ''    some cap in input.agent.capabilities'',
     ''    capability_matches(cap, required)'',
     ''}'',
     [],
     ''violations[msg] if {'',
     ''    input.request.tool == '' @ quoteString fe (cdTool d),
     ''    not '' @ cdRuleID d @ ''_check'',
     ''    msg := '' @ quoteString fe (cdMessage d),
     ''}'']"

definition RenderBlocklist :: "fmt_env \<Rightarrow> BlocklistData \<Rightarrow> string" where
  "RenderBlocklist fe d = text_lines [
     [],
     ''# Rule: '' @ bdRuleID d @ '' (blocklist)'',
     ''# Blocks '' @ bdMatchType d @ '': '' @ ''['' @ Join (bdValues d) '' '' @ '']'',
     [],
     bdRuleID d @ ''_blocked if {'',
     ''    '' @ (if bdMatchType d = ''tool'' then ''input.request.tool''
              else if bdMatchType d = ''agent'' then ''input.agent.id'' else ''input.identity.did'') @
       '' in '' @ quoteSlice fe (bdValues d),
     ''}'',
     [],
     ''blocked if {'',
     ''    '' @ bdRuleID d @ ''_blocked'',
     ''}'',
     [],
     ''violations[msg] if {'',
     ''    '' @ bdRuleID d @ ''_blocked'',
     ''    msg := '' @ quoteString fe (bdMessage d),
     ''}'']"

definition RenderRateLimit :: "fmt_env \<Rightarrow> RateLimitData \<Rightarrow> string" where
  "RenderRateLimit fe d = text_lines [
     [],
     ''# Rule: '' @ rlRuleID d @ '' (rate_limit)'',
     ''# Limit: '' @ itoa (rlLimit d) @ '' per '' @ rlWindow d,
     [],
     rlRuleID d @ ''_exceeded if {'',
     ''    '' @ (if rlAgentPattern d \<noteq> [] then ''regex.match('' @ quoteString fe (rlAgentPattern d) @ '', input.agent.id)''
              else if rlAgentID d \<noteq> [] then ''input.agent.id == '' @ quoteString fe (rlAgentID d)
              else ''true''),
     ''    input.session.request_count >= '' @ itoa (rlLimit d),
     ''}'',
     [],
     ''rate_limit_ok if {'',
     ''    not '' @ rlRuleID d @ ''_exceeded'',
     ''}'',
     [],
     ''violations[msg] if {'',
     ''    '' @ rlRuleID d @ ''_exceeded'',
     ''    msg := '' @ quoteString fe (rlMessage d),
     ''}'']"

definition RenderCustom :: "fmt_env \<Rightarrow> CustomData \<Rightarrow> string" where
  "RenderCustom fe d = text_lines ([
     [],
     ''# Rule: '' @ cuRuleID d @ '' (custom)'',
     ''# '' @ cuDescription d,
     [],
     cuRuleID d @ ''_match if {'',
     cuConditions d,
     ''}'',
     [],
     []] @
     (if cuAction d = ''deny''
      then [''violations[msg] if {'',
            ''    '' @ cuRuleID d @ ''_match'',
            ''    msg := '' @ quoteString fe (cuMessage d),
            ''}'']
      else [''allow if {'',
            ''    '' @ cuRuleID d @ ''_match'',
            ''}'']) @
     [[]])"

section \<open>Rules\<close>

text \<open>
  \<^verbatim>\<open>sanitizeRuleID\<close> walks over runes and keeps only ASCII ones; walking over bytes keeps the
  same characters, since the bytes of a longer rune are not ASCII.
\<close>

fun keep_ident :: "string \<Rightarrow> string \<Rightarrow> string" where
  "keep_ident acc [] = acc"
| "keep_ident acc (c # cs) =
     keep_ident
       (if is_lower c \<or> is_upper c \<or> c = CHR ''_'' then acc @ [c]
        else if length acc > 0 \<and> is_digit c then acc @ [c]
        else acc) cs"

definition sanitizeRuleID :: "string \<Rightarrow> string" where
  "sanitizeRuleID i = keep_ident [] (ReplaceAll i ''-'' ''_'')"

text \<open>The map of values is enumerated in the order \<open>ord\<close>.\<close>

definition replacePlaceholders ::
    "((string \<times> string) list \<Rightarrow> (string \<times> string) list) \<Rightarrow> string \<Rightarrow> (string, string) gomap \<Rightarrow> string" where
  "replacePlaceholders ord template vals =
     fold (\<lambda>(key, v) result. ReplaceAll result (''%{'' @ key @ ''}'') v) (ord vals) template"

record enum_orders =
  eoPlaceholders :: "(string \<times> string) list \<Rightarrow> (string \<times> string) list"
  eoFields :: "gobj \<Rightarrow> gobj"
  eoTools :: "(string \<times> string list) list \<Rightarrow> (string \<times> string list) list"

definition capability_rule :: "fmt_env \<Rightarrow> enum_orders \<Rightarrow> RuleDefinition \<Rightarrow> string outcome" where
  "capability_rule fe eo rule =
     (case as_string (gindex (ruConditions rule) ''tool'') of
        None \<Rightarrow> Err (''rule '' @ ruID rule @ '': '' @ quoted ''tool'' @ '' must be a string'')
      | Some tool \<Rightarrow>
          (case as_string (gindex (ruConditions rule) ''requires_capability'') of
             None \<Rightarrow> Err (''rule '' @ ruID rule @ '': '' @ quoted ''requires_capability'' @ '' must be a string'')
           | Some capability \<Rightarrow>
               let message0 = (if ruMessage rule = []
                     then ''Agent '' @ quoted ''%s'' @ '' lacks capability '' @ quoted capability @
                          '' for tool '' @ quoted tool
                     else ruMessage rule);
                   message = replacePlaceholders (eoPlaceholders eo) message0
                     [(''agent.id'', [CHR 0x27] @ '' + input.agent.id + '' @ [CHR 0x27]), (''tool'', tool),
                      (''required'', capability)]
               in Ok (RenderCapability fe
                    \<lparr>cdRuleID = sanitizeRuleID (ruID rule), cdTool = tool, cdCapability = capability,
                     cdMessage = message\<rparr>)))"

definition blocklist_rule :: "fmt_env \<Rightarrow> RuleDefinition \<Rightarrow> string outcome" where
  "blocklist_rule fe rule =
     (case as_string (gindex (ruConditions rule) ''match_type'') of
        None \<Rightarrow> Err (''rule '' @ ruID rule @ '': '' @ quoted ''match_type'' @ '' must be a string'')
      | Some matchType \<Rightarrow>
          (case map_of (ruConditions rule) ''values'' of
             None \<Rightarrow> Err (''rule '' @ ruID rule @ '': '' @ quoted ''values'' @ '' is required'')
           | Some valuesRaw \<Rightarrow>
               bind_outcome (wrap_err (''rule '' @ ruID rule) (of_sum (toStringSlice valuesRaw))) (\<lambda>vals.
                 let message = (if ruMessage rule = [] then matchType @ '' is blocked by policy'' else ruMessage rule)
                 in Ok (RenderBlocklist fe
                      \<lparr>bdRuleID = sanitizeRuleID (ruID rule), bdMatchType = matchType, bdValues = vals,
                       bdMessage = message\<rparr>))))"

definition rate_limit_rule :: "fmt_env \<Rightarrow> RuleDefinition \<Rightarrow> string outcome" where
  "rate_limit_rule fe rule =
     bind_outcome (wrap_err (''rule '' @ ruID rule) (of_sum (toInt (gindex (ruConditions rule) ''limit'')))) (\<lambda>limit.
       let str = (\<lambda>k. case as_string (gindex (ruConditions rule) k) of Some s \<Rightarrow> s | None \<Rightarrow> []);
           window = (case as_string (gindex (ruConditions rule) ''window'') of Some w \<Rightarrow> w | None \<Rightarrow> ''session'');
           message = (if ruMessage rule = []
             then ''Rate limit exceeded ('' @ itoa limit @ '' per '' @ window @ '')'' else ruMessage rule)
       in Ok (RenderRateLimit fe
            \<lparr>rlRuleID = sanitizeRuleID (ruID rule), rlAgentID = str ''agent_id'',
             rlAgentPattern = str ''agent_pattern'', rlLimit = limit, rlWindow = window, rlMessage = message\<rparr>))"

definition custom_rule :: "fmt_env \<Rightarrow> enum_orders \<Rightarrow> RuleDefinition \<Rightarrow> string outcome" where
  "custom_rule fe eo rule =
     bind_outcome (wrap_err (''rule '' @ ruID rule) (CompileExpression fe (eoFields eo) (ruConditions rule))) (\<lambda>conditions.
       let message = (if ruMessage rule = []
             then ''Custom policy rule '' @ quoted (ruID rule) @ '' matched'' else ruMessage rule);
           description = (if length (ruConditions rule) > 0
             then ''Conditions: '' @ fmt_v fe (GObj (ruConditions rule)) else [])
       in Ok (RenderCustom fe
            \<lparr>cuRuleID = sanitizeRuleID (ruID rule), cuDescription = description, cuConditions = conditions,
             cuAction = ruAction rule, cuMessage = message\<rparr>))"

text \<open>The loop shared by the four compilers: disabled rules are skipped, the first error ends it.\<close>

fun compile_rules :: "(RuleDefinition \<Rightarrow> string outcome) \<Rightarrow> RuleDefinition list \<Rightarrow> string outcome" where
  "compile_rules f [] = Ok []"
| "compile_rules f (rule # rules) =
     (if \<not> IsEnabled rule then compile_rules f rules
      else bind_outcome (f rule) (\<lambda>rendered.
           bind_outcome (compile_rules f rules) (\<lambda>rest. Ok (rendered @ nl @ rest))))"

definition CompileCapabilityRules :: "fmt_env \<Rightarrow> enum_orders \<Rightarrow> RuleDefinition list \<Rightarrow> string outcome" where
  "CompileCapabilityRules fe eo rules = compile_rules (capability_rule fe eo) rules"

definition CompileBlocklistRules :: "fmt_env \<Rightarrow> RuleDefinition list \<Rightarrow> string outcome" where
  "CompileBlocklistRules fe rules = compile_rules (blocklist_rule fe) rules"

text \<open>The default limit is passed and not used.\<close>

definition CompileRateLimitRules :: "fmt_env \<Rightarrow> RuleDefinition list \<Rightarrow> int \<Rightarrow> string outcome" where
  "CompileRateLimitRules fe rules defaultLimit = compile_rules (rate_limit_rule fe) rules"

definition CompileCustomRules :: "fmt_env \<Rightarrow> enum_orders \<Rightarrow> RuleDefinition list \<Rightarrow> string outcome" where
  "CompileCustomRules fe eo rules = compile_rules (custom_rule fe eo) rules"

section \<open>The compiler\<close>

definition groupRulesByType :: "string \<Rightarrow> RuleDefinition list \<Rightarrow> RuleDefinition list" where
  "groupRulesByType ty rules = filter (\<lambda>r. IsEnabled r \<and> ruType r = ty) rules"

definition helperFunctions :: string where
  "helperFunctions = text_lines [
     [],
     ''# Helper: Check if granted capability matches required capability'',
     ''capability_matches(granted, required) if {'',
     ''    granted == required'',
     ''}'',
     [],
     ''capability_matches(granted, required) if {'',
     ''    granted == '' @ [CHR 0x22] @ ''*'' @ [CHR 0x22],
     ''}'',
     [],
     ''capability_matches(granted, required) if {'',
     ''    endswith(granted, '' @ [CHR 0x22] @ '':*'' @ [CHR 0x22] @ '')'',
     ''    prefix := trim_suffix(granted, '' @ [CHR 0x22] @ ''*'' @ [CHR 0x22] @ '')'',
     ''    startswith(required, prefix)'',
     ''}'',
     [],
     ''# Default rules (can be overridden by policy rules)'',
     ''default capability_check := true'',
     ''default blocked := false'',
     ''default rate_limit_ok := true'']"

record CompileResult =
  crModules :: "(string, string) gomap"
  crWarnings :: "string list"
  crSource :: PolicyDefinition

text \<open>A group without rules has no entry in the map of groups and adds nothing.\<close>

definition compile_group ::
    "string \<Rightarrow> string \<Rightarrow> (RuleDefinition list \<Rightarrow> string outcome) \<Rightarrow> RuleDefinition list \<Rightarrow> string outcome" where
  "compile_group ty what f rules =
     (case groupRulesByType ty rules of
        [] \<Rightarrow> Ok []
      | rs \<Rightarrow> wrap_err (''compile '' @ what @ '' rules'') (f rs))"

definition validateGeneratedRego ::
    "((string, string) gomap \<Rightarrow> string option) \<Rightarrow> (string, string) gomap \<Rightarrow> string option" where
  "validateGeneratedRego opaCheck modules =
     (case opaCheck modules of
        None \<Rightarrow> None
      | Some e \<Rightarrow>
          (case modules of
             [] \<Rightarrow> Some e
           | (name, content) # _ \<Rightarrow>
               Some (''module '' @ name @ '': '' @ e @ nl @ nl @ ''Generated Rego:'' @ nl @ content)))"

definition Compile ::
    "fmt_env \<Rightarrow> enum_orders \<Rightarrow> ((string, string) gomap \<Rightarrow> string option) \<Rightarrow> string \<Rightarrow> PolicyDefinition \<Rightarrow>
     CompileResult outcome" where
  "Compile fe eo opaCheck now def =
     (case Validate def of
        Some e \<Rightarrow> Err (''validation failed: '' @ e)
      | None \<Rightarrow>
          let header = RenderHeader \<lparr>tdPolicyName = pfName def, tdDescription = pfDescription def, tdTimestamp = now\<rparr>;
              defaultLimit = (if dfRateLimit (pfDefaults def) = 0 then 1000 else dfRateLimit (pfDefaults def));
              rules = pfRules def
          in
          bind_outcome (compile_group ''capability'' ''capability'' (CompileCapabilityRules fe eo) rules) (\<lambda>c1.
          bind_outcome (compile_group ''blocklist'' ''blocklist'' (CompileBlocklistRules fe) rules) (\<lambda>c2.
          bind_outcome (compile_group ''rate_limit'' ''rate limit''
            (\<lambda>rs. CompileRateLimitRules fe rs defaultLimit) rules) (\<lambda>c3.
          bind_outcome (compile_group ''custom'' ''custom'' (CompileCustomRules fe eo) rules) (\<lambda>c4.
            let modules = [(''json_'' @ sanitizeRuleID (pfName def) @ ''.rego'',
                            header @ helperFunctions @ c1 @ c2 @ c3 @ c4)]
            in case validateGeneratedRego opaCheck modules of
                 Some e \<Rightarrow> Err (''generated Rego validation failed: '' @ e)
               | None \<Rightarrow> Ok \<lparr>crModules = modules, crWarnings = ValidateWarnings (eoTools eo) def,
                            crSource = def\<rparr>)))))"

section \<open>Lemmas\<close>

lemma check_values_strings: "check_values i vs = None \<Longrightarrow> \<exists>ss. strings_of j vs = Inr ss"
  by (induction vs arbitrary: i j) (auto split: option.splits if_splits sum.splits, metis sum.distinct(1))

lemma capability_rule_ok: "validateCapabilityRule rule = None \<Longrightarrow> \<exists>t. capability_rule fe eo rule = Ok t"
  by (auto simp: validateCapabilityRule_def capability_rule_def gindex_def Let_def split: option.splits if_splits)

lemma blocklist_rule_ok: "validateBlocklistRule rule = None \<Longrightarrow> \<exists>t. blocklist_rule fe rule = Ok t"
proof -
  assume v: "validateBlocklistRule rule = None"
  then obtain mt vs where m: "map_of (ruConditions rule) ''match_type'' = Some (GStr mt)"
    "map_of (ruConditions rule) ''values'' = Some (GArr vs)" "check_values 0 vs = None"
    by (auto simp: validateBlocklistRule_def as_iffs split: option.splits if_splits)
  from check_values_strings [OF m(3), of 0] obtain ss where "strings_of 0 vs = Inr ss" by blast
  with m show ?thesis by (simp add: blocklist_rule_def gindex_def toStringSlice_def of_sum_def Let_def)
qed

lemma rate_limit_rule_ok: "validateRateLimitRule rule = None \<Longrightarrow> \<exists>t. rate_limit_rule fe rule = Ok t"
  by (auto simp: validateRateLimitRule_def rate_limit_rule_def gindex_def toInt_def of_sum_def Let_def
      split: option.splits gval.splits if_splits)

lemma compile_rules_ok: "\<forall>r \<in> set rules. \<exists>t. f r = Ok t \<Longrightarrow> \<exists>t. compile_rules f rules = Ok t"
  by (induction rules) auto

lemma compile_rules_no_panic: "\<forall>r \<in> set rules. f r \<noteq> Panic p \<Longrightarrow> compile_rules f rules \<noteq> Panic p"
  by (induction rules) (auto simp: bind_outcome_Panic)

lemma validateRules_each:
  "validateRules i rules ids = None \<Longrightarrow> r \<in> set rules \<Longrightarrow> \<exists>ids'. fst (validateRule r ids') = None"
proof (induction i rules ids rule: validateRules.induct)
  case (2 i rule rules ids)
  then show ?case
    by (cases "validateRule rule ids") (auto split: option.splits, metis fst_conv)
qed simp

lemma validateRule_kind:
  assumes "fst (validateRule rule ids) = None"
  shows "ruType rule = ''capability'' \<Longrightarrow> validateCapabilityRule rule = None"
    and "ruType rule = ''blocklist'' \<Longrightarrow> validateBlocklistRule rule = None"
    and "ruType rule = ''rate_limit'' \<Longrightarrow> validateRateLimitRule rule = None"
    and "ruType rule = ''custom'' \<Longrightarrow> validateExpression (ruConditions rule) = None"
    and "isValidIdentifier (ruID rule)"
  using assms by (auto simp: validateRule_def validateCustomRule_def Let_def split: if_splits)

lemma Validate_each: "Validate def = None \<Longrightarrow> r \<in> set (pfRules def) \<Longrightarrow> \<exists>ids. fst (validateRule r ids) = None"
  by (auto simp: Validate_def split: if_splits dest: validateRules_each)

lemma custom_rule_no_panic: "validateExpression (ruConditions rule) = None \<Longrightarrow> custom_rule fe eo rule \<noteq> Panic p"
  by (simp add: custom_rule_def bind_outcome_Panic CompileExpression_def validated_no_panic Let_def)

lemma compile_group_ok:
  "\<forall>r \<in> set rules. ruType r = ty \<longrightarrow> (\<exists>t. f r = Ok t) \<Longrightarrow> \<exists>t. compile_group ty what (compile_rules f) rules = Ok t"
  using compile_rules_ok [of "groupRulesByType ty rules" f]
  by (auto simp: compile_group_def groupRulesByType_def split: list.split)

lemma compile_group_no_panic:
  "\<forall>r \<in> set rules. ruType r = ty \<longrightarrow> f r \<noteq> Panic p \<Longrightarrow> compile_group ty what (compile_rules f) rules \<noteq> Panic p"
  using compile_rules_no_panic [of "groupRulesByType ty rules" f p]
  by (auto simp: compile_group_def groupRulesByType_def split: list.split)

text \<open>The groups of a validated policy.\<close>

lemma compile_rules_defs:
  "CompileCapabilityRules fe eo = compile_rules (capability_rule fe eo)"
  "CompileBlocklistRules fe = compile_rules (blocklist_rule fe)"
  "(\<lambda>rs. CompileRateLimitRules fe rs k) = compile_rules (rate_limit_rule fe)"
  "CompileCustomRules fe eo = compile_rules (custom_rule fe eo)"
  by (auto simp: CompileCapabilityRules_def CompileBlocklistRules_def CompileRateLimitRules_def CompileCustomRules_def)

lemma groups_compile:
  assumes "Validate def = None"
  shows "\<exists>t. compile_group ''capability'' ''capability'' (CompileCapabilityRules fe eo) (pfRules def) = Ok t"
    and "\<exists>t. compile_group ''blocklist'' ''blocklist'' (CompileBlocklistRules fe) (pfRules def) = Ok t"
    and "\<exists>t. compile_group ''rate_limit'' ''rate limit'' (\<lambda>rs. CompileRateLimitRules fe rs n) (pfRules def) = Ok t"
    and "compile_group ''custom'' ''custom'' (CompileCustomRules fe eo) (pfRules def) \<noteq> Panic p"
proof -
  have rules: "\<exists>ids. fst (validateRule r ids) = None" if "r \<in> set (pfRules def)" for r
    using Validate_each [OF assms that] .
  show "\<exists>t. compile_group ''capability'' ''capability'' (CompileCapabilityRules fe eo) (pfRules def) = Ok t"
    unfolding compile_rules_defs by (rule compile_group_ok) (meson rules capability_rule_ok validateRule_kind(1))
  show "\<exists>t. compile_group ''blocklist'' ''blocklist'' (CompileBlocklistRules fe) (pfRules def) = Ok t"
    unfolding compile_rules_defs by (rule compile_group_ok) (meson rules blocklist_rule_ok validateRule_kind(2))
  show "\<exists>t. compile_group ''rate_limit'' ''rate limit'' (\<lambda>rs. CompileRateLimitRules fe rs n) (pfRules def) = Ok t"
    unfolding compile_rules_defs by (rule compile_group_ok) (meson rules rate_limit_rule_ok validateRule_kind(3))
  show "compile_group ''custom'' ''custom'' (CompileCustomRules fe eo) (pfRules def) \<noteq> Panic p"
    unfolding compile_rules_defs by (rule compile_group_no_panic) (meson rules custom_rule_no_panic validateRule_kind(4))
qed

lemma Compile_no_panic: "Compile fe eo opaCheck now def \<noteq> Panic p"
proof (cases "Validate def")
  case None
  let ?n = "if dfRateLimit (pfDefaults def) = 0 then 1000 else dfRateLimit (pfDefaults def)"
  from groups_compile(1) [OF None, of fe eo] groups_compile(2) [OF None, of fe]
    groups_compile(3) [OF None, of fe ?n] groups_compile(4) [OF None, of fe eo p] None show ?thesis
    by (auto simp: Compile_def Let_def bind_outcome_Panic split: option.splits)
qed (simp add: Compile_def)

lemma validate_ignores_action:
  "validateCapabilityRule (rule\<lparr>ruAction := a\<rparr>) = validateCapabilityRule rule"
  "validateBlocklistRule (rule\<lparr>ruAction := a\<rparr>) = validateBlocklistRule rule"
  "validateRateLimitRule (rule\<lparr>ruAction := a\<rparr>) = validateRateLimitRule rule"
  "validateCustomRule (rule\<lparr>ruAction := a\<rparr>) = validateCustomRule rule"
  by (simp_all add: validateCapabilityRule_def validateBlocklistRule_def validateRateLimitRule_def
      validateCustomRule_def cong: option.case_cong if_cong)

text \<open>Identifiers.\<close>

definition ident_char :: "char \<Rightarrow> bool" where
  "ident_char c \<longleftrightarrow> is_alpha c \<or> is_digit c \<or> c = CHR ''_''"

definition rego_ident :: "string \<Rightarrow> bool" where
  "rego_ident s \<longleftrightarrow> s \<noteq> [] \<and> (is_alpha (hd s) \<or> hd s = CHR ''_'') \<and> list_all ident_char s"

lemma keep_ident_inv: "acc = [] \<or> rego_ident acc \<Longrightarrow> keep_ident acc s = [] \<or> rego_ident (keep_ident acc s)"
  by (induction acc s rule: keep_ident.induct)
    (auto simp: rego_ident_def ident_char_def is_alpha_def)

lemma keep_ident_nonempty: "acc \<noteq> [] \<Longrightarrow> keep_ident acc s \<noteq> []"
  by (induction acc s rule: keep_ident.induct) auto

lemma ReplaceAll_char: "ReplaceAll s [c] [d] = map (\<lambda>x. if x = c then d else x) s"
proof (induction s)
  case Nil
  then show ?case by (simp add: ReplaceAll.simps)
next
  case (Cons x s)
  then show ?case by (subst ReplaceAll.simps) auto
qed

lemma sanitize_ident: "isValidIdentifier i \<Longrightarrow> rego_ident (sanitizeRuleID i)"
proof (cases i)
  case (Cons c cs)
  assume "isValidIdentifier i"
  then have c: "is_alpha c" using Cons by (simp add: isValidIdentifier_def)
  then have "c \<noteq> CHR ''-''" by (auto simp: char_class_defs)
  then have "sanitizeRuleID i = keep_ident [c] (map (\<lambda>x. if x = CHR ''-'' then CHR ''_'' else x) cs)"
    using c Cons by (auto simp: sanitizeRuleID_def ReplaceAll_char is_alpha_def)
  moreover have "rego_ident [c]" using c by (simp add: rego_ident_def ident_char_def)
  ultimately show ?thesis using keep_ident_inv keep_ident_nonempty by (metis list.distinct(1))
qed (simp add: isValidIdentifier_def)

section \<open>Properties\<close>

text \<open>
  C33. String literals cannot be broken out of: for every value, however it is chosen, a reader of
  the generated text that starts behind the opening quote stops exactly at the closing quote that the
  compiler wrote, without meeting a line break. A value in a literal cannot add code to a policy.
\<close>

theorem literal_not_escapable:
  "\<exists>body. quoteString fe s = CHR 0x22 # body \<and> skip_literal (body @ rest) = Some rest"
  using skip_quote_body [of fe s "CHR 0x22 # rest"] by (simp add: quoteString_def)

text \<open>
  C34. Validation is sufficient: for a validated policy the capability, blocklist and rate limit
  rules always compile, and compilation as a whole never panics, in any order of the maps it
  enumerates. Errors after validation come only from custom expressions and from OPA.
\<close>

theorem validated_policy_compiles:
  assumes "Validate def = None"
  shows "(\<exists>t. compile_group ''capability'' ''capability'' (CompileCapabilityRules fe eo) (pfRules def) = Ok t) \<and>
    (\<exists>t. compile_group ''blocklist'' ''blocklist'' (CompileBlocklistRules fe) (pfRules def) = Ok t) \<and>
    (\<exists>t. compile_group ''rate_limit'' ''rate limit'' (\<lambda>rs. CompileRateLimitRules fe rs n) (pfRules def) = Ok t) \<and>
    Compile fe eo opaCheck now def \<noteq> Panic p"
  by (intro conjI groups_compile [OF assms] Compile_no_panic)

definition demo_fe :: fmt_env where
  "demo_fe = \<lparr>feIsPrint = (\<lambda>r. True), feFloat = fmt_f\<rparr>"

definition demo_eo :: enum_orders where
  "demo_eo = \<lparr>eoPlaceholders = id, eoFields = id, eoTools = id\<rparr>"

definition demo_rule :: "string \<Rightarrow> string \<Rightarrow> RuleDefinition" where
  "demo_rule i cap = \<lparr>ruID = i, ruType = ''capability'', ruPriority = 0, ruEnabled = None,
     ruConditions = [(''tool'', GStr ''write''), (''requires_capability'', GStr cap)], ruAction = ''deny'',
     ruMessage = []\<rparr>"

definition demo_policy :: "RuleDefinition list \<Rightarrow> PolicyDefinition" where
  "demo_policy rules = \<lparr>pfSchema = [], pfVersion = ''1.0'', pfName = ''demo'', pfDescription = [],
     pfRules = rules, pfDefaults = \<lparr>dfAction = [], dfRateLimit = 0\<rparr>\<rparr>"

lemma demo_policy_valid: "Validate (demo_policy [demo_rule ''a-b'' ''write:x'', demo_rule ''a_b'' ''read:y'']) = None"
  by (simp add: Validate_def demo_policy_def demo_rule_def validateRule_def validateCapabilityRule_def
      isValidIdentifier_def char_class_defs Let_def)

theorem validated_policy_compiles_witness:
  "Validate (demo_policy [demo_rule ''a-b'' ''write:x'', demo_rule ''a_b'' ''read:y'']) = None \<and>
   Compile demo_fe demo_eo (\<lambda>m. None) ''now''
     (demo_policy [demo_rule ''a-b'' ''write:x'', demo_rule ''a_b'' ''read:y'']) \<noteq> Panic []"
  using validated_policy_compiles [OF demo_policy_valid] demo_policy_valid by blast

text \<open>
  Rule IDs become Rego identifiers: for every ID that validation accepts, the generated name
  starts with a letter or an underscore and consists of letters, digits and underscores. The
  translation is not injective: IDs that differ only in hyphens and underscores are accepted side by
  side and share one name, so that their helper rules are merged.
\<close>

lemma rule_names:
  "(isValidIdentifier i \<longrightarrow> rego_ident (sanitizeRuleID i)) \<and>
   (isValidIdentifier (a @ ''-'' @ b) \<longrightarrow> isValidIdentifier (a @ ''_'' @ b) \<and>
      sanitizeRuleID (a @ ''-'' @ b) = sanitizeRuleID (a @ ''_'' @ b))"
proof -
  have "isValidIdentifier (a @ ''_'' @ b)" if "isValidIdentifier (a @ ''-'' @ b)"
    using that by (cases a) (auto simp: isValidIdentifier_def char_class_defs)
  then show ?thesis by (auto simp: sanitize_ident) (simp add: sanitizeRuleID_def ReplaceAll_char)
qed

text \<open>
  An action other than deny allows: validation does not look at the action of a rule, and a
  custom rule whose action is missing or misspelt compiles to the same text as one that allows the
  request.
\<close>

lemma unknown_action_allows:
  assumes "act \<noteq> ''deny''"
  shows "custom_rule fe eo (rule\<lparr>ruAction := act\<rparr>) = custom_rule fe eo (rule\<lparr>ruAction := ''allow''\<rparr>) \<and>
    validateRule (rule\<lparr>ruAction := act\<rparr>) ids = validateRule (rule\<lparr>ruAction := ''allow''\<rparr>) ids"
proof -
  have "RenderCustom fe (d\<lparr>cuAction := act\<rparr>) = RenderCustom fe (d\<lparr>cuAction := ''allow''\<rparr>)" for d
    using assms by (simp add: RenderCustom_def)
  from this [of "\<lparr>cuRuleID = i, cuDescription = ds, cuConditions = c, cuAction = [], cuMessage = m\<rparr>" for i ds c m]
  have "custom_rule fe eo (rule\<lparr>ruAction := act\<rparr>) = custom_rule fe eo (rule\<lparr>ruAction := ''allow''\<rparr>)"
    by (simp add: custom_rule_def Let_def)
  then show ?thesis by (simp add: validateRule_def validate_ignores_action)
qed

end
