(* ===== verification/Policy_Loader.thy ===== *)
theory Policy_Loader
  imports Engine Policy_Compiler
begin

text \<open>
  The policy loader, \<^verbatim>\<open>src/internal/policy/loader.go\<close>: reading Rego modules and JSON policies from
  their directories, the policy data, and initializing an engine with them. The file system and the
  decoding of JSON files are the parameter \<open>files\<close>; what the compiler depends on is \<open>compile_env\<close>.
\<close>

declare map_of_eq_Some_iff [simp del] Some_eq_map_of_iff [simp del]

section \<open>Paths\<close>

text \<open>Package \<^verbatim>\<open>path/filepath\<close> on Unix.\<close>

fun split_path :: "string \<Rightarrow> string \<Rightarrow> string list" where
  "split_path acc [] = [rev acc]"
| "split_path acc (c # cs) = (if c = CHR ''/'' then rev acc # split_path [] cs else split_path (c # acc) cs)"

definition clean_step :: "bool \<Rightarrow> string \<Rightarrow> string list \<Rightarrow> string list" where
  "clean_step rooted c st =
     (if c = [] \<or> c = ''.'' then st
      else if c = ''..'' then
        (if st = [] then if rooted then [] else [c] else if last st = ''..'' then st @ [c] else butlast st)
      else st @ [c])"

definition Clean :: "string \<Rightarrow> string" where
  "Clean path =
     (if path = [] then ''.''
      else let rooted = (hd path = CHR ''/'');
               out = Join (fold (clean_step rooted) (split_path [] path) []) ''/''
           in if rooted then CHR ''/'' # out else if out = [] then ''.'' else out)"

definition path_Join :: "string \<Rightarrow> string \<Rightarrow> string" where
  "path_Join a b = (if a = [] then if b = [] then [] else Clean b else Clean (a @ ''/'' @ b))"

definition Base :: "string \<Rightarrow> string" where
  "Base path =
     (if path = [] then ''.''
      else let stripped = rev (dropWhile (\<lambda>c. c = CHR ''/'') (rev path));
               name = rev (takeWhile (\<lambda>c. c \<noteq> CHR ''/'') (rev stripped))
           in if name = [] then ''/'' else name)"

section \<open>The loader\<close>

record files =
  fiGlob :: "string \<Rightarrow> string + string list"
  fiExists :: "string \<Rightarrow> bool"
  fiRead :: "string \<Rightarrow> string + bytes"
  fiPolicy :: "bytes \<Rightarrow> string + PolicyDefinition"
  fiData :: "bytes \<Rightarrow> string + gobj"

text \<open>Formatting, map orders, OPA's check of generated modules, and the time stamp of each compilation.\<close>

record compile_env =
  coFmt :: fmt_env
  coOrders :: enum_orders
  coCheck :: "(string, string) gomap \<Rightarrow> string option"
  coNow :: "string \<Rightarrow> string"

record Loader =
  ldPolicyDir :: string
  ldDataFile :: string
  ldJsonPolicyDir :: string

type_synonym LoaderOption = "Loader \<Rightarrow> Loader"

definition WithJSONPolicyDir :: "string \<Rightarrow> LoaderOption" where
  "WithJSONPolicyDir dir l = l\<lparr>ldJsonPolicyDir := dir\<rparr>"

definition NewLoader :: "string \<Rightarrow> string \<Rightarrow> LoaderOption list \<Rightarrow> Loader" where
  "NewLoader policyDir dataFile opts =
     fold (\<lambda>opt. opt) opts
       \<lparr>ldPolicyDir = policyDir, ldDataFile = dataFile, ldJsonPolicyDir = path_Join policyDir ''json''\<rparr>"

fun rego_loop :: "files \<Rightarrow> string list \<Rightarrow> (string, string) gomap \<Rightarrow> (string, string) gomap outcome" where
  "rego_loop fs [] modules = Ok modules"
| "rego_loop fs (file # rest) modules =
     (if HasSuffix file ''_test.rego'' then rego_loop fs rest modules
      else bind_outcome (wrap_err (''failed to read '' @ file) (of_sum (fiRead fs (Clean file)))) (\<lambda>content.
             rego_loop fs rest (AList.update (Base file) content modules)))"

definition loadRegoFiles :: "files \<Rightarrow> Loader \<Rightarrow> (string, string) gomap outcome" where
  "loadRegoFiles fs l =
     bind_outcome (wrap_err ''failed to glob policy files'' (of_sum (fiGlob fs (path_Join (ldPolicyDir l) ''*.rego'')))) (\<lambda>fnames.
       if length fnames = 0 then Err (''no .rego files found in '' @ ldPolicyDir l)
       else rego_loop fs fnames [])"

definition put_all :: "(string, string) gomap \<Rightarrow> (string, string) gomap \<Rightarrow> (string, string) gomap" where
  "put_all new modules = fold (\<lambda>(k, v). AList.update k v) new modules"

fun json_loop :: "files \<Rightarrow> compile_env \<Rightarrow> string list \<Rightarrow> (string, string) gomap \<Rightarrow> (string, string) gomap outcome" where
  "json_loop fs ce [] modules = Ok modules"
| "json_loop fs ce (file # rest) modules =
     bind_outcome (wrap_err (''failed to read '' @ file) (of_sum (fiRead fs (Clean file)))) (\<lambda>content.
     bind_outcome (wrap_err (''failed to parse '' @ file) (of_sum (fiPolicy fs content))) (\<lambda>def.
     bind_outcome (wrap_err (''failed to compile '' @ file)
         (Compile (coFmt ce) (coOrders ce) (coCheck ce) (coNow ce file) def)) (\<lambda>result.
       json_loop fs ce rest (put_all (crModules result) modules))))"

definition loadJSONPolicies :: "files \<Rightarrow> compile_env \<Rightarrow> Loader \<Rightarrow> (string, string) gomap outcome" where
  "loadJSONPolicies fs ce l =
     (if \<not> fiExists fs (ldJsonPolicyDir l) then Ok []
      else bind_outcome (wrap_err ''failed to glob JSON policy files''
               (of_sum (fiGlob fs (path_Join (ldJsonPolicyDir l) ''*.json'')))) (\<lambda>fnames.
             if length fnames = 0 then Ok [] else json_loop fs ce fnames []))"

text \<open>Rego modules take precedence; an error with the JSON policies is only logged.\<close>

definition add_missing :: "(string, string) gomap \<Rightarrow> (string, string) gomap \<Rightarrow> (string, string) gomap" where
  "add_missing new modules =
     fold (\<lambda>(k, v) m. if map_of m k \<noteq> None then m else AList.update k v m) new modules"

definition Loader_LoadPolicies :: "files \<Rightarrow> compile_env \<Rightarrow> Loader \<Rightarrow> (string, string) gomap outcome" where
  "Loader_LoadPolicies fs ce l =
     bind_outcome (loadRegoFiles fs l) (\<lambda>regoModules.
       let modules = put_all regoModules []
       in case loadJSONPolicies fs ce l of
            Err e \<Rightarrow> Ok modules
          | Ok jsonModules \<Rightarrow> Ok (add_missing jsonModules modules)
          | Panic p \<Rightarrow> Panic p)"

definition LoadPolicyData :: "files \<Rightarrow> Loader \<Rightarrow> gobj outcome" where
  "LoadPolicyData fs l =
     bind_outcome (wrap_err ''failed to read policy data'' (of_sum (fiRead fs (ldDataFile l)))) (\<lambda>content.
       wrap_err ''failed to parse policy data'' (of_sum (fiData fs content)))"

definition LoadAndInitialize ::
    "'q opa \<Rightarrow> files \<Rightarrow> compile_env \<Rightarrow> Loader \<Rightarrow> 'q Engine \<Rightarrow> unit outcome \<times> 'q Engine" where
  "LoadAndInitialize opa fs ce l e =
     (case wrap_err ''failed to load policies'' (Loader_LoadPolicies fs ce l) of
        Err err \<Rightarrow> (Err err, e)
      | Panic p \<Rightarrow> (Panic p, e)
      | Ok modules \<Rightarrow>
          (case wrap_err ''failed to load policy data'' (LoadPolicyData fs l) of
             Err err \<Rightarrow> (Err err, e)
           | Panic p \<Rightarrow> (Panic p, e)
           | Ok data \<Rightarrow>
               (case SetPolicyData opa data e of
                  (Ok _, e1) \<Rightarrow>
                    (case LoadPolicies opa modules e1 of
                       (r, e2) \<Rightarrow> (wrap_err ''failed to compile policies'' r, e2))
                | (r, e1) \<Rightarrow> (wrap_err ''failed to set policy data'' r, e1))))"

definition WatchForChanges :: "Loader \<Rightarrow> 'q Engine \<Rightarrow> unit outcome \<times> 'q Engine" where
  "WatchForChanges l e = (Ok (), e)"

definition ValidatePolicies :: "'q opa \<Rightarrow> files \<Rightarrow> compile_env \<Rightarrow> Loader \<Rightarrow> unit outcome" where
  "ValidatePolicies opa fs ce l =
     bind_outcome (Loader_LoadPolicies fs ce l) (\<lambda>modules.
       fst (LoadPolicies opa modules
         (NewEngine opa \<lparr>egMode = [], egEnabled = True,
            egCacheConfig = \<lparr>ccEnabled = False, ccTTL = 0, ccMaxEntries = 0\<rparr>\<rparr>)))"

text \<open>The typed policy data and its conversion to a document through JSON.\<close>

record PolicyData =
  ptToolCapabilities :: "(string, string) gomap option"
  ptRateLimits :: "(string, int) gomap option"
  ptBlockedTools :: "string slice"
  ptBlockedAgents :: "string slice"
  ptBlockedDIDs :: "string slice"
  ptAllowedDIDs :: "string slice"
  ptTrustedPublishers :: "string slice"
  ptIdentityRequiredTools :: "string slice"
  ptPIITools :: "string slice"
  ptBlockedModelsForPII :: "string slice"

definition json_map :: "('v \<Rightarrow> gval) \<Rightarrow> (string, 'v) gomap option \<Rightarrow> gval" where
  "json_map f m = (case m of None \<Rightarrow> GNil | Some kvs \<Rightarrow> GObj (map (\<lambda>(k, v). (k, f v)) kvs))"

definition slice_value :: "string slice \<Rightarrow> gval" where
  "slice_value s = (case s of None \<Rightarrow> GNil | Some ss \<Rightarrow> GStrs ss)"

definition PolicyDataFromStruct :: "PolicyData \<Rightarrow> gobj" where
  "PolicyDataFromStruct pd =
     json_object (map (\<lambda>(k, v). (k, json_value v))
       [(''tool_capabilities'', json_map GStr (ptToolCapabilities pd)),
        (''rate_limits'', json_map GInt (ptRateLimits pd)),
        (''blocked_tools'', slice_value (ptBlockedTools pd)),
        (''blocked_agents'', slice_value (ptBlockedAgents pd)),
        (''blocked_dids'', slice_value (ptBlockedDIDs pd)),
        (''allowed_dids'', slice_value (ptAllowedDIDs pd)),
        (''trusted_publishers'', slice_value (ptTrustedPublishers pd)),
        (''identity_required_tools'', slice_value (ptIdentityRequiredTools pd)),
        (''pii_tools'', slice_value (ptPIITools pd)),
        (''blocked_models_for_pii'', slice_value (ptBlockedModelsForPII pd))])"

definition LoadPolicyDataStruct :: "files \<Rightarrow> (bytes \<Rightarrow> string + PolicyData) \<Rightarrow> Loader \<Rightarrow> PolicyData outcome" where
  "LoadPolicyDataStruct fs decode l =
     bind_outcome (wrap_err ''failed to read policy data'' (of_sum (fiRead fs (ldDataFile l)))) (\<lambda>content.
       wrap_err ''failed to parse policy data'' (of_sum (decode content)))"

section \<open>Lemmas\<close>

lemma of_sum_Ok [simp]: "of_sum r = Ok x \<longleftrightarrow> r = Inr x"
  by (auto simp: of_sum_def split: sum.split)

lemma of_sum_simps [simp]: "of_sum (Inr x) = Ok x" "of_sum (Inl e) = Err e"
  by (simp_all add: of_sum_def)

lemma of_sum_Panic [simp]: "of_sum r \<noteq> Panic p"
  by (simp add: of_sum_def split: sum.split)

lemma put_all_lookup:
  "gm_wf new \<Longrightarrow> map_of (put_all new modules) k = (case map_of new k of Some v \<Rightarrow> Some v | None \<Rightarrow> map_of modules k)"
  unfolding put_all_def
proof (induction new arbitrary: modules)
  case (Cons x new)
  then have "map_of new (fst x) = None" by (simp add: map_of_eq_None_iff)
  then show ?case using Cons by (cases x; cases "k = fst x") (simp_all add: gm.lookup_put split: option.split)
qed simp

lemma add_missing_lookup:
  "map_of (add_missing new modules) k = (case map_of modules k of Some v \<Rightarrow> Some v | None \<Rightarrow> map_of new k)"
  unfolding add_missing_def
proof (induction new arbitrary: modules)
  case Nil
  then show ?case by (simp split: option.split)
next
  case (Cons x new)
  obtain a b where x: "x = (a, b)" by fastforce
  show ?case using Cons.IH by (cases "k = a"; cases "map_of modules a") (simp_all add: x gm.lookup_put split: option.split)
qed

lemma rego_loop_wf: "gm_wf modules \<Longrightarrow> rego_loop fs fnames modules = Ok r \<Longrightarrow> gm_wf r"
  by (induction fs fnames modules rule: rego_loop.induct)
    (auto simp: bind_outcome_Ok distinct_update split: if_splits)

text \<open>What the Rego loop collects: every file that is not a test, under its base name.\<close>

lemma rego_loop_lookup:
  assumes "rego_loop fs fnames modules = Ok r" and "distinct (map Base (filter (\<lambda>f. \<not> HasSuffix f ''_test.rego'') fnames))"
  shows "map_of r k = (case find (\<lambda>f. \<not> HasSuffix f ''_test.rego'' \<and> Base f = k) fnames of
      Some f \<Rightarrow> (case fiRead fs (Clean f) of Inr content \<Rightarrow> Some content | Inl e \<Rightarrow> None)
    | None \<Rightarrow> map_of modules k)"
  using assms
proof (induction fs fnames modules rule: rego_loop.induct)
  case (2 fs f0 rest modules)
  show ?case
  proof (cases "HasSuffix f0 ''_test.rego''")
    case True
    with 2 show ?thesis by simp
  next
    case False
    then obtain content where content: "fiRead fs (Clean f0) = Inr content"
      "rego_loop fs rest (AList.update (Base f0) content modules) = Ok r"
      using "2.prems"(1) by (auto simp: bind_outcome_Ok)
    have IH: "map_of r k = (case find (\<lambda>f. \<not> HasSuffix f ''_test.rego'' \<and> Base f = k) rest of
        Some f \<Rightarrow> (case fiRead fs (Clean f) of Inr content \<Rightarrow> Some content | Inl e \<Rightarrow> None)
      | None \<Rightarrow> map_of (AList.update (Base f0) content modules) k)"
      using "2.IH"(2) [OF False content(2)] "2.prems"(2) False by simp
    show ?thesis
    proof (cases "Base f0 = k")
      case True
      then have "find (\<lambda>f. \<not> HasSuffix f ''_test.rego'' \<and> Base f = k) rest = None"
        using "2.prems"(2) False by (auto simp: find_None_iff image_iff)
      with IH True False content(1) show ?thesis by (simp add: gm.lookup_put)
    next
      case other: False
      with IH False show ?thesis by (simp add: gm.lookup_put split: option.split)
    qed
  qed
qed simp

lemma rego_loop_reads:
  "rego_loop fs fnames modules = Ok r \<Longrightarrow> f \<in> set fnames \<Longrightarrow> \<not> HasSuffix f ''_test.rego'' \<Longrightarrow>
     \<exists>content. fiRead fs (Clean f) = Inr content"
  by (induction fs fnames modules rule: rego_loop.induct) (auto simp: bind_outcome_Ok split: if_splits)

lemma rego_files_wf: "loadRegoFiles fs l = Ok r \<Longrightarrow> gm_wf r"
  by (auto simp: loadRegoFiles_def bind_outcome_Ok dest: rego_loop_wf [of "[]", simplified] split: if_splits)

text \<open>A JSON file that cannot be read, decoded or compiled.\<close>

definition broken :: "files \<Rightarrow> compile_env \<Rightarrow> string \<Rightarrow> bool" where
  "broken fs ce f \<longleftrightarrow>
     (case fiRead fs (Clean f) of
        Inl e \<Rightarrow> True
      | Inr content \<Rightarrow>
          (case fiPolicy fs content of
             Inl e \<Rightarrow> True
           | Inr def \<Rightarrow> (\<exists>e. Compile (coFmt ce) (coOrders ce) (coCheck ce) (coNow ce f) def = Err e)))"

lemma json_loop_no_panic: "json_loop fs ce fnames modules \<noteq> Panic p"
  by (induction fs ce fnames modules rule: json_loop.induct)
    (auto simp: bind_outcome_Panic Compile_no_panic)

lemma json_loop_broken: "f \<in> set fnames \<Longrightarrow> broken fs ce f \<Longrightarrow> \<exists>e. json_loop fs ce fnames modules = Err e"
proof -
  assume "f \<in> set fnames" and "broken fs ce f"
  then have "json_loop fs ce fnames modules \<noteq> Ok r" for r
    by (induction fs ce fnames modules rule: json_loop.induct)
      (auto simp: bind_outcome_Ok broken_def split: sum.splits)
  then show ?thesis using json_loop_no_panic by (cases "json_loop fs ce fnames modules") blast+
qed

lemma Loader_LoadPolicies_rego:
  assumes "Loader_LoadPolicies fs ce l = Ok modules"
  obtains rego where "loadRegoFiles fs l = Ok rego" "gm_wf rego"
    "map_of modules k = (case map_of rego k of
       Some c \<Rightarrow> Some c
     | None \<Rightarrow> (case loadJSONPolicies fs ce l of Ok json \<Rightarrow> map_of json k | _ \<Rightarrow> None))"
proof -
  obtain rego where rego: "loadRegoFiles fs l = Ok rego" using assms by (auto simp: Loader_LoadPolicies_def bind_outcome_Ok)
  have wf: "gm_wf rego" using rego by (rule rego_files_wf)
  have "map_of modules k = (case map_of rego k of
       Some c \<Rightarrow> Some c
     | None \<Rightarrow> (case loadJSONPolicies fs ce l of Ok json \<Rightarrow> map_of json k | _ \<Rightarrow> None))"
    using assms rego by (cases "loadJSONPolicies fs ce l")
      (auto simp: Loader_LoadPolicies_def put_all_lookup [OF wf] add_missing_lookup split: option.split)
  then show thesis using that rego wf by blast
qed

lemma LoadAndInitialize_cases:
  obtains (unchanged) "snd (LoadAndInitialize opa fs ce l e) = e" "fst (LoadAndInitialize opa fs ce l e) \<noteq> Ok ()"
  | (data_only) data where "snd (LoadAndInitialize opa fs ce l e) = snd (SetPolicyData opa data e)"
      "fst (LoadAndInitialize opa fs ce l e) \<noteq> Ok ()"
  | (loaded) modules data where "Loader_LoadPolicies fs ce l = Ok modules" "LoadPolicyData fs l = Ok data"
      "LoadAndInitialize opa fs ce l e =
         (wrap_err ''failed to compile policies'' (fst (LoadPolicies opa modules (snd (SetPolicyData opa data e)))),
          snd (LoadPolicies opa modules (snd (SetPolicyData opa data e))))"
proof (cases "Loader_LoadPolicies fs ce l")
  case (Ok modules)
  show thesis
  proof (cases "LoadPolicyData fs l")
    case data: (Ok data)
    obtain r e1 where set: "SetPolicyData opa data e = (r, e1)" by fastforce
    show thesis
    proof (cases r)
      case (Ok u)
      with set data \<open>Loader_LoadPolicies fs ce l = Ok modules\<close>
      have "LoadAndInitialize opa fs ce l e =
          (wrap_err ''failed to compile policies'' (fst (LoadPolicies opa modules e1)), snd (LoadPolicies opa modules e1))"
        by (cases "LoadPolicies opa modules e1") (simp add: LoadAndInitialize_def)
      with set show thesis by (intro loaded [OF \<open>Loader_LoadPolicies fs ce l = Ok modules\<close> data]) simp
    qed (use set data Ok in \<open>auto intro!: data_only [of data] simp: LoadAndInitialize_def\<close>)
  qed (use Ok in \<open>auto intro!: unchanged simp: LoadAndInitialize_def\<close>)
qed (auto intro!: unchanged simp: LoadAndInitialize_def)

lemma engine_inv_load_empty:
  assumes "dc.holds_only (\<lambda>k d. False) (enCache e)"
  shows "engine_inv opa fmt (snd (LoadPolicies opa modules e))"
  using assms by (simp add: engine_inv_def LoadPolicies_def dc.holds_only_def)

lemma SetPolicyData_empties:
  "gm_wf (l2Cache (enCache e)) \<Longrightarrow> dc.holds_only (\<lambda>k d. False) (enCache (snd (SetPolicyData opa data e)))"
  using dc.holds_only_clear [of "enCache e"] by (simp add: SetPolicyData_def Let_def)

lemma LoadPolicies_Ok:
  "LoadPolicies opa modules e = (Ok (), e') \<Longrightarrow> enModules e' = modules \<and> enPolicyData e' = enPolicyData e \<and>
     opaPrepare opa ''data.mcp.policy.decision'' modules (if enPolicyData e = [] then None else Some (enPolicyData e)) =
       Ok (enQuery e')"
  by (auto simp: LoadPolicies_def compileWithData_def Let_def split: outcome.splits)

lemma SetPolicyData_data: "enPolicyData (snd (SetPolicyData opa data e)) = data"
  by (simp add: SetPolicyData_def compileWithData_def Let_def split: outcome.split)

lemma LoadAndInitialize_Ok:
  assumes "LoadAndInitialize opa fs ce l e = (Ok (), e')"
  shows "\<exists>modules data. Loader_LoadPolicies fs ce l = Ok modules \<and> LoadPolicyData fs l = Ok data \<and>
    enModules e' = modules \<and> enPolicyData e' = data \<and>
    opaPrepare opa ''data.mcp.policy.decision'' modules (if data = [] then None else Some data) = Ok (enQuery e')"
proof (cases opa fs ce l e rule: LoadAndInitialize_cases)
  case (loaded modules data)
  let ?e1 = "snd (SetPolicyData opa data e)"
  have "wrap_err ''failed to compile policies'' (fst (LoadPolicies opa modules ?e1)) = Ok ()"
    "snd (LoadPolicies opa modules ?e1) = e'" using loaded(3) assms by simp_all
  then have "LoadPolicies opa modules ?e1 = (Ok (), e')" by (simp add: prod_eq_iff)
  from LoadPolicies_Ok [OF this] loaded(1,2) show ?thesis unfolding SetPolicyData_data by blast
qed (use assms in simp_all)

section \<open>Properties\<close>


text \<open>
  One broken JSON policy disables all of them: when a file of the JSON policy directory cannot
  be read, decoded or compiled, loading still succeeds, with the Rego modules only. The rules of the
  other JSON policies are not enforced, and nothing but a log line says so.
\<close>

lemma broken_json_policy_drops_all:
  assumes "loadRegoFiles fs l = Ok rego" and "fiExists fs (ldJsonPolicyDir l)"
    and "fiGlob fs (path_Join (ldJsonPolicyDir l) ''*.json'') = Inr fnames"
    and "f \<in> set fnames" and "broken fs ce f"
  shows "\<exists>modules. Loader_LoadPolicies fs ce l = Ok modules \<and> map_of modules = map_of rego"
proof -
  obtain e where "json_loop fs ce fnames [] = Err e" using json_loop_broken [OF assms(4,5)] by blast
  then have "loadJSONPolicies fs ce l = Err e"
    using assms(2-4) by (auto simp: loadJSONPolicies_def)
  then have "Loader_LoadPolicies fs ce l = Ok (put_all rego [])"
    using assms(1) by (simp add: Loader_LoadPolicies_def)
  moreover have "map_of (put_all rego []) = map_of rego"
    by (rule ext) (simp add: put_all_lookup [OF rego_files_wf [OF assms(1)]] split: option.split)
  ultimately show ?thesis by blast
qed


text \<open>A directory with one Rego file and a JSON policy that does not parse.\<close>

definition demo_files :: files where
  "demo_files =
     \<lparr>fiGlob = (\<lambda>p. if p = ''policies/*.rego'' then Inr [''policies/base.rego''] else Inr [''policies/json/a.json'']),
      fiExists = (\<lambda>d. True), fiRead = (\<lambda>f. Inr f), fiPolicy = (\<lambda>b. Inl ''unexpected end of JSON input''),
      fiData = (\<lambda>b. Inr [])\<rparr>"

definition demo_ce :: compile_env where
  "demo_ce = \<lparr>coFmt = demo_fe, coOrders = demo_eo, coCheck = (\<lambda>m. None), coNow = (\<lambda>f. ''now'')\<rparr>"

definition demo_loader :: Loader where
  "demo_loader = NewLoader ''policies'' ''data.json'' []"

lemma demo_loader_eq:
  "demo_loader = \<lparr>ldPolicyDir = ''policies'', ldDataFile = ''data.json'', ldJsonPolicyDir = ''policies/json''\<rparr>"
  by code_simp

lemma demo_paths:
  "path_Join ''policies'' ''*.rego'' = ''policies/*.rego''" "path_Join ''policies/json'' ''*.json'' = ''policies/json/*.json''"
  "Clean ''policies/base.rego'' = ''policies/base.rego''" "Clean ''policies/json/a.json'' = ''policies/json/a.json''"
  "Base ''policies/base.rego'' = ''base.rego''"
  by code_simp+

lemma demo_read: "fiRead demo_files f = Inr f"
  by (simp add: demo_files_def)

lemma demo_rego: "loadRegoFiles demo_files demo_loader = Ok [(''base.rego'', ''policies/base.rego'')]"
  by (simp add: loadRegoFiles_def demo_loader_eq demo_files_def demo_paths of_sum_def HasSuffix_def suffix_def)



end
