(* ===== verification/Stdio_Transport.thy ===== *)
theory Stdio_Transport
  imports Transport
begin

text \<open>
  The stdio transport, \<^verbatim>\<open>src/internal/transport/stdio\<close>: the reader of newline-delimited messages on
  top of \<^verbatim>\<open>bufio.Scanner\<close>, the writer, and the server with its read loop. Standard input is the
  sequence of its bytes and the way it ends; standard output is a state with a write operation.
\<close>

declare map_of_eq_Some_iff [simp del] Some_eq_map_of_iff [simp del]

section \<open>bufio.Scanner with ScanLines\<close>

datatype stream_end = EndOfFile | EndError string

text \<open>
  \<open>scRest\<close> are the bytes not yet returned, \<open>scErr\<close> the error the scanner has met, \<open>scEnd\<close> the way
  the underlying stream ends, \<open>scLimit\<close> the size at which the buffer stops growing. When the buffer is
  full without a newline the error is set; a further call finds the buffered bytes and returns
  them as a last token.
\<close>

record Scanner =
  scRest :: bytes
  scErr :: "stream_end option"
  scEnd :: stream_end
  scLimit :: nat

definition dropCR :: "bytes \<Rightarrow> bytes" where
  "dropCR data = (if data \<noteq> [] \<and> last data = CHR 0x0D then butlast data else data)"

definition ErrTooLong :: string where
  "ErrTooLong = ''bufio.Scanner: token too long''"

definition Scan :: "Scanner \<Rightarrow> bytes option \<times> Scanner" where
  "Scan sc =
     (let rest = scRest sc; line = takeWhile (\<lambda>c. c \<noteq> CHR 0x0A) rest
      in case scErr sc of
           Some e \<Rightarrow> if rest = [] then (None, sc) else (Some (dropCR rest), sc\<lparr>scRest := []\<rparr>)
         | None \<Rightarrow>
             if length line < length rest \<and> length line < scLimit sc
             then (Some (dropCR line), sc\<lparr>scRest := drop (Suc (length line)) rest\<rparr>)
             else if scLimit sc \<le> length line
             then (None, sc\<lparr>scErr := Some (EndError ErrTooLong), scRest := take (scLimit sc) rest\<rparr>)
             else if rest = [] then (None, sc\<lparr>scErr := Some (scEnd sc)\<rparr>)
             else (Some (dropCR rest), sc\<lparr>scErr := Some (scEnd sc), scRest := []\<rparr>))"

definition Scanner_Err :: "Scanner \<Rightarrow> string option" where
  "Scanner_Err sc = (case scErr sc of Some (EndError e) \<Rightarrow> Some e | _ \<Rightarrow> None)"

lemma Scan_shorter: "Scan sc = (Some line, sc') \<Longrightarrow> length (scRest sc') < length (scRest sc)"
  by (auto simp: Scan_def Let_def split: option.splits if_splits)

section \<open>Reader and writer\<close>

definition DefaultMaxMessageSize :: nat where
  "DefaultMaxMessageSize = 1024 * 1024"

text \<open>The buffer starts with 64 KiB and never shrinks.\<close>

definition NewReaderWithMaxSize :: "bytes \<Rightarrow> stream_end \<Rightarrow> nat \<Rightarrow> Scanner" where
  "NewReaderWithMaxSize input ending maxSize =
     \<lparr>scRest = input, scErr = None, scEnd = ending, scLimit = max (64 * 1024) maxSize\<rparr>"

definition NewReader :: "bytes \<Rightarrow> stream_end \<Rightarrow> Scanner" where
  "NewReader input ending = NewReaderWithMaxSize input ending DefaultMaxMessageSize"

datatype read_result = ReadMsg bytes | ReadEOF | ReadErr string

function ReadMessage :: "Scanner \<Rightarrow> read_result \<times> Scanner" where
  "ReadMessage sc =
     (case Scan sc of
        (None, sc') \<Rightarrow>
          (case Scanner_Err sc' of
             Some e \<Rightarrow> (ReadErr (''reading input: '' @ e), sc')
           | None \<Rightarrow> (ReadEOF, sc'))
      | (Some line, sc') \<Rightarrow>
          if length line = 0 then ReadMessage sc'
          else if \<not> Valid line then (ReadErr ''invalid JSON message'', sc')
          else (ReadMsg line, sc'))"
  by pat_completeness auto
termination
  by (relation "measure (\<lambda>sc. length (scRest sc))") (auto dest!: Scan_shorter [OF sym])

declare ReadMessage.simps [simp del]

text \<open>An output stream: the error of a write, and the flush operation if it has one.\<close>

record 'o sink =
  skWrite :: "bytes \<Rightarrow> 'o \<Rightarrow> string option \<times> 'o"
  skFlush :: "('o \<Rightarrow> string option \<times> 'o) option"

definition stdio_Write :: "'o sink \<Rightarrow> bytes \<Rightarrow> 'o \<Rightarrow> string option \<times> 'o" where
  "stdio_Write sk data out =
     (case skWrite sk data out of
        (Some e, out1) \<Rightarrow> (Some e, out1)
      | (None, out1) \<Rightarrow>
          (case skWrite sk [CHR 0x0A] out1 of
             (Some e, out2) \<Rightarrow> (Some e, out2)
           | (None, out2) \<Rightarrow>
               (case skFlush sk of Some flush \<Rightarrow> flush out2 | None \<Rightarrow> (None, out2))))"

section \<open>The server\<close>

record 'w StdioServer =
  siAgentCfg :: AgentConfig
  siMessageHandler :: "'w message_handler option"
  siSession :: "nat option"
  siStarted :: bool
  siDone :: bool

definition stdio_NewServer :: "AgentConfig \<Rightarrow> 'w StdioServer" where
  "stdio_NewServer agentCfg =
     \<lparr>siAgentCfg = agentCfg, siMessageHandler = None, siSession = None, siStarted = False, siDone = False\<rparr>"

definition stdio_SetMessageHandler :: "'w message_handler \<Rightarrow> 'w StdioServer \<Rightarrow> 'w StdioServer" where
  "stdio_SetMessageHandler f s = s\<lparr>siMessageHandler := Some f\<rparr>"

text \<open>Start and Stop work on the server and the session manager it shares; the read loop follows below.\<close>

definition stdio_Start :: "string \<times> time \<times> time \<Rightarrow> (string option, 'w StdioServer \<times> Manager) act" where
  "stdio_Start env = (\<lambda>(s, m).
     if siStarted s then (Return (Some ''server already started''), (s, m))
     else let s1 = s\<lparr>siStarted := True\<rparr>
          in case env of (uuid, t1, t2) \<Rightarrow>
               (case Manager_Create uuid t1 t2 m of
                  (Inl e, m1) \<Rightarrow> (Return (Some (''failed to create session: '' @ SessionError_Error e)), (s1, m1))
                | (Inr sess, m1) \<Rightarrow>
                    let m2 = upd_session sess (SetAgent (agID (siAgentCfg s)) (agName (siAgentCfg s))
                               (agCapabilities (siAgentCfg s))) m1;
                        m3 = upd_session sess (SetClientInfo ''stdio'' ''stdio-client'') m2
                    in (Return None, (s1\<lparr>siSession := Some sess\<rparr>, m3))))"

definition stdio_Stop :: "unit \<Rightarrow> (string option, 'w StdioServer \<times> Manager) act" where
  "stdio_Stop u = (\<lambda>(s, m).
     if \<not> siStarted s then (Return None, (s, m))
     else let s1 = s\<lparr>siStarted := False\<rparr>
          in if siDone s1 then (Panicked ''close of closed channel'', (s1, m))
             else let s2 = s1\<lparr>siDone := True\<rparr>
                  in case siSession s2 of
                       None \<Rightarrow> (Return None, (s2, m))
                     | Some sess \<Rightarrow>
                         let m1 = upd_session sess Session_Close m
                         in (Return None, (s2, Manager_Delete (sID (mHeap m1 ! sess)) m1)))"

definition stdio_Name :: string where
  "stdio_Name = ''stdio''"

interpretation stdio: transport "\<lambda>(s, m). siStarted s" "\<lambda>(s, m). siDone s" stdio_Start stdio_Stop
  by unfold_locales (auto simp: stdio_Start_def stdio_Stop_def Let_def split: option.splits prod.splits sum.splits)

section \<open>The read loop\<close>

record ('w, 'o) loop_state =
  lpScanner :: Scanner
  lpOut :: 'o
  lpManager :: Manager
  lpWorld :: 'w

text \<open>\<open>decodeID\<close> decodes the field \<^verbatim>\<open>id\<close> of a message, \<open>num\<close> writes a number in JSON.\<close>

definition extractRequestID :: "(bytes \<Rightarrow> string + gval) \<Rightarrow> bytes \<Rightarrow> gval" where
  "extractRequestID decodeID msg = (case decodeID msg of Inl e \<Rightarrow> GNil | Inr i \<Rightarrow> i)"

definition writeError :: "'o sink \<Rightarrow> (rat \<Rightarrow> string) \<Rightarrow> gval \<Rightarrow> int \<Rightarrow> string \<Rightarrow> 'o \<Rightarrow> 'o" where
  "writeError sk num i code message out = snd (stdio_Write sk (json_text num (rpc_error i code message)) out)"

definition handle_line ::
    "'o sink \<Rightarrow> (rat \<Rightarrow> string) \<Rightarrow> (bytes \<Rightarrow> string + gval) \<Rightarrow> 'w message_handler option \<Rightarrow> nat \<Rightarrow> time \<Rightarrow> bytes \<Rightarrow>
     (unit, ('w, 'o) loop_state) act" where
  "handle_line sk num decodeID handler sess now msg = (\<lambda>st.
     let m1 = upd_session sess (\<lambda>s. snd (Session_IncrementRequestCount now s)) (lpManager st);
         st1 = st\<lparr>lpManager := m1\<rparr>
     in case (case handler of
                Some f \<Rightarrow> f (mHeap m1 ! sess) msg (lpWorld st1)
              | None \<Rightarrow> (Return (Some msg, None), lpWorld st1)) of
          (Panicked p, w) \<Rightarrow> (Panicked p, st1\<lparr>lpWorld := w\<rparr>)
        | (Return (response, Some e), w) \<Rightarrow>
            (Return (), st1\<lparr>lpWorld := w,
               lpOut := writeError sk num (extractRequestID decodeID msg) (-32603) ''Internal error'' (lpOut st1)\<rparr>)
        | (Return (response, None), w) \<Rightarrow>
            (Return (), st1\<lparr>lpWorld := w,
               lpOut := (case response of Some b \<Rightarrow> snd (stdio_Write sk b (lpOut st1)) | None \<Rightarrow> lpOut st1)\<rparr>))"

text \<open>One turn of the loop; the result says whether it goes on.\<close>

definition loop_turn ::
    "'o sink \<Rightarrow> (rat \<Rightarrow> string) \<Rightarrow> (bytes \<Rightarrow> string + gval) \<Rightarrow> 'w message_handler option \<Rightarrow> nat \<Rightarrow> time \<Rightarrow>
     (bool, ('w, 'o) loop_state) act" where
  "loop_turn sk num decodeID handler sess now = (\<lambda>st.
     case ReadMessage (lpScanner st) of
       (ReadEOF, sc) \<Rightarrow> (Return False, st\<lparr>lpScanner := sc\<rparr>)
     | (ReadErr e, sc) \<Rightarrow>
         (Return True, st\<lparr>lpScanner := sc, lpOut := writeError sk num GNil (-32700) ''Parse error'' (lpOut st)\<rparr>)
     | (ReadMsg msg, sc) \<Rightarrow>
         bind_act (handle_line sk num decodeID handler sess now msg) (\<lambda>_. ret_act True) (st\<lparr>lpScanner := sc\<rparr>))"

text \<open>
  The loop; \<^const>\<open>None\<close> is a loop that never returns. \<open>stopped k\<close> says that turn \<open>k\<close> finds the
  server stopped or the context cancelled, \<open>clk k\<close> is the clock in turn \<open>k\<close>.
\<close>

partial_function (option) readLoop ::
    "'o sink \<Rightarrow> (rat \<Rightarrow> string) \<Rightarrow> (bytes \<Rightarrow> string + gval) \<Rightarrow> 'w message_handler option \<Rightarrow> nat \<Rightarrow>
     (nat \<Rightarrow> bool) \<Rightarrow> (nat \<Rightarrow> time) \<Rightarrow> nat \<Rightarrow> ('w, 'o) loop_state \<Rightarrow> (unit call \<times> ('w, 'o) loop_state) option" where
  "readLoop sk num decodeID handler sess stopped clk k st =
     (if stopped k then Some (Return (), st)
      else case loop_turn sk num decodeID handler sess (clk k) st of
             (Panicked p, st') \<Rightarrow> Some (Panicked p, st')
           | (Return go, st') \<Rightarrow>
               if go then readLoop sk num decodeID handler sess stopped clk (Suc k) st' else Some (Return (), st'))"

section \<open>When the loop ends\<close>

text \<open>
  Input on which the scanner meets an error other than the end of the file: a line that fills the
  buffer, or a stream that ends in an error.
\<close>

definition long_line :: "nat \<Rightarrow> bytes \<Rightarrow> bool" where
  "long_line n s \<longleftrightarrow> (\<exists>a b. s = a @ b \<and> (a = [] \<or> last a = CHR 0x0A) \<and> n \<le> length (takeWhile (\<lambda>c. c \<noteq> CHR 0x0A) b))"

definition doomed :: "Scanner \<Rightarrow> bool" where
  "doomed sc \<longleftrightarrow>
     (case scErr sc of
        Some e \<Rightarrow> e \<noteq> EndOfFile
      | None \<Rightarrow> scEnd sc \<noteq> EndOfFile \<or> long_line (scLimit sc) (scRest sc))"

definition never_panics :: "'w message_handler option \<Rightarrow> bool" where
  "never_panics handler \<longleftrightarrow> (\<forall>f s b w. handler = Some f \<longrightarrow> (\<exists>r w'. f s b w = (Return r, w')))"

abbreviation first_line :: "bytes \<Rightarrow> bytes" where
  "first_line s \<equiv> takeWhile (\<lambda>c. c \<noteq> CHR 0x0A) s"

lemma first_line_shorter: "CHR 0x0A \<in> set s \<Longrightarrow> length (first_line s) < length s"
  by (induction s) auto

lemma first_line_split:
  assumes "length (first_line s) < length s"
  shows "s = first_line s @ CHR 0x0A # drop (Suc (length (first_line s))) s"
proof -
  have "s ! length (first_line s) = CHR 0x0A" using nth_length_takeWhile [OF assms] by simp
  then have "dropWhile (\<lambda>c. c \<noteq> CHR 0x0A) s = CHR 0x0A # drop (Suc (length (first_line s))) s"
    using Cons_nth_drop_Suc [OF assms] by (simp add: dropWhile_eq_drop)
  then show ?thesis using takeWhile_dropWhile_id [of "\<lambda>c. c \<noteq> CHR 0x0A" s] by simp
qed

lemma long_line_drop:
  assumes "length (first_line s) < n"
  shows "long_line n s \<longleftrightarrow> length (first_line s) < length s \<and> long_line n (drop (Suc (length (first_line s))) s)"
proof
  assume "long_line n s"
  then obtain a b where ab: "s = a @ b" "a = [] \<or> last a = CHR 0x0A" "n \<le> length (first_line b)"
    by (auto simp: long_line_def)
  then have a: "a \<noteq> []" "last a = CHR 0x0A" using assms by auto
  then have mem: "CHR 0x0A \<in> set a" by (metis last_in_set)
  then have line: "first_line s = first_line a" by (simp add: ab(1) takeWhile_append1)
  have less: "length (first_line a) < length a" using mem by (rule first_line_shorter)
  let ?a = "drop (Suc (length (first_line a))) a"
  have "drop (Suc (length (first_line s))) s = ?a @ b" using less unfolding line by (simp add: ab(1))
  moreover have "?a = [] \<or> last ?a = CHR 0x0A" using a(2) by (cases "?a = []") (auto simp: last_drop)
  ultimately have "long_line n (drop (Suc (length (first_line s))) s)"
    using ab(3) unfolding long_line_def by blast
  then show "length (first_line s) < length s \<and> long_line n (drop (Suc (length (first_line s))) s)"
    using less unfolding line by (simp add: ab(1))
next
  assume "length (first_line s) < length s \<and> long_line n (drop (Suc (length (first_line s))) s)"
  then obtain a b where ab: "length (first_line s) < length s" "drop (Suc (length (first_line s))) s = a @ b"
    "a = [] \<or> last a = CHR 0x0A" "n \<le> length (first_line b)" by (auto simp: long_line_def)
  have "s = (first_line s @ CHR 0x0A # a) @ b" using first_line_split [OF ab(1)] ab(2) by simp
  moreover have "last (first_line s @ CHR 0x0A # a) = CHR 0x0A" using ab(3) by auto
  ultimately show "long_line n s" using ab(4) unfolding long_line_def by blast
qed

lemma long_line_first: "n \<le> length (first_line s) \<Longrightarrow> long_line n s"
  unfolding long_line_def by (rule exI [of _ "[]"]) simp

text \<open>The four ways a call of \<^const>\<open>Scan\<close> can go.\<close>

lemma Scan_cases:
  obtains (failed) e where "scErr sc = Some e"
      "Scan sc = (if scRest sc = [] then (None, sc) else (Some (dropCR (scRest sc)), sc\<lparr>scRest := []\<rparr>))"
  | (line) "scErr sc = None" "length (first_line (scRest sc)) < length (scRest sc)"
      "length (first_line (scRest sc)) < scLimit sc"
      "Scan sc = (Some (dropCR (first_line (scRest sc))), sc\<lparr>scRest := drop (Suc (length (first_line (scRest sc)))) (scRest sc)\<rparr>)"
  | (full) "scErr sc = None" "scLimit sc \<le> length (first_line (scRest sc))"
      "Scan sc = (None, sc\<lparr>scErr := Some (EndError ErrTooLong), scRest := take (scLimit sc) (scRest sc)\<rparr>)"
  | (ended) "scErr sc = None" "first_line (scRest sc) = scRest sc" "length (scRest sc) < scLimit sc"
      "Scan sc = (if scRest sc = [] then None else Some (dropCR (scRest sc)), sc\<lparr>scErr := Some (scEnd sc), scRest := []\<rparr>)"
proof (cases "scErr sc")
  case None
  let ?l = "length (first_line (scRest sc))"
  have le: "?l \<le> length (scRest sc)" by (rule length_takeWhile_le)
  consider "?l < length (scRest sc)" "?l < scLimit sc" | "scLimit sc \<le> ?l"
    | "?l = length (scRest sc)" "?l < scLimit sc" using le by linarith
  then show ?thesis
  proof cases
    case 1
    with None show ?thesis by (intro line) (simp_all add: Scan_def Let_def)
  next
    case 2
    with None show ?thesis by (intro full) (simp_all add: Scan_def Let_def)
  next
    case 3
    then have "first_line (scRest sc) = scRest sc" by (metis takeWhile_eq_take take_all order_refl)
    moreover from this None 3 have "Scan sc = (if scRest sc = [] then None else Some (dropCR (scRest sc)),
        sc\<lparr>scErr := Some (scEnd sc), scRest := []\<rparr>)"
      by (cases "scRest sc = []") (simp_all add: Scan_def)
    ultimately show ?thesis using None 3 by (intro ended) simp_all
  qed
qed (use failed in \<open>simp add: Scan_def Let_def\<close>)

lemma Scan_doomed: "doomed sc \<Longrightarrow> Scan sc = (t, sc') \<Longrightarrow> doomed sc' \<and> (t = None \<longrightarrow> Scanner_Err sc' \<noteq> None)"
proof (cases sc rule: Scan_cases)
  case failed
  then show "doomed sc \<Longrightarrow> Scan sc = (t, sc') \<Longrightarrow> ?thesis"
    by (auto simp: doomed_def Scanner_Err_def split: if_splits stream_end.splits)
next
  case line
  then show "doomed sc \<Longrightarrow> Scan sc = (t, sc') \<Longrightarrow> ?thesis" using long_line_drop [OF line(3)] by (auto simp: doomed_def)
next
  case full
  then show "doomed sc \<Longrightarrow> Scan sc = (t, sc') \<Longrightarrow> ?thesis" by (auto simp: doomed_def Scanner_Err_def)
next
  case ended
  then have "\<not> long_line (scLimit sc) (scRest sc)"
    using long_line_drop [of "scRest sc" "scLimit sc", unfolded ended(2)] by simp
  with ended(1,4) show "doomed sc \<Longrightarrow> Scan sc = (t, sc') \<Longrightarrow> ?thesis"
    by (cases "scEnd sc") (simp_all add: doomed_def Scanner_Err_def, auto)
qed

lemma Scan_not_doomed: "\<not> doomed sc \<Longrightarrow> Scan sc = (t, sc') \<Longrightarrow> \<not> doomed sc' \<and> (t = None \<longrightarrow> Scanner_Err sc' = None)"
proof (cases sc rule: Scan_cases)
  case failed
  then show "\<not> doomed sc \<Longrightarrow> Scan sc = (t, sc') \<Longrightarrow> ?thesis"
    by (auto simp: doomed_def Scanner_Err_def split: if_splits)
next
  case line
  then show "\<not> doomed sc \<Longrightarrow> Scan sc = (t, sc') \<Longrightarrow> ?thesis" using long_line_drop [OF line(3)] by (auto simp: doomed_def)
next
  case full
  then show "\<not> doomed sc \<Longrightarrow> Scan sc = (t, sc') \<Longrightarrow> ?thesis" using long_line_first [OF full(2)] by (simp add: doomed_def)
next
  case ended
  from ended(1,4) show "\<not> doomed sc \<Longrightarrow> Scan sc = (t, sc') \<Longrightarrow> ?thesis"
    by (cases "scEnd sc") (simp_all add: doomed_def Scanner_Err_def, auto)
qed

lemma ReadMessage_doomed: "doomed sc \<Longrightarrow> doomed (snd (ReadMessage sc)) \<and> fst (ReadMessage sc) \<noteq> ReadEOF"
proof (induction sc rule: ReadMessage.induct)
  case (1 sc)
  obtain t sc' where scan: "Scan sc = (t, sc')" by fastforce
  have d: "doomed sc'" "t = None \<longrightarrow> Scanner_Err sc' \<noteq> None" using Scan_doomed [OF "1.prems" scan] by auto
  show ?case
  proof (cases t)
    case None
    with d scan show ?thesis by (subst (1 2) ReadMessage.simps) auto
  next
    case (Some line)
    with d scan "1.IH" [OF scan [symmetric] Some] show ?thesis by (subst (1 2) ReadMessage.simps) auto
  qed
qed

lemma ReadMessage_progress: "\<not> doomed sc \<Longrightarrow> \<not> doomed (snd (ReadMessage sc)) \<and>
    (fst (ReadMessage sc) = ReadEOF \<or> length (scRest (snd (ReadMessage sc))) < length (scRest sc))"
proof (induction sc rule: ReadMessage.induct)
  case (1 sc)
  obtain t sc' where scan: "Scan sc = (t, sc')" by fastforce
  have d: "\<not> doomed sc'" "t = None \<longrightarrow> Scanner_Err sc' = None" using Scan_not_doomed [OF "1.prems" scan] by auto
  show ?case
  proof (cases t)
    case None
    with d scan show ?thesis by (subst (1 2 3) ReadMessage.simps) auto
  next
    case (Some line)
    with d scan "1.IH" [OF scan [symmetric] Some] Scan_shorter [of sc line sc'] show ?thesis
      by (subst (1 2 3) ReadMessage.simps) auto
  qed
qed

lemma handle_line_returns:
  assumes "never_panics handler"
  shows "\<exists>st'. handle_line sk num decodeID handler sess now msg st = (Return (), st') \<and> lpScanner st' = lpScanner st"
proof (cases handler)
  case (Some f)
  let ?m = "upd_session sess (\<lambda>s. snd (Session_IncrementRequestCount now s)) (lpManager st)"
  obtain r w where "f (mHeap ?m ! sess) msg (lpWorld st) = (Return r, w)"
    using assms Some unfolding never_panics_def by blast
  with Some show ?thesis by (cases r; cases "snd r") (simp_all add: handle_line_def Let_def)
qed (simp add: handle_line_def Let_def)

lemma loop_turn_doomed:
  assumes "never_panics handler" and "doomed (lpScanner st)"
  shows "\<exists>st'. loop_turn sk num decodeID handler sess now st = (Return True, st') \<and> doomed (lpScanner st')"
proof -
  obtain res sc where rd: "ReadMessage (lpScanner st) = (res, sc)" by fastforce
  then have "doomed sc" "res \<noteq> ReadEOF" using ReadMessage_doomed [OF assms(2)] by auto
  then show ?thesis
  proof (cases res)
    case (ReadMsg msg)
    obtain st' where "handle_line sk num decodeID handler sess now msg (st\<lparr>lpScanner := sc\<rparr>) = (Return (), st')" "lpScanner st' = sc"
      using handle_line_returns [OF assms(1), of sk num decodeID sess now msg "st\<lparr>lpScanner := sc\<rparr>"] by auto
    with rd ReadMsg \<open>doomed sc\<close> show ?thesis by (auto simp: loop_turn_def bind_act_Return ret_act_def)
  qed (use rd in \<open>simp_all add: loop_turn_def\<close>)
qed

lemma loop_turn_progress:
  assumes "never_panics handler" and "\<not> doomed (lpScanner st)"
  shows "\<exists>go st'. loop_turn sk num decodeID handler sess now st = (Return go, st') \<and>
    (go \<longrightarrow> \<not> doomed (lpScanner st') \<and> length (scRest (lpScanner st')) < length (scRest (lpScanner st)))"
proof -
  obtain res sc where rd: "ReadMessage (lpScanner st) = (res, sc)" by fastforce
  then have sc: "\<not> doomed sc" "res = ReadEOF \<or> length (scRest sc) < length (scRest (lpScanner st))"
    using ReadMessage_progress [OF assms(2)] by auto
  then show ?thesis
  proof (cases res)
    case (ReadMsg msg)
    obtain st' where "handle_line sk num decodeID handler sess now msg (st\<lparr>lpScanner := sc\<rparr>) = (Return (), st')" "lpScanner st' = sc"
      using handle_line_returns [OF assms(1), of sk num decodeID sess now msg "st\<lparr>lpScanner := sc\<rparr>"] by auto
    with rd ReadMsg sc show ?thesis by (auto simp: loop_turn_def bind_act_Return ret_act_def)
  qed (use rd sc in \<open>auto simp: loop_turn_def\<close>)
qed

lemma readLoop_doomed:
  assumes "never_panics handler" and "\<forall>k. \<not> stopped k"
    and "readLoop sk num decodeID handler sess stopped clk k st = Some y"
  shows "\<not> doomed (lpScanner st)"
proof -
  let ?P = "\<lambda>sk num decodeID h sess stopped' clk k st y.
    h = handler \<longrightarrow> stopped' = stopped \<longrightarrow> \<not> doomed (lpScanner st)"
  have "?P sk num decodeID handler sess stopped clk k st y"
  proof (rule readLoop.raw_induct [where P = ?P, OF _ assms(3)], intro impI notI)
    fix rl sk num decodeID h sess stopped' clk k st y
    assume IH: "\<And>sk num decodeID h sess stopped' clk k st y. rl sk num decodeID h sess stopped' clk k st = Some y \<Longrightarrow>
        h = handler \<longrightarrow> stopped' = stopped \<longrightarrow> \<not> doomed (lpScanner st)"
      and body: "(if stopped' k then Some (Return (), st)
        else case loop_turn sk num decodeID h sess (clk k) st of
               (Return go, st') \<Rightarrow>
                 if go then rl sk num decodeID h sess stopped' clk (Suc k) st' else Some (Return (), st')
             | (Panicked p, st') \<Rightarrow> Some (Panicked p, st')) = Some y"
      and eqs: "h = handler" "stopped' = stopped" and doomed: "doomed (lpScanner st)"
    obtain st' where "loop_turn sk num decodeID handler sess (clk k) st = (Return True, st')" "doomed (lpScanner st')"
      using loop_turn_doomed [OF assms(1) doomed] by blast
    then show False using IH body assms(2) unfolding eqs by simp
  qed
  then show ?thesis by simp
qed

lemma readLoop_ends:
  assumes "never_panics handler"
  shows "\<not> doomed (lpScanner st) \<Longrightarrow> \<exists>st'. readLoop sk num decodeID handler sess stopped clk k st = Some (Return (), st')"
proof (induction "length (scRest (lpScanner st))" arbitrary: st k rule: less_induct)
  case less
  obtain go st' where turn: "loop_turn sk num decodeID handler sess (clk k) st = (Return go, st')"
    "go \<longrightarrow> \<not> doomed (lpScanner st') \<and> length (scRest (lpScanner st')) < length (scRest (lpScanner st))"
    using loop_turn_progress [OF assms less.prems] by blast
  then show ?case using less.hyps [of st' "Suc k"] by (subst readLoop.simps) auto
qed

section \<open>Messages written and read back\<close>

text \<open>A stream in memory, what the writer leaves on it, and messages that fit a line of the reader.\<close>

definition buffer_sink :: "bytes sink" where
  "buffer_sink = \<lparr>skWrite = \<lambda>data out. (None, out @ data), skFlush = None\<rparr>"

definition written :: "bytes list \<Rightarrow> bytes" where
  "written ms = fold (\<lambda>m out. snd (stdio_Write buffer_sink m out)) ms []"

definition framed :: "nat \<Rightarrow> bytes \<Rightarrow> bool" where
  "framed limit m \<longleftrightarrow> Valid m \<and> m \<noteq> [] \<and> CHR 0x0A \<notin> set m \<and> last m \<noteq> CHR 0x0D \<and> length m < limit"

text \<open>The specification of the loop: the messages handled one after the other.\<close>

primrec serve ::
    "'o sink \<Rightarrow> (rat \<Rightarrow> string) \<Rightarrow> (bytes \<Rightarrow> string + gval) \<Rightarrow> 'w message_handler option \<Rightarrow> nat \<Rightarrow> (nat \<Rightarrow> time) \<Rightarrow>
     nat \<Rightarrow> bytes list \<Rightarrow> ('w, 'o) loop_state \<Rightarrow> ('w, 'o) loop_state" where
  "serve sk num decodeID handler sess clk k [] st = st"
| "serve sk num decodeID handler sess clk k (m # ms) st =
     serve sk num decodeID handler sess clk (Suc k) ms (snd (handle_line sk num decodeID handler sess (clk k) m st))"

lemma written_eq: "written ms = concat (map (\<lambda>m. m @ [CHR 0x0A]) ms)"
proof -
  have "fold (\<lambda>m out. snd (stdio_Write buffer_sink m out)) ms out = out @ concat (map (\<lambda>m. m @ [CHR 0x0A]) ms)" for out
    by (induction ms arbitrary: out) (simp_all add: stdio_Write_def buffer_sink_def)
  then show ?thesis by (simp add: written_def)
qed

lemma ReadMessage_framed:
  assumes "framed (scLimit sc) m" and "scErr sc = None" and "scRest sc = m @ CHR 0x0A # rest"
  shows "ReadMessage sc = (ReadMsg m, sc\<lparr>scRest := rest\<rparr>)"
proof -
  have "first_line (scRest sc) = m" using assms(1,3) by (auto simp: framed_def takeWhile_append)
  moreover have "dropCR m = m" using assms(1) by (simp add: framed_def dropCR_def)
  ultimately have "Scan sc = (Some m, sc\<lparr>scRest := rest\<rparr>)"
    using assms by (simp add: Scan_def Let_def framed_def)
  then show ?thesis using assms(1) by (subst ReadMessage.simps) (simp add: framed_def)
qed

lemma ReadMessage_end:
  "scErr sc = None \<Longrightarrow> scRest sc = [] \<Longrightarrow> 0 < scLimit sc \<Longrightarrow> scEnd sc = EndOfFile \<Longrightarrow>
   ReadMessage sc = (ReadEOF, sc\<lparr>scErr := Some EndOfFile\<rparr>)"
  by (subst ReadMessage.simps) (simp add: Scan_def Let_def Scanner_Err_def)

lemma handle_line_scanner:
  "handle_line sk num decodeID handler sess now msg (st\<lparr>lpScanner := sc\<rparr>) =
     map_prod id (\<lambda>st'. st'\<lparr>lpScanner := sc\<rparr>) (handle_line sk num decodeID handler sess now msg st)"
  by (simp add: handle_line_def Let_def split: option.split prod.split call.split)

lemma serve_scanner:
  "(serve sk num decodeID handler sess clk k ms (st\<lparr>lpScanner := sc\<rparr>)) =
     (serve sk num decodeID handler sess clk k ms st)\<lparr>lpScanner := sc\<rparr>"
  by (induction ms arbitrary: st k) (simp_all add: handle_line_scanner)

lemma readLoop_serves:
  assumes "never_panics handler" and "\<forall>k. \<not> stopped k"
  shows "scErr (lpScanner st) = None \<Longrightarrow> scEnd (lpScanner st) = EndOfFile \<Longrightarrow> 0 < scLimit (lpScanner st) \<Longrightarrow>
    scRest (lpScanner st) = concat (map (\<lambda>m. m @ [CHR 0x0A]) ms) \<Longrightarrow> list_all (framed (scLimit (lpScanner st))) ms \<Longrightarrow>
    readLoop sk num decodeID handler sess stopped clk k st =
      Some (Return (), (serve sk num decodeID handler sess clk k ms st)
        \<lparr>lpScanner := (lpScanner st)\<lparr>scErr := Some EndOfFile, scRest := []\<rparr>\<rparr>)"
proof (induction ms arbitrary: st k)
  case Nil
  then show ?case using assms(2) by (subst readLoop.simps) (simp add: loop_turn_def ReadMessage_end)
next
  case (Cons m ms)
  let ?sc = "(lpScanner st)\<lparr>scRest := concat (map (\<lambda>m. m @ [CHR 0x0A]) ms)\<rparr>"
  obtain st' where line: "handle_line sk num decodeID handler sess (clk k) m st = (Return (), st')"
    using handle_line_returns [OF assms(1)] by blast
  have read: "ReadMessage (lpScanner st) = (ReadMsg m, ?sc)"
    using Cons.prems by (intro ReadMessage_framed) simp_all
  then have "loop_turn sk num decodeID handler sess (clk k) st = (Return True, st'\<lparr>lpScanner := ?sc\<rparr>)"
    using line by (simp add: loop_turn_def bind_act_Return handle_line_scanner ret_act_def)
  moreover have "readLoop sk num decodeID handler sess stopped clk (Suc k) (st'\<lparr>lpScanner := ?sc\<rparr>) =
      Some (Return (), (serve sk num decodeID handler sess clk (Suc k) ms st')
        \<lparr>lpScanner := (lpScanner st)\<lparr>scErr := Some EndOfFile, scRest := []\<rparr>\<rparr>)"
    using Cons.prems by (subst Cons.IH) (simp_all add: serve_scanner)
  ultimately show ?case using line assms(2) by (subst readLoop.simps) simp
qed

section \<open>Properties\<close>


text \<open>A loop with an empty world and a handler that answers every message with itself.\<close>

definition echo_handler :: "unit message_handler" where
  "echo_handler = (\<lambda>s b w. (Return (Some b, None), w))"

definition demo_loop :: "bytes \<Rightarrow> stream_end \<Rightarrow> (unit, bytes) loop_state" where
  "demo_loop input ending =
     \<lparr>lpScanner = NewReader input ending, lpOut = [], lpManager = NewManager \<lparr>cfgSessionTTL = 0, cfgCleanupInterval = 0, cfgMaxSessions = 0\<rparr>, lpWorld = ()\<rparr>"

lemma echo_never_panics [simp]: "never_panics (Some echo_handler)"
  by (auto simp: never_panics_def echo_handler_def)


text \<open>
  C23. The loop serves what the writer of the other side wrote: on a stream of messages written by
  the transport's own writer, each a valid JSON text of one line shorter than the buffer, the loop
  returns and has handled exactly these messages, in this order, one turn each.
\<close>

theorem read_loop_serves_written:
  assumes "never_panics handler" and "\<forall>k. \<not> stopped k"
    and "lpScanner st = NewReader (written ms) EndOfFile" and "list_all (framed DefaultMaxMessageSize) ms"
  shows "\<exists>sc. readLoop sk num decodeID handler sess stopped clk 0 st =
    Some (Return (), (serve sk num decodeID handler sess clk 0 ms st)\<lparr>lpScanner := sc\<rparr>)"
proof -
  have "readLoop sk num decodeID handler sess stopped clk 0 st =
      Some (Return (), (serve sk num decodeID handler sess clk 0 ms st)
        \<lparr>lpScanner := (lpScanner st)\<lparr>scErr := Some EndOfFile, scRest := []\<rparr>\<rparr>)"
    using assms(3,4) by (intro readLoop_serves assms(1,2))
      (simp_all add: NewReader_def NewReaderWithMaxSize_def DefaultMaxMessageSize_def written_eq)
  then show ?thesis by blast
qed

theorem read_loop_serves_written_witness:
  "\<exists>sc. readLoop buffer_sink (\<lambda>_. ''0'') (\<lambda>_. Inr GNil) (Some echo_handler) 0 (\<lambda>_. False) (\<lambda>_. 0) 0
       (demo_loop (written [''{}'', ''[1]'']) EndOfFile) =
     Some (Return (), (serve buffer_sink (\<lambda>_. ''0'') (\<lambda>_. Inr GNil) (Some echo_handler) 0 (\<lambda>_. 0) 0 [''{}'', ''[1]'']
       (demo_loop (written [''{}'', ''[1]'']) EndOfFile))\<lparr>lpScanner := sc\<rparr>)"
proof (rule read_loop_serves_written)
  have "Valid ''{}''" "Valid ''[1]''" by code_simp+
  then show "list_all (framed DefaultMaxMessageSize) [''{}'', ''[1]'']"
    by (simp add: framed_def DefaultMaxMessageSize_def)
qed (simp_all add: demo_loop_def)

end
