(* ===== verification/Health.thy ===== *)
theory Health
  imports Http Json
begin

text \<open>
  Health checks and the server that publishes them, \<^verbatim>\<open>health.go\<close> and \<^verbatim>\<open>server.go\<close> of
  \<^verbatim>\<open>src/internal/observability\<close>. A checker looks at the state \<open>'w\<close> of the component it checks.
  The checkers run concurrently: \<open>ceOrder\<close> is the order in which they finish, \<open>ceWorld\<close> what each
  of them saw, \<open>ceLatency\<close> the text of its running time.
\<close>

declare map_of_eq_Some_iff [simp del] Some_eq_map_of_iff [simp del]

section \<open>Status values\<close>

datatype HealthStatus = HealthStatusHealthy | HealthStatusDegraded | HealthStatusUnhealthy

fun status_text :: "HealthStatus \<Rightarrow> string" where
  "status_text HealthStatusHealthy = ''healthy''"
| "status_text HealthStatusDegraded = ''degraded''"
| "status_text HealthStatusUnhealthy = ''unhealthy''"

text \<open>The order of severity.\<close>

fun severity :: "HealthStatus \<Rightarrow> nat" where
  "severity HealthStatusHealthy = 0"
| "severity HealthStatusDegraded = 1"
| "severity HealthStatusUnhealthy = 2"

lemma severity_inj: "severity a = severity b \<Longrightarrow> a = b"
  by (cases a; cases b) auto

instantiation HealthStatus :: linorder
begin

definition less_eq_HealthStatus :: "HealthStatus \<Rightarrow> HealthStatus \<Rightarrow> bool" where
  "less_eq_HealthStatus a b \<longleftrightarrow> severity a \<le> severity b"

definition less_HealthStatus :: "HealthStatus \<Rightarrow> HealthStatus \<Rightarrow> bool" where
  "less_HealthStatus a b \<longleftrightarrow> severity a < severity b"

instance
  by standard (auto simp: less_eq_HealthStatus_def less_HealthStatus_def intro: severity_inj)

end

lemma healthy_least [simp]: "HealthStatusHealthy \<le> s"
  by (simp add: less_eq_HealthStatus_def)

lemma unhealthy_greatest [simp]: "HealthStatusUnhealthy \<le> s \<longleftrightarrow> s = HealthStatusUnhealthy"
  by (cases s) (simp_all add: less_eq_HealthStatus_def)

record ComponentHealth =
  chStatus :: HealthStatus
  chMessage :: string
  chLatency :: string

record HealthResponse =
  hrStatus :: HealthStatus
  hrTimestamp :: time
  hrVersion :: string
  hrComponents :: "(string, ComponentHealth) gomap"

type_synonym 'w HealthChecker = "'w \<Rightarrow> ComponentHealth"

record 'w Health =
  hlVersion :: string
  hlCheckers :: "(string, 'w HealthChecker) gomap"
  hlReady :: bool

definition NewHealth :: "string \<Rightarrow> 'w Health" where
  "NewHealth version = \<lparr>hlVersion = version, hlCheckers = [], hlReady = False\<rparr>"

definition RegisterChecker :: "string \<Rightarrow> 'w HealthChecker \<Rightarrow> 'w Health \<Rightarrow> 'w Health" where
  "RegisterChecker name checker h = h\<lparr>hlCheckers := AList.update name checker (hlCheckers h)\<rparr>"

definition SetReady :: "bool \<Rightarrow> 'w Health \<Rightarrow> 'w Health" where
  "SetReady ready h = h\<lparr>hlReady := ready\<rparr>"

definition Health_IsReady :: "'w Health \<Rightarrow> bool" where
  "Health_IsReady h = hlReady h"

section \<open>Running the checks\<close>

record 'w check_env =
  ceNow :: time
  ceOrder :: "(string \<times> 'w HealthChecker) list \<Rightarrow> (string \<times> 'w HealthChecker) list"
  ceWorld :: "string \<Rightarrow> 'w"
  ceLatency :: "string \<Rightarrow> string"

text \<open>One goroutine: the check, and its result stored under the mutex.\<close>

definition check_result :: "'w check_env \<Rightarrow> string \<Rightarrow> 'w HealthChecker \<Rightarrow> ComponentHealth" where
  "check_result env name checker = (checker (ceWorld env name))\<lparr>chLatency := ceLatency env name\<rparr>"

definition check_one ::
    "'w check_env \<Rightarrow> string \<times> 'w HealthChecker \<Rightarrow> (string, ComponentHealth) gomap \<times> bool \<times> bool \<Rightarrow>
     (string, ComponentHealth) gomap \<times> bool \<times> bool" where
  "check_one env nc = (\<lambda>(components, hasUnhealthy, hasDegraded).
     let result = check_result env (fst nc) (snd nc)
     in (AList.update (fst nc) result components,
         if chStatus result = HealthStatusUnhealthy then True else hasUnhealthy,
         if chStatus result \<noteq> HealthStatusUnhealthy \<and> chStatus result = HealthStatusDegraded then True else hasDegraded))"

definition checkAll :: "'w check_env \<Rightarrow> 'w Health \<Rightarrow> HealthResponse" where
  "checkAll env h =
     (case fold (check_one env) (ceOrder env (hlCheckers h)) ([], False, False) of
        (components, hasUnhealthy, hasDegraded) \<Rightarrow>
          \<lparr>hrStatus = (if hasUnhealthy then HealthStatusUnhealthy
                      else if hasDegraded then HealthStatusDegraded else HealthStatusHealthy),
           hrTimestamp = ceNow env, hrVersion = hlVersion h, hrComponents = components\<rparr>)"

text \<open>The response as JSON: the fields in order, empty ones left out. \<open>stamp\<close> writes a time stamp.\<close>

definition json_fields :: "(string \<times> string) list \<Rightarrow> string" where
  "json_fields fs = ''{'' @ Join (map (\<lambda>(k, t). json_string k @ '':'' @ t) fs) '','' @ ''}''"

definition omit_empty :: "string \<Rightarrow> string \<Rightarrow> (string \<times> string) list" where
  "omit_empty k v = (if v = [] then [] else [(k, json_string v)])"

definition component_json :: "ComponentHealth \<Rightarrow> string" where
  "component_json c = json_fields ((''status'', json_string (status_text (chStatus c))) #
     omit_empty ''message'' (chMessage c) @ omit_empty ''latency'' (chLatency c))"

definition response_json :: "(time \<Rightarrow> string) \<Rightarrow> HealthResponse \<Rightarrow> string" where
  "response_json stamp r = json_fields ([(''status'', json_string (status_text (hrStatus r))),
       (''timestamp'', json_string (stamp (hrTimestamp r)))] @ omit_empty ''version'' (hrVersion r) @
     (if hrComponents r = [] then []
      else [(''components'', json_fields (sort_key fst (map (\<lambda>(k, c). (k, component_json c)) (hrComponents r))))]))"

definition send_health :: "(time \<Rightarrow> string) \<Rightarrow> int \<Rightarrow> HealthResponse \<Rightarrow> HttpResponse" where
  "send_health stamp code r =
     WriteBody (response_json stamp r @ [CHR 0x0A])
       (WriteHeader code (SetHeader ''Content-Type'' ''application/json'' new_response))"

definition LivenessHandler :: "(time \<Rightarrow> string) \<Rightarrow> 'w check_env \<Rightarrow> 'w Health \<Rightarrow> HttpResponse" where
  "LivenessHandler stamp env h =
     send_health stamp 200 \<lparr>hrStatus = HealthStatusHealthy, hrTimestamp = ceNow env, hrVersion = hlVersion h,
       hrComponents = []\<rparr>"

definition FullHealthHandler :: "(time \<Rightarrow> string) \<Rightarrow> 'w check_env \<Rightarrow> 'w Health \<Rightarrow> HttpResponse" where
  "FullHealthHandler stamp env h =
     (let response = checkAll env h
      in send_health stamp (if hrStatus response = HealthStatusUnhealthy then 503 else 200) response)"

definition ReadinessHandler :: "(time \<Rightarrow> string) \<Rightarrow> 'w check_env \<Rightarrow> 'w Health \<Rightarrow> HttpResponse" where
  "ReadinessHandler stamp env h =
     (if \<not> Health_IsReady h
      then send_health stamp 503 \<lparr>hrStatus = HealthStatusUnhealthy, hrTimestamp = ceNow env, hrVersion = hlVersion h,
             hrComponents = []\<rparr>
      else let response = checkAll env h
           in send_health stamp (if hrStatus response = HealthStatusUnhealthy then 503 else 200) response)"

text \<open>The checkers.\<close>

definition DatabaseChecker :: "('w \<Rightarrow> string option) \<Rightarrow> 'w HealthChecker" where
  "DatabaseChecker pingFunc w =
     (case pingFunc w of
        Some err \<Rightarrow> \<lparr>chStatus = HealthStatusUnhealthy, chMessage = ''database unreachable: '' @ err, chLatency = []\<rparr>
      | None \<Rightarrow> \<lparr>chStatus = HealthStatusHealthy, chMessage = ''connected'', chLatency = []\<rparr>)"

definition UpstreamChecker :: "('w \<Rightarrow> bool) \<Rightarrow> 'w HealthChecker" where
  "UpstreamChecker isConnected w =
     (if \<not> isConnected w
      then \<lparr>chStatus = HealthStatusDegraded, chMessage = ''upstream disconnected - operating in standalone mode'',
            chLatency = []\<rparr>
      else \<lparr>chStatus = HealthStatusHealthy, chMessage = ''connected'', chLatency = []\<rparr>)"

definition PolicyEngineChecker :: "('w \<Rightarrow> bool) \<Rightarrow> 'w HealthChecker" where
  "PolicyEngineChecker isReady w =
     (if \<not> isReady w
      then \<lparr>chStatus = HealthStatusUnhealthy, chMessage = ''policy engine not initialized'', chLatency = []\<rparr>
      else \<lparr>chStatus = HealthStatusHealthy, chMessage = ''ready'', chLatency = []\<rparr>)"

section \<open>The observability server\<close>

record ObsConfig =
  ocMetricsEnabled :: bool
  ocMetricsAddress :: string
  ocMetricsPort :: int
  ocMetricsPath :: string
  ocHealthEnabled :: bool
  ocHealthAddress :: string
  ocHealthPort :: int
  ocLivenessPath :: string
  ocReadinessPath :: string

datatype endpoint = MetricsEndpoint | LivenessEndpoint | ReadinessEndpoint | FullHealthEndpoint

record http_server =
  htAddr :: string
  htMux :: "(string, endpoint) gomap"

record ObsServer =
  obCfg :: ObsConfig
  obMetricsServer :: "http_server option"
  obHealthServer :: "http_server option"

definition obs_NewServer :: "ObsConfig \<Rightarrow> ObsServer" where
  "obs_NewServer cfg = \<lparr>obCfg = cfg, obMetricsServer = None, obHealthServer = None\<rparr>"

text \<open>
  The servers listen in goroutines of their own, whose errors are only logged: starting can panic on
  the paths of the configuration but returns no error.
\<close>

definition startMetricsServer :: "ObsServer \<Rightarrow> ObsServer outcome" where
  "startMetricsServer s =
     bind_outcome (mux_handle (ocMetricsPath (obCfg s)) MetricsEndpoint []) (\<lambda>mux.
       Ok (s\<lparr>obMetricsServer := Some
         \<lparr>htAddr = ocMetricsAddress (obCfg s) @ '':'' @ itoa (ocMetricsPort (obCfg s)), htMux = mux\<rparr>\<rparr>))"

definition startHealthServer :: "ObsServer \<Rightarrow> ObsServer outcome" where
  "startHealthServer s =
     bind_outcome (mux_handle (ocLivenessPath (obCfg s)) LivenessEndpoint []) (\<lambda>mux1.
     bind_outcome (mux_handle (ocReadinessPath (obCfg s)) ReadinessEndpoint mux1) (\<lambda>mux2.
     bind_outcome (mux_handle ''/health/full'' FullHealthEndpoint mux2) (\<lambda>mux3.
       Ok (s\<lparr>obHealthServer := Some
         \<lparr>htAddr = ocHealthAddress (obCfg s) @ '':'' @ itoa (ocHealthPort (obCfg s)), htMux = mux3\<rparr>\<rparr>))))"

definition obs_Start :: "ObsServer \<Rightarrow> ObsServer outcome" where
  "obs_Start s =
     bind_outcome (if ocMetricsEnabled (obCfg s) then wrap_err ''failed to start metrics server'' (startMetricsServer s) else Ok s)
       (\<lambda>s1. if ocHealthEnabled (obCfg s1) then wrap_err ''failed to start health server'' (startHealthServer s1) else Ok s1)"

text \<open>\<open>shutdown\<close> is the error of shutting down the server with the given address, if any.\<close>

definition obs_Stop :: "(string \<Rightarrow> string option) \<Rightarrow> ObsServer \<Rightarrow> string option" where
  "obs_Stop shutdown s =
     (let stop = (\<lambda>what server. case server of
            Some srv \<Rightarrow> (case shutdown (htAddr srv) of Some e \<Rightarrow> [what @ '' server shutdown: '' @ e] | None \<Rightarrow> [])
          | None \<Rightarrow> []);
          errs = stop ''metrics'' (obMetricsServer s) @ stop ''health'' (obHealthServer s)
      in case errs of [] \<Rightarrow> None | e # _ \<Rightarrow> Some e)"

section \<open>Lemmas\<close>

lemma fold_check_one:
  "fold (check_one env) ncs (cs, u, d) =
     (fold (\<lambda>nc. AList.update (fst nc) (check_result env (fst nc) (snd nc))) ncs cs,
      u \<or> (\<exists>(n, c) \<in> set ncs. chStatus (c (ceWorld env n)) = HealthStatusUnhealthy),
      d \<or> (\<exists>(n, c) \<in> set ncs. chStatus (c (ceWorld env n)) = HealthStatusDegraded))"
  by (induction ncs arbitrary: cs u d) (auto simp: check_one_def check_result_def Let_def)

lemma fold_put_lookup:
  "gm_wf ncs \<Longrightarrow> map_of (fold (\<lambda>nc. AList.update (fst nc) (f (fst nc) (snd nc))) ncs m) k =
     (case map_of ncs k of Some c \<Rightarrow> Some (f k c) | None \<Rightarrow> map_of m k)"
proof (induction ncs arbitrary: m)
  case (Cons nc ncs)
  then have "map_of ncs (fst nc) = None" by (simp add: map_of_eq_None_iff)
  then show ?case using Cons by (cases nc; cases "k = fst nc") (simp_all add: gm.lookup_put split: option.split)
qed simp

lemma worst_status:
  assumes "finite S"
  shows "(if HealthStatusUnhealthy \<in> S then HealthStatusUnhealthy
      else if HealthStatusDegraded \<in> S then HealthStatusDegraded else HealthStatusHealthy) =
    Max (insert HealthStatusHealthy S)"
proof (rule Max_eqI [symmetric])
  show "y \<le> (if HealthStatusUnhealthy \<in> S then HealthStatusUnhealthy
      else if HealthStatusDegraded \<in> S then HealthStatusDegraded else HealthStatusHealthy)"
    if "y \<in> insert HealthStatusHealthy S" for y
    using that by (cases y) (auto simp: less_eq_HealthStatus_def)
qed (use assms in auto)

text \<open>Finishing in some order: the same entries, each once.\<close>

definition reorders :: "('a list \<Rightarrow> 'a list) \<Rightarrow> 'a list \<Rightarrow> bool" where
  "reorders f xs \<longleftrightarrow> set (f xs) = set xs \<and> distinct (f xs)"

lemma reorders_wf:
  assumes "reorders f m" and "gm_wf m"
  shows "gm_wf (f m)" and "map_of (f m) = map_of m"
proof -
  have "inj_on fst (set m)" using assms(2) by (simp add: distinct_map)
  then show wf: "gm_wf (f m)" using assms(1) by (simp add: reorders_def distinct_map)
  show "map_of (f m) = map_of m"
    using map_of_Some_in_set [OF wf] map_of_Some_in_set [OF assms(2)] assms(1)
    by (intro ext) (metis not_Some_eq reorders_def)
qed

text \<open>The components the response lists, and its status as the worst of theirs.\<close>

lemma checkAll_spec:
  assumes "gm_wf (hlCheckers h)" and "reorders (ceOrder env) (hlCheckers h)"
  shows "hrStatus (checkAll env h) = Max (insert HealthStatusHealthy
      ((\<lambda>(n, c). chStatus (c (ceWorld env n))) ` set (hlCheckers h)))"
    and "map_of (hrComponents (checkAll env h)) n = map_option (check_result env n) (map_of (hlCheckers h) n)"
proof -
  note wf = reorders_wf [OF assms(2,1)]
  have S: "set (ceOrder env (hlCheckers h)) = set (hlCheckers h)" using assms(2) by (simp add: reorders_def)
  have mem: "s \<in> (\<lambda>(n, c). chStatus (c (ceWorld env n))) ` set (hlCheckers h) \<longleftrightarrow>
      (\<exists>(n, c) \<in> set (ceOrder env (hlCheckers h)). chStatus (c (ceWorld env n)) = s)" for s
    unfolding S by force
  show "hrStatus (checkAll env h) = Max (insert HealthStatusHealthy
      ((\<lambda>(n, c). chStatus (c (ceWorld env n))) ` set (hlCheckers h)))"
    by (subst worst_status [symmetric]) (simp_all only: finite_imageI finite_set mem, simp add: checkAll_def fold_check_one)
  show "map_of (hrComponents (checkAll env h)) n = map_option (check_result env n) (map_of (hlCheckers h) n)"
    by (simp add: checkAll_def fold_check_one fold_put_lookup [OF wf(1)] wf(2) split: option.split)
qed

lemma checkAll_unhealthy:
  assumes "gm_wf (hlCheckers h)" and "reorders (ceOrder env) (hlCheckers h)"
  shows "hrStatus (checkAll env h) = HealthStatusUnhealthy \<longleftrightarrow>
      (\<exists>(n, c) \<in> set (hlCheckers h). chStatus (c (ceWorld env n)) = HealthStatusUnhealthy)"
proof -
  have "HealthStatusUnhealthy \<in> (\<lambda>(n, c). chStatus (c (ceWorld env n))) ` set (hlCheckers h) \<longleftrightarrow>
      (\<exists>(n, c) \<in> set (hlCheckers h). chStatus (c (ceWorld env n)) = HealthStatusUnhealthy)" by force
  then show ?thesis
    unfolding checkAll_spec(1) [OF assms] worst_status [OF finite_imageI [OF finite_set], symmetric] by simp
qed

lemma send_health_status [simp]: "hpStatus (send_health stamp code r) = Some code"
  by (simp add: send_health_def WriteBody_def WriteHeader_def SetHeader_def new_response_def Let_def)

lemma RegisterChecker_wf: "gm_wf (hlCheckers h) \<Longrightarrow> gm_wf (hlCheckers (RegisterChecker n c h))"
  by (simp add: RegisterChecker_def distinct_update)

lemma obs_Start_no_error: "obs_Start s \<noteq> Err e"
  by (auto simp: obs_Start_def startMetricsServer_def startHealthServer_def mux_handle_def)

section \<open>Property\<close>

text \<open>
  C39. The health report does not depend on how the checkers are scheduled: in whatever order they
  finish, the response lists exactly the registered components, each with what its own checker
  returned, and its status is the worst of theirs (healthy without components). The detailed endpoint
  answers 503 exactly when some component is unhealthy; a degraded one does not change the code.
\<close>

theorem health_worst_component:
  assumes "gm_wf (hlCheckers h)" and "reorders (ceOrder env) (hlCheckers h)"
  shows "map_of (hrComponents (checkAll env h)) n = map_option (check_result env n) (map_of (hlCheckers h) n) \<and>
    hrStatus (checkAll env h) =
      Max (insert HealthStatusHealthy ((\<lambda>(n, c). chStatus (c (ceWorld env n))) ` set (hlCheckers h))) \<and>
    hpStatus (FullHealthHandler stamp env h) =
      Some (if \<exists>(n, c) \<in> set (hlCheckers h). chStatus (c (ceWorld env n)) = HealthStatusUnhealthy then 503 else 200)"
  by (intro conjI checkAll_spec [OF assms])
    (simp only: FullHealthHandler_def Let_def send_health_status checkAll_unhealthy [OF assms])

definition demo_health :: "bool Health" where
  "demo_health = RegisterChecker ''upstream'' (UpstreamChecker (\<lambda>w. w))
     (RegisterChecker ''policy_engine'' (PolicyEngineChecker (\<lambda>w. w)) (NewHealth ''0.1.0''))"

definition demo_check_env :: "bool check_env" where
  "demo_check_env = \<lparr>ceNow = 0, ceOrder = rev, ceWorld = (\<lambda>n. n = ''policy_engine''), ceLatency = (\<lambda>n. ''1ms'')\<rparr>"

theorem health_worst_component_witness:
  "hpStatus (FullHealthHandler (\<lambda>t. []) demo_check_env demo_health) = Some 200"
proof -
  have "gm_wf (hlCheckers demo_health)" by (simp add: demo_health_def RegisterChecker_def NewHealth_def)
  moreover have "reorders (ceOrder demo_check_env) (hlCheckers demo_health)"
    by (simp add: reorders_def demo_check_env_def demo_health_def RegisterChecker_def NewHealth_def insert_commute)
  ultimately have "hpStatus (FullHealthHandler (\<lambda>t. []) demo_check_env demo_health) =
      Some (if \<exists>(n, c) \<in> set (hlCheckers demo_health). chStatus (c (ceWorld demo_check_env n)) = HealthStatusUnhealthy
        then 503 else 200)" using health_worst_component by blast
  then show ?thesis
    by (simp add: demo_health_def demo_check_env_def RegisterChecker_def NewHealth_def UpstreamChecker_def
        PolicyEngineChecker_def)
qed

end
