(* ===== verification/Audit_Store.thy ===== *)
theory Audit_Store
  imports Audit_Writer
begin

text \<open>
  The audit store, \<^verbatim>\<open>src/internal/audit/store.go\<close>: the SQL it sends and how it uses a
  transaction. The database (\<^verbatim>\<open>database/sql\<close> over the SQLite driver) is the parameter
  \<open>db\<close>; what is relied on is stated by \<open>table_db\<close>.
\<close>

declare map_of_eq_Some_iff [simp del] Some_eq_map_of_iff [simp del]

section \<open>Model\<close>

text \<open>Values bound to placeholders and found in result rows.\<close>

datatype sqlval = SqNull | SqInt int | SqReal rat | SqText string | SqBool bool | SqTime time

text \<open>
  The operations of a database \<open>'d\<close> and of a transaction \<open>'t\<close> on it: \<open>dbExec\<close> returns
  an error or the number of affected rows, \<open>txCommit\<close> an error or the new database.
\<close>

record ('d, 't) sqldb =
  dbOpen :: "string \<Rightarrow> string + 'd"
  dbExec :: "string \<Rightarrow> sqlval list \<Rightarrow> 'd \<Rightarrow> (string + int) \<times> 'd"
  dbQuery :: "string \<Rightarrow> sqlval list \<Rightarrow> 'd \<Rightarrow> string + sqlval list list"
  dbPing :: "'d \<Rightarrow> string option"
  dbClose :: "'d \<Rightarrow> string option \<times> 'd"
  dbBegin :: "'d \<Rightarrow> string + 't"
  txPrepare :: "string \<Rightarrow> 't \<Rightarrow> string option"
  txExec :: "string \<Rightarrow> sqlval list \<Rightarrow> 't \<Rightarrow> string + 't"
  txCommit :: "'t \<Rightarrow> 'd \<Rightarrow> string + 'd"
  txRollback :: "'t \<Rightarrow> 'd \<Rightarrow> 'd"

record 'd Store =
  stDB :: 'd
  stPath :: string

record StoreConfig =
  sgDBPath :: string

text \<open>A raw string literal: every line with its number of leading tabs.\<close>

definition raw_sql :: "(nat \<times> string) list \<Rightarrow> string" where
  "raw_sql ls = concat (map (\<lambda>(n, l). CHR 0x0A # replicate n (CHR 0x09) @ l) ls)"

definition schema_sql :: string where
  "schema_sql = raw_sql [
     (1, ''CREATE TABLE IF NOT EXISTS audit_log (''),
     (2, ''id INTEGER PRIMARY KEY AUTOINCREMENT,''),
     (2, ''request_id TEXT NOT NULL,''),
     (2, ''session_id TEXT NOT NULL,''),
     (2, ''timestamp DATETIME NOT NULL DEFAULT CURRENT_TIMESTAMP,''),
     (2, ''latency_ms REAL,''),
     (0, []),
     (2, ''-- Agent info''),
     (2, ''agent_id TEXT NOT NULL,''),
     (2, ''agent_name TEXT,''),
     (2, ''capabilities TEXT,''),
     (0, []),
     (2, ''-- Request info''),
     (2, ''method TEXT NOT NULL,''),
     (2, ''tool TEXT,''),
     (2, ''resource_uri TEXT,''),
     (2, ''arguments TEXT,''),
     (0, []),
     (2, ''-- Identity info''),
     (2, ''identity_verified INTEGER DEFAULT 0,''),
     (2, ''did TEXT,''),
     (0, []),
     (2, ''-- Policy decision''),
     (2, ''allowed INTEGER NOT NULL,''),
     (2, ''matched_rule TEXT,''),
     (2, ''violations TEXT,''),
     (2, ''policy_mode TEXT,''),
     (0, []),
     (2, ''-- Environment''),
     (2, ''source_ip TEXT,''),
     (2, ''environment TEXT''),
     (1, '');''),
     (0, []),
     (1, ''-- Indexes for common queries''),
     (1, ''CREATE INDEX IF NOT EXISTS idx_audit_timestamp ON audit_log(timestamp);''),
     (1, ''CREATE INDEX IF NOT EXISTS idx_audit_agent_id ON audit_log(agent_id);''),
     (1, ''CREATE INDEX IF NOT EXISTS idx_audit_session_id ON audit_log(session_id);''),
     (1, ''CREATE INDEX IF NOT EXISTS idx_audit_method ON audit_log(method);''),
     (1, ''CREATE INDEX IF NOT EXISTS idx_audit_allowed ON audit_log(allowed);''),
     (1, ''CREATE INDEX IF NOT EXISTS idx_audit_tool ON audit_log(tool);''),
     (1, [])]"

definition initSchema :: "('d, 't) sqldb \<Rightarrow> 'd Store \<Rightarrow> string option \<times> 'd Store" where
  "initSchema db s =
     (case dbExec db schema_sql [] (stDB s) of
        (Inl e, d) \<Rightarrow> (Some e, s\<lparr>stDB := d\<rparr>)
      | (Inr n, d) \<Rightarrow> (None, s\<lparr>stDB := d\<rparr>))"

definition NewStore :: "('d, 't) sqldb \<Rightarrow> StoreConfig \<Rightarrow> string + 'd Store" where
  "NewStore db cfg =
     (let cfg1 = (if sgDBPath cfg = [] then cfg\<lparr>sgDBPath := ''audit.db''\<rparr> else cfg)
      in case dbOpen db (sgDBPath cfg1 @ ''?_journal_mode=WAL&_busy_timeout=5000'') of
           Inl e \<Rightarrow> Inl (''failed to open database: '' @ e)
         | Inr d \<Rightarrow>
             (case initSchema db \<lparr>stDB = d, stPath = sgDBPath cfg1\<rparr> of
                (Some e, s) \<Rightarrow> Inl (''failed to initialize schema: '' @ e)
              | (None, s) \<Rightarrow> Inr s))"

text \<open>The values bound by an insertion, in the order of its columns.\<close>

definition insert_args :: "AuditRecord \<Rightarrow> sqlval list" where
  "insert_args r =
     [SqText (arRequestID r), SqText (arSessionID r), SqTime (arTimestamp r), SqReal (arLatency r),
      SqText (arAgentID r), SqText (arAgentName r), SqText (arCapabilities r),
      SqText (arMethod r), SqText (arTool r), SqText (arResourceURI r), SqText (arArguments r),
      SqBool (arIdentityVerified r), SqText (arDID r),
      SqBool (arAllowed r), SqText (arMatchedRule r), SqText (arViolations r), SqText (arPolicyMode r),
      SqText (arSourceIP r), SqText (arEnvironment r)]"

definition insert_sql :: string where
  "insert_sql = raw_sql [
     (1, ''INSERT INTO audit_log (''),
     (2, ''request_id, session_id, timestamp, latency_ms,''),
     (2, ''agent_id, agent_name, capabilities,''),
     (2, ''method, tool, resource_uri, arguments,''),
     (2, ''identity_verified, did,''),
     (2, ''allowed, matched_rule, violations, policy_mode,''),
     (2, ''source_ip, environment''),
     (1, '') VALUES (?, ?, ?, ?, ?, ?, ?, ?, ?, ?, ?, ?, ?, ?, ?, ?, ?, ?, ?)''),
     (1, [])]"

definition Store_Insert :: "('d, 't) sqldb \<Rightarrow> AuditRecord \<Rightarrow> 'd Store \<Rightarrow> string option \<times> 'd Store" where
  "Store_Insert db record s =
     (case dbExec db insert_sql (insert_args record) (stDB s) of
        (Inl e, d) \<Rightarrow> (Some e, s\<lparr>stDB := d\<rparr>)
      | (Inr n, d) \<Rightarrow> (None, s\<lparr>stDB := d\<rparr>))"

text \<open>The statement of the batch is indented by one more tab.\<close>

definition batch_sql :: string where
  "batch_sql = raw_sql [
     (2, ''INSERT INTO audit_log (''),
     (3, ''request_id, session_id, timestamp, latency_ms,''),
     (3, ''agent_id, agent_name, capabilities,''),
     (3, ''method, tool, resource_uri, arguments,''),
     (3, ''identity_verified, did,''),
     (3, ''allowed, matched_rule, violations, policy_mode,''),
     (3, ''source_ip, environment''),
     (2, '') VALUES (?, ?, ?, ?, ?, ?, ?, ?, ?, ?, ?, ?, ?, ?, ?, ?, ?, ?, ?)''),
     (1, [])]"

text \<open>The loop over the records: the error, if any, and the transaction as it was left.\<close>

fun insert_all :: "('d, 't) sqldb \<Rightarrow> AuditRecord list \<Rightarrow> 't \<Rightarrow> string option \<times> 't" where
  "insert_all db [] t = (None, t)"
| "insert_all db (r # rs) t =
     (case txExec db batch_sql (insert_args r) t of
        Inl e \<Rightarrow> (Some (''failed to insert record: '' @ e), t)
      | Inr t' \<Rightarrow> insert_all db rs t')"

text \<open>After a successful commit the deferred \<^verbatim>\<open>Rollback\<close> does nothing.\<close>

definition InsertBatch ::
    "('d, 't) sqldb \<Rightarrow> AuditRecord list \<Rightarrow> 'd Store \<Rightarrow> string option \<times> 'd Store" where
  "InsertBatch db records s =
     (if length records = 0 then (None, s)
      else case dbBegin db (stDB s) of
        Inl e \<Rightarrow> (Some (''failed to begin transaction: '' @ e), s)
      | Inr tx \<Rightarrow>
          (case txPrepare db batch_sql tx of
             Some e \<Rightarrow> (Some (''failed to prepare statement: '' @ e), s\<lparr>stDB := txRollback db tx (stDB s)\<rparr>)
           | None \<Rightarrow>
               (case insert_all db records tx of
                  (Some e, tx') \<Rightarrow> (Some e, s\<lparr>stDB := txRollback db tx' (stDB s)\<rparr>)
                | (None, tx') \<Rightarrow>
                    (case txCommit db tx' (stDB s) of
                       Inl e \<Rightarrow> (Some (''failed to commit transaction: '' @ e),
                                 s\<lparr>stDB := txRollback db tx' (stDB s)\<rparr>)
                     | Inr d \<Rightarrow> (None, s\<lparr>stDB := d\<rparr>)))))"

section \<open>Queries\<close>

record QueryOptions =
  qoStartTime :: "time option"
  qoEndTime :: "time option"
  qoAgentID :: string
  qoSessionID :: string
  qoMethod :: string
  qoTool :: string
  qoAllowed :: "bool option"
  qoLimit :: int
  qoOffset :: int
  qoOrderBy :: string
  qoOrderDesc :: bool

definition allowedOrderByColumns :: "(string, bool) gomap" where
  "allowedOrderByColumns = [(''id'', True), (''timestamp'', True), (''agent_id'', True),
     (''session_id'', True), (''method'', True), (''tool'', True), (''allowed'', True),
     (''latency_ms'', True), (''source_ip'', True)]"

text \<open>The conditions with their arguments, in the order the code appends them.\<close>

definition time_cond :: "string \<Rightarrow> time option \<Rightarrow> (string \<times> sqlval) list" where
  "time_cond c t = (case t of None \<Rightarrow> [] | Some x \<Rightarrow> [(c, SqTime x)])"

definition text_cond :: "string \<Rightarrow> string \<Rightarrow> (string \<times> sqlval) list" where
  "text_cond c v = (if v \<noteq> [] then [(c, SqText v)] else [])"

definition query_conditions :: "QueryOptions \<Rightarrow> (string \<times> sqlval) list" where
  "query_conditions opts =
     time_cond ''timestamp >= ?'' (qoStartTime opts) @ time_cond ''timestamp <= ?'' (qoEndTime opts) @
     text_cond ''agent_id = ?'' (qoAgentID opts) @ text_cond ''session_id = ?'' (qoSessionID opts) @
     text_cond ''method = ?'' (qoMethod opts) @ text_cond ''tool = ?'' (qoTool opts) @
     (case qoAllowed opts of None \<Rightarrow> [] | Some b \<Rightarrow> [(''allowed = ?'', SqBool b)])"

definition select_sql :: string where
  "select_sql = ''SELECT id, request_id, session_id, timestamp, latency_ms, '' @
     ''agent_id, agent_name, capabilities, '' @
     ''method, tool, resource_uri, arguments, '' @
     ''identity_verified, did, '' @
     ''allowed, matched_rule, violations, policy_mode, '' @
     ''source_ip, environment '' @
     ''FROM audit_log''"

definition build_query :: "QueryOptions \<Rightarrow> string + string \<times> sqlval list" where
  "build_query opts =
     (let conditions = map fst (query_conditions opts);
          args = map snd (query_conditions opts);
          q1 = (if length conditions > 0 then select_sql @ '' WHERE '' @ Join conditions '' AND '' else select_sql);
          column = (if qoOrderBy opts \<noteq> [] then qoOrderBy opts else ''timestamp'');
          order = (if qoOrderDesc opts then ''DESC'' else ''ASC'');
          q2 = q1 @ '' ORDER BY '' @ column @ '' '' @ order;
          q3 = (if qoLimit opts > 0 then q2 @ '' LIMIT '' @ itoa (qoLimit opts) else q2);
          q4 = (if qoOffset opts > 0 then q3 @ '' OFFSET '' @ itoa (qoOffset opts) else q3)
      in if qoOrderBy opts \<noteq> [] \<and> map_of allowedOrderByColumns (qoOrderBy opts) \<noteq> Some True
         then Inl (''invalid order by column: '' @ qoOrderBy opts)
         else Inr (q4, args))"

text \<open>
  \<^verbatim>\<open>rows.Scan\<close> into the fields of a record, whose types are listed in column order; a null or
  a value of another type is an error.
\<close>

datatype sqltype = TyInt | TyReal | TyText | TyBool | TyTime

fun has_type :: "sqltype \<Rightarrow> sqlval \<Rightarrow> bool" where
  "has_type TyInt (SqInt i) = True"
| "has_type TyReal (SqReal r) = True"
| "has_type TyText (SqText s) = True"
| "has_type TyBool (SqBool b) = True"
| "has_type TyTime (SqTime t) = True"
| "has_type _ _ = False"

fun int_of :: "sqlval \<Rightarrow> int" where
  "int_of (SqInt i) = i" | "int_of _ = 0"

fun real_of :: "sqlval \<Rightarrow> rat" where
  "real_of (SqReal r) = r" | "real_of _ = 0"

fun text_of :: "sqlval \<Rightarrow> string" where
  "text_of (SqText s) = s" | "text_of _ = []"

fun bool_of :: "sqlval \<Rightarrow> bool" where
  "bool_of (SqBool b) = b" | "bool_of _ = False"

fun time_of :: "sqlval \<Rightarrow> time" where
  "time_of (SqTime t) = t" | "time_of _ = 0"

definition record_types :: "sqltype list" where
  "record_types = [TyInt, TyText, TyText, TyTime, TyReal, TyText, TyText, TyText, TyText, TyText, TyText,
     TyText, TyBool, TyText, TyBool, TyText, TyText, TyText, TyText, TyText]"

definition scan_record :: "sqlval list \<Rightarrow> string + AuditRecord" where
  "scan_record row =
     (if \<not> list_all2 has_type record_types row then Inl ''sql: Scan error''
      else Inr \<lparr>arID = int_of (row ! 0), arRequestID = text_of (row ! 1), arSessionID = text_of (row ! 2),
        arTimestamp = time_of (row ! 3), arLatency = real_of (row ! 4), arAgentID = text_of (row ! 5),
        arAgentName = text_of (row ! 6), arCapabilities = text_of (row ! 7), arMethod = text_of (row ! 8),
        arTool = text_of (row ! 9), arResourceURI = text_of (row ! 10), arArguments = text_of (row ! 11),
        arIdentityVerified = bool_of (row ! 12), arDID = text_of (row ! 13), arAllowed = bool_of (row ! 14),
        arMatchedRule = text_of (row ! 15), arViolations = text_of (row ! 16),
        arPolicyMode = text_of (row ! 17), arSourceIP = text_of (row ! 18),
        arEnvironment = text_of (row ! 19)\<rparr>)"

fun scan_rows :: "sqlval list list \<Rightarrow> string + AuditRecord list" where
  "scan_rows [] = Inr []"
| "scan_rows (row # rows) =
     (case scan_record row of
        Inl e \<Rightarrow> Inl (''failed to scan row: '' @ e)
      | Inr r \<Rightarrow> (case scan_rows rows of Inl e \<Rightarrow> Inl e | Inr rs \<Rightarrow> Inr (r # rs)))"

definition Store_Query :: "('d, 't) sqldb \<Rightarrow> QueryOptions \<Rightarrow> 'd Store \<Rightarrow> string + AuditRecord list" where
  "Store_Query db opts s =
     (case build_query opts of
        Inl e \<Rightarrow> Inl e
      | Inr (query, args) \<Rightarrow>
          (case dbQuery db query args (stDB s) of
             Inl e \<Rightarrow> Inl (''failed to query: '' @ e)
           | Inr rows \<Rightarrow> scan_rows rows))"

section \<open>Statistics, pruning\<close>

record AuditStats =
  asTotalRequests :: int
  asAllowedRequests :: int
  asDeniedRequests :: int
  asUniqueAgents :: int
  asUniqueSessions :: int
  asAvgLatencyMs :: rat

definition stats_sql :: string where
  "stats_sql = raw_sql [
     (1, ''SELECT''),
     (2, ''COUNT(*) as total,''),
     (2, ''COALESCE(SUM(CASE WHEN allowed = 1 THEN 1 ELSE 0 END), 0) as allowed,''),
     (2, ''COALESCE(SUM(CASE WHEN allowed = 0 THEN 1 ELSE 0 END), 0) as denied,''),
     (2, ''COUNT(DISTINCT agent_id) as unique_agents,''),
     (2, ''COUNT(DISTINCT session_id) as unique_sessions,''),
     (2, ''AVG(latency_ms) as avg_latency''),
     (1, ''FROM audit_log''),
     (1, [])]"

text \<open>The average is null when no row matches; no row at all is an error.\<close>

definition scan_stats :: "sqlval list list \<Rightarrow> string + AuditStats" where
  "scan_stats rows =
     (case rows of
        [] \<Rightarrow> Inl ''sql: no rows in result set''
      | row # _ \<Rightarrow>
          if list_all2 has_type [TyInt, TyInt, TyInt, TyInt, TyInt] (take 5 row) \<and> length row = 6 \<and>
             (row ! 5 = SqNull \<or> has_type TyReal (row ! 5))
          then Inr \<lparr>asTotalRequests = int_of (row ! 0), asAllowedRequests = int_of (row ! 1),
             asDeniedRequests = int_of (row ! 2), asUniqueAgents = int_of (row ! 3),
             asUniqueSessions = int_of (row ! 4), asAvgLatencyMs = real_of (row ! 5)\<rparr>
          else Inl ''sql: Scan error'')"

definition GetStats :: "('d, 't) sqldb \<Rightarrow> time option \<Rightarrow> 'd Store \<Rightarrow> string + AuditStats" where
  "GetStats db since s =
     (let (query, args) = (case since of
            None \<Rightarrow> (stats_sql, [])
          | Some t \<Rightarrow> (stats_sql @ '' WHERE timestamp >= ?'', [SqTime t]))
      in case dbQuery db query args (stDB s) of
           Inl e \<Rightarrow> Inl (''failed to get stats: '' @ e)
         | Inr rows \<Rightarrow>
             (case scan_stats rows of Inl e \<Rightarrow> Inl (''failed to get stats: '' @ e) | Inr st \<Rightarrow> Inr st))"

definition Prune ::
    "('d, 't) sqldb \<Rightarrow> time \<Rightarrow> duration \<Rightarrow> 'd Store \<Rightarrow> (string + int) \<times> 'd Store" where
  "Prune db now olderThan s =
     (let cutoff = now + wrap64 (- olderThan)
      in case dbExec db ''DELETE FROM audit_log WHERE timestamp < ?'' [SqTime cutoff] (stDB s) of
           (Inl e, d) \<Rightarrow> (Inl (''failed to prune: '' @ e), s\<lparr>stDB := d\<rparr>)
         | (Inr n, d) \<Rightarrow> (Inr n, s\<lparr>stDB := d\<rparr>))"

definition Store_Ping :: "('d, 't) sqldb \<Rightarrow> 'd Store \<Rightarrow> string option" where
  "Store_Ping db s = dbPing db (stDB s)"

definition Store_Close :: "('d, 't) sqldb \<Rightarrow> 'd Store \<Rightarrow> string option \<times> 'd Store" where
  "Store_Close db s = (case dbClose db (stDB s) of (err, d) \<Rightarrow> (err, s\<lparr>stDB := d\<rparr>))"

section \<open>What is assumed of the database\<close>

text \<open>
  \<open>rows\<close> and \<open>trows\<close> are the rows of the table, as bound values, in a database and in a
  transaction. A transaction starts from the rows of its database, a successful insertion adds one
  row, a commit publishes the rows of the transaction, and a rollback leaves those of the database.
\<close>

definition table_db :: "('d, 't) sqldb \<Rightarrow> ('d \<Rightarrow> sqlval list list) \<Rightarrow> ('t \<Rightarrow> sqlval list list) \<Rightarrow> bool" where
  "table_db db rows trows \<longleftrightarrow>
     (\<forall>d t. dbBegin db d = Inr t \<longrightarrow> trows t = rows d) \<and>
     (\<forall>vs t t'. txExec db batch_sql vs t = Inr t' \<longrightarrow> trows t' = trows t @ [vs]) \<and>
     (\<forall>t d d'. txCommit db t d = Inr d' \<longrightarrow> rows d' = trows t) \<and>
     (\<forall>t d. rows (txRollback db t d) = rows d)"

lemma table_dbD:
  assumes "table_db db rows trows"
  shows "dbBegin db d = Inr t \<Longrightarrow> trows t = rows d"
    and "txExec db batch_sql vs t = Inr t' \<Longrightarrow> trows t' = trows t @ [vs]"
    and "txCommit db t d = Inr d' \<Longrightarrow> rows d' = trows t"
    and "rows (txRollback db t d) = rows d"
  using assms by (auto simp: table_db_def)

section \<open>Lemmas\<close>

lemma insert_all_rows:
  "table_db db rows trows \<Longrightarrow> insert_all db rs t = (None, t') \<Longrightarrow> trows t' = trows t @ map insert_args rs"
proof (induction rs arbitrary: t)
  case (Cons r rs)
  then obtain t1 where "txExec db batch_sql (insert_args r) t = Inr t1" "insert_all db rs t1 = (None, t')"
    by (auto split: sum.splits)
  with Cons.IH [of t1] Cons.prems(1) show ?case by (simp add: table_dbD)
qed simp

definition marks :: "string \<Rightarrow> nat" where
  "marks s = length (filter (\<lambda>c. c = CHR ''?'') s)"

lemma marks_append [simp]: "marks (s @ t) = marks s + marks t"
  by (simp add: marks_def)

lemma marks_Cons [simp]: "marks (c # s) = (if c = CHR ''?'' then 1 else 0) + marks s" "marks [] = 0"
  by (simp_all add: marks_def)

lemma marks_none: "CHR ''?'' \<notin> set s \<Longrightarrow> marks s = 0"
  by (auto simp: marks_def filter_empty_conv)

lemma marks_itoa [simp]: "marks (itoa i) = 0"
  by (rule marks_none) (auto dest!: itoa_chars simp: is_digit_def)

lemma marks_Join: "marks sep = 0 \<Longrightarrow> marks (Join xs sep) = sum_list (map marks xs)"
  by (induction xs sep rule: Join.induct) (simp_all add: marks_def)

lemma query_conditions_marks: "(c, v) \<in> set (query_conditions opts) \<Longrightarrow> marks c = 1"
  by (auto simp: query_conditions_def time_cond_def text_cond_def marks_def split: option.splits if_splits)

lemma sum_marks: "sum_list (map marks (map fst (query_conditions opts))) = length (query_conditions opts)"
proof -
  have "\<forall>x \<in> set (query_conditions opts). (marks \<circ> fst) x = 1"
    using query_conditions_marks by (metis comp_apply prod.collapse)
  from sum_list_ones [OF this] show ?thesis by (simp add: comp_def)
qed

lemma allowed_column_marks: "map_of allowedOrderByColumns c = Some True \<Longrightarrow> marks c = 0"
  by (auto simp: allowedOrderByColumns_def marks_def split: if_splits)

lemma build_query_Inr:
  assumes "build_query opts = Inr (text, args)"
  shows "args = map snd (query_conditions opts)" and "marks text = length (query_conditions opts)"
proof -
  have col: "marks (if qoOrderBy opts \<noteq> [] then qoOrderBy opts else ''timestamp'') = 0"
    using assms allowed_column_marks [of "qoOrderBy opts"]
    by (auto simp: build_query_def Let_def marks_def split: if_splits)
  have lits: "marks select_sql = 0" by code_simp
  have join: "marks (Join (map fst (query_conditions opts)) '' AND '') = length (query_conditions opts)"
    using marks_Join [of "'' AND ''"] sum_marks [of opts] by (simp add: marks_def)
  show "args = map snd (query_conditions opts)"
    using assms by (auto simp: build_query_def Let_def split: if_splits)
  show "marks text = length (query_conditions opts)"
    using assms col lits join by (auto simp: build_query_def Let_def split: if_splits)
qed

lemma InsertBatch_stored:
  assumes "table_db db rows trows" and "InsertBatch db records s = (None, s')"
  shows "rows (stDB s') = rows (stDB s) @ map insert_args records"
  using assms insert_all_rows [OF assms(1), of records]
  by (cases "records = []")
    (auto simp: InsertBatch_def table_dbD [OF assms(1)] split: sum.splits option.splits prod.splits)

lemma InsertBatch_failed:
  assumes "table_db db rows trows" and "InsertBatch db records s = (Some e, s')"
  shows "rows (stDB s') = rows (stDB s)"
  using assms(2)
  by (cases "records = []")
    (auto simp: InsertBatch_def table_dbD [OF assms(1)] split: sum.splits option.splits prod.splits)

text \<open>
  The store as the writer sees it. The state of the sink is a store together with the database that
  runs it, so that the laws hold wherever \<^const>\<open>table_db\<close> does.
\<close>

definition store_sink :: "('d, 't) sqldb \<Rightarrow> 'd Store \<Rightarrow> AuditRecord list \<Rightarrow> bool \<times> 'd Store" where
  "store_sink db s records = (case InsertBatch db records s of (err, s') \<Rightarrow> (err = None, s'))"

interpretation sink: audit_sink
  "\<lambda>(db, rows, trows, s) records. map_prod id (\<lambda>s'. (db, rows, trows, s')) (store_sink db s records)"
  "\<lambda>(db, rows, trows, s). rows (stDB s)" insert_args "\<lambda>(db, rows, trows, s). table_db db rows trows"
  by unfold_locales
    (auto simp: store_sink_def map_prod_def dest: InsertBatch_stored InsertBatch_failed split: prod.splits)

lemma Writer_flush_sink:
  "Writer_flush (store_sink db) (w, s) = (w', s') \<Longrightarrow>
   Writer_flush (\<lambda>(db, rows, trows, s) records. map_prod id (\<lambda>s'. (db, rows, trows, s')) (store_sink db s records))
     (w, (db, rows, trows, s)) = (w', (db, rows, trows, s'))"
  by (auto simp: Writer_flush_def split: option.splits prod.splits)

lemma scan_insert_args: "scan_record (SqInt i # insert_args r) = Inr (r\<lparr>arID := i\<rparr>)"
proof -
  have "list_all2 has_type record_types (SqInt i # insert_args r)"
    by (simp add: record_types_def insert_args_def)
  then show ?thesis by (cases r) (simp add: scan_record_def insert_args_def)
qed

section \<open>Properties\<close>

definition same_filters :: "QueryOptions \<Rightarrow> QueryOptions \<Rightarrow> bool" where
  "same_filters a b \<longleftrightarrow>
     (qoStartTime a = None) = (qoStartTime b = None) \<and> (qoEndTime a = None) = (qoEndTime b = None) \<and>
     (qoAgentID a = []) = (qoAgentID b = []) \<and> (qoSessionID a = []) = (qoSessionID b = []) \<and>
     (qoMethod a = []) = (qoMethod b = []) \<and> (qoTool a = []) = (qoTool b = []) \<and>
     (qoAllowed a = None) = (qoAllowed b = None) \<and> qoLimit a = qoLimit b \<and> qoOffset a = qoOffset b \<and>
     qoOrderBy a = qoOrderBy b \<and> qoOrderDesc a = qoOrderDesc b"


definition demo_opts :: "string \<Rightarrow> QueryOptions" where
  "demo_opts agent = \<lparr>qoStartTime = None, qoEndTime = None, qoAgentID = agent, qoSessionID = [],
     qoMethod = [], qoTool = [], qoAllowed = Some False, qoLimit = 0, qoOffset = 5, qoOrderBy = ''id'',
     qoOrderDesc = True\<rparr>"


text \<open>
  A batch is stored completely or not at all: when \<^verbatim>\<open>InsertBatch\<close> succeeds, the table
  holds its former rows followed by one row per record, in order; when it returns an error, from any
  step of the transaction, the table is unchanged.
\<close>

lemma insert_batch_atomic:
  assumes "table_db db rows trows" and "InsertBatch db records s = (err, s')"
  shows "rows (stDB s') = (case err of None \<Rightarrow> rows (stDB s) @ map insert_args records
                           | Some e \<Rightarrow> rows (stDB s))"
  using InsertBatch_stored [OF assms(1), of records s s'] InsertBatch_failed [OF assms(1), of records s _ s'] assms(2)
  by (cases err) auto

definition demo_db :: "(sqlval list list, sqlval list list) sqldb" where
  "demo_db = \<lparr>dbOpen = (\<lambda>p. Inr []), dbExec = (\<lambda>q vs d. (Inr 1, d @ [vs])), dbQuery = (\<lambda>q vs d. Inr d),
     dbPing = (\<lambda>d. None), dbClose = (\<lambda>d. (None, d)), dbBegin = (\<lambda>d. Inr d), txPrepare = (\<lambda>q t. None),
     txExec = (\<lambda>q vs t. if length t < 2 then Inr (t @ [vs]) else Inl ''disk full''),
     txCommit = (\<lambda>t d. Inr t), txRollback = (\<lambda>t d. d)\<rparr>"

lemma demo_db_table: "table_db demo_db (\<lambda>d. d) (\<lambda>t. t)"
  by (auto simp: table_db_def demo_db_def split: if_splits)

text \<open>
  Round trip of a row: the statements bind exactly one value per placeholder, and scanning a row
  that holds the values of an insertion behind its generated ID gives the inserted record back, with
  every column in its field.
\<close>

lemma insert_scan_roundtrip:
  "scan_record (SqInt i # insert_args r) = Inr (r\<lparr>arID := i\<rparr>) \<and>
   marks insert_sql = length (insert_args r) \<and> marks batch_sql = length (insert_args r)"
proof -
  have "marks insert_sql = 19" "marks batch_sql = 19" by code_simp+
  moreover have "length (insert_args r) = 19" by (simp add: insert_args_def)
  ultimately show ?thesis by (simp add: scan_insert_args)
qed



end
