(* ===== verification/Lifecycle.thy ===== *)
theory Lifecycle
  imports Proxy Policy_Loader Sse_Transport Stdio_Transport Health Audit_Store
begin

text \<open>
  The life of the application, \<^verbatim>\<open>src/cmd/proxy/main.go\<close>: what \<^verbatim>\<open>newApplication\<close> assembles,
  \<^verbatim>\<open>Start\<close> and \<^verbatim>\<open>Stop\<close>. Goroutines that are started here (the flush loop of the audit
  writer, the cleanup of sessions, the reading of upstream events, the read loop of the stdio
  transport) are modelled in the theories of their components.
\<close>

declare map_of_eq_Some_iff [simp del] Some_eq_map_of_iff [simp del]

section \<open>The application\<close>

datatype 'w server = TSse "'w SseServer" | TStdio "'w StdioServer"

text \<open>What the health checkers look at.\<close>

record ('q, 'd) checked =
  ckEngine :: "'q Engine"
  ckUpstream :: "Client option"
  ckStore :: "'d Store option"

type_synonym ('q, 'm) app_world = "('q, Client option, 'm) world"

record ('q, 'm, 'd) app =
  apCfg :: Config
  apManager :: Manager
  apWorld :: "('q, 'm) app_world"
  apStore :: "'d Store option"
  apTransport :: "('q, 'm) app_world server"
  apMeter :: "'m meter"
  apHealth :: "('q, 'd) checked Health"
  apObs :: ObsServer

definition app_version :: string where
  "app_version = ''0.1.0''"

text \<open>The checkers that are registered: the engine always, upstream and store when there is one.\<close>

definition app_health ::
    "('d, 't) sqldb \<Rightarrow> Client option \<Rightarrow> 'd Store option \<Rightarrow> ('q, 'd) checked Health" where
  "app_health db upstream store =
     (let h0 = NewHealth app_version;
          h1 = RegisterChecker ''policy_engine'' (PolicyEngineChecker (\<lambda>w. Engine_IsReady (ckEngine w))) h0;
          h2 = (case upstream of
                  Some c \<Rightarrow> RegisterChecker ''upstream'' (UpstreamChecker (\<lambda>w. upstream_connected (ckUpstream w))) h1
                | None \<Rightarrow> h1)
      in case store of
           Some s \<Rightarrow> RegisterChecker ''audit_store''
               (DatabaseChecker (\<lambda>w. case ckStore w of Some st \<Rightarrow> Store_Ping db st | None \<Rightarrow> None)) h2
         | None \<Rightarrow> h2)"

definition obs_config :: "Config \<Rightarrow> ObsConfig" where
  "obs_config cfg =
     \<lparr>ocMetricsEnabled = meEnabled (cgMetrics cfg), ocMetricsAddress = meAddress (cgMetrics cfg),
      ocMetricsPort = mePort (cgMetrics cfg), ocMetricsPath = mePath (cgMetrics cfg),
      ocHealthEnabled = heEnabled (cgHealth cfg), ocHealthAddress = heAddress (cgHealth cfg),
      ocHealthPort = hePort (cgHealth cfg), ocLivenessPath = heLivenessPath (cgHealth cfg),
      ocReadinessPath = heReadinessPath (cgHealth cfg)\<rparr>"

text \<open>The transport with its message handler, \<^const>\<open>None\<close> for an unknown name.\<close>

definition new_transport :: "Config \<Rightarrow> 'w message_handler \<Rightarrow> 'w server option" where
  "new_transport cfg handler =
     (if svTransport (cgServer cfg) = ''sse''
      then Some (TSse (sse_Server_SetMessageHandler handler (sse_NewServer (cgServer cfg) (cgAgent cfg))))
      else if svTransport (cgServer cfg) = ''stdio''
      then Some (TStdio (stdio_SetMessageHandler handler (stdio_NewServer (cgAgent cfg))))
      else None)"

text \<open>
  The message handler is a closure over the application, so it records in the collectors that are
  registered after it was set: those of \<^const>\<open>NewMetrics\<close>. \<open>env\<close> are the readings of the
  message that is handled.
\<close>

definition app_handler ::
    "gojson \<Rightarrow> 'q opa \<Rightarrow> (time \<Rightarrow> string outcome) \<Rightarrow> (rat \<Rightarrow> string) \<Rightarrow> (bytes \<Rightarrow> string + gobj) \<Rightarrow> 'm prom \<Rightarrow> call_env \<Rightarrow>
     Config \<Rightarrow> ('q, 'm) app_world message_handler" where
  "app_handler gj opa fmt num unmarshal pm env cfg =
     app_handleMessage gj opa fmt num unmarshal \<lparr>mrProm = pm, mrMetrics = metrics_of ''mcp_proxy''\<rparr> cfg env"

definition newApplication ::
    "gojson \<Rightarrow> 'q opa \<Rightarrow> (time \<Rightarrow> string outcome) \<Rightarrow> (rat \<Rightarrow> string) \<Rightarrow> (bytes \<Rightarrow> string + gobj) \<Rightarrow> 'm prom \<Rightarrow> ('d, 't) sqldb \<Rightarrow>
     call_env \<Rightarrow> Config \<Rightarrow> (string + ('q, 'm, 'd) app, 'm) act" where
  "newApplication gj opa fmt num unmarshal pm db env cfg = (\<lambda>reg.
     let manager = NewManager \<lparr>cfgSessionTTL = 2 * hour, cfgCleanupInterval = 1 * minute,
            cfgMaxSessions = svMaxConnections (cgServer cfg)\<rparr>;
         upstream = (if upURL (cgUpstream cfg) \<noteq> [] then Some (NewClient (cgUpstream cfg)) else None)
     in case (if auEnabled (cgAudit cfg)
              then (case NewStore db \<lparr>sgDBPath = auDBPath (cgAudit cfg)\<rparr> of Inl e \<Rightarrow> Inl e | Inr s \<Rightarrow> Inr (Some s))
              else Inr None) of
          Inl e \<Rightarrow> (Return (Inl (''failed to create audit store: '' @ e)), reg)
        | Inr store \<Rightarrow>
            let writer = map_option (\<lambda>_. NewWriter \<lparr>wcBufferSize = auBufferSize (cgAudit cfg),
                  wcFlushInterval = auFlushInterval (cgAudit cfg)\<rparr>) store;
                engine = NewEngine opa \<lparr>egMode = poMode (cgPolicy cfg), egEnabled = poEnabled (cgPolicy cfg),
                  egCacheConfig = \<lparr>ccEnabled = True, ccTTL = 5 * minute, ccMaxEntries = 10000\<rparr>\<rparr>
            in case new_transport cfg (app_handler gj opa fmt num unmarshal pm env cfg) of
                 None \<Rightarrow> (Return (Inl (''unknown transport: '' @ svTransport (cgServer cfg))), reg)
               | Some tr \<Rightarrow>
                   bind_act (NewMetrics pm ''mcp_proxy'') (\<lambda>metrics reg'.
                     (Return (Inr \<lparr>apCfg = cfg, apManager = manager,
                        apWorld = \<lparr>woEngine = engine, woWriter = writer, woUpstream = upstream, woMetrics = reg'\<rparr>,
                        apStore = store, apTransport = tr, apMeter = \<lparr>mrProm = pm, mrMetrics = metrics\<rparr>,
                        apHealth = app_health db upstream store, apObs = obs_NewServer (obs_config cfg)\<rparr>), reg')) reg)"

section \<open>Start\<close>

text \<open>What the world answers while the application starts.\<close>

record start_env =
  sxFiles :: files
  sxCompile :: compile_env
  sxConnect :: http_result
  sxListen :: "string \<Rightarrow> string option"
  sxSession :: "string \<times> time \<times> time"

fun server_started :: "'w server \<Rightarrow> bool" where
  "server_started (TSse s) = seStarted s"
| "server_started (TStdio s) = siStarted s"

fun server_Name :: "'w server \<Rightarrow> string" where
  "server_Name (TSse s) = sse_Name"
| "server_Name (TStdio s) = stdio_Name"

fun server_Start :: "start_env \<Rightarrow> 'w server \<times> Manager \<Rightarrow> string option call \<times> 'w server \<times> Manager" where
  "server_Start env (TSse s, m) = (case sse_Start (sxListen env) s of (r, s') \<Rightarrow> (r, TSse s', m))"
| "server_Start env (TStdio s, m) = (case stdio_Start (sxSession env) (s, m) of (r, s', m') \<Rightarrow> (r, TStdio s', m'))"

definition app_loader :: "Config \<Rightarrow> Loader" where
  "app_loader cfg = NewLoader (poPolicyDir (cgPolicy cfg)) (poDataFile (cgPolicy cfg)) []"

definition start_policies :: "'q opa \<Rightarrow> start_env \<Rightarrow> (unit outcome, ('q, 'm, 'd) app) act" where
  "start_policies opa env = (\<lambda>app.
     if poEnabled (cgPolicy (apCfg app))
     then (case LoadAndInitialize opa (sxFiles env) (sxCompile env) (app_loader (apCfg app)) (woEngine (apWorld app)) of
             (r, e) \<Rightarrow> (Return (wrap_err ''failed to load policies'' r), app\<lparr>apWorld := (apWorld app)\<lparr>woEngine := e\<rparr>\<rparr>))
     else (Return (Ok ()), app))"

text \<open>A failed connection to the upstream is only logged.\<close>

definition start_upstream :: "start_env \<Rightarrow> ('q, 'm, 'd) app \<Rightarrow> ('q, 'm, 'd) app" where
  "start_upstream env app =
     app\<lparr>apWorld := (apWorld app)\<lparr>woUpstream := map_option (\<lambda>c. snd (Connect (sxConnect env) c)) (woUpstream (apWorld app))\<rparr>\<rparr>"

text \<open>The transport and the observability server, then the flag of the readiness check.\<close>

definition start_servers :: "start_env \<Rightarrow> (string option, ('q, 'm, 'd) app) act" where
  "start_servers env = (\<lambda>app.
     case server_Start env (apTransport app, apManager app) of
       (r, tr, m) \<Rightarrow>
         let app1 = app\<lparr>apTransport := tr, apManager := m\<rparr>
         in case r of
              Panicked p \<Rightarrow> (Panicked p, app1)
            | Return (Some e) \<Rightarrow>
                (Return (Some (''failed to start '' @ server_Name tr @ '' server: '' @ e)), app1)
            | Return None \<Rightarrow>
                (case wrap_err ''failed to start observability server'' (obs_Start (apObs app1)) of
                   Err e \<Rightarrow> (Return (Some e), app1)
                 | Panic p \<Rightarrow> (Panicked p, app1)
                 | Ok obs \<Rightarrow> (Return None, app1\<lparr>apObs := obs, apHealth := SetReady True (apHealth app1)\<rparr>)))"

definition app_Start :: "'q opa \<Rightarrow> start_env \<Rightarrow> (string option, ('q, 'm, 'd) app) act" where
  "app_Start opa env =
     bind_act (start_policies opa env) (\<lambda>r.
       case r of
         Err e \<Rightarrow> ret_act (Some e)
       | Panic p \<Rightarrow> panic_act p
       | Ok _ \<Rightarrow> (\<lambda>app. start_servers env (start_upstream env (app\<lparr>apManager := Manager_Start (apManager app)\<rparr>))))"

section \<open>Stop\<close>

record stop_env =
  spObs :: "string \<Rightarrow> string option"
  spTransport :: "string option"

fun server_Stop :: "stop_env \<Rightarrow> 'w server \<times> Manager \<Rightarrow> string option call \<times> 'w server \<times> Manager" where
  "server_Stop env (TSse s, m) = (case sse_Stop (spTransport env) s of (r, s') \<Rightarrow> (r, TSse s', m))"
| "server_Stop env (TStdio s, m) = (case stdio_Stop () (s, m) of (r, s', m') \<Rightarrow> (r, TStdio s', m'))"

definition stop_upstream :: "(unit, ('q, 'm, 'd) app) act" where
  "stop_upstream = (\<lambda>app.
     case woUpstream (apWorld app) of
       None \<Rightarrow> (Return (), app)
     | Some c \<Rightarrow> (case Disconnect c of (r, c') \<Rightarrow> (r, app\<lparr>apWorld := (apWorld app)\<lparr>woUpstream := Some c'\<rparr>\<rparr>)))"

definition stop_sessions :: "(unit, ('q, 'm, 'd) app) act" where
  "stop_sessions = (\<lambda>app.
     case Manager_Stop (apManager app) of
       None \<Rightarrow> (Panicked ''close of closed channel'', app)
     | Some m \<Rightarrow> (Return (), app\<lparr>apManager := m\<rparr>))"

text \<open>
  Stopping the writer: the flush loop is idle, finds its context cancelled and flushes what is left;
  \<^verbatim>\<open>Stop\<close> waits for it. The store is closed after that; an error of closing it is only logged.
\<close>

definition stop_writer :: "('d, 't) sqldb \<Rightarrow> ('q, 'm, 'd) app \<Rightarrow> ('q, 'm, 'd) app" where
  "stop_writer db app =
     (case (woWriter (apWorld app), apStore app) of
        (Some wr, Some st) \<Rightarrow>
          (case Writer_flush (store_sink db) (Writer_cancel wr, st) of
             (wr', st') \<Rightarrow> app\<lparr>apWorld := (apWorld app)\<lparr>woWriter := Some wr'\<rparr>, apStore := Some st'\<rparr>)
      | _ \<Rightarrow> app)"

definition stop_audit :: "('d, 't) sqldb \<Rightarrow> ('q, 'm, 'd) app \<Rightarrow> ('q, 'm, 'd) app" where
  "stop_audit db app =
     (let app1 = stop_writer db app
      in app1\<lparr>apStore := map_option (\<lambda>st. snd (Store_Close db st)) (apStore app1)\<rparr>)"

definition app_Stop :: "('d, 't) sqldb \<Rightarrow> stop_env \<Rightarrow> (string option, ('q, 'm, 'd) app) act" where
  "app_Stop db env = (\<lambda>app.
     let app1 = app\<lparr>apHealth := SetReady False (apHealth app)\<rparr>;
         obsError = obs_Stop (spObs env) (apObs app1)
     in case server_Stop env (apTransport app1, apManager app1) of
          (Panicked p, tr, m) \<Rightarrow> (Panicked p, app1\<lparr>apTransport := tr, apManager := m\<rparr>)
        | (Return transportError, tr, m) \<Rightarrow>
            bind_act stop_upstream (\<lambda>_.
            bind_act stop_sessions (\<lambda>_ app2. (Return None, stop_audit db app2)))
              (app1\<lparr>apTransport := tr, apManager := m\<rparr>))"

section \<open>Lemmas\<close>

lemma server_Start_started: "server_Start env (tr, m) = (Return None, tr', m') \<Longrightarrow> server_started tr'"
  by (cases tr) (auto simp: sse_Start_def stdio_Start_def Let_def split: if_splits option.splits prod.splits sum.splits)

lemma start_servers_effect:
  assumes "start_servers env app = (res, app')"
  shows "apWorld app' = apWorld app \<and> apCfg app' = apCfg app \<and>
    (if res = Return None then server_started (apTransport app') \<and> hlReady (apHealth app')
     else apHealth app' = apHealth app)"
  using assms
  by (auto simp: start_servers_def Let_def SetReady_def dest: server_Start_started
      split: prod.splits call.splits option.splits outcome.splits)

lemma app_Start_load_failed:
  assumes "poEnabled (cgPolicy (apCfg app))"
    and "LoadAndInitialize opa (sxFiles env) (sxCompile env) (app_loader (apCfg app)) (woEngine (apWorld app)) = (r, e)"
    and "r \<noteq> Ok ()"
  shows "snd (app_Start opa env app) = app\<lparr>apWorld := (apWorld app)\<lparr>woEngine := e\<rparr>\<rparr> \<and> fst (app_Start opa env app) \<noteq> Return None"
  using assms
  by (cases r) (simp_all add: app_Start_def start_policies_def bind_act_def ret_act_def panic_act_def)

lemma app_Start_loaded:
  assumes "poEnabled (cgPolicy (apCfg app))"
    and "LoadAndInitialize opa (sxFiles env) (sxCompile env) (app_loader (apCfg app)) (woEngine (apWorld app)) = (Ok (), e)"
    and "app_Start opa env app = (res, app')"
  shows "woEngine (apWorld app') = e \<and>
    (if res = Return None then server_started (apTransport app') \<and> hlReady (apHealth app')
     else apHealth app' = apHealth app)"
proof -
  let ?app = "app\<lparr>apWorld := (apWorld app)\<lparr>woEngine := e\<rparr>, apManager := Manager_Start (apManager app)\<rparr>"
  have "start_servers env (start_upstream env ?app) = (res, app')"
    using assms by (simp add: app_Start_def start_policies_def bind_act_def)
  from start_servers_effect [OF this] show ?thesis by (simp add: start_upstream_def)
qed

lemma app_health_wf: "gm_wf (hlCheckers (app_health db u s))"
  by (auto simp: app_health_def Let_def NewHealth_def intro!: RegisterChecker_wf split: option.split)

lemma app_health_checkers:
  "set (hlCheckers (app_health db u s)) =
     {(''policy_engine'', PolicyEngineChecker (\<lambda>w. Engine_IsReady (ckEngine w)))} \<union>
     (if u = None then {} else {(''upstream'', UpstreamChecker (\<lambda>w. upstream_connected (ckUpstream w)))}) \<union>
     (if s = None then {} else {(''audit_store'',
        DatabaseChecker (\<lambda>w. case ckStore w of Some st \<Rightarrow> Store_Ping db st | None \<Rightarrow> None))})"
  by (cases u; cases s) (auto simp: app_health_def RegisterChecker_def NewHealth_def Let_def)

lemma newApplication_health:
  assumes "newApplication gj opa fmt num unmarshal pm db menv cfg reg = (Return (Inr app), reg')"
  obtains u s where "apHealth app = app_health db u s" "s = None \<longleftrightarrow> \<not> auEnabled (cgAudit cfg)"
  using assms
  by (auto simp: newApplication_def Let_def bind_act_def split: if_splits sum.splits option.splits prod.splits call.splits)

text \<open>Stopping.\<close>

lemma stop_fold_sessions:
  "mSessions (fold (\<lambda>(k, r) m'. (upd_session r Session_Close m')\<lparr>mSessions := AList.delete k (mSessions m')\<rparr>) es m) =
     filter (\<lambda>e. fst e \<notin> fst ` set es) (mSessions m)"
proof (induction es arbitrary: m)
  case (Cons e es)
  then show ?case by (cases e) (auto simp: AList.delete_eq upd_session_def intro!: filter_cong)
qed simp

lemma stop_fold_closes:
  "r \<in> snd ` set es \<Longrightarrow> r < length (mHeap m) \<Longrightarrow>
   sDone (mHeap (fold (\<lambda>(k, r) m'. (upd_session r Session_Close m')\<lparr>mSessions := AList.delete k (mSessions m')\<rparr>) es m) ! r)"
proof (induction es arbitrary: m)
  case (Cons e es)
  obtain k a where e: "e = (k, a)" by (cases e)
  let ?m = "(upd_session a Session_Close m)\<lparr>mSessions := AList.delete k (mSessions m)\<rparr>"
  show ?case
  proof (cases "r \<in> snd ` set es")
    case True
    then show ?thesis using Cons.IH [of ?m] Cons.prems(2) by (simp add: e upd_session_def)
  next
    case False
    then have "a = r" using Cons.prems(1) e by auto
    then have "r < length (mHeap ?m) \<and> sDone (mHeap ?m ! r)" using Cons.prems(2) by (simp add: upd_session_def Session_Close_def)
    then show ?thesis using keeps_closed_stop_fold [of r ?m es] by (simp add: e keeps_closed_def upd_session_def)
  qed
qed simp

lemma Manager_Stop_closes:
  assumes "Manager_Stop m = Some m'"
  shows "mSessions m' = [] \<and> (\<forall>r \<in> snd ` set (mSessions m). r < length (mHeap m) \<longrightarrow> sDone (mHeap m' ! r))"
  using assms stop_fold_sessions [of "mSessions m" "m\<lparr>mDone := True\<rparr>"] stop_fold_closes [of _ "mSessions m" "m\<lparr>mDone := True\<rparr>"]
  by (auto simp: Manager_Stop_def filter_empty_conv split: if_splits)

text \<open>Stopping the transport removes sessions only after closing them.\<close>

lemma Manager_Delete_sessions:
  "map_of (mSessions m) k = Some r \<Longrightarrow> r < length (mHeap m) \<Longrightarrow>
   map_of (mSessions (Manager_Delete k' m)) k = Some r \<or> sDone (mHeap (Manager_Delete k' m) ! r)"
  by (cases "map_of (mSessions m) k'")
    (auto simp: Manager_Delete_def Let_def upd_session_def Session_Close_def delete_conv' nth_list_update)

fun server_done :: "'w server \<Rightarrow> bool" where
  "server_done (TSse s) = seDone s"
| "server_done (TStdio s) = siDone s"

lemma server_Stop_stops:
  assumes "server_started tr" and "\<not> server_done tr"
  shows "\<exists>e tr' m'. server_Stop env (tr, m) = (Return e, tr', m') \<and> \<not> server_started tr' \<and> mDone m' = mDone m \<and>
    length (mHeap m') = length (mHeap m) \<and>
    (\<forall>k r. map_of (mSessions m) k = Some r \<longrightarrow> r < length (mHeap m) \<longrightarrow>
       map_of (mSessions m') k = Some r \<or> sDone (mHeap m' ! r))"
proof (cases tr)
  case (TSse s)
  with assms show ?thesis by (simp add: sse_Stop_def Let_def)
next
  case (TStdio s)
  have del: "mDone (Manager_Delete k n) = mDone n" "length (mHeap (Manager_Delete k n)) = length (mHeap n)" for k n
    by (simp_all add: Manager_Delete_def upd_session_def Let_def split: option.split)
  show ?thesis
  proof (cases "siSession s")
    case None
    with TStdio assms show ?thesis by (simp add: stdio_Stop_def Let_def)
  next
    case (Some a)
    let ?m1 = "upd_session a Session_Close m"
    let ?k = "sID (mHeap ?m1 ! a)"
    have "server_Stop env (tr, m) =
        (Return None, TStdio (s\<lparr>siStarted := False, siDone := True\<rparr>), Manager_Delete ?k ?m1)"
      using TStdio assms Some by (simp add: stdio_Stop_def Let_def)
    moreover have "map_of (mSessions (Manager_Delete ?k ?m1)) k = Some r \<or> sDone (mHeap (Manager_Delete ?k ?m1) ! r)"
      if "map_of (mSessions m) k = Some r" "r < length (mHeap m)" for k r
      using that Manager_Delete_sessions [of ?m1 k r ?k] by (simp add: upd_session_def)
    moreover have "mDone ?m1 = mDone m" "length (mHeap ?m1) = length (mHeap m)" by (simp_all add: upd_session_def)
    ultimately show ?thesis using del by simp
  qed
qed

lemma stop_upstream_stops:
  assumes "\<And>c. woUpstream (apWorld app) = Some c \<Longrightarrow> \<not> clDone c"
  shows "\<exists>u. stop_upstream app = (Return (), app\<lparr>apWorld := (apWorld app)\<lparr>woUpstream := u\<rparr>\<rparr>) \<and> \<not> upstream_connected u"
proof (cases "woUpstream (apWorld app)")
  case None
  moreover have "app\<lparr>apWorld := (apWorld app)\<lparr>woUpstream := woUpstream (apWorld app)\<rparr>\<rparr> = app" by simp
  ultimately show ?thesis by (intro exI [of _ None]) (simp add: stop_upstream_def upstream_connected_def)
next
  case (Some c)
  with assms [OF Some] show ?thesis
    by (auto simp: stop_upstream_def Disconnect_def upstream_connected_def IsConnected_def Let_def)
qed

lemma policy_before_traffic:
  assumes "poEnabled (cgPolicy (apCfg app))" and "\<not> server_started (apTransport app)" and "\<not> hlReady (apHealth app)"
    and "app_Start opa env app = (res, app')"
  shows "(hlReady (apHealth app') \<longrightarrow> server_started (apTransport app') \<and> res = Return None) \<and>
    (server_started (apTransport app') \<longrightarrow>
      (\<exists>modules data. Loader_LoadPolicies (sxFiles env) (sxCompile env) (app_loader (apCfg app)) = Ok modules \<and>
         LoadPolicyData (sxFiles env) (app_loader (apCfg app)) = Ok data \<and>
         opaPrepare opa ''data.mcp.policy.decision'' modules (if data = [] then None else Some data) =
           Ok (enQuery (woEngine (apWorld app'))) \<and>
         enModules (woEngine (apWorld app')) = modules))"
proof -
  obtain r e where load: "LoadAndInitialize opa (sxFiles env) (sxCompile env) (app_loader (apCfg app))
      (woEngine (apWorld app)) = (r, e)" by fastforce
  show ?thesis
  proof (cases "r = Ok ()")
    case False
    have "apTransport app' = apTransport app" "apHealth app' = apHealth app"
      using app_Start_load_failed [OF assms(1) load False] assms(4) by auto
    with assms(2,3) show ?thesis by simp
  next
    case True
    note start = app_Start_loaded [OF assms(1) load [unfolded True] assms(4)]
    have "woEngine (apWorld app') = e" using start by blast
    with LoadAndInitialize_Ok [OF load [unfolded True]] start assms(3) show ?thesis by (cases "res = Return None") auto
  qed
qed

section \<open>Properties\<close>

text \<open>
  C5. No traffic without the policy: when policies are enabled, whatever the outcome of
  \<^verbatim>\<open>Start\<close>, the transport has been started only if the policies and their data were read and
  OPA compiled them, and then the engine's query is the one prepared from exactly these; and the
  proxy reports itself ready only after that. Neither depends on the upstream being reachable.
\<close>

theorem no_traffic_without_policy:
  assumes "poEnabled (cgPolicy (apCfg app))" and "\<not> server_started (apTransport app)" and "\<not> hlReady (apHealth app)"
    and "app_Start opa env app = (res, app')"
  shows "(hlReady (apHealth app') \<longrightarrow> server_started (apTransport app') \<and> res = Return None) \<and>
    (server_started (apTransport app') \<longrightarrow>
      (\<exists>modules data. Loader_LoadPolicies (sxFiles env) (sxCompile env) (app_loader (apCfg app)) = Ok modules \<and>
         LoadPolicyData (sxFiles env) (app_loader (apCfg app)) = Ok data \<and>
         opaPrepare opa ''data.mcp.policy.decision'' modules (if data = [] then None else Some data) =
           Ok (enQuery (woEngine (apWorld app'))) \<and>
         enModules (woEngine (apWorld app')) = modules))"
  using policy_before_traffic [OF assms] .

text \<open>A configuration with policies, served over SSE.\<close>

definition demo_config :: Config where
  "demo_config = zero_config\<lparr>cgServer := (cgServer zero_config)\<lparr>svTransport := ''sse''\<rparr>,
     cgPolicy := (cgPolicy zero_config)\<lparr>poEnabled := True, poPolicyDir := ''policies'', poDataFile := ''data.json''\<rparr>\<rparr>"

definition demo_app :: "(string, demo_registry, sqlval list list) app" where
  "demo_app =
     \<lparr>apCfg = demo_config, apManager = demo_manager,
      apWorld = \<lparr>woEngine = NewEngine demo_opa demo_engine_cfg, woWriter = None, woUpstream = None, woMetrics = demo_registry0\<rparr>,
      apStore = None, apTransport = TSse (sse_NewServer (cgServer demo_config) (cgAgent demo_config)),
      apMeter = \<lparr>mrProm = demo_prom, mrMetrics = metrics_of ''mcp_proxy''\<rparr>, apHealth = app_health demo_db None None,
      apObs = obs_NewServer (obs_config demo_config)\<rparr>"

definition demo_start :: start_env where
  "demo_start = \<lparr>sxFiles = demo_files, sxCompile = demo_ce, sxConnect = CallFailed ''refused'',
     sxListen = (\<lambda>a. None), sxSession = (''u'', 0, 0)\<rparr>"

lemma demo_app_loader: "app_loader demo_config = demo_loader"
  by (simp add: app_loader_def demo_config_def demo_loader_def)

lemma demo_load: "\<exists>e. LoadAndInitialize demo_opa demo_files demo_ce demo_loader (NewEngine demo_opa ec) = (Ok (), e)"
proof -
  have "loadJSONPolicies demo_files demo_ce demo_loader = Err ''failed to parse policies/json/a.json: unexpected end of JSON input''"
    by (simp add: loadJSONPolicies_def demo_loader_eq demo_files_def demo_paths)
  then have "Loader_LoadPolicies demo_files demo_ce demo_loader = Ok [(''base.rego'', ''policies/base.rego'')]"
    by (simp add: Loader_LoadPolicies_def demo_rego put_all_def)
  moreover have "LoadPolicyData demo_files demo_loader = Ok []" by (simp add: LoadPolicyData_def demo_files_def)
  ultimately show ?thesis
    by (simp add: LoadAndInitialize_def SetPolicyData_def LoadPolicies_def compileWithData_def NewEngine_def
        demo_opa_def Let_def)
qed

lemma demo_app_fields:
  "poEnabled (cgPolicy (apCfg demo_app))" "\<not> server_started (apTransport demo_app)" "\<not> hlReady (apHealth demo_app)"
  by (simp_all add: demo_app_def demo_config_def sse_NewServer_def app_health_def RegisterChecker_def NewHealth_def Let_def)

lemma demo_app_starts:
  "fst (app_Start demo_opa demo_start demo_app) = Return None"
  "server_started (apTransport (snd (app_Start demo_opa demo_start demo_app)))"
proof -
  obtain e where e: "LoadAndInitialize demo_opa demo_files demo_ce demo_loader (NewEngine demo_opa demo_engine_cfg) = (Ok (), e)"
    using demo_load by blast
  have "fst (app_Start demo_opa demo_start demo_app) = Return None \<and>
    server_started (apTransport (snd (app_Start demo_opa demo_start demo_app)))"
    using e demo_app_loader
    by (simp add: app_Start_def start_policies_def demo_app_def demo_start_def bind_act_def start_servers_def
        start_upstream_def sse_Start_def sse_NewServer_def obs_Start_def obs_NewServer_def obs_config_def
        demo_config_def zero_config_def Let_def)
  then show "fst (app_Start demo_opa demo_start demo_app) = Return None"
    "server_started (apTransport (snd (app_Start demo_opa demo_start demo_app)))" by simp_all
qed

theorem no_traffic_without_policy_witness:
  "server_started (apTransport (snd (app_Start demo_opa demo_start demo_app))) \<and>
   (\<exists>modules. Loader_LoadPolicies demo_files demo_ce demo_loader = Ok modules \<and>
      enModules (woEngine (apWorld (snd (app_Start demo_opa demo_start demo_app)))) = modules)"
  using no_traffic_without_policy [OF demo_app_fields prod.collapse [symmetric], of demo_opa demo_start] demo_app_starts(2)
  by (auto simp: demo_app_loader demo_start_def demo_app_def)

text \<open>
  C22. When the readiness endpoint answers 200: for an application built by \<^verbatim>\<open>newApplication\<close>,
  exactly when the flag is set, the checker of the engine found it ready, and, with auditing enabled,
  the checker of the store reached the database. A lost upstream never makes the proxy unready.
\<close>

theorem readiness_iff:
  assumes "newApplication gj opa fmt num unmarshal pm db menv cfg reg = (Return (Inr app), reg')"
    and "h = SetReady b (apHealth app)" and "reorders (ceOrder cenv) (hlCheckers h)"
  shows "hpStatus (ReadinessHandler stamp cenv h) = Some (
    if b \<and> Engine_IsReady (ckEngine (ceWorld cenv ''policy_engine'')) \<and>
       (auEnabled (cgAudit cfg) \<longrightarrow>
         (\<forall>st. ckStore (ceWorld cenv ''audit_store'') = Some st \<longrightarrow> Store_Ping db st = None))
    then 200 else 503)"
proof -
  obtain u s where h: "apHealth app = app_health db u s" "s = None \<longleftrightarrow> \<not> auEnabled (cgAudit cfg)"
    using newApplication_health [OF assms(1)] .
  have wf: "gm_wf (hlCheckers h)" using app_health_wf [of db u s] by (simp add: assms(2) h(1) SetReady_def)
  have "hrStatus (checkAll cenv h) = HealthStatusUnhealthy \<longleftrightarrow>
      \<not> Engine_IsReady (ckEngine (ceWorld cenv ''policy_engine'')) \<or>
      auEnabled (cgAudit cfg) \<and> (\<exists>st. ckStore (ceWorld cenv ''audit_store'') = Some st \<and> Store_Ping db st \<noteq> None)"
    unfolding checkAll_unhealthy [OF wf assms(3)]
    by (auto simp: assms(2) SetReady_def h app_health_checkers PolicyEngineChecker_def UpstreamChecker_def
        DatabaseChecker_def split: if_splits option.splits)
  then show ?thesis by (auto simp: ReadinessHandler_def Health_IsReady_def assms(2) SetReady_def Let_def)
qed

theorem readiness_iff_witness:
  "\<exists>app reg'. newApplication demo_call_gj demo_opa demo_fmt (\<lambda>_. []) demo_unmarshal demo_prom demo_db demo_call_env demo_config demo_registry0 =
       (Return (Inr app), reg') \<and>
     hpStatus (ReadinessHandler (\<lambda>t. []) \<lparr>ceNow = 0, ceOrder = id,
       ceWorld = (\<lambda>n. \<lparr>ckEngine = demo_engine, ckUpstream = None, ckStore = None\<rparr>), ceLatency = (\<lambda>n. [])\<rparr>
       (SetReady True (apHealth app))) = Some 200"
proof -
  obtain m s' where m: "NewMetrics demo_prom ''mcp_proxy'' demo_registry0 = (Return m, s')"
    using NewMetrics_ready [OF demo_prom_laws, of demo_registry0 "''mcp_proxy''"] by (auto simp: demo_registry0_def)
  then obtain app where app: "newApplication demo_call_gj demo_opa demo_fmt (\<lambda>_. []) demo_unmarshal demo_prom demo_db demo_call_env demo_config
      demo_registry0 = (Return (Inr app), s')"
    by (simp add: newApplication_def bind_act_def new_transport_def demo_config_def zero_config_def Let_def)
  obtain u s where "apHealth app = app_health demo_db u s" using newApplication_health [OF app] .
  then have "gm_wf (hlCheckers (apHealth app))" using app_health_wf by simp
  then have "distinct (hlCheckers (SetReady True (apHealth app)))" by (simp add: SetReady_def distinct_map)
  moreover have "Engine_IsReady demo_engine" by code_simp
  ultimately show ?thesis
    using readiness_iff [OF app refl, of "\<lparr>ceNow = 0, ceOrder = id,
       ceWorld = (\<lambda>n. \<lparr>ckEngine = demo_engine, ckUpstream = None, ckStore = None\<rparr>), ceLatency = (\<lambda>n. [])\<rparr>" True] app
    by (auto simp: reorders_def)
qed



end
