(* ===== verification/Program.thy ===== *)
theory Program
  imports Lifecycle
begin

text \<open>
  The program, \<^verbatim>\<open>main\<close> and \<^verbatim>\<open>initLogger\<close> of \<^verbatim>\<open>src/cmd/proxy/main.go\<close>: command line,
  configuration, logger, the application from start to the signal that stops it, and the exit code.
  The levels of zerolog, the file system, the YAML decoder and what happens between start and signal
  are parameters.
\<close>

declare map_of_eq_Some_iff [simp del] Some_eq_map_of_iff [simp del]

section \<open>Command line\<close>

record flags =
  fgConfig :: string
  fgVersion :: bool

definition default_flags :: flags where
  "default_flags = \<lparr>fgConfig = ''config/proxy.yaml'', fgVersion = False\<rparr>"

text \<open>
  \<^verbatim>\<open>flag.Parse\<close> with its default handling of errors: help ends the program with 0, an error with 2.
  The message and the usage text, which the package prints on standard error, are left out.
\<close>

datatype flag_error = FlagHelp | FlagSyntax string | FlagNoValue string | FlagNoBool string string | FlagUndefined string

definition ParseBool :: "string \<Rightarrow> bool option" where
  "ParseBool s =
     (if s \<in> {''1'', ''t'', ''T'', ''TRUE'', ''true'', ''True''} then Some True
      else if s \<in> {''0'', ''f'', ''F'', ''FALSE'', ''false'', ''False''} then Some False
      else None)"

text \<open>The name of a flag and its value after the first equals sign, which is not at the start.\<close>

fun flag_value :: "string \<Rightarrow> string \<Rightarrow> string \<times> string option" where
  "flag_value acc [] = (rev acc, None)"
| "flag_value acc (c # s) = (if c = CHR ''='' \<and> acc \<noteq> [] then (rev acc, Some s) else flag_value (c # acc) s)"

fun parse_flags :: "string list \<Rightarrow> flags \<Rightarrow> flag_error + flags" where
  "parse_flags [] f = Inr f"
| "parse_flags (s # args) f =
     (if length s < 2 \<or> hd s \<noteq> CHR ''-'' \<or> s = ''--'' then Inr f
      else let name0 = (if hd (tl s) = CHR ''-'' then tl (tl s) else tl s)
      in if name0 = [] \<or> hd name0 = CHR ''-'' \<or> hd name0 = CHR ''='' then Inl (FlagSyntax s)
         else case flag_value [] name0 of
           (name, v) \<Rightarrow>
             if name = ''config''
             then (case v of
                     Some x \<Rightarrow> parse_flags args (f\<lparr>fgConfig := x\<rparr>)
                   | None \<Rightarrow> (case args of
                                [] \<Rightarrow> Inl (FlagNoValue name)
                              | x # rest \<Rightarrow> parse_flags rest (f\<lparr>fgConfig := x\<rparr>)))
             else if name = ''version''
             then (case v of
                     None \<Rightarrow> parse_flags args (f\<lparr>fgVersion := True\<rparr>)
                   | Some x \<Rightarrow> (case ParseBool x of
                                  Some b \<Rightarrow> parse_flags args (f\<lparr>fgVersion := b\<rparr>)
                                | None \<Rightarrow> Inl (FlagNoBool name x)))
             else if name = ''help'' \<or> name = ''h'' then Inl FlagHelp
             else Inl (FlagUndefined name))"

section \<open>Logger\<close>

datatype log_output = LogStdout | LogStderr

record logger =
  lgLevel :: int
  lgOutput :: log_output
  lgConsole :: bool
  lgTimeFormat :: string

definition InfoLevel :: int where
  "InfoLevel = 1"

definition initLogger :: "(string \<Rightarrow> string + int) \<Rightarrow> LoggingConfig \<Rightarrow> logger" where
  "initLogger parseLevel cfg =
     (let level = (case parseLevel (loLevel cfg) of Inl e \<Rightarrow> InfoLevel | Inr l \<Rightarrow> l);
          output = (if loOutput cfg = ''stderr'' then LogStderr else LogStdout)
      in if loFormat cfg = ''text''
         then \<lparr>lgLevel = level, lgOutput = output, lgConsole = True, lgTimeFormat = ''2006-01-02T15:04:05Z07:00''\<rparr>
         else \<lparr>lgLevel = level, lgOutput = output, lgConsole = False,
                lgTimeFormat = ''2006-01-02T15:04:05.999999999Z07:00''\<rparr>)"

section \<open>Main\<close>

definition version_text :: string where
  "version_text = ''MCP Proxy'' @ nl @ ''  Version:    '' @ app_version @ nl @ ''  Build Time: unknown'' @ nl @
     ''  Git Commit: unknown'' @ nl"

text \<open>
  The surroundings of a run. \<open>pgServe\<close> is what the goroutines do to the application from the end of
  \<^verbatim>\<open>Start\<close> until a signal arrives.
\<close>

record ('q, 'm, 'd) program_env =
  pgArgs :: "string list"
  pgReadFile :: "string \<Rightarrow> string + bytes"
  pgYaml :: "bytes \<Rightarrow> string + Config"
  pgVars :: "env_var list"
  pgGetenv :: "string \<Rightarrow> string"
  pgParseLevel :: "string \<Rightarrow> string + int"
  pgStart :: start_env
  pgServe :: "('q, 'm, 'd) app \<Rightarrow> ('q, 'm, 'd) app"
  pgStop :: stop_env

text \<open>
  The end of a run: the exit code, what was printed, the logger that was installed, the application as
  it was when it began to serve, and as it was left. A panic that nothing recovers exits with 2.
\<close>

record ('q, 'm, 'd) run =
  rnCode :: int
  rnOut :: string
  rnErr :: string
  rnLogger :: "logger option"
  rnServed :: "('q, 'm, 'd) app option"
  rnLeft :: "('q, 'm, 'd) app option"

definition ended :: "int \<Rightarrow> string \<Rightarrow> string \<Rightarrow> ('q, 'm, 'd) run" where
  "ended code out err = \<lparr>rnCode = code, rnOut = out, rnErr = err, rnLogger = None, rnServed = None, rnLeft = None\<rparr>"

definition run_application ::
    "'q opa \<Rightarrow> ('d, 't) sqldb \<Rightarrow> ('q, 'm, 'd) program_env \<Rightarrow> ('q, 'm, 'd) app \<Rightarrow> ('q, 'm, 'd) run" where
  "run_application opa db env app =
     (case app_Start opa (pgStart env) app of
        (Panicked p, app1) \<Rightarrow> (ended 2 [] [])\<lparr>rnLeft := Some app1\<rparr>
      | (Return (Some e), app1) \<Rightarrow> (ended 1 [] [])\<lparr>rnLeft := Some app1\<rparr>
      | (Return None, app1) \<Rightarrow>
          (case app_Stop db (pgStop env) (pgServe env app1) of
             (r, app2) \<Rightarrow>
               (ended (case r of Return None \<Rightarrow> 0 | Return (Some e) \<Rightarrow> 1 | Panicked p \<Rightarrow> 2) [] [])
                 \<lparr>rnServed := Some app1, rnLeft := Some app2\<rparr>))"

definition program_main ::
    "gojson \<Rightarrow> 'q opa \<Rightarrow> (time \<Rightarrow> string outcome) \<Rightarrow> (rat \<Rightarrow> string) \<Rightarrow> (bytes \<Rightarrow> string + gobj) \<Rightarrow> 'm prom \<Rightarrow> ('d, 't) sqldb \<Rightarrow>
     call_env \<Rightarrow> ('q, 'm, 'd) program_env \<Rightarrow> 'm \<Rightarrow> ('q, 'm, 'd) run" where
  "program_main gj opa fmt num unmarshal pm db menv env reg =
     (case parse_flags (pgArgs env) default_flags of
        Inl e \<Rightarrow> ended (if e = FlagHelp then 0 else 2) [] []
      | Inr f \<Rightarrow>
          if fgVersion f then ended 0 version_text []
          else case Load (pgReadFile env) (pgYaml env) (pgVars env) (pgGetenv env) (fgConfig f) of
                 Inl e \<Rightarrow> ended 1 [] (''Failed to load configuration: '' @ e @ nl)
               | Inr cfg \<Rightarrow>
                   (case newApplication gj opa fmt num unmarshal pm db menv cfg reg of
                      (Panicked p, _) \<Rightarrow> ended 2 [] []
                    | (Return (Inl e), _) \<Rightarrow> ended 1 [] []
                    | (Return (Inr app), _) \<Rightarrow> run_application opa db env app)
                   \<lparr>rnLogger := Some (initLogger (pgParseLevel env) (cgLogging cfg))\<rparr>)"

section \<open>Lemmas\<close>

fun server_handler :: "'w server \<Rightarrow> 'w message_handler option" where
  "server_handler (TSse s) = haMessageHandler (seHandler s)"
| "server_handler (TStdio s) = siMessageHandler s"

text \<open>The state of \<open>Proxy\<close> in which an application begins to serve: nothing was sent yet.\<close>

definition served_state :: "('q, 'm, 'd) app \<Rightarrow> ('q, Client option, 'm) proxy_sys" where
  "served_state app =
     (let w = apWorld app
      in \<lparr>pyWorld = \<lparr>woEngine = woEngine w, woWriter = woWriter w, woUpstream = (woUpstream w, []), woMetrics = woMetrics w\<rparr>,
          pyFlying = [], pyFinished = []\<rparr>)"

lemma app_Stop_no_error: "app_Stop db env app = (Return e, app') \<Longrightarrow> e = None"
  by (auto simp: app_Stop_def bind_act_def Let_def split: prod.splits call.splits)

lemma server_Start_handler: "server_Start env (tr, m) = (r, tr', m') \<Longrightarrow> server_handler tr' = server_handler tr"
  by (cases tr) (auto simp: sse_Start_def stdio_Start_def Let_def split: if_splits option.splits prod.splits sum.splits)

lemma start_servers_handler: "start_servers env app = (r, app') \<Longrightarrow>
    server_handler (apTransport app') = server_handler (apTransport app)"
  by (auto simp: start_servers_def Let_def dest: server_Start_handler
      split: prod.splits call.splits option.splits outcome.splits)

lemma app_Start_serves:
  assumes "app_Start opa env app = (Return None, app')"
  shows "server_started (apTransport app') \<and> hlReady (apHealth app') \<and> apCfg app' = apCfg app \<and>
    server_handler (apTransport app') = server_handler (apTransport app)"
proof -
  obtain r app1 where p: "start_policies opa env app = (Return r, app1)" by (cases "start_policies opa env app") (auto simp: start_policies_def split: if_splits prod.splits)
  have app1: "apCfg app1 = apCfg app" "apTransport app1 = apTransport app"
    using p by (auto simp: start_policies_def split: if_splits prod.splits)
  let ?a = "start_upstream env (app1\<lparr>apManager := Manager_Start (apManager app1)\<rparr>)"
  have run: "start_servers env ?a = (Return None, app')"
    using assms p by (cases r) (auto simp: app_Start_def bind_act_def ret_act_def panic_act_def)
  have "apCfg ?a = apCfg app" "apTransport ?a = apTransport app" using app1 by (simp_all add: start_upstream_def)
  with start_servers_effect [OF run] start_servers_handler [OF run] show ?thesis by simp
qed

lemma new_transport_fresh:
  assumes "new_transport cfg handler = Some tr"
  shows "\<not> server_started tr \<and> server_handler tr = Some handler"
proof -
  have "tr = TSse (sse_Server_SetMessageHandler handler (sse_NewServer (cgServer cfg) (cgAgent cfg))) \<or>
    tr = TStdio (stdio_SetMessageHandler handler (stdio_NewServer (cgAgent cfg)))"
    using assms by (auto simp: new_transport_def split: if_splits)
  then show ?thesis
    by (auto simp: sse_Server_SetMessageHandler_def sse_SetMessageHandler_def sse_NewServer_def
        stdio_SetMessageHandler_def stdio_NewServer_def)
qed

lemma newApplication_built:
  assumes "newApplication gj opa fmt num unmarshal pm db menv cfg reg = (Return (Inr app), reg')"
  shows "apCfg app = cfg \<and> \<not> server_started (apTransport app) \<and> \<not> hlReady (apHealth app) \<and>
    server_handler (apTransport app) = Some (app_handler gj opa fmt num unmarshal pm menv cfg) \<and>
    enMode (woEngine (apWorld app)) = (if poMode (cgPolicy cfg) = [] then ''enforce'' else poMode (cgPolicy cfg)) \<and>
    enEnabled (woEngine (apWorld app)) = poEnabled (cgPolicy cfg)"
proof -
  obtain u s where "apHealth app = app_health db u s" using newApplication_health [OF assms] .
  then have ready: "\<not> hlReady (apHealth app)"
    by (simp add: app_health_def RegisterChecker_def NewHealth_def Let_def split: option.split)
  obtain tr where tr: "new_transport cfg (app_handler gj opa fmt num unmarshal pm menv cfg) = Some tr" "apTransport app = tr"
    "apCfg app = cfg" "enMode (woEngine (apWorld app)) = (if poMode (cgPolicy cfg) = [] then ''enforce'' else poMode (cgPolicy cfg))"
    "enEnabled (woEngine (apWorld app)) = poEnabled (cgPolicy cfg)"
    using assms
    by (auto simp: newApplication_def Let_def bind_act_def NewEngine_def split: if_splits sum.splits option.splits prod.splits call.splits)
  with ready new_transport_fresh [OF tr(1)] show ?thesis by simp
qed

lemma LoadAndInitialize_mode: "same_mode e (snd (LoadAndInitialize opa fs ce l e))"
  unfolding same_mode_def
  by (cases opa fs ce l e rule: LoadAndInitialize_cases)
    (auto simp: LoadPolicies_def SetPolicyData_def compileWithData_def Let_def split: outcome.splits)

lemma app_Start_mode:
  assumes "app_Start opa env app = (r, app')"
  shows "same_mode (woEngine (apWorld app)) (woEngine (apWorld app'))"
proof -
  obtain x app1 where p: "start_policies opa env app = (Return x, app1)"
    by (cases "start_policies opa env app") (auto simp: start_policies_def split: if_splits prod.splits)
  have mode: "same_mode (woEngine (apWorld app)) (woEngine (apWorld app1))"
    using p LoadAndInitialize_mode [of "woEngine (apWorld app)" opa "sxFiles env" "sxCompile env" "app_loader (apCfg app)"]
    by (auto simp: start_policies_def same_mode_def split: if_splits prod.splits)
  let ?a = "start_upstream env (app1\<lparr>apManager := Manager_Start (apManager app1)\<rparr>)"
  show ?thesis
  proof (cases "\<exists>u. x = Ok u")
    case True
    then have "start_servers env ?a = (r, app')" using assms p by (auto simp: app_Start_def bind_act_def)
    from start_servers_effect [OF this] mode show ?thesis by (simp add: start_upstream_def)
  next
    case False
    then have "app' = app1" using assms p by (cases x) (auto simp: app_Start_def bind_act_def ret_act_def panic_act_def)
    with mode show ?thesis by simp
  qed
qed

lemma served_mediated:
  assumes "enMode (woEngine (apWorld app)) = ''enforce''" and "enEnabled (woEngine (apWorld app))"
    and "reach (\<lambda>s. s = served_state app) (proxy_step gj opa fmt num mtr cfg) s"
  shows "only_approved s"
proof -
  have "proxy_start ''enforce'' (served_state app)" using assms(1,2) by (simp add: proxy_start_def served_state_def Let_def)
  then have "reach (proxy_start ''enforce'') (proxy_step gj opa fmt num mtr cfg) s" using assms(3) by (auto intro: reach_mono)
  then show ?thesis by (rule mediated.reach_inv [THEN proxy_inv_mediates])
qed

lemma program_served:
  assumes "rnServed (program_main gj opa fmt num unmarshal pm db menv env reg) = Some app"
  obtains f cfg app0 reg' where "parse_flags (pgArgs env) default_flags = Inr f" "\<not> fgVersion f"
    "Load (pgReadFile env) (pgYaml env) (pgVars env) (pgGetenv env) (fgConfig f) = Inr cfg"
    "newApplication gj opa fmt num unmarshal pm db menv cfg reg = (Return (Inr app0), reg')"
    "app_Start opa (pgStart env) app0 = (Return None, app)"
  using assms
  by (auto simp: program_main_def run_application_def ended_def
      split: sum.splits if_splits prod.splits call.splits option.splits)

text \<open>The exit code is 0 for help, for the version, and after an orderly shutdown.\<close>

lemma program_exit_code:
  "rnCode (program_main gj opa fmt num unmarshal pm db menv env reg) = 0 \<longleftrightarrow>
     parse_flags (pgArgs env) default_flags = Inl FlagHelp \<or>
     (\<exists>f. parse_flags (pgArgs env) default_flags = Inr f \<and> fgVersion f) \<or>
     (\<exists>app app'. rnServed (program_main gj opa fmt num unmarshal pm db menv env reg) = Some app \<and>
        app_Stop db (pgStop env) (pgServe env app) = (Return None, app'))"
  by (auto simp: program_main_def run_application_def ended_def
      split: sum.splits if_splits prod.splits call.splits option.splits)

text \<open>
  The stdio transport writes its protocol on standard output, where the log goes as well unless the
  configuration says otherwise.
\<close>

lemma log_on_stdout: "loOutput cfg \<noteq> ''stderr'' \<Longrightarrow> lgOutput (initLogger parseLevel cfg) = LogStdout"
  by (simp add: initLogger_def Let_def)

lemma Load_mode: "Load readFile yaml vars getenv path = Inr cfg \<Longrightarrow> poMode (cgPolicy cfg) \<in> {''audit'', ''enforce''}"
  by (auto simp: Load_def validate_def Let_def split: sum.splits if_splits option.splits)

section \<open>Properties\<close>

text \<open>
  C4. What a running program has gone through: if the program ever serves, then the command line asked
  for it, the configuration was loaded and validated, the transport was started with the proxy's own
  message handler, the engine is in the configured mode, and, when policies are enabled, the engine
  holds exactly the modules and the query made from the policy files and their data; in enforce mode the
  upstream is then given only messages that passed and, of those subject to the policy, only approved
  ones, in every run from there on.
\<close>

theorem program_serves_policy:
  assumes "rnServed (program_main gj opa fmt num unmarshal pm db menv env reg) = Some app"
  shows "\<exists>f cfg. parse_flags (pgArgs env) default_flags = Inr f \<and> \<not> fgVersion f \<and>
    Load (pgReadFile env) (pgYaml env) (pgVars env) (pgGetenv env) (fgConfig f) = Inr cfg \<and>
    server_started (apTransport app) \<and> hlReady (apHealth app) \<and>
    server_handler (apTransport app) = Some (app_handler gj opa fmt num unmarshal pm menv cfg) \<and>
    enMode (woEngine (apWorld app)) = poMode (cgPolicy cfg) \<and>
    (poEnabled (cgPolicy cfg) \<longrightarrow>
      (\<exists>modules data. Loader_LoadPolicies (sxFiles (pgStart env)) (sxCompile (pgStart env)) (app_loader cfg) = Ok modules \<and>
         LoadPolicyData (sxFiles (pgStart env)) (app_loader cfg) = Ok data \<and>
         opaPrepare opa ''data.mcp.policy.decision'' modules (if data = [] then None else Some data) =
           Ok (enQuery (woEngine (apWorld app))) \<and>
         enModules (woEngine (apWorld app)) = modules)) \<and>
    (poEnabled (cgPolicy cfg) \<and> poMode (cgPolicy cfg) = ''enforce'' \<longrightarrow>
      (\<forall>s. reach (\<lambda>s. s = served_state app) (proxy_step gj opa fmt num (apMeter app) cfg) s \<longrightarrow> only_approved s))"
proof -
  obtain f cfg app0 reg' where run: "parse_flags (pgArgs env) default_flags = Inr f" "\<not> fgVersion f"
    "Load (pgReadFile env) (pgYaml env) (pgVars env) (pgGetenv env) (fgConfig f) = Inr cfg"
    "newApplication gj opa fmt num unmarshal pm db menv cfg reg = (Return (Inr app0), reg')"
    "app_Start opa (pgStart env) app0 = (Return None, app)"
    using program_served [OF assms] .
  note built = newApplication_built [OF run(4)]
  note serves = app_Start_serves [OF run(5)]
  have "poMode (cgPolicy cfg) \<noteq> []" using Load_mode [OF run(3)] by auto
  then have mode: "enMode (woEngine (apWorld app)) = poMode (cgPolicy cfg)" "enEnabled (woEngine (apWorld app)) = poEnabled (cgPolicy cfg)"
    using app_Start_mode [OF run(5)] built by (simp_all add: same_mode_def)
  then have "only_approved s" if "poEnabled (cgPolicy cfg)" "poMode (cgPolicy cfg) = ''enforce''"
    "reach (\<lambda>s. s = served_state app) (proxy_step gj opa fmt num (apMeter app) cfg) s" for s
    using that by (intro served_mediated) simp_all
  moreover have "\<exists>modules data. Loader_LoadPolicies (sxFiles (pgStart env)) (sxCompile (pgStart env)) (app_loader cfg) = Ok modules \<and>
         LoadPolicyData (sxFiles (pgStart env)) (app_loader cfg) = Ok data \<and>
         opaPrepare opa ''data.mcp.policy.decision'' modules (if data = [] then None else Some data) =
           Ok (enQuery (woEngine (apWorld app))) \<and> enModules (woEngine (apWorld app)) = modules"
    if "poEnabled (cgPolicy cfg)"
    using policy_before_traffic [of app0 opa "pgStart env" "Return None" app] built serves run(5) that by simp
  ultimately show ?thesis using run(1-3) built serves mode(1) by auto
qed

text \<open>A run over SSE with the policies of a directory and the defaults for the rest.\<close>

definition demo_program :: "(string, demo_registry, sqlval list list) program_env" where
  "demo_program = \<lparr>pgArgs = [''-config'', ''a.yaml''], pgReadFile = (\<lambda>p. Inr p),
     pgYaml = (\<lambda>d. Inr (zero_config\<lparr>cgPolicy := (cgPolicy zero_config)\<lparr>poEnabled := True, poPolicyDir := ''policies'',
       poDataFile := ''data.json''\<rparr>\<rparr>)), pgVars = env_vars, pgGetenv = (\<lambda>k. []), pgParseLevel = (\<lambda>l. Inr 1),
     pgStart = demo_start, pgServe = (\<lambda>app. app), pgStop = \<lparr>spObs = (\<lambda>a. None), spTransport = None\<rparr>\<rparr>"

lemma demo_flags: "parse_flags (pgArgs demo_program) default_flags = Inr \<lparr>fgConfig = ''a.yaml'', fgVersion = False\<rparr>"
  by code_simp

lemma demo_loaded:
  obtains cfg where "Load (pgReadFile demo_program) (pgYaml demo_program) (pgVars demo_program) (pgGetenv demo_program) ''a.yaml'' = Inr cfg"
    "svTransport (cgServer cfg) = ''sse''" "\<not> auEnabled (cgAudit cfg)" "app_loader cfg = demo_loader"
    "poEnabled (cgPolicy cfg)" "\<not> meEnabled (cgMetrics cfg)" "\<not> heEnabled (cgHealth cfg)"
proof -
  have "case Load (pgReadFile demo_program) (pgYaml demo_program) (pgVars demo_program) (pgGetenv demo_program) ''a.yaml'' of
      Inl e \<Rightarrow> False
    | Inr cfg \<Rightarrow> svTransport (cgServer cfg) = ''sse'' \<and> \<not> auEnabled (cgAudit cfg) \<and> app_loader cfg = demo_loader \<and>
        poEnabled (cgPolicy cfg) \<and> \<not> meEnabled (cgMetrics cfg) \<and> \<not> heEnabled (cgHealth cfg)" by code_simp
  then show thesis using that by (auto split: sum.splits)
qed

lemma demo_built:
  assumes "svTransport (cgServer cfg) = ''sse''" and "\<not> auEnabled (cgAudit cfg)"
  obtains app ec reg where "newApplication demo_call_gj demo_opa demo_fmt (\<lambda>_. []) demo_unmarshal demo_prom demo_db demo_call_env cfg
      demo_registry0 = (Return (Inr app), reg)"
    "woEngine (apWorld app) = NewEngine demo_opa ec" "apObs app = obs_NewServer (obs_config cfg)"
    "apTransport app = TSse (sse_Server_SetMessageHandler
       (app_handler demo_call_gj demo_opa demo_fmt (\<lambda>_. []) demo_unmarshal demo_prom demo_call_env cfg) (sse_NewServer (cgServer cfg) (cgAgent cfg)))"
proof -
  obtain m s' where "NewMetrics demo_prom ''mcp_proxy'' demo_registry0 = (Return m, s')"
    using NewMetrics_ready [OF demo_prom_laws, of demo_registry0 "''mcp_proxy''"] by (auto simp: demo_registry0_def)
  then show thesis using assms that by (simp add: newApplication_def bind_act_def new_transport_def Let_def)
qed

lemma demo_starts:
  assumes "apCfg app = cfg" and "app_loader cfg = demo_loader" and "woEngine (apWorld app) = NewEngine demo_opa ec"
    and "apObs app = obs_NewServer (obs_config cfg)" and "\<not> meEnabled (cgMetrics cfg)" and "\<not> heEnabled (cgHealth cfg)"
    and "apTransport app = TSse (sse_Server_SetMessageHandler h (sse_NewServer (cgServer cfg) (cgAgent cfg)))"
  shows "\<exists>app'. app_Start demo_opa demo_start app = (Return None, app')"
proof -
  obtain e where "LoadAndInitialize demo_opa demo_files demo_ce demo_loader (NewEngine demo_opa ec) = (Ok (), e)"
    using demo_load by blast
  then show ?thesis using assms
    by (simp add: app_Start_def start_policies_def demo_start_def bind_act_def start_servers_def start_upstream_def
        sse_Start_def sse_Server_SetMessageHandler_def sse_SetMessageHandler_def sse_NewServer_def obs_Start_def
        obs_NewServer_def obs_config_def Let_def)
qed

lemma demo_serves:
  "\<exists>app. rnServed (program_main demo_call_gj demo_opa demo_fmt (\<lambda>_. []) demo_unmarshal demo_prom demo_db demo_call_env
     demo_program demo_registry0) = Some app"
proof -
  obtain cfg where cfg: "Load (pgReadFile demo_program) (pgYaml demo_program) (pgVars demo_program) (pgGetenv demo_program) ''a.yaml'' = Inr cfg"
    "svTransport (cgServer cfg) = ''sse''" "\<not> auEnabled (cgAudit cfg)" "app_loader cfg = demo_loader"
    "poEnabled (cgPolicy cfg)" "\<not> meEnabled (cgMetrics cfg)" "\<not> heEnabled (cgHealth cfg)" by (rule demo_loaded)
  obtain app ec reg where app: "newApplication demo_call_gj demo_opa demo_fmt (\<lambda>_. []) demo_unmarshal demo_prom demo_db demo_call_env cfg
      demo_registry0 = (Return (Inr app), reg)"
    and parts: "woEngine (apWorld app) = NewEngine demo_opa ec" "apObs app = obs_NewServer (obs_config cfg)"
    "apTransport app = TSse (sse_Server_SetMessageHandler
       (app_handler demo_call_gj demo_opa demo_fmt (\<lambda>_. []) demo_unmarshal demo_prom demo_call_env cfg) (sse_NewServer (cgServer cfg) (cgAgent cfg)))"
    using cfg(2,3) by (rule demo_built)
  have "apCfg app = cfg" using newApplication_built [OF app] by simp
  from demo_starts [OF this cfg(4) parts(1,2) cfg(6,7) parts(3)]
  obtain app' where "app_Start demo_opa demo_start app = (Return None, app')" by blast
  moreover have "pgStart demo_program = demo_start" by (simp add: demo_program_def)
  ultimately show ?thesis using cfg(1) app demo_flags
    by (simp add: program_main_def run_application_def split: prod.split)
qed

lemma program_serves_policy_witness:
  "\<exists>app cfg. rnServed (program_main demo_call_gj demo_opa demo_fmt (\<lambda>_. []) demo_unmarshal demo_prom demo_db demo_call_env
       demo_program demo_registry0) = Some app \<and> server_started (apTransport app) \<and>
     Load (pgReadFile demo_program) (pgYaml demo_program) (pgVars demo_program) (pgGetenv demo_program) ''a.yaml'' = Inr cfg \<and>
     poEnabled (cgPolicy cfg) \<and> enMode (woEngine (apWorld app)) = poMode (cgPolicy cfg)"
proof -
  obtain app where app: "rnServed (program_main demo_call_gj demo_opa demo_fmt (\<lambda>_. []) demo_unmarshal demo_prom demo_db demo_call_env
    demo_program demo_registry0) = Some app" using demo_serves by blast
  obtain cfg where cfg: "Load (pgReadFile demo_program) (pgYaml demo_program) (pgVars demo_program) (pgGetenv demo_program) ''a.yaml'' = Inr cfg"
    "poEnabled (cgPolicy cfg)" by (rule demo_loaded)
  from program_serves_policy [OF app] app cfg demo_flags show ?thesis by auto
qed

end
