(* ===== verification/Sse_Sessions.thy ===== *)
theory Sse_Sessions
  imports Sse_Transport "HOL-Library.Multiset"
begin

text \<open>
  The SSE server with all its sessions: streams are opened, messages are posted and handled, responses
  are queued and written, sessions are cleaned up, each in goroutines of their own. What a stream
  delivers is what the handler answered to the posts of its session.
\<close>

declare map_of_eq_Some_iff [simp del] Some_eq_map_of_iff [simp del]

section \<open>A posted message in two parts\<close>

text \<open>
  The goroutine of a post first finds the session and runs the message handler, then queues the
  response; others run in between. \<^const>\<open>Inl\<close> is a response that is sent at once.
\<close>

definition accept_post ::
    "'w Handler \<Rightarrow> time \<Rightarrow> HttpRequest \<Rightarrow> (HttpResponse + nat \<times> bytes option, Manager \<times> 'w) act" where
  "accept_post h now r = (\<lambda>(m, wo).
     let fail = (\<lambda>m' wo' status code msg. (Return (Inl (sendError h status code msg new_response)), (m', wo')))
     in if hqSessionID r = [] then fail m wo 400 (-32600) ''Missing sessionId parameter''
        else case Manager_Get (hqSessionID r) m of
          (None, m1) \<Rightarrow> fail m1 wo 404 (-32600) ''Session not found or expired''
        | (Some sess, m1) \<Rightarrow>
            (case hqBody r of
               Inl e \<Rightarrow> fail m1 wo 400 (-32700) ''Failed to read request body''
             | Inr full \<Rightarrow>
                 let body = take body_limit full
                 in if \<not> Valid body then fail m1 wo 400 (-32700) ''Invalid JSON''
                    else let m2 = upd_session sess (\<lambda>s. snd (Session_IncrementRequestCount now s)) m1
                    in case (case haMessageHandler h of
                               Some f \<Rightarrow> f (mHeap m2 ! sess) body wo
                             | None \<Rightarrow> (Return (Some body, None), wo)) of
                         (Panicked p, wo1) \<Rightarrow> (Panicked p, (m2, wo1))
                       | (Return (response, Some e), wo1) \<Rightarrow> fail m2 wo1 500 (-32603) ''Internal server error''
                       | (Return (response, None), wo1) \<Rightarrow> (Return (Inr (sess, response)), (m2, wo1))))"

definition reply_post :: "bool \<Rightarrow> nat \<Rightarrow> bytes option \<Rightarrow> Manager \<Rightarrow> Manager" where
  "reply_post pick sess response m =
     (case response of Some msg \<Rightarrow> upd_session sess (\<lambda>s. snd (SendMessage pick msg s)) m | None \<Rightarrow> m)"

lemma HandleMessage_split:
  "HandleMessage h now pick r =
     bind_act (accept_post h now r) (\<lambda>x (m, wo).
       case x of
         Inl resp \<Rightarrow> (Return resp, (m, wo))
       | Inr (sess, response) \<Rightarrow> (Return (WriteHeader 202 new_response), (reply_post pick sess response m, wo)))"
  by (rule ext)
    (auto simp: HandleMessage_def accept_post_def reply_post_def bind_act_def Let_def split: option.split prod.split sum.split call.split)

section \<open>The server with its sessions\<close>

text \<open>
  \<open>sySent\<close> are the frames written on the stream of each session, \<open>syReplies\<close> the responses that
  are on their way to a session's channel. The rest is history: the responses of the handler with the
  session they belong to and the session ID of the post, and those that a channel did not take.
\<close>

record answer =
  anSess :: nat
  anKey :: string
  anMsg :: bytes

record 'w sse_sys =
  syManager :: Manager
  syWorld :: 'w
  sySent :: "nat \<Rightarrow> (string \<times> string) list"
  syOpen :: "nat set"
  syReplies :: "(nat \<times> bytes) list"
  syAnswers :: "answer list"
  syLost :: "(nat \<times> bytes) list"

definition sse_init :: "'w sse_sys \<Rightarrow> bool" where
  "sse_init s \<longleftrightarrow> mgr_init (syManager s) \<and> (\<forall>i. sySent s i = []) \<and> syOpen s = {} \<and> syReplies s = [] \<and>
     syAnswers s = [] \<and> syLost s = []"

text \<open>What the manager does besides: looking up, deleting, cleaning up, stopping.\<close>

inductive housekeeping :: "Manager \<Rightarrow> Manager \<Rightarrow> bool" where
  hk_start: "housekeeping m (Manager_Start m)"
| hk_get: "housekeeping m (snd (Manager_Get k m))"
| hk_delete: "housekeeping m (Manager_Delete k m)"
| hk_cleanup: "housekeeping m (Manager_cleanup ks clk m)"
| hk_stop: "Manager_Stop m = Some m' \<Longrightarrow> housekeeping m m'"

inductive sse_step :: "(string \<Rightarrow> string \<Rightarrow> bool) \<Rightarrow> 'w Handler \<Rightarrow> 'w sse_sys \<Rightarrow> 'w sse_sys \<Rightarrow> bool"
  for equalFold :: "string \<Rightarrow> string \<Rightarrow> bool" and h :: "'w Handler" where
  y_open: "map_of (mSessions (syManager s)) (''sess_'' @ uuid) = None \<Longrightarrow>
    HandleSSE_open equalFold h True uuid t1 t2 r (syManager s) = (resp, Some i, m) \<Longrightarrow>
    sse_step equalFold h s (s\<lparr>syManager := m, syOpen := insert i (syOpen s),
      sySent := (sySent s)(i := [(''endpoint'', ''/message?sessionId='' @ sID (mHeap m ! i))])\<rparr>)"
| y_refuse: "map_of (mSessions (syManager s)) (''sess_'' @ uuid) = None \<Longrightarrow>
    HandleSSE_open equalFold h fl uuid t1 t2 r (syManager s) = (resp, None, m) \<Longrightarrow>
    sse_step equalFold h s (s\<lparr>syManager := m\<rparr>)"
| y_accept: "accept_post h now r (syManager s, syWorld s) = (Return (Inr (i, Some msg)), (m, wo)) \<Longrightarrow>
    sse_step equalFold h s (s\<lparr>syManager := m, syWorld := wo, syReplies := syReplies s @ [(i, msg)],
      syAnswers := syAnswers s @ [\<lparr>anSess = i, anKey = hqSessionID r, anMsg = msg\<rparr>]\<rparr>)"
| y_other: "accept_post h now r (syManager s, syWorld s) = (x, (m, wo)) \<Longrightarrow> (\<nexists>i msg. x = Return (Inr (i, Some msg))) \<Longrightarrow>
    sse_step equalFold h s (s\<lparr>syManager := m, syWorld := wo\<rparr>)"
| y_reply: "n < length (syReplies s) \<Longrightarrow> syReplies s ! n = (i, msg) \<Longrightarrow>
    SendMessage pick msg (mHeap (syManager s) ! i) = (ok, sess) \<Longrightarrow>
    sse_step equalFold h s (s\<lparr>syManager := upd_session i (\<lambda>_. sess) (syManager s),
      syReplies := take n (syReplies s) @ drop (Suc n) (syReplies s),
      syLost := syLost s @ (if ok then [] else [(i, msg)])\<rparr>)"
| y_turn: "i \<in> syOpen s \<Longrightarrow> HandleSSE_turn c i (syManager s) = Some (ret, frame, m) \<Longrightarrow>
    sse_step equalFold h s (s\<lparr>syManager := m, syOpen := (if ret then syOpen s - {i} else syOpen s),
      sySent := (sySent s)(i := sySent s i @ (case frame of None \<Rightarrow> [] | Some f \<Rightarrow> [f]))\<rparr>)"
| y_manager: "housekeeping (syManager s) m \<Longrightarrow> sse_step equalFold h s (s\<lparr>syManager := m\<rparr>)"
| y_world: "sse_step equalFold h s (s\<lparr>syWorld := wo\<rparr>)"

section \<open>IDs and channels of the sessions\<close>

definition boxes :: "Manager \<Rightarrow> (string \<times> bytes list) list" where
  "boxes m = map (\<lambda>s. (sID s, sMessageChan s)) (mHeap m)"

lemma length_boxes [simp]: "length (boxes m) = length (mHeap m)"
  by (simp add: boxes_def)

lemma boxes_nth: "i < length (mHeap m) \<Longrightarrow> boxes m ! i = (sID (mHeap m ! i), sMessageChan (mHeap m ! i))"
  by (simp add: boxes_def)

lemma boxes_fields [simp]: "boxes (m\<lparr>mSessions := x\<rparr>) = boxes m" "boxes (m\<lparr>mActive := a\<rparr>) = boxes m" "boxes (m\<lparr>mDone := d\<rparr>) = boxes m"
  "boxes (m\<lparr>mTicker := t\<rparr>) = boxes m"
  by (simp_all add: boxes_def)

lemma boxes_upd:
  "boxes (upd_session r f m) = (boxes m)[r := (sID (f (mHeap m ! r)), sMessageChan (f (mHeap m ! r)))]"
  by (simp add: boxes_def upd_session_def map_update)

lemma boxes_upd_same:
  assumes "\<And>s. sID (f s) = sID s" and "\<And>s. sMessageChan (f s) = sMessageChan s"
  shows "boxes (upd_session r f m) = boxes m"
  by (cases "r < length (mHeap m)") (simp_all add: boxes_upd assms boxes_nth [symmetric] list_update_beyond)

lemma boxes_close [simp]: "boxes (upd_session r Session_Close m) = boxes m"
  by (rule boxes_upd_same) (simp_all add: Session_Close_def)

lemma boxes_Delete [simp]: "boxes (Manager_Delete k m) = boxes m"
  by (simp add: Manager_Delete_def Let_def split: option.split)

lemma boxes_Get: "Manager_Get k m = (x, m') \<Longrightarrow> boxes m' = boxes m"
  using Manager_Get_state [of k m] by auto

lemma boxes_cleanup: "boxes (Manager_cleanup ks clk m) = boxes m"
proof -
  have "boxes (cleanup_visit clk k n) = boxes n" for k n
    by (simp add: cleanup_visit_def cleanup_remove_def split: option.split)
  then show ?thesis unfolding Manager_cleanup_def by (induction ks arbitrary: m) simp_all
qed

lemma boxes_Stop: "Manager_Stop m = Some m' \<Longrightarrow> boxes m' = boxes m"
proof -
  have "boxes (fold (\<lambda>(k, r) m'. (upd_session r Session_Close m')\<lparr>mSessions := AList.delete k (mSessions m')\<rparr>) es n) = boxes n"
    for es n by (induction es arbitrary: n) (simp_all add: case_prod_beta)
  then show "Manager_Stop m = Some m' \<Longrightarrow> ?thesis" by (auto simp: Manager_Stop_def split: if_splits)
qed

lemma housekeeping_keeps:
  assumes "housekeeping m m'"
  shows "boxes m' = boxes m" and "mgr_inv m \<Longrightarrow> mgr_inv m'"
proof -
  show "boxes m' = boxes m"
    using assms by cases (auto simp: boxes_cleanup boxes_Stop Manager_Start_def intro: boxes_Get [OF surjective_pairing])
  have "mgr_step m m'" using assms by cases (auto intro: mgr_step.intros)
  then show "mgr_inv m \<Longrightarrow> mgr_inv m'" by (auto intro: mgr_step_inv)
qed

lemma open_keeps:
  assumes "HandleSSE_open equalFold h fl uuid t1 t2 r m = (resp, so, m')"
    and "mgr_inv m" and "map_of (mSessions m) (''sess_'' @ uuid) = None"
  shows "mgr_inv m' \<and> (case so of None \<Rightarrow> boxes m' = boxes m
      | Some i \<Rightarrow> i = length (mHeap m) \<and> boxes m' = boxes m @ [(''sess_'' @ uuid, [])])"
proof -
  obtain x m1 where create: "Manager_Create uuid t1 t2 m = (x, m1)" by fastforce
  have inv: "mgr_inv m1" using Manager_Create_inv [OF assms(2,3), of t1 t2] create by simp
  show ?thesis
  proof (cases "fl \<and> (\<exists>i. x = Inr i)")
    case False
    then have "so = None \<and> (m' = m \<or> m' = m1 \<and> (\<exists>e. x = Inl e))"
      using assms(1) create by (cases x) (auto simp: HandleSSE_open_def split: if_splits)
    moreover have "m1 = m" if "x = Inl e" for e using create that by (simp add: Manager_Create_def Let_def split: if_splits)
    ultimately show ?thesis using assms(2) by auto
  next
    case True
    then obtain i where x: "x = Inr i" and fl by blast
    let ?f = "SetAgent (agID (haAgentCfg h)) (agName (haAgentCfg h)) (agCapabilities (haAgentCfg h))"
    let ?g = "SetClientInfo (hqRemoteAddr r) (hqUserAgent r)"
    have m': "so = Some i" "m' = upd_session i ?g (upd_session i ?f m1)"
      using assms(1) create x \<open>fl\<close> by (auto simp: HandleSSE_open_def Let_def)
    have "boxes m1 = boxes m @ [(''sess_'' @ uuid, [])]" "i = length (mHeap m)"
      using create x by (auto simp: Manager_Create_def Let_def boxes_def NewSession_def split: if_splits)
    moreover have "boxes m' = boxes m1" unfolding m'(2) by (simp add: boxes_upd_same SetAgent_def SetClientInfo_def)
    moreover have "mgr_inv m'" unfolding m'(2) by (intro upd_session_inv inv) (simp_all add: SetAgent_def SetClientInfo_def)
    ultimately show ?thesis using m'(1) by simp
  qed
qed

lemma accept_keeps:
  assumes "accept_post h now r (m, wo) = (x, (m', wo'))" and "mgr_inv m"
  shows "mgr_inv m' \<and> boxes m' = boxes m \<and>
    (\<forall>i resp. x = Return (Inr (i, resp)) \<longrightarrow> i < length (mHeap m) \<and> fst (boxes m ! i) = hqSessionID r)"
proof -
  obtain g m1 where get: "Manager_Get (hqSessionID r) m = (g, m1)" by fastforce
  have m1: "mgr_inv m1" "boxes m1 = boxes m"
    using Manager_Get_inv [OF assms(2), of "hqSessionID r"] boxes_Get [OF get] get by simp_all
  let ?inc = "\<lambda>i. upd_session i (\<lambda>s. snd (Session_IncrementRequestCount now s)) m1"
  have inc: "mgr_inv (?inc i)" "boxes (?inc i) = boxes m1" for i
    by (auto intro!: upd_session_inv boxes_upd_same m1(1) simp: Session_IncrementRequestCount_def Let_def)
  have found: "i < length (mHeap m) \<and> fst (boxes m ! i) = hqSessionID r" if "g = Some i" for i
    using get that assms(2) shape_lookup [of m "hqSessionID r" i]
    by (auto simp: Manager_Get_def mgr_inv_def boxes_nth split: option.splits if_splits)
  have "(m' = m \<or> m' = m1 \<or> (\<exists>i. g = Some i \<and> m' = ?inc i)) \<and> (\<forall>i resp. x = Return (Inr (i, resp)) \<longrightarrow> g = Some i)"
    using assms(1) get
    by (auto simp: accept_post_def Let_def split: if_splits option.splits sum.splits prod.splits call.splits)
  with found inc m1 assms(2) show ?thesis by auto
qed

section \<open>Conservation of responses\<close>

definition of_sess :: "nat \<Rightarrow> (nat \<times> bytes) list \<Rightarrow> bytes list" where
  "of_sess i xs = map snd (filter (\<lambda>x. fst x = i) xs)"

definition answers_of :: "nat \<Rightarrow> answer list \<Rightarrow> bytes list" where
  "answers_of i as = map anMsg (filter (\<lambda>a. anSess a = i) as)"

lemma of_sess_simps [simp]: "of_sess i [] = []" "of_sess i (xs @ ys) = of_sess i xs @ of_sess i ys"
  "of_sess i [(j, m)] = (if i = j then [m] else [])"
  by (simp_all add: of_sess_def)

lemma answers_of_simps [simp]: "answers_of i [] = []" "answers_of i (as @ bs) = answers_of i as @ answers_of i bs"
  "answers_of i [\<lparr>anSess = j, anKey = k, anMsg = m\<rparr>] = (if i = j then [m] else [])"
  by (simp_all add: answers_of_def)

definition in_range :: "'w sse_sys \<Rightarrow> bool" where
  "in_range s \<longleftrightarrow> (\<forall>i. length (mHeap (syManager s)) \<le> i \<longrightarrow> sySent s i = []) \<and>
     syOpen s \<subseteq> {..<length (mHeap (syManager s))} \<and>
     (\<forall>x \<in> set (syReplies s). fst x < length (mHeap (syManager s))) \<and>
     (\<forall>x \<in> set (syLost s). fst x < length (mHeap (syManager s))) \<and>
     (\<forall>a \<in> set (syAnswers s). anSess a < length (mHeap (syManager s)) \<and>
       fst (boxes (syManager s) ! anSess a) = anKey a)"

definition conserved :: "nat \<Rightarrow> 'w sse_sys \<Rightarrow> bool" where
  "conserved i s \<longleftrightarrow> mset (answers_of i (syAnswers s)) =
     mset (delivered (sySent s i)) + mset (snd (boxes (syManager s) ! i)) + mset (of_sess i (syReplies s)) +
     mset (of_sess i (syLost s))"

definition sse_inv :: "'w sse_sys \<Rightarrow> bool" where
  "sse_inv s \<longleftrightarrow> mgr_inv (syManager s) \<and> in_range s \<and> (\<forall>i < length (mHeap (syManager s)). conserved i s)"

lemma boxes_length: "boxes m' = boxes m \<Longrightarrow> length (mHeap m') = length (mHeap m)"
  by (metis length_boxes)

lemma sse_inv_boxes:
  assumes "sse_inv s" and "boxes m = boxes (syManager s)" and "mgr_inv m"
  shows "sse_inv (s\<lparr>syManager := m\<rparr>)"
  using assms boxes_length [OF assms(2)] by (simp add: sse_inv_def in_range_def conserved_def)

lemma of_sess_remove:
  assumes "n < length xs" and "xs ! n = (i, msg)"
  shows "mset (of_sess j xs) = mset (of_sess j (take n xs @ drop (Suc n) xs)) + (if j = i then {#msg#} else {#})"
  by (subst id_take_nth_drop [OF assms(1)]) (simp add: assms(2) of_sess_def)


lemma SendMessage_effect: "SendMessage pick msg s = (ok, s') \<Longrightarrow>
    sID s' = sID s \<and> sMessageChan s' = sMessageChan s @ (if ok then [msg] else [])"
  by (auto simp: SendMessage_def Let_def split: if_splits)

lemma sse_inv_reply:
  assumes "sse_inv s" and "n < length (syReplies s)" and "syReplies s ! n = (i, msg)"
    and "SendMessage pick msg (mHeap (syManager s) ! i) = (ok, sess)"
  shows "sse_inv (s\<lparr>syManager := upd_session i (\<lambda>_. sess) (syManager s),
      syReplies := take n (syReplies s) @ drop (Suc n) (syReplies s), syLost := syLost s @ (if ok then [] else [(i, msg)])\<rparr>)"
    (is "sse_inv ?t")
proof -
  let ?m = "syManager s"
  have mem: "(i, msg) \<in> set (syReplies s)" using assms(2,3) by (metis nth_mem)
  then have i: "i < length (mHeap ?m)" using assms(1) unfolding sse_inv_def in_range_def by force
  note eff = SendMessage_effect [OF assms(4)]
  have boxes: "boxes (upd_session i (\<lambda>_. sess) ?m) = (boxes ?m)[i := (fst (boxes ?m ! i), snd (boxes ?m ! i) @ (if ok then [msg] else []))]"
    using eff i by (simp add: boxes_upd boxes_nth)
  have len: "length (mHeap (upd_session i (\<lambda>_. sess) ?m)) = length (mHeap ?m)" by (simp add: upd_session_at)
  have "upd_session i (\<lambda>_. sess) ?m = upd_session i (\<lambda>s. s\<lparr>sMessageChan := sMessageChan sess\<rparr>) ?m"
    using assms(4) i by (auto simp: upd_session_def SendMessage_def Let_def split: if_splits)
  then have "mgr_inv (upd_session i (\<lambda>_. sess) ?m)" using assms(1) upd_session_inv by (auto simp: sse_inv_def)
  moreover have "in_range ?t"
    using assms(1) i len mem unfolding sse_inv_def in_range_def
    by (auto simp: boxes nth_list_update dest: in_set_takeD in_set_dropD)
  moreover have "conserved j ?t" if "j < length (mHeap ?m)" for j
    using assms(1) that of_sess_remove [OF assms(2,3), of j] by (auto simp: sse_inv_def conserved_def boxes nth_list_update)
  ultimately show ?thesis using len by (simp add: sse_inv_def)
qed

lemma turn_effect:
  assumes "HandleSSE_turn c i m = Some (ret, frame, m')" and "i < length (mHeap m)" and "mgr_inv m"
  shows "mgr_inv m' \<and> length (mHeap m') = length (mHeap m) \<and> (\<forall>j. fst (boxes m' ! j) = fst (boxes m ! j)) \<and>
    (\<forall>j. j \<noteq> i \<longrightarrow> boxes m' ! j = boxes m ! j) \<and>
    snd (boxes m ! i) = delivered (case frame of None \<Rightarrow> [] | Some f \<Rightarrow> [f]) @ snd (boxes m' ! i)"
proof (cases c)
  case ClientGone
  with assms show ?thesis by (auto simp: Manager_Delete_inv boxes_length [OF boxes_Delete])
next
  case SessionDone
  with assms show ?thesis by (auto split: if_splits)
next
  case MessageReady
  then obtain msg rest where chan: "sMessageChan (mHeap m ! i) = msg # rest" and m': "frame = Some (''message'', msg)"
    "m' = upd_session i (\<lambda>_. (mHeap m ! i)\<lparr>sMessageChan := rest\<rparr>) m"
    using assms(1) by (auto simp: RecvMessage_def split: list.splits)
  have "m' = upd_session i (\<lambda>s. s\<lparr>sMessageChan := rest\<rparr>) m" using m'(2) by (simp add: upd_session_def)
  then have "mgr_inv m'" using assms(3) upd_session_inv by auto
  then show ?thesis using assms(2) chan m' by (auto simp: boxes_upd boxes_nth nth_list_update upd_session_at)
next
  case HeartbeatTick
  with assms show ?thesis by auto
qed

lemma sse_inv_turn:
  assumes "sse_inv s" and "i \<in> syOpen s" and "HandleSSE_turn c i (syManager s) = Some (ret, frame, m)"
  shows "sse_inv (s\<lparr>syManager := m, syOpen := (if ret then syOpen s - {i} else syOpen s),
      sySent := (sySent s)(i := sySent s i @ (case frame of None \<Rightarrow> [] | Some f \<Rightarrow> [f]))\<rparr>)" (is "sse_inv ?t")
proof -
  have i: "i < length (mHeap (syManager s))" using assms(1,2) by (auto simp: sse_inv_def in_range_def)
  have inv: "mgr_inv (syManager s)" using assms(1) by (simp add: sse_inv_def)
  note eff = turn_effect [OF assms(3) i inv]
  have "in_range ?t" using assms(1) i eff by (auto simp: sse_inv_def in_range_def)
  moreover have "conserved j ?t" if "j < length (mHeap (syManager s))" for j
    using assms(1) that eff by (cases "j = i") (auto simp: sse_inv_def conserved_def)
  ultimately show ?thesis using eff by (simp add: sse_inv_def)
qed

lemma sse_inv_open:
  assumes "sse_inv s" and "map_of (mSessions (syManager s)) (''sess_'' @ uuid) = None"
    and "HandleSSE_open equalFold h True uuid t1 t2 r (syManager s) = (resp, Some i, m)"
  shows "sse_inv (s\<lparr>syManager := m, syOpen := insert i (syOpen s), sySent := (sySent s)(i := [(''endpoint'', url)])\<rparr>)"
    (is "sse_inv ?t")
proof -
  let ?n = "length (mHeap (syManager s))"
  have inv: "mgr_inv (syManager s)" using assms(1) by (simp add: sse_inv_def)
  have eff: "mgr_inv m" "i = ?n" "boxes m = boxes (syManager s) @ [(''sess_'' @ uuid, [])]"
    using open_keeps [OF assms(3) inv assms(2)] by simp_all
  then have len: "length (mHeap m) = Suc ?n" using length_boxes [of m] by simp
  have range: "in_range s" using assms(1) by (simp add: sse_inv_def)
  have none: "of_sess ?n (syReplies s) = [] \<and> of_sess ?n (syLost s) = [] \<and> answers_of ?n (syAnswers s) = []"
    using range by (auto simp: in_range_def of_sess_def answers_of_def filter_empty_conv)
  have "in_range ?t" using range eff(2,3) len by (fastforce simp: in_range_def nth_append)
  moreover have "conserved j ?t" if "j < Suc ?n" for j
    using that assms(1) none eff(2,3) by (cases "j = ?n") (auto simp: sse_inv_def conserved_def nth_append delivered_def)
  ultimately show ?thesis using eff(1) len by (simp add: sse_inv_def)
qed

lemma sse_inv_step:
  assumes "sse_inv s" and "sse_step equalFold h s t"
  shows "sse_inv t"
  using assms(2,1)
proof (induction rule: sse_step.induct)
  case (y_open s uuid t1 t2 r resp i m)
  then show ?case by (intro sse_inv_open)
next
  case (y_refuse s uuid fl t1 t2 r resp m)
  then have "mgr_inv m \<and> boxes m = boxes (syManager s)" using open_keeps [OF y_refuse(2) _ y_refuse(1)] by (simp add: sse_inv_def)
  with y_refuse show ?case by (intro sse_inv_boxes) auto
next
  case (y_accept now r s i msg m wo)
  then have acc: "mgr_inv m" "boxes m = boxes (syManager s)" "i < length (mHeap (syManager s))"
    "fst (boxes (syManager s) ! i) = hqSessionID r"
    using accept_keeps [OF y_accept(1)] by (auto simp: sse_inv_def)
  then show ?case using y_accept.prems boxes_length [OF acc(2)]
    by (auto simp: sse_inv_def in_range_def conserved_def)
next
  case (y_other now r s x m wo)
  then have "sse_inv (s\<lparr>syManager := m\<rparr>)" using accept_keeps [OF y_other(1)] by (intro sse_inv_boxes) (auto simp: sse_inv_def)
  then show ?case by (simp add: sse_inv_def in_range_def conserved_def)
next
  case (y_reply n s i msg pick ok sess)
  then show ?case by (intro sse_inv_reply)
next
  case (y_turn i s c ret frame m)
  then show ?case by (intro sse_inv_turn)
next
  case (y_manager s m)
  then show ?case using housekeeping_keeps [OF y_manager(1)] by (intro sse_inv_boxes) (auto simp: sse_inv_def)
next
  case (y_world s wo)
  then show ?case by (simp add: sse_inv_def in_range_def conserved_def)
qed

lemma sse_inv_init: "sse_init s \<Longrightarrow> sse_inv s"
  using mgr_init_inv [of "syManager s"]
  by (auto simp: sse_init_def sse_inv_def in_range_def mgr_init_def NewManager_def Let_def)

interpretation sessions: safe_system sse_init "sse_step equalFold h" sse_inv
  by unfold_locales (erule sse_inv_init, rule sse_inv_step)

section \<open>Properties\<close>

text \<open>
  C8. Sessions are isolated and no response gets lost unnoticed: in every state of the server, with any
  number of sessions and posts in progress, the responses that the handler gave to posts of a session
  are exactly those delivered on its stream, those in its channel, those on their way to it, and those
  its channel did not take, each as often as it was given. The posts were made under the session's own
  ID, so a stream never carries the answer to a post of another session.
\<close>

theorem responses_conserved:
  assumes "reach sse_init (sse_step equalFold h) s" and "i < length (mHeap (syManager s))"
  shows "mset (answers_of i (syAnswers s)) =
      mset (delivered (sySent s i)) + mset (sMessageChan (mHeap (syManager s) ! i)) + mset (of_sess i (syReplies s)) +
      mset (of_sess i (syLost s)) \<and>
    (\<forall>a \<in> set (syAnswers s). anSess a = i \<longrightarrow> anKey a = sID (mHeap (syManager s) ! i))"
  using sessions.reach_inv [OF assms(1)] assms(2)
  by (auto simp: sse_inv_def conserved_def in_range_def boxes_nth)

definition demo_sse0 :: "nat sse_sys" where
  "demo_sse0 = \<lparr>syManager = NewManager DefaultManagerConfig, syWorld = 0, sySent = (\<lambda>i. []), syOpen = {}, syReplies = [],
     syAnswers = [], syLost = []\<rparr>"

theorem responses_conserved_witness:
  "\<exists>s. reach sse_init (sse_step (=) demo_handler) s \<and> length (mHeap (syManager s)) = 1 \<and>
     mset (answers_of 0 (syAnswers s)) = {#''{}''#} + mset (sMessageChan (mHeap (syManager s) ! 0)) \<and>
     delivered (sySent s 0) = [''{}'']"
proof -
  let ?step = "sse_step (=) demo_handler"
  let ?r = "demo_post\<lparr>hqSessionID := ''sess_u''\<rparr>"
  have valid: "Valid ''{}''" by code_simp
  have "mgr_init (NewManager DefaultManagerConfig)"
    unfolding mgr_init_def by (rule exI [of _ DefaultManagerConfig]) (simp add: DefaultManagerConfig_def int64_defs)
  then have r0: "reach sse_init ?step demo_sse0" by (intro reach.reach_init) (simp add: sse_init_def demo_sse0_def)
  have m0: "mHeap (NewManager DefaultManagerConfig) = []" "mSessions (NewManager DefaultManagerConfig) = []"
    "mActive (NewManager DefaultManagerConfig) = 0" "mMax (NewManager DefaultManagerConfig) = 10000" by code_simp+
  obtain resp m1 where m1: "HandleSSE_open (=) demo_handler True ''u'' 0 0 demo_post (syManager demo_sse0) = (resp, Some 0, m1)"
    "map_of (mSessions m1) ''sess_u'' = Some 0" "length (mHeap m1) = 1" "\<not> sDone (mHeap m1 ! 0)" "sMessageChan (mHeap m1 ! 0) = []"
    using m0 by (simp add: HandleSSE_open_def Manager_Create_def demo_sse0_def Let_def
        upd_session_def SetAgent_def SetClientInfo_def NewSession_def)
  let ?url = "''/message?sessionId='' @ sID (mHeap m1 ! 0)"
  let ?s1 = "demo_sse0\<lparr>syManager := m1, syOpen := {0}, sySent := (\<lambda>i. [])(0 := [(''endpoint'', ?url)])\<rparr>"
  have "map_of (mSessions (syManager demo_sse0)) (''sess_'' @ ''u'') = None" by (simp add: demo_sse0_def m0)
  from sse_step.y_open [OF this m1(1)] have "?step demo_sse0 ?s1" by (simp add: demo_sse0_def)
  with r0 have r1: "reach sse_init ?step ?s1" by (rule reach.reach_step)
  let ?m2 = "upd_session 0 (\<lambda>s. snd (Session_IncrementRequestCount 5 s)) m1"
  let ?s2 = "?s1\<lparr>syManager := ?m2, syWorld := 1, syReplies := [(0, ''{}'')],
      syAnswers := [\<lparr>anSess = 0, anKey = ''sess_u'', anMsg = ''{}''\<rparr>]\<rparr>"
  have "accept_post demo_handler 5 ?r (syManager ?s1, syWorld ?s1) = (Return (Inr (0, Some ''{}'')), (?m2, 1))"
    using m1(2,4) valid
    by (simp add: accept_post_def Manager_Get_def IsClosed_def demo_post_def demo_handler_def sse_SetMessageHandler_def
        body_limit_def demo_sse0_def)
  from sse_step.y_accept [OF this] have "?step ?s1 ?s2" by (simp add: demo_sse0_def demo_post_def)
  with r1 have r2: "reach sse_init ?step ?s2" by (rule reach.reach_step)
  let ?sess = "(mHeap ?m2 ! 0)\<lparr>sMessageChan := [''{}'']\<rparr>"
  let ?s3 = "?s2\<lparr>syManager := upd_session 0 (\<lambda>_. ?sess) ?m2, syReplies := []\<rparr>"
  have chan: "sMessageChan (mHeap ?m2 ! 0) = []" "\<not> sDone (mHeap ?m2 ! 0)" "length (mHeap ?m2) = 1"
    using m1(3-5) by (simp_all add: upd_session_at Session_IncrementRequestCount_def Let_def)
  then have "SendMessage True ''{}'' (mHeap (syManager ?s2) ! 0) = (True, ?sess)"
    by (simp add: SendMessage_def MessageChan_cap_def)
  from sse_step.y_reply [OF _ _ this, of 0] have "?step ?s2 ?s3" by (simp add: demo_sse0_def)
  with r2 have r3: "reach sse_init ?step ?s3" by (rule reach.reach_step)
  let ?m4 = "upd_session 0 (\<lambda>_. (mHeap (syManager ?s3) ! 0)\<lparr>sMessageChan := []\<rparr>) (syManager ?s3)"
  let ?s4 = "?s3\<lparr>syManager := ?m4, sySent := (sySent ?s3)(0 := sySent ?s3 0 @ [(''message'', ''{}'')])\<rparr>"
  have "HandleSSE_turn MessageReady 0 (syManager ?s3) = Some (False, Some (''message'', ''{}''), ?m4)"
    using chan by (simp add: RecvMessage_def upd_session_at)
  from sse_step.y_turn [OF _ this] have "?step ?s3 ?s4" by (simp add: demo_sse0_def)
  with r3 have r4: "reach sse_init ?step ?s4" by (rule reach.reach_step)
  have "delivered (sySent ?s4 0) = [''{}'']" by (simp add: delivered_def)
  moreover have "length (mHeap (syManager ?s4)) = 1" using chan(3) by (simp add: upd_session_at)
  ultimately show ?thesis using responses_conserved [OF r4, of 0] r4 by (intro exI [of _ ?s4]) (simp add: demo_sse0_def)
qed
end
