(* ===== verification/Templates.thy ===== *)
theory Templates
  imports Policy_Compiler
begin

text \<open>
  The templates of \<^verbatim>\<open>src/internal/policy/compiler/templates.go\<close>, letter by letter, and what
  \<^verbatim>\<open>text/template\<close> makes of them: the split of a template into text and actions, the tree of
  conditionals, and its execution on the data of a rule. The functions of \<open>Policy_Compiler\<close> that
  write out the generated text directly are shown to agree with it.
\<close>

declare map_of_eq_Some_iff [simp del] Some_eq_map_of_iff [simp del]

section \<open>The template language\<close>

text \<open>
  The part that the templates use: actions that print a field, plainly or through one of the three
  registered functions, and conditionals on a field or on the equality of a field with a literal.
\<close>

datatype pipe = PField string | PCall string string | PEq string string

datatype tnode = NText string | NOut pipe | NIf pipe "tnode list" "tnode list"

datatype ttoken = TokText string | TokAct string

text \<open>Delimiters are two braces; no literal inside an action contains one.\<close>

fun lex_template :: "bool \<Rightarrow> string \<Rightarrow> string \<Rightarrow> ttoken list option" where
  "lex_template inside acc [] = (if inside then None else Some (if acc = [] then [] else [TokText (rev acc)]))"
| "lex_template inside acc (c # s) =
     (if \<not> inside \<and> c = CHR ''{'' \<and> s \<noteq> [] \<and> hd s = CHR ''{''
      then map_option (\<lambda>ts. if acc = [] then ts else TokText (rev acc) # ts) (lex_template True [] (tl s))
      else if inside \<and> c = CHR ''}'' \<and> s \<noteq> [] \<and> hd s = CHR ''}''
      then map_option (\<lambda>ts. TokAct (rev acc) # ts) (lex_template False [] (tl s))
      else lex_template inside (c # acc) s)"

fun words_of :: "string \<Rightarrow> string \<Rightarrow> string list" where
  "words_of acc [] = (if acc = [] then [] else [rev acc])"
| "words_of acc (c # s) =
     (if c = CHR '' '' then (if acc = [] then words_of [] s else rev acc # words_of [] s) else words_of (c # acc) s)"

definition field_name :: "string \<Rightarrow> string option" where
  "field_name w = (if w \<noteq> [] \<and> hd w = CHR ''.'' \<and> tl w \<noteq> [] then Some (tl w) else None)"

definition literal :: "string \<Rightarrow> string option" where
  "literal w = (if length w \<ge> 2 \<and> hd w = CHR 0x22 \<and> last w = CHR 0x22 then Some (butlast (tl w)) else None)"

definition funcs :: "string list" where
  "funcs = [''quote'', ''quoteSlice'', ''join'']"

definition parse_pipe :: "string list \<Rightarrow> pipe option" where
  "parse_pipe ws =
     (case ws of
        [x] \<Rightarrow> map_option PField (field_name x)
      | [f, x] \<Rightarrow> if f \<in> set funcs then map_option (PCall f) (field_name x) else None
      | [f, x, y] \<Rightarrow>
          if f = ''eq'' then (case (field_name x, literal y) of (Some n, Some l) \<Rightarrow> Some (PEq n l) | _ \<Rightarrow> None) else None
      | _ \<Rightarrow> None)"

datatype action = AEnd | AElse | AElseIf pipe | AIf pipe | AOut pipe

definition parse_action :: "string \<Rightarrow> action option" where
  "parse_action a =
     (let ws = words_of [] a
      in if ws = [''end''] then Some AEnd
         else if ws = [''else''] then Some AElse
         else if take 2 ws = [''else'', ''if''] then map_option AElseIf (parse_pipe (drop 2 ws))
         else if take 1 ws = [''if''] then map_option AIf (parse_pipe (drop 1 ws))
         else map_option AOut (parse_pipe ws))"

text \<open>
  An open conditional: its condition, the nodes of its first branch once that is complete, the nodes
  before it, and whether it was opened by \<^verbatim>\<open>else if\<close>, which one \<^verbatim>\<open>end\<close> closes with its parent.
\<close>

record frame =
  frCond :: pipe
  frThen :: "tnode list option"
  frOuter :: "tnode list"
  frChained :: bool

fun close_if :: "frame list \<Rightarrow> tnode list \<Rightarrow> (frame list \<times> tnode list) option" where
  "close_if [] cur = None"
| "close_if (f # fs) cur =
     (let node = (case frThen f of None \<Rightarrow> NIf (frCond f) cur [] | Some ts \<Rightarrow> NIf (frCond f) ts cur);
          outer = frOuter f @ [node]
      in if frChained f then close_if fs outer else Some (fs, outer))"

fun open_else :: "frame list \<Rightarrow> tnode list \<Rightarrow> frame list option" where
  "open_else [] cur = None"
| "open_else (f # fs) cur = (if frThen f = None then Some (f\<lparr>frThen := Some cur\<rparr> # fs) else None)"

fun parse_tokens :: "ttoken list \<Rightarrow> frame list \<Rightarrow> tnode list \<Rightarrow> tnode list option" where
  "parse_tokens [] fs cur = (if fs = [] then Some cur else None)"
| "parse_tokens (TokText t # ts) fs cur = parse_tokens ts fs (cur @ [NText t])"
| "parse_tokens (TokAct a # ts) fs cur =
     (case parse_action a of
        None \<Rightarrow> None
      | Some (AOut p) \<Rightarrow> parse_tokens ts fs (cur @ [NOut p])
      | Some (AIf p) \<Rightarrow> parse_tokens ts (\<lparr>frCond = p, frThen = None, frOuter = cur, frChained = False\<rparr> # fs) []
      | Some AElse \<Rightarrow> (case open_else fs cur of None \<Rightarrow> None | Some fs' \<Rightarrow> parse_tokens ts fs' [])
      | Some (AElseIf p) \<Rightarrow>
          (case open_else fs cur of
             None \<Rightarrow> None
           | Some fs' \<Rightarrow> parse_tokens ts (\<lparr>frCond = p, frThen = None, frOuter = [], frChained = True\<rparr> # fs') [])
      | Some AEnd \<Rightarrow> (case close_if fs cur of None \<Rightarrow> None | Some (fs', cur') \<Rightarrow> parse_tokens ts fs' cur'))"

definition parse_template :: "string \<Rightarrow> tnode list option" where
  "parse_template t = (case lex_template False [] t of None \<Rightarrow> None | Some ts \<Rightarrow> parse_tokens ts [] [])"

section \<open>Execution\<close>

datatype tval = VStr string | VInt int | VStrs "string list" | VBool bool

type_synonym tdata = "string \<Rightarrow> tval option"

fun print_value :: "tval \<Rightarrow> string" where
  "print_value (VStr s) = s"
| "print_value (VInt i) = itoa i"
| "print_value (VStrs ss) = ''['' @ Join ss '' '' @ '']''"
| "print_value (VBool b) = (if b then ''true'' else ''false'')"

fun truth :: "tval \<Rightarrow> bool" where
  "truth (VStr s) = (s \<noteq> [])"
| "truth (VInt i) = (i \<noteq> 0)"
| "truth (VStrs ss) = (ss \<noteq> [])"
| "truth (VBool b) = b"

definition field_value :: "tdata \<Rightarrow> string \<Rightarrow> tval outcome" where
  "field_value data n = (case data n of Some v \<Rightarrow> Ok v | None \<Rightarrow> Err (''can't evaluate field '' @ n))"

fun eval_pipe :: "fmt_env \<Rightarrow> tdata \<Rightarrow> pipe \<Rightarrow> tval outcome" where
  "eval_pipe fe data (PField n) = field_value data n"
| "eval_pipe fe data (PCall f n) =
     bind_outcome (field_value data n) (\<lambda>v.
       case v of
         VStr s \<Rightarrow> if f = ''quote'' then Ok (VStr (quoteString fe s)) else Err (''wrong type of argument for '' @ f)
       | VStrs ss \<Rightarrow> if f = ''quoteSlice'' then Ok (VStr (quoteSlice fe ss)) else Err (''wrong type of argument for '' @ f)
       | _ \<Rightarrow> Err (''wrong type of argument for '' @ f))"
| "eval_pipe fe data (PEq n l) =
     bind_outcome (field_value data n) (\<lambda>v.
       case v of VStr s \<Rightarrow> Ok (VBool (s = l)) | _ \<Rightarrow> Err ''incompatible types for comparison'')"

fun exec_nodes :: "fmt_env \<Rightarrow> tdata \<Rightarrow> tnode list \<Rightarrow> string outcome" where
  "exec_nodes fe data [] = Ok []"
| "exec_nodes fe data (NText t # ns) = bind_outcome (exec_nodes fe data ns) (\<lambda>y. Ok (t @ y))"
| "exec_nodes fe data (NOut p # ns) =
     bind_outcome (eval_pipe fe data p) (\<lambda>v. bind_outcome (exec_nodes fe data ns) (\<lambda>y. Ok (print_value v @ y)))"
| "exec_nodes fe data (NIf p ts es # ns) =
     bind_outcome (eval_pipe fe data p) (\<lambda>v.
       bind_outcome (if truth v then exec_nodes fe data ts else exec_nodes fe data es) (\<lambda>x.
         bind_outcome (exec_nodes fe data ns) (\<lambda>y. Ok (x @ y))))"

section \<open>The templates\<close>

definition dquote :: string where
  "dquote = [CHR 0x22]"

definition headerTemplate :: string where
  "headerTemplate = text_lines [
     ''# Auto-generated from JSON policy: {{.PolicyName}}'',
     ''# Description: {{.Description}}'',
     ''# Generated at: {{.Timestamp}}'',
     ''# DO NOT EDIT - changes will be overwritten'',
     [],
     ''package mcp.policy'',
     [],
     ''import rego.v1'']"

definition capabilityTemplate :: string where
  "capabilityTemplate = text_lines [
     [],
     ''# Rule: {{.RuleID}} (capability)'',
     ''# Tool: {{.Tool}} requires capability: {{.Capability}}'',
     [],
     ''{{.RuleID}}_check if {'',
     ''    input.request.tool == {{quote .Tool}}'',
     ''    required := {{quote .Capability}}'',
     ''    some cap in input.agent.capabilities'',
     ''    capability_matches(cap, required)'',
     ''}'',
     [],
     ''violations[msg] if {'',
     ''    input.request.tool == {{quote .Tool}}'',
     ''    not {{.RuleID}}_check'',
     ''    msg := {{quote .Message}}'',
     ''}'']"

definition blocklistTemplate :: string where
  "blocklistTemplate = text_lines [
     [],
     ''# Rule: {{.RuleID}} (blocklist)'',
     ''# Blocks {{.MatchType}}: {{.Values}}'',
     [],
     ''{{.RuleID}}_blocked if {'',
     ''    {{if eq .MatchType '' @ dquote @ ''tool'' @ dquote @ ''}}input.request.tool{{else if eq .MatchType '' @
       dquote @ ''agent'' @ dquote @ ''}}input.agent.id{{else}}input.identity.did{{end}} in {{quoteSlice .Values}}'',
     ''}'',
     [],
     ''blocked if {'',
     ''    {{.RuleID}}_blocked'',
     ''}'',
     [],
     ''violations[msg] if {'',
     ''    {{.RuleID}}_blocked'',
     ''    msg := {{quote .Message}}'',
     ''}'']"

definition rateLimitTemplate :: string where
  "rateLimitTemplate = text_lines [
     [],
     ''# Rule: {{.RuleID}} (rate_limit)'',
     ''# Limit: {{.Limit}} per {{.Window}}'',
     [],
     ''{{.RuleID}}_exceeded if {'',
     ''    {{if .AgentPattern}}regex.match({{quote .AgentPattern}}, input.agent.id){{else if .AgentID}}input.agent.id == {{quote .AgentID}}{{else}}true{{end}}'',
     ''    input.session.request_count >= {{.Limit}}'',
     ''}'',
     [],
     ''rate_limit_ok if {'',
     ''    not {{.RuleID}}_exceeded'',
     ''}'',
     [],
     ''violations[msg] if {'',
     ''    {{.RuleID}}_exceeded'',
     ''    msg := {{quote .Message}}'',
     ''}'']"

definition customTemplate :: string where
  "customTemplate = text_lines [
     [],
     ''# Rule: {{.RuleID}} (custom)'',
     ''# {{.Description}}'',
     [],
     ''{{.RuleID}}_match if {'',
     ''{{.Conditions}}'',
     ''}'',
     [],
     ''{{if eq .Action '' @ dquote @ ''deny'' @ dquote @ ''}}'',
     ''violations[msg] if {'',
     ''    {{.RuleID}}_match'',
     ''    msg := {{quote .Message}}'',
     ''}'',
     ''{{else}}'',
     ''allow if {'',
     ''    {{.RuleID}}_match'',
     ''}'',
     ''{{end}}'']"

definition templates :: "(string, tnode list option) gomap" where
  "templates = [(''header'', parse_template headerTemplate), (''capability'', parse_template capabilityTemplate),
     (''blocklist'', parse_template blocklistTemplate), (''ratelimit'', parse_template rateLimitTemplate),
     (''custom'', parse_template customTemplate)]"

text \<open>\<^verbatim>\<open>template.Must\<close> at start-up: a template that cannot be parsed would be a panic.\<close>

definition ExecuteTemplate :: "fmt_env \<Rightarrow> string \<Rightarrow> tdata \<Rightarrow> string outcome" where
  "ExecuteTemplate fe name data =
     (case map_of templates name of
        None \<Rightarrow> Err (''template: no template '' @ dquote @ name @ dquote)
      | Some None \<Rightarrow> Panic ''template: parse error''
      | Some (Some nodes) \<Rightarrow> exec_nodes fe data nodes)"

definition header_data :: "TemplateData \<Rightarrow> tdata" where
  "header_data d = map_of [(''PolicyName'', VStr (tdPolicyName d)), (''Description'', VStr (tdDescription d)),
     (''Timestamp'', VStr (tdTimestamp d))]"

definition capability_data :: "CapabilityData \<Rightarrow> tdata" where
  "capability_data d = map_of [(''RuleID'', VStr (cdRuleID d)), (''Tool'', VStr (cdTool d)),
     (''Capability'', VStr (cdCapability d)), (''Message'', VStr (cdMessage d))]"

definition blocklist_data :: "BlocklistData \<Rightarrow> tdata" where
  "blocklist_data d = map_of [(''RuleID'', VStr (bdRuleID d)), (''MatchType'', VStr (bdMatchType d)),
     (''Values'', VStrs (bdValues d)), (''Message'', VStr (bdMessage d))]"

definition rate_limit_data :: "RateLimitData \<Rightarrow> tdata" where
  "rate_limit_data d = map_of [(''RuleID'', VStr (rlRuleID d)), (''AgentID'', VStr (rlAgentID d)),
     (''AgentPattern'', VStr (rlAgentPattern d)), (''Limit'', VInt (rlLimit d)), (''Window'', VStr (rlWindow d)),
     (''Message'', VStr (rlMessage d))]"

definition custom_data :: "CustomData \<Rightarrow> tdata" where
  "custom_data d = map_of [(''RuleID'', VStr (cuRuleID d)), (''Description'', VStr (cuDescription d)),
     (''Conditions'', VStr (cuConditions d)), (''Action'', VStr (cuAction d)), (''Message'', VStr (cuMessage d))]"

definition execute_header :: "fmt_env \<Rightarrow> TemplateData \<Rightarrow> string outcome" where
  "execute_header fe d = wrap_err ''render header'' (ExecuteTemplate fe ''header'' (header_data d))"

definition execute_capability :: "fmt_env \<Rightarrow> CapabilityData \<Rightarrow> string outcome" where
  "execute_capability fe d = wrap_err ''render capability'' (ExecuteTemplate fe ''capability'' (capability_data d))"

definition execute_blocklist :: "fmt_env \<Rightarrow> BlocklistData \<Rightarrow> string outcome" where
  "execute_blocklist fe d = wrap_err ''render blocklist'' (ExecuteTemplate fe ''blocklist'' (blocklist_data d))"

definition execute_rate_limit :: "fmt_env \<Rightarrow> RateLimitData \<Rightarrow> string outcome" where
  "execute_rate_limit fe d = wrap_err ''render ratelimit'' (ExecuteTemplate fe ''ratelimit'' (rate_limit_data d))"

definition execute_custom :: "fmt_env \<Rightarrow> CustomData \<Rightarrow> string outcome" where
  "execute_custom fe d = wrap_err ''render custom'' (ExecuteTemplate fe ''custom'' (custom_data d))"

section \<open>Lemmas\<close>

text \<open>The trees of the templates.\<close>

lemma parse_headerTemplate: "parse_template headerTemplate =
  Some
  [NText ''# Auto-generated from JSON policy: '',
   NOut (PField ''PolicyName''), NText ''\<newline># Description: '',
   NOut (PField ''Description''), NText ''\<newline># Generated at: '',
   NOut (PField ''Timestamp''),
   NText
    ''\<newline># DO NOT EDIT - changes will be overwritten\<newline>\<newline>package mcp.policy\<newline>\<newline>import rego.v1\<newline>'']"
  by code_simp

lemma parse_capabilityTemplate: "parse_template capabilityTemplate =
  Some
  [NText ''\<newline># Rule: '', NOut (PField ''RuleID''),
   NText '' (capability)\<newline># Tool: '', NOut (PField ''Tool''),
   NText '' requires capability: '', NOut (PField ''Capability''),
   NText ''\<newline>\<newline>'', NOut (PField ''RuleID''),
   NText ''_check if {\<newline>    input.request.tool == '',
   NOut (PCall ''quote'' ''Tool''), NText ''\<newline>    required := '',
   NOut (PCall ''quote'' ''Capability''),
   NText
    ''\<newline>    some cap in input.agent.capabilities\<newline>    capability_matches(cap, required)\<newline>}\<newline>\<newline>violations[msg] if {\<newline>    input.request.tool == '',
   NOut (PCall ''quote'' ''Tool''), NText ''\<newline>    not '',
   NOut (PField ''RuleID''), NText ''_check\<newline>    msg := '',
   NOut (PCall ''quote'' ''Message''), NText ''\<newline>}\<newline>'']"
  by code_simp

lemma parse_blocklistTemplate: "parse_template blocklistTemplate =
  Some
  [NText ''\<newline># Rule: '', NOut (PField ''RuleID''),
   NText '' (blocklist)\<newline># Blocks '', NOut (PField ''MatchType''),
   NText '': '', NOut (PField ''Values''), NText ''\<newline>\<newline>'',
   NOut (PField ''RuleID''), NText ''_blocked if {\<newline>    '',
   NIf (PEq ''MatchType'' ''tool'') [NText ''input.request.tool'']
    [NIf (PEq ''MatchType'' ''agent'') [NText ''input.agent.id'']
      [NText ''input.identity.did'']],
   NText '' in '', NOut (PCall ''quoteSlice'' ''Values''),
   NText ''\<newline>}\<newline>\<newline>blocked if {\<newline>    '', NOut (PField ''RuleID''),
   NText ''_blocked\<newline>}\<newline>\<newline>violations[msg] if {\<newline>    '',
   NOut (PField ''RuleID''), NText ''_blocked\<newline>    msg := '',
   NOut (PCall ''quote'' ''Message''), NText ''\<newline>}\<newline>'']"
  by code_simp

lemma parse_rateLimitTemplate: "parse_template rateLimitTemplate =
  Some
  [NText ''\<newline># Rule: '', NOut (PField ''RuleID''),
   NText '' (rate_limit)\<newline># Limit: '', NOut (PField ''Limit''),
   NText '' per '', NOut (PField ''Window''), NText ''\<newline>\<newline>'',
   NOut (PField ''RuleID''), NText ''_exceeded if {\<newline>    '',
   NIf (PField ''AgentPattern'')
    [NText ''regex.match('', NOut (PCall ''quote'' ''AgentPattern''),
     NText '', input.agent.id)'']
    [NIf (PField ''AgentID'')
      [NText ''input.agent.id == '', NOut (PCall ''quote'' ''AgentID'')]
      [NText ''true'']],
   NText ''\<newline>    input.session.request_count >= '', NOut (PField ''Limit''),
   NText ''\<newline>}\<newline>\<newline>rate_limit_ok if {\<newline>    not '', NOut (PField ''RuleID''),
   NText ''_exceeded\<newline>}\<newline>\<newline>violations[msg] if {\<newline>    '',
   NOut (PField ''RuleID''), NText ''_exceeded\<newline>    msg := '',
   NOut (PCall ''quote'' ''Message''), NText ''\<newline>}\<newline>'']"
  by code_simp

lemma parse_customTemplate: "parse_template customTemplate =
  Some
  [NText ''\<newline># Rule: '', NOut (PField ''RuleID''), NText '' (custom)\<newline># '',
   NOut (PField ''Description''), NText ''\<newline>\<newline>'', NOut (PField ''RuleID''),
   NText ''_match if {\<newline>'', NOut (PField ''Conditions''), NText ''\<newline>}\<newline>\<newline>'',
   NIf (PEq ''Action'' ''deny'')
    [NText ''\<newline>violations[msg] if {\<newline>    '', NOut (PField ''RuleID''),
     NText ''_match\<newline>    msg := '', NOut (PCall ''quote'' ''Message''),
     NText ''\<newline>}\<newline>'']
    [NText ''\<newline>allow if {\<newline>    '', NOut (PField ''RuleID''),
     NText ''_match\<newline>}\<newline>''],
   NText ''\<newline>'']"
  by code_simp

lemmas template_trees = parse_headerTemplate parse_capabilityTemplate parse_blocklistTemplate parse_rateLimitTemplate
  parse_customTemplate

section \<open>Properties\<close>

text \<open>
  C19. The five templates of the compiler, parsed and executed as \<^verbatim>\<open>text/template\<close> does it, give on
  every rule exactly the text that the compiler's model writes, without error.
\<close>

theorem templates_render:
  "execute_header fe h = Ok (RenderHeader h) \<and>
   execute_capability fe c = Ok (RenderCapability fe c) \<and>
   execute_blocklist fe b = Ok (RenderBlocklist fe b) \<and>
   execute_rate_limit fe r = Ok (RenderRateLimit fe r) \<and>
   execute_custom fe u = Ok (RenderCustom fe u)"
proof (intro conjI)
  show "execute_header fe h = Ok (RenderHeader h)"
    by (simp add: execute_header_def ExecuteTemplate_def templates_def template_trees header_data_def RenderHeader_def
        field_value_def text_lines_def nl_def)
  show "execute_capability fe c = Ok (RenderCapability fe c)"
    by (simp add: execute_capability_def ExecuteTemplate_def templates_def template_trees capability_data_def
        RenderCapability_def field_value_def text_lines_def nl_def)
  show "execute_blocklist fe b = Ok (RenderBlocklist fe b)"
    by (simp add: execute_blocklist_def ExecuteTemplate_def templates_def template_trees blocklist_data_def
        RenderBlocklist_def field_value_def text_lines_def nl_def)
  show "execute_rate_limit fe r = Ok (RenderRateLimit fe r)"
    by (simp add: execute_rate_limit_def ExecuteTemplate_def templates_def template_trees rate_limit_data_def
        RenderRateLimit_def field_value_def text_lines_def nl_def)
  show "execute_custom fe u = Ok (RenderCustom fe u)"
    by (simp add: execute_custom_def ExecuteTemplate_def templates_def template_trees custom_data_def RenderCustom_def
        field_value_def text_lines_def nl_def)
qed

end
