(* ===== verification/Spec2Isabelle.thy ===== *)
theory Spec2Isabelle
  imports Program Sse_Sessions Templates
begin

text \<open>
  A verification development of the MCP policy proxy (Go sources under \<^verbatim>\<open>src/\<close>). The proxy
  stands between agents and an MCP server: a transport receives JSON-RPC messages on a session, the
  router parses each message, asks the policy engine about it, forwards it to the upstream server or
  refuses it, and hands a record of what happened to the audit writer, which stores batches of records
  in SQLite. Health checks and metrics observe it, and the application starts and stops all of it.

  \<^bold>\<open>Parts of the program and their theories.\<close>

  \<^item> \<open>Prelude\<close>: the parts of Go and of its standard library that the sources use. Times and
    durations in nanoseconds with 64-bit wrap-around (\<open>wrap64\<close>) and the saturation of
    \<^verbatim>\<open>Time.Sub\<close>; results (\<open>outcome\<close>: \<open>Ok\<close>, \<open>Err\<close>, \<open>Panic\<close>), state-changing
    calls (\<open>act\<close>, a state monad whose result may be a panic), slices that may be nil, Go maps as
    association lists behind the locale \<open>finite_map\<close>, transition systems with the locales
    \<open>safe_system\<close> (invariants) and \<open>simulation\<close> (refinement).
  \<^item> \<open>Sha256\<close>, \<open>Utf8\<close>, \<open>Go_Value\<close>, \<open>Json\<close>, \<open>Json_Scan\<close>, \<open>Http\<close>:
    \<^verbatim>\<open>crypto/sha256\<close>, UTF-8 decoding with replacement runes, the values of \<^verbatim>\<open>interface{}\<close>,
    what a value becomes when it is encoded to JSON and decoded again, \<^verbatim>\<open>json.Valid\<close>, and the
    requests, responses and patterns of \<^verbatim>\<open>net/http\<close> that the handlers use.
  \<^item> \<open>Session\<close>: \<^verbatim>\<open>internal/session/types.go\<close>, \<^verbatim>\<open>manager.go\<close>. Session objects live in an
    explicit heap, because manager and transports share pointers to them. \<open>mgr_step\<close> interleaves
    whole operations, \<open>cmgr_step\<close> the atomic actions inside Create, Delete and cleanup.
  \<^item> \<open>Policy_Types\<close>, \<open>Decision_Cache\<close>, \<open>Engine\<close>: \<^verbatim>\<open>internal/policy/types.go\<close>,
    \<^verbatim>\<open>cache.go\<close>, \<^verbatim>\<open>engine.go\<close>. The cache is also specified as a map with expiry times
    (\<open>spec_cache_op\<close>); the engine sees it through the locale \<open>lossy_cache\<close>.
  \<^item> \<open>Policy_Loader\<close>: \<^verbatim>\<open>internal/policy/loader.go\<close>. Which Rego modules, compiled JSON policies
    and data reach the engine, and in which order.
  \<^item> \<open>Router\<close>: \<^verbatim>\<open>internal/router/*.go\<close>. Parsing and validation of requests, the method
    registry, request contexts, error responses, the handlers, \<^verbatim>\<open>Route\<close>. Pooled objects appear as
    arbitrary stale objects in \<open>route_env\<close>.
  \<^item> \<open>Audit_Writer\<close>, \<open>Audit_Store\<close>: \<^verbatim>\<open>internal/audit/types.go\<close>, \<^verbatim>\<open>writer.go\<close>,
    \<^verbatim>\<open>store.go\<close>. \<open>writer_step\<close> runs request handlers, the flush loop and shutdown against each
    other; \<open>lock_step\<close> is one Write and one Stats between their lock operations. The writer relies
    on its store through the locale \<open>audit_sink\<close>, which \<open>InsertBatch\<close> satisfies.
  \<^item> \<open>Rego_Format\<close>, \<open>Policy_Validation\<close>, \<open>Expression_Compiler\<close>, \<open>Policy_Compiler\<close>:
    \<^verbatim>\<open>internal/policy/compiler\<close>, from JSON policy definitions to the exact Rego text.
    \<open>Templates\<close> has the template constants themselves and what of \<^verbatim>\<open>text/template\<close> they need:
    lexer, parser and execution.
  \<^item> \<open>Config\<close>: \<^verbatim>\<open>internal/config\<close>.
  \<^item> \<open>Transport\<close>, \<open>Sse_Transport\<close>, \<open>Stdio_Transport\<close>: \<^verbatim>\<open>internal/transport\<close>. The
    interface \<^verbatim>\<open>Transport\<close> is the locale \<open>transport\<close>, which both servers satisfy. The SSE theory has
    the two HTTP handlers, the life of an event stream (\<open>stream_step\<close>), the multiplexer and the
    request logger; \<open>Sse_Sessions\<close> is the server with all its sessions at once (\<open>sse_step\<close>). The
    stdio theory has \<^verbatim>\<open>bufio.Scanner\<close>, reader, writer and the read loop.
  \<^item> \<open>Upstream_Client\<close>: \<^verbatim>\<open>internal/upstream/client.go\<close>. Connecting, the line-based reader of
    events, the table of pending requests. \<open>up_step\<close> interleaves callers of Send with the reading
    goroutine.
  \<^item> \<open>Health\<close>, \<open>Metrics\<close>: \<^verbatim>\<open>internal/observability\<close>. Component checks and their handlers, the
    collectors and the operations that record in them, the two servers.
  \<^item> \<open>Application\<close>, \<open>Proxy\<close>, \<open>Lifecycle\<close>, \<open>Program\<close>: \<^verbatim>\<open>cmd/proxy/main.go\<close>.
    The callbacks that join engine, router, upstream, metrics and audit writer and the handling of one
    message; the handling with the proxy's own upstream client (\<open>client_sender\<close>) and runs of many
    messages (\<open>proxy_step\<close>); the assembly of the components, Start and Stop; and \<^verbatim>\<open>main\<close>, from the
    command line to the exit code. This theory has the remaining properties of the whole proxy.

  \<^bold>\<open>What the lemmas show.\<close> For the assembled proxy: over a whole run in
  enforce mode, the upstream is given nothing but the messages that passed, and no tool call, resource read
  or subscription without an approval; what happens to a denied and to an approved call, from the posted
  message to the answer on the client's own channel; every enforced request leaves one audit record with
  the decision and one count in its series; a program that serves has loaded and validated its
  configuration and, if they are enabled, its policies; the transport is started only after that; which
  states are reported as ready; what Stop leaves behind; and which facts about a request cannot influence
  its decision. For the engine: it approves only on an
  explicit boolean approval of the policy, and every decision served from the cache was computed for a
  request with the same key since the last change of the policy data, also across a reload by the loader.
  For the loader: which modules a successful load contains. For the router: validation of messages, no
  influence of recycled objects, and the path of every kind of method. For the transports: every accepted
  post is handled on its session and its answer queued, event streams deliver in order and can be read
  back, no response is lost uncounted and none reaches another session's stream, the request logger does
  not change a response, what the stdio writer wrote is what a read loop serves, and exactly which inputs
  make the read loop end. For the upstream client: answers reach the caller that sent the request as long as pending
  IDs differ, and what happens when they do not or cannot be map keys. For the sessions: the limit, exact
  cleanup, closed sessions stay closed, the bounded channel; under real interleavings the limit
  holds as long as the cleanup goroutine does not run, and fails when it does. For the cache: refinement
  of the map with expiry, its capacity, its key. For the audit path: conservation of records, order,
  atomic batches, round trip through a row, parameterised SQL, and a deadlock of Write with Stats. For the
  compiler: quoted literals cannot be escaped from, validated policies compile without panic, how rule
  names and actions are treated, and the templates give the text the compiler's model writes. For the configuration: what a loaded configuration guarantees. For health
  and metrics: the reported status is the worst of the components, and no recording operation panics on
  its labels.

  \<^bold>\<open>Parameters.\<close> Code outside the repository is a parameter of the definitions that call it: OPA
  (\<open>opa\<close>), the JSON codec of the router (\<open>gojson\<close>), the database (\<open>sqldb\<close>, with the law
  \<open>table_db\<close>), the Prometheus client (\<open>prom\<close>, with the law \<open>prom_laws\<close>), YAML, the file
  system (\<open>files\<close>), the results of HTTP calls and of listening, formatting of times in the host's time
  zone, of floats, and the printability of non-ASCII runes. Clock readings, random bytes, generated UUIDs,
  the iteration order of maps and the choice of \<^verbatim>\<open>select\<close> are arguments too, so that theorems hold
  for every value of them. In \<open>Application\<close> the upstream client is an arbitrary \<open>upstream_client\<close>,
  so that its properties hold for every upstream; \<open>Proxy\<close> instantiates it with the client of
  \<open>Upstream_Client\<close>. In \<open>Program\<close> the levels of zerolog and what the goroutines do to the
  application between Start and the signal are parameters. Recursions are structural or have a measure; the read
  loop of the stdio server, which may run for ever, is a \<^verbatim>\<open>partial_function (option)\<close>, and it is
  proved for which inputs it returns. No fuel is used.

  \<^bold>\<open>Not modelled.\<close> The log lines; only where and at which level they are written is.
  \<^verbatim>\<open>context.Context\<close>: a cancelled context or an expired timeout appears only as the error result or the
  choice of \<^verbatim>\<open>select\<close> that it leads to. Data races on fields that are read without a lock. Errors of
  listeners that run in goroutines of their own, which the code only logs. The structs of
  \<^verbatim>\<open>compiler/schema.go\<close> for typed conditions, which the code does not use: it reads conditions from
  generic maps. The constructor of the stdio server for given streams, which only tests call. Of
  \<^verbatim>\<open>text/template\<close> only the actions that the five templates contain.
\<close>

section \<open>Lemmas of the assembled proxy\<close>

definition demo_world :: "(string, unit, demo_registry) world" where
  "demo_world = \<lparr>woEngine = snd (LoadPolicies demo_opa [(''main.rego'', ''write'')] (NewEngine demo_opa demo_engine_cfg)),
     woWriter = Some (NewWriter \<lparr>wcBufferSize = 10, wcFlushInterval = second\<rparr>), woUpstream = (),
     woMetrics = snd (NewMetrics demo_prom [] demo_registry0)\<rparr>"

lemma demo_meter_ok: "meter_ok (\<lambda>s. set (dgNames s)) dgCounts demo_meter (woMetrics demo_world)"
  using demo_metrics_ok by (simp add: demo_world_def)

abbreviation demo_policy_input :: "Session \<Rightarrow> PolicyInput" where
  "demo_policy_input sess \<equiv> policy_input zero_config (aeInputNow demo_app_env) sess demo_call_ctx"

lemma demo_world_engine: "enEnabled (woEngine demo_world)" "l2Cache (enCache (woEngine demo_world)) = []"
  "enQuery (woEngine demo_world) = ''write''" "enMode (woEngine demo_world) = ''enforce''"
  by (simp_all add: demo_world_def LoadPolicies_def NewEngine_def compileWithData_def demo_opa_def
      demo_engine_cfg_def NewDecisionCache_def demo_cache_cfg_def Let_def)

lemma demo_world_evaluate:
  "\<exists>r e. Evaluate demo_opa demo_fmt (aeEval demo_app_env) (demo_policy_input sess) (woEngine demo_world) = (Ok r, e) \<and>
     \<not> pdAllow (erDecision r)"
proof -
  have "cache_find (enCache (woEngine demo_world)) k t = None" for k t
    by (cases "cache_find (enCache (woEngine demo_world)) k t") (auto simp: cache_find_Some demo_world_engine)
  moreover have "rqArguments (piRequest (demo_policy_input sess)) = None" "rqTool (piRequest (demo_policy_input sess)) = ''read''"
    by (simp_all add: policy_input_fields demo_call_ctx_def)
  moreover have "utf8_coerce ''read'' \<noteq> ''write''" using utf8_coerce_ascii [of "''read''"] by (simp add: ascii_def)
  ultimately show ?thesis using demo_evaluate_any [of "demo_policy_input sess" "woEngine demo_world"] demo_world_engine by metis
qed

section \<open>Properties of the assembled proxy\<close>

text \<open>
  The proxy enforces its policy for one message: when the engine, in enforce mode, decides against a
  tool call, a resource read or a subscription, the handling of the message leaves the upstream
  client untouched and answers with a policy violation under the request's ID, for every OPA policy,
  every upstream and every JSON codec. The metrics are assumed to be registered.
\<close>

lemma proxy_enforces_policy:
  assumes "admitted gj renv message = Some (req, ctx)"
    and "reqMethod req \<in> {''tools/call'', ''resources/read'', ''resources/subscribe''}"
    and "Evaluate opa fmt (aeEval env) (policy_input cfg (aeInputNow env) sess ctx) (woEngine w) = (Ok r, e)"
    and "enMode (woEngine w) = ''enforce''" and "\<not> pdAllow (erDecision r)"
    and "meter_ok names tally mtr (woMetrics w)"
  shows "\<exists>resp err w'. respError resp = Some err \<and> errCode err = CodePolicyViolation \<and>
    respID resp = reqID req \<and>
    handleMessage gj opa fmt num mtr cfg client env renv sess message w = (Return (marshal_or_nil gj resp, None), w') \<and>
    woUpstream w' = woUpstream w"
  using handleMessage_denied [OF assms, of num client] by blast

text \<open>
  C2. A denied call from the wire to the wire: when a client posts a tool call, a resource read or a
  subscription on its open session and the engine, in enforce mode, decides against it, the proxy
  accepts the post with 202, leaves the upstream untouched, queues a policy violation under the
  request's ID on that session's channel and on no other (it is lost if the channel is full), and
  writes one audit record that says the request was not allowed.
\<close>

theorem posted_call_denied:
  assumes "haMessageHandler h = Some (handleMessage gj opa fmt num mtr cfg client env renv)"
    and "hqSessionID p \<noteq> []" and "map_of (mSessions m) (hqSessionID p) = Some i" and "i < length (mHeap m)"
    and "\<not> IsClosed (mHeap m ! i)" and "hqBody p = Inr body" and "length body \<le> body_limit" and "Valid body"
    and "admitted gj renv body = Some (req, ctx)"
    and "reqMethod req \<in> {''tools/call'', ''resources/read'', ''resources/subscribe''}"
    and "Evaluate opa fmt (aeEval env) (policy_input cfg (aeInputNow env)
      (snd (Session_IncrementRequestCount now (mHeap m ! i))) ctx) (woEngine w) = (Ok r, e)"
    and "enMode (woEngine w) = ''enforce''" and "\<not> pdAllow (erDecision r)"
    and "meter_ok names tally mtr (woMetrics w)"
  shows "\<exists>x m' w' resp err rc. HandleMessage h now pick p (m, w) = (Return x, m', w') \<and> hpStatus x = Some 202 \<and>
    woUpstream w' = woUpstream w \<and>
    respError resp = Some err \<and> errCode err = CodePolicyViolation \<and> respID resp = reqID req \<and>
    sMessageChan (mHeap m' ! i) = queued (marshal_or_nil gj resp) (sMessageChan (mHeap m ! i)) \<and>
    (\<forall>j. j \<noteq> i \<longrightarrow> mHeap m' ! j = mHeap m ! j) \<and>
    woWriter w' = map_option (Writer_Write rc) (woWriter w) \<and> arRequestID rc = xRequestID ctx \<and> \<not> arAllowed rc"
proof -
  let ?s = "snd (Session_IncrementRequestCount now (mHeap m ! i))"
  have body: "take body_limit body = body" using assms(7) by simp
  obtain resp err w' rc where run: "respError resp = Some err" "errCode err = CodePolicyViolation" "respID resp = reqID req"
    "handleMessage gj opa fmt num mtr cfg client env renv ?s body w = (Return (marshal_or_nil gj resp, None), w')"
    "woUpstream w' = woUpstream w" "woWriter w' = map_option (Writer_Write rc) (woWriter w)"
    "arRequestID rc = xRequestID ctx" "\<not> arAllowed rc"
    using handleMessage_denied [OF assms(9-14), of num client] by blast
  have "\<not> sDone (mHeap m ! i)" using assms(5) by (simp add: IsClosed_def)
  from HandleMessage_answered [OF assms(2,3) this assms(4,6) _ assms(1), of now w "marshal_or_nil gj resp" w' pick] run(4) assms(8)
  obtain m' where "HandleMessage h now pick p (m, w) = (Return (WriteHeader 202 new_response), m', w')"
    "sMessageChan (mHeap m' ! i) = queued (marshal_or_nil gj resp) (sMessageChan (mHeap m ! i))"
    "\<forall>j. j \<noteq> i \<longrightarrow> mHeap m' ! j = mHeap m ! j" unfolding body by blast
  moreover have "hpStatus (WriteHeader 202 new_response) = Some 202" by (simp add: WriteHeader_def new_response_def)
  ultimately show ?thesis using run by blast
qed

definition demo_call_handler :: "(string, unit, demo_registry) world Handler" where
  "demo_call_handler = sse_SetMessageHandler (handleMessage demo_call_gj demo_opa demo_fmt (\<lambda>_. []) demo_meter zero_config None
     demo_app_env demo_route_env) (NewHandler (cgAgent zero_config))"

theorem posted_call_denied_witness:
  "\<exists>x m' w' rc. HandleMessage demo_call_handler 0 True demo_post (demo_manager, demo_world) = (Return x, m', w') \<and>
     hpStatus x = Some 202 \<and> woWriter w' = map_option (Writer_Write rc) (woWriter demo_world) \<and> \<not> arAllowed rc"
proof -
  let ?s = "snd (Session_IncrementRequestCount 0 (mHeap demo_manager ! 0))"
  have valid: "Valid ''{}''" by code_simp
  have h: "haMessageHandler demo_call_handler = Some (handleMessage demo_call_gj demo_opa demo_fmt (\<lambda>_. []) demo_meter
      zero_config None demo_app_env demo_route_env)" by (simp add: demo_call_handler_def sse_SetMessageHandler_def)
  have sess: "hqSessionID demo_post \<noteq> []" "map_of (mSessions demo_manager) (hqSessionID demo_post) = Some 0"
    "0 < length (mHeap demo_manager)" "\<not> IsClosed (mHeap demo_manager ! 0)" "hqBody demo_post = Inr ''{}''"
    "length ''{}'' \<le> body_limit"
    by (simp_all add: demo_post_def demo_manager_def IsClosed_def NewSession_def body_limit_def)
  obtain r e where r: "Evaluate demo_opa demo_fmt (aeEval demo_app_env) (demo_policy_input ?s) (woEngine demo_world) = (Ok r, e)"
    "\<not> pdAllow (erDecision r)" using demo_world_evaluate by blast
  have "reqMethod (demo_req ''tools/call'') \<in> {''tools/call'', ''resources/read'', ''resources/subscribe''}"
    by (simp add: demo_req_def)
  from posted_call_denied [OF h sess valid demo_call_admitted this r(1) demo_world_engine(4) r(2) demo_meter_ok, of True]
  show ?thesis by blast
qed

text \<open>
  C7. Every enforced request leaves exactly one audit record, whatever the policy decides and
  whatever the upstream answers: the record carries the request's ID, method, tool and agent, and its
  \<open>allowed\<close> field is the decision of the engine. When the evaluation itself fails the request is
  refused, but its record still says \<open>allowed\<close>. The request counter grows by one in the series
  of its method, tool and decision and in no other. Assumed: the writer is running, the metrics are
  registered, the evaluation and the upstream client return.
\<close>

theorem enforced_request_audited:
  assumes "admitted gj renv message = Some (req, ctx)"
    and "reqMethod req \<in> {''tools/call'', ''resources/read'', ''resources/subscribe''}"
    and "Evaluate opa fmt (aeEval env) (policy_input cfg (aeInputNow env) sess ctx) (woEngine w) = (out, e)"
    and "\<And>p. out \<noteq> Panic p"
    and "\<And>c m u. client = Some c \<Longrightarrow> \<exists>x u'. ucSend c m u = (Return x, u')"
    and "woWriter w = Some wr" and "meter_ok names tally mtr (woMetrics w)"
  shows "\<exists>resp w' rc. handleMessage gj opa fmt num mtr cfg client env renv sess message w = (Return (resp, None), w') \<and>
    woWriter w' = Some (Writer_Write rc wr) \<and>
    arRequestID rc = xRequestID ctx \<and> arMethod rc = reqMethod req \<and> arTool rc = xTool ctx \<and>
    arAgentID rc = sAgentID sess \<and>
    tally (woMetrics w') (RequestsTotal (mrMetrics mtr)) =
      (tally (woMetrics w) (RequestsTotal (mrMetrics mtr)))(request_series ctx (arAllowed rc) :=
        tally (woMetrics w) (RequestsTotal (mrMetrics mtr)) (request_series ctx (arAllowed rc)) + 1) \<and>
    (arAllowed rc \<longleftrightarrow> (case out of Ok r \<Rightarrow> pdAllow (erDecision r) | _ \<Rightarrow> True)) \<and>
    ((\<exists>x. out = Err x) \<longrightarrow> woUpstream w' = woUpstream w \<and>
      resp = marshal_or_nil gj (InternalError (reqID req) ''Policy evaluation failed''))"
proof -
  obtain resp d w1 where run: "handleEnforce gj (reStamp renv) (app_router opa fmt num mtr cfg client env) sess ctx message w =
       (Return (resp, d, None), w1)" "woWriter w1 = Some wr" "woMetrics w1 = woMetrics w"
     "recorded d = (case out of Ok r \<Rightarrow> pdAllow (erDecision r) | _ \<Rightarrow> True)"
     "(\<exists>x. out = Err x) \<longrightarrow> woUpstream w1 = woUpstream w \<and>
      resp = marshal_or_nil gj (InternalError (ctx_id ctx) ''Policy evaluation failed'')"
    using handleEnforce_outcome [OF assms(3-6)] by blast
  have "meter_ok names tally mtr (woMetrics w1)" using assms(7) run(3) by simp
  from handleMessage_enforced [OF assms(1,2) run(1) this]
  obtain m' where m': "handleMessage gj opa fmt num mtr cfg client env renv sess message w =
      (Return (resp, None), w1\<lparr>woMetrics := m', woWriter := map_option
        (Writer_Write (audit_record num cfg (aeRecordNow env) sess ctx d (time_sub (reEnd renv) (reStart renv))))
        (woWriter w1)\<rparr>)"
    "tally m' (RequestsTotal (mrMetrics mtr)) =
      (tally (woMetrics w) (RequestsTotal (mrMetrics mtr)))(request_series ctx (recorded d) :=
        tally (woMetrics w) (RequestsTotal (mrMetrics mtr)) (request_series ctx (recorded d)) + 1)"
    unfolding run(3) by blast
  define rc where "rc = audit_record num cfg (aeRecordNow env) sess ctx d (time_sub (reEnd renv) (reStart renv))"
  have "arRequestID rc = xRequestID ctx" "arMethod rc = xMethod ctx" "arTool rc = xTool ctx" "arAgentID rc = sAgentID sess"
    "arAllowed rc = recorded d" by (simp_all add: rc_def audit_record_fields)
  with m' run(2,4,5) admitted_ctx [OF assms(1)] show ?thesis unfolding rc_def [symmetric]
    by (intro exI [of _ resp] exI [of _ "w1\<lparr>woMetrics := m', woWriter := map_option (Writer_Write rc) (woWriter w1)\<rparr>"]
        exI [of _ rc]) simp
qed

theorem enforced_request_audited_witness:
  "\<exists>resp w' rc. handleMessage demo_gj demo_opa demo_fmt (\<lambda>_. []) demo_meter zero_config None demo_app_env demo_route_env
      demo_sess ''tools/call'' demo_world = (Return (resp, None), w') \<and>
    woWriter w' = map_option (Writer_Write rc) (woWriter demo_world) \<and>
    arRequestID rc = ''req_00000000'' \<and> \<not> arAllowed rc"
proof -
  obtain r e where r: "Evaluate demo_opa demo_fmt (aeEval demo_app_env) (demo_policy_input demo_sess) (woEngine demo_world) = (Ok r, e)"
    "\<not> pdAllow (erDecision r)" using demo_world_evaluate by blast
  obtain wr where wr: "woWriter demo_world = Some wr" by (simp add: demo_world_def)
  from enforced_request_audited [OF demo_admitted _ r(1) _ _ wr demo_meter_ok, where num = "\<lambda>_. []" and client = None] r(2)
  show ?thesis by (auto simp: wr demo_req_def demo_call_ctx_def)
qed

text \<open>
  What the policy cannot see. Two requests that differ in the resource URI and the identity
  token, on two sessions that differ in the agent's name, its verified identity and its DID, are given
  the same policy input, hence the same decision: the identity of the input is never filled in, and the
  agent's name in it is the agent's ID.
\<close>

lemma policy_blind_spots:
  fixes w :: "('q, 'u, 'm) world"
  shows "evaluate_policy opa fmt cfg env
      (sess\<lparr>sAgentName := n, sIdentityVerified := v, sDID := did\<rparr>)
      (ctx\<lparr>xResourceURI := uri, xAgentFactsToken := token\<rparr>) w =
    evaluate_policy opa fmt cfg env sess ctx w \<and>
    piIdentity (policy_input cfg now sess ctx) = zero_identity \<and>
    acName (piAgent (policy_input cfg now sess ctx)) = sAgentID sess"
proof -
  have "policy_input cfg now (sess\<lparr>sAgentName := n, sIdentityVerified := v, sDID := did\<rparr>)
      (ctx\<lparr>xResourceURI := uri, xAgentFactsToken := token\<rparr>) = policy_input cfg now sess ctx" for now
    by (simp add: policy_input_def)
  then show ?thesis by (simp add: evaluate_policy_def policy_input_identity policy_input_fields)
qed

end
